(* ===== verification/Nab_Prelude.thy ===== *)
theory Nab_Prelude
  imports Main "HOL-Library.Word"
begin

text \<open>
  Shared vocabulary of the development.

  \<^item> \<open>outcome\<close>: the result of a Rust function: \<open>Ok\<close>, \<open>Err\<close> (a returned error) or \<open>Panic\<close>
    (an unwinding panic, for instance an index out of range or a failed \<open>unwrap\<close>).
  \<^item> \<open>act\<close>: a fallible operation on a mutable state.  The state is returned in every case, also
    with an error: a Rust method that has already assigned to \<open>self\<close> keeps the assignment when
    a later \<open>?\<close> returns early.
  \<^item> buffer operations (\<open>seg\<close>, \<open>put\<close>, \<open>zeros\<close>) for \<open>&buf[a..b]\<close>, \<open>copy_from_seg\<close> and
    \<open>[0u8; n]\<close>, with the laws that say what a segment of a written buffer is.
  \<^item> \<open>step_invariant\<close>: the interface of a machine whose step keeps a property, with the fact
    that every run keeps it; \<open>simulation\<close>: such a machine whose answers and state changes an
    abstract machine follows.
\<close>

named_theorems act_simps \<open>unfolding of the state-and-error combinators\<close>
named_theorems buf_simps \<open>segments and lengths of written buffers\<close>

section \<open>Results\<close>

datatype ('e, 'a) outcome = Ok 'a | Err 'e | Panic string

type_synonym ('s, 'e, 'a) act = "'s \<Rightarrow> ('e, 'a) outcome \<times> 's"

fun is_ok :: "('e, 'a) outcome \<Rightarrow> bool" where
  "is_ok (Ok _) = True"
| "is_ok (Err _) = False"
| "is_ok (Panic _) = False"

fun is_panic :: "('e, 'a) outcome \<Rightarrow> bool" where
  "is_panic (Panic _) = True"
| "is_panic (Ok _) = False"
| "is_panic (Err _) = False"

text \<open>The \<open>?\<close> operator on a pure result and on a stateful one.\<close>

fun try_ok :: "('e, 'a) outcome \<Rightarrow> ('a \<Rightarrow> ('e, 'b) outcome) \<Rightarrow> ('e, 'b) outcome" where
  "try_ok (Ok x) f = f x"
| "try_ok (Err e) f = Err e"
| "try_ok (Panic p) f = Panic p"

definition ret :: "'a \<Rightarrow> ('s, 'e, 'a) act" where
  "ret x s = (Ok x, s)"

definition andthen :: "('s, 'e, 'a) act \<Rightarrow> ('a \<Rightarrow> ('s, 'e, 'b) act) \<Rightarrow> ('s, 'e, 'b) act" where
  "andthen m f s =
     (case m s of
        (Ok x, s') \<Rightarrow> f x s'
      | (Err e, s') \<Rightarrow> (Err e, s')
      | (Panic p, s') \<Rightarrow> (Panic p, s'))"

lemma ret_apply [act_simps]: "ret x s = (Ok x, s)"
  by (simp add: ret_def)

lemma andthen_simps [act_simps]:
  "m s = (Ok x, s') \<Longrightarrow> andthen m f s = f x s'"
  "m s = (Err e, s') \<Longrightarrow> andthen m f s = (Err e, s')"
  "m s = (Panic p, s') \<Longrightarrow> andthen m f s = (Panic p, s')"
  by (simp_all add: andthen_def)

lemma andthen_Ok_iff:
  "andthen m f s = (Ok y, s'') \<longleftrightarrow> (\<exists>x s'. m s = (Ok x, s') \<and> f x s' = (Ok y, s''))"
  by (auto simp: andthen_def split: prod.splits outcome.splits)

lemma try_ok_Ok_iff: "try_ok r f = Ok y \<longleftrightarrow> (\<exists>x. r = Ok x \<and> f x = Ok y)"
  by (cases r) auto

lemma is_ok_iff: "is_ok r \<longleftrightarrow> (\<exists>x. r = Ok x)"
  by (cases r) auto

lemma andthen_assoc: "andthen (andthen m f) g = andthen m (\<lambda>x. andthen (f x) g)"
  by (rule ext) (simp add: andthen_def split: prod.split outcome.split)

lemma andthen_ret: "andthen (ret x) f = f x"
  by (rule ext) (simp add: andthen_def ret_def)

text \<open>What an operation keeps, whatever its result.\<close>

definition keeps :: "('s \<Rightarrow> bool) \<Rightarrow> ('s, 'e, 'a) act \<Rightarrow> bool" where
  "keeps I m \<longleftrightarrow> (\<forall>s. I s \<longrightarrow> I (snd (m s)))"

lemma keepsI: "(\<And>s. I s \<Longrightarrow> I (snd (m s))) \<Longrightarrow> keeps I m"
  by (simp add: keeps_def)

lemma keepsD: "keeps I m \<Longrightarrow> I s \<Longrightarrow> I (snd (m s))"
  by (simp add: keeps_def)

lemma keeps_ret [intro]: "keeps I (ret x)"
  by (simp add: keeps_def ret_def)

lemma keeps_andthen [intro]:
  assumes m: "keeps I m" and f: "\<And>x. keeps I (f x)"
  shows "keeps I (andthen m f)"
proof (rule keepsI)
  fix s assume "I s"
  obtain r s' where ms: "m s = (r, s')" by (cases "m s")
  from m \<open>I s\<close> ms have "I s'" by (metis keepsD snd_conv)
  with ms f show "I (snd (andthen m f s))"
    by (cases r) (auto simp: andthen_def dest: keepsD)
qed

text \<open>How the state of an operation is related to the state before it, whatever the result.\<close>

definition stays :: "('s \<Rightarrow> 's \<Rightarrow> bool) \<Rightarrow> ('s, 'e, 'a) act \<Rightarrow> bool" where
  "stays R m \<longleftrightarrow> (\<forall>s. R s (snd (m s)))"

lemma staysI: "(\<And>s. R s (snd (m s))) \<Longrightarrow> stays R m"
  by (simp add: stays_def)

lemma staysD: "stays R m \<Longrightarrow> R s (snd (m s))"
  by (simp add: stays_def)

lemma stays_result: "stays R m \<Longrightarrow> m s = (r, s') \<Longrightarrow> R s s'"
  by (metis snd_conv staysD)

text \<open>A loop whose body is an operation: it stops at the first error.\<close>

fun for_each :: "('a \<Rightarrow> ('s, 'e, unit) act) \<Rightarrow> 'a list \<Rightarrow> ('s, 'e, unit) act" where
  "for_each f [] = ret ()"
| "for_each f (x # xs) = andthen (f x) (\<lambda>_. for_each f xs)"

lemma for_each_keeps:
  assumes "\<And>x. x \<in> set xs \<Longrightarrow> keeps I (f x)"
  shows "keeps I (for_each f xs)"
  using assms by (induction xs) auto

text \<open>A relation that any sequence of operations keeps once each operation does.\<close>

locale frame =
  fixes R :: "'s \<Rightarrow> 's \<Rightarrow> bool"
  assumes frame_refl: "R s s"
    and frame_trans: "R s t \<Longrightarrow> R t u \<Longrightarrow> R s u"
begin

lemma stays_ret: "stays R (ret x)"
  by (simp add: stays_def ret_def frame_refl)

lemma stays_andthen:
  assumes m: "stays R m" and f: "\<And>x. stays R (f x)"
  shows "stays R (andthen m f)"
proof (rule staysI)
  fix s
  obtain r s' where ms: "m s = (r, s')" by (cases "m s")
  with m have "R s s'" by (metis staysD snd_conv)
  with ms f show "R s (snd (andthen m f s))"
    by (cases r) (auto simp: andthen_def dest: staysD intro: frame_trans)
qed

lemma stays_for_each: "(\<And>x. stays R (f x)) \<Longrightarrow> stays R (for_each f xs)"
  by (induction xs) (auto intro: stays_ret stays_andthen)

lemma stays_fold:
  assumes "\<And>e. stays R (g e)"
  shows "R s (fold (\<lambda>e s. snd (g e s)) es s)"
proof (induction es arbitrary: s)
  case Nil
  then show ?case by (simp add: frame_refl)
next
  case (Cons e es)
  have "R s (snd (g e s))" using assms by (rule staysD)
  then show ?case using Cons.IH frame_trans by fastforce
qed

end

section \<open>Runs of a machine\<close>

locale step_invariant =
  fixes step :: "'e \<Rightarrow> 's \<Rightarrow> 's"
    and inv :: "'s \<Rightarrow> bool"
  assumes step_keeps: "inv s \<Longrightarrow> inv (step e s)"
begin

lemma run_keeps: "inv s \<Longrightarrow> inv (fold step es s)"
  by (induction es arbitrary: s) (simp_all add: step_keeps)

lemma run_keeps_prefix: "inv s \<Longrightarrow> inv (fold step (take n es) s)"
  by (rule run_keeps)

end

text \<open>
  A machine that answers its inputs: its history over a sequence of inputs.  An abstract machine
  says which answers its state permits (\<open>allows\<close>) and what an input and its answer do to it
  (\<open>astep\<close>); it accepts a history from one state to another.
\<close>

fun trace :: "('x \<Rightarrow> 's \<Rightarrow> 'y \<times> 's) \<Rightarrow> 'x list \<Rightarrow> 's \<Rightarrow> ('x \<times> 'y) list \<times> 's" where
  "trace serve [] s = ([], s)"
| "trace serve (x # xs) s =
     (let (y, s1) = serve x s; (h, s2) = trace serve xs s1 in ((x, y) # h, s2))"

fun accepts ::
  "('x \<Rightarrow> 'y \<Rightarrow> 'a \<Rightarrow> bool) \<Rightarrow> ('x \<Rightarrow> 'y \<Rightarrow> 'a \<Rightarrow> 'a) \<Rightarrow> ('x \<times> 'y) list \<Rightarrow> 'a \<Rightarrow> 'a \<Rightarrow> bool" where
  "accepts allows astep [] a b \<longleftrightarrow> b = a"
| "accepts allows astep ((x, y) # h) a b \<longleftrightarrow> allows x y a \<and> accepts allows astep h (astep x y a) b"

fun legal_run :: "('x \<Rightarrow> 's \<Rightarrow> bool) \<Rightarrow> ('x \<Rightarrow> 's \<Rightarrow> 'y \<times> 's) \<Rightarrow> 'x list \<Rightarrow> 's \<Rightarrow> bool" where
  "legal_run legal serve [] s \<longleftrightarrow> True"
| "legal_run legal serve (x # xs) s \<longleftrightarrow> legal x s \<and> legal_run legal serve xs (snd (serve x s))"

lemma trace_state: "snd (trace serve xs s) = fold (\<lambda>x s. snd (serve x s)) xs s"
  by (induction xs arbitrary: s) (simp_all add: case_prod_beta)

lemma trace_inputs: "map fst (fst (trace serve xs s)) = xs"
  by (induction xs arbitrary: s) (simp_all add: case_prod_beta)

lemma accepts_keeps:
  assumes "\<And>x y a. I a \<Longrightarrow> allows x y a \<Longrightarrow> I (astep x y a)"
  shows "accepts allows astep h a b \<Longrightarrow> I a \<Longrightarrow> I b"
proof (induction h arbitrary: a)
  case (Cons xy h)
  obtain x y where xy: "xy = (x, y)" by (cases xy)
  with Cons.prems assms have "accepts allows astep h (astep x y a) b" "I (astep x y a)" by simp_all
  then show ?case by (rule Cons.IH)
qed simp

locale simulation = step_invariant "\<lambda>x s. snd (serve x s)" inv
  for serve :: "'x \<Rightarrow> 's \<Rightarrow> 'y \<times> 's" and inv :: "'s \<Rightarrow> bool" +
  fixes astep :: "'x \<Rightarrow> 'y \<Rightarrow> 'a \<Rightarrow> 'a"
    and allows :: "'x \<Rightarrow> 'y \<Rightarrow> 'a \<Rightarrow> bool"
    and abst :: "'s \<Rightarrow> 'a"
    and legal :: "'x \<Rightarrow> 's \<Rightarrow> bool"
  assumes allowed: "inv s \<Longrightarrow> legal x s \<Longrightarrow> allows x (fst (serve x s)) (abst s)"
    and followed: "inv s \<Longrightarrow> legal x s \<Longrightarrow> abst (snd (serve x s)) = astep x (fst (serve x s)) (abst s)"
begin

lemma trace_accepted:
  "inv s \<Longrightarrow> legal_run legal serve xs s \<Longrightarrow>
   accepts allows astep (fst (trace serve xs s)) (abst s) (abst (snd (trace serve xs s)))"
  by (induction xs arbitrary: s) (simp_all add: case_prod_beta allowed followed [symmetric] step_keeps)

end

section \<open>Bytes and buffers\<close>

type_synonym u8 = "8 word"
type_synonym u16 = "16 word"
type_synonym u32 = "32 word"
type_synonym u64 = "64 word"
type_synonym i64 = "64 word"
type_synonym bytes = "8 word list"

definition zeros :: "nat \<Rightarrow> bytes" where
  "zeros n = replicate n 0"

definition seg :: "'a list \<Rightarrow> nat \<Rightarrow> nat \<Rightarrow> 'a list" where
  "seg xs a b = take (b - a) (drop a xs)"

definition put :: "nat \<Rightarrow> 'a list \<Rightarrow> 'a list \<Rightarrow> 'a list" where
  "put off src buf = take off buf @ src @ drop (off + length src) buf"

lemma length_zeros [simp]: "length (zeros n) = n"
  by (simp add: zeros_def)

lemma nth_zeros [simp]: "i < n \<Longrightarrow> zeros n ! i = 0"
  by (simp add: zeros_def)

lemma length_seg [simp]: "length (seg xs a b) = min (b - a) (length xs - a)"
  by (simp add: seg_def)

lemma length_put [simp]: "off + length src \<le> length buf \<Longrightarrow> length (put off src buf) = length buf"
  by (simp add: put_def)

lemma nth_seg: "i < b - a \<Longrightarrow> a + i < length xs \<Longrightarrow> seg xs a b ! i = xs ! (a + i)"
  by (simp add: seg_def)

lemma nth_put:
  assumes "off + length src \<le> length buf" and "i < length buf"
  shows "put off src buf ! i =
    (if off \<le> i \<and> i < off + length src then src ! (i - off) else buf ! i)"
  using assms by (auto simp: put_def nth_append min_def)

lemma seg_put_same [buf_simps]:
  assumes "off + length src \<le> length buf" and "n = off + length src"
  shows "seg (put off src buf) off n = src"
  using assms by (auto simp: seg_def put_def)

lemma seg_put_other [buf_simps]:
  assumes "off + length src \<le> length buf" and "b \<le> off \<or> off + length src \<le> a"
  shows "seg (put off src buf) a b = seg buf a b"
proof (rule nth_equalityI)
  show "length (seg (put off src buf) a b) = length (seg buf a b)"
    using assms by simp
next
  fix i assume "i < length (seg (put off src buf) a b)"
  then have i: "i < b - a" "a + i < length buf" using assms(1) by auto
  then show "seg (put off src buf) a b ! i = seg buf a b ! i"
    using assms by (auto simp: nth_seg nth_put)
qed

lemma nth_put_other [buf_simps]:
  "off + length src \<le> length buf \<Longrightarrow> i < length buf \<Longrightarrow> i < off \<or> off + length src \<le> i \<Longrightarrow>
   put off src buf ! i = buf ! i"
  by (auto simp: nth_put)

lemma seg_all: "length xs \<le> b \<Longrightarrow> seg xs 0 b = xs"
  by (simp add: seg_def)

lemma seg_take: "b \<le> n \<Longrightarrow> seg (take n xs) a b = seg xs a b"
  by (simp add: seg_def drop_take min_def)

lemma take_eq_seg: "take n xs = seg xs 0 n"
  by (simp add: seg_def)

lemma seg_append_left: "b \<le> length xs \<Longrightarrow> seg (xs @ ys) a b = seg xs a b"
  by (auto simp: seg_def)

lemma seg_concat: "a \<le> b \<Longrightarrow> b \<le> c \<Longrightarrow> seg xs a b @ seg xs b c = seg xs a c"
proof -
  assume ab: "a \<le> b" and bc: "b \<le> c"
  have "take (c - a) (drop a xs) = take ((b - a) + (c - b)) (drop a xs)" using ab bc by simp
  also have "\<dots> = take (b - a) (drop a xs) @ take (c - b) (drop (b - a) (drop a xs))"
    by (simp only: take_add)
  finally show ?thesis using ab by (simp add: seg_def)
qed

end
