(* ===== verification/Nab_Bytes.thy ===== *)
theory Nab_Bytes
  imports Nab_Prelude
begin

text \<open>
  Fixed-width integers as bytes: Rust's \<open>to_be_bytes\<close>, \<open>to_le_bytes\<close>, \<open>from_be_bytes\<close> and
  \<open>from_le_bytes\<close>, the comparison of byte arrays (\<open><\<close> on \<open>[u8; N]\<close>, lexicographic), and the
  bytes of a string.  The laws: encoding and decoding are inverse at every width, and on arrays
  of one length the lexicographic order is the order of the big-endian numbers.
\<close>

section \<open>Big-endian and little-endian numbers\<close>

fun be_bytes :: "nat \<Rightarrow> nat \<Rightarrow> bytes" where
  "be_bytes 0 n = []"
| "be_bytes (Suc k) n = of_nat (n div 256 ^ k) # be_bytes k n"

fun be_nat :: "bytes \<Rightarrow> nat" where
  "be_nat [] = 0"
| "be_nat (b # bs) = unat b * 256 ^ length bs + be_nat bs"

definition u32_to_be :: "u32 \<Rightarrow> bytes" where
  "u32_to_be w = be_bytes 4 (unat w)"

definition u64_to_be :: "u64 \<Rightarrow> bytes" where
  "u64_to_be w = be_bytes 8 (unat w)"

definition u32_to_le :: "u32 \<Rightarrow> bytes" where
  "u32_to_le w = rev (be_bytes 4 (unat w))"

definition u64_to_le :: "u64 \<Rightarrow> bytes" where
  "u64_to_le w = rev (be_bytes 8 (unat w))"

definition u32_from_be :: "bytes \<Rightarrow> u32" where
  "u32_from_be bs = of_nat (be_nat bs)"

definition u64_from_be :: "bytes \<Rightarrow> u64" where
  "u64_from_be bs = of_nat (be_nat bs)"

definition u32_from_le :: "bytes \<Rightarrow> u32" where
  "u32_from_le bs = of_nat (be_nat (rev bs))"

definition u64_from_le :: "bytes \<Rightarrow> u64" where
  "u64_from_le bs = of_nat (be_nat (rev bs))"

lemma length_be_bytes [simp]: "length (be_bytes k n) = k"
  by (induction k) auto

lemma unat_of_nat_u8: "unat (of_nat n :: u8) = n mod 256"
  by (simp add: unat_of_nat)

lemma be_nat_be_bytes: "be_nat (be_bytes k n) = n mod 256 ^ k"
proof (induction k)
  case 0
  then show ?case by simp
next
  case (Suc k)
  have "be_nat (be_bytes (Suc k) n) = (n div 256 ^ k) mod 256 * 256 ^ k + n mod 256 ^ k"
    by (simp add: Suc unat_of_nat_u8)
  also have "\<dots> = n mod (256 ^ k * 256)"
    by (simp add: mod_mult2_eq [of n "256 ^ k" 256])
  finally show ?case by (simp add: mult.commute)
qed

lemma be_nat_bound: "be_nat bs < 256 ^ length bs"
proof (induction bs)
  case Nil
  then show ?case by simp
next
  case (Cons b bs)
  have "unat b \<le> 255" using unsigned_less [where 'a = nat and w = b] by simp
  then have "unat b * 256 ^ length bs \<le> 255 * 256 ^ length bs" by (rule mult_le_mono1)
  with Cons have "unat b * 256 ^ length bs + be_nat bs < 256 * 256 ^ length bs" by linarith
  then show ?case by simp
qed

lemma be_bytes_cong: "n mod 256 ^ k = m mod 256 ^ k \<Longrightarrow> be_bytes k n = be_bytes k m"
proof (induction k)
  case 0
  then show ?case by simp
next
  case (Suc k)
  have mod_k: "x mod (256 ^ Suc k) mod (256 ^ k) = x mod 256 ^ k" for x :: nat
    by (rule mod_mod_cancel) simp
  have "n mod 256 ^ k = m mod 256 ^ k" using Suc.prems mod_k by metis
  then have rest: "be_bytes k n = be_bytes k m" by (rule Suc.IH)
  have div_k: "x mod (256 ^ k * 256) div 256 ^ k = x div 256 ^ k mod 256" for x :: nat
    by (simp add: mod_mult2_eq)
  have "n div 256 ^ k mod 256 = m div 256 ^ k mod 256"
    using Suc.prems div_k by (metis power_Suc2)
  then have "(of_nat (n div 256 ^ k) :: u8) = of_nat (m div 256 ^ k)"
    by (simp add: word_unat_eq_iff unat_of_nat_u8)
  with rest show ?case by simp
qed

lemma be_bytes_be_nat: "length bs = k \<Longrightarrow> be_bytes k (be_nat bs) = bs"
proof (induction bs arbitrary: k)
  case Nil
  then show ?case by simp
next
  case (Cons b bs)
  have bound: "be_nat bs < 256 ^ length bs" by (rule be_nat_bound)
  have "be_bytes (length bs) (be_nat (b # bs)) = be_bytes (length bs) (be_nat bs)"
    by (rule be_bytes_cong) simp
  moreover have "(unat b * 256 ^ length bs + be_nat bs) div 256 ^ length bs = unat b"
    using bound by simp
  ultimately show ?case using Cons by auto
qed

lemma be_bytes_inj: "n < 256 ^ k \<Longrightarrow> m < 256 ^ k \<Longrightarrow> be_bytes k n = be_bytes k m \<Longrightarrow> n = m"
  by (metis be_nat_be_bytes mod_less)

lemma length_encodings [simp]:
  "length (u32_to_be w) = 4" "length (u64_to_be v) = 8"
  "length (u32_to_le w) = 4" "length (u64_to_le v) = 8"
  by (simp_all add: u32_to_be_def u64_to_be_def u32_to_le_def u64_to_le_def)

lemma u32_unat_mod [simp]: "unat (w :: u32) mod 4294967296 = unat w"
  using unsigned_less [where 'a = nat and w = w] by simp

lemma u64_unat_mod [simp]: "unat (w :: u64) mod 18446744073709551616 = unat w"
  using unsigned_less [where 'a = nat and w = w] by simp

lemma u32_be_roundtrip [simp]: "u32_from_be (u32_to_be w) = w"
  by (simp add: u32_from_be_def u32_to_be_def be_nat_be_bytes)

lemma u64_be_roundtrip [simp]: "u64_from_be (u64_to_be w) = w"
  by (simp add: u64_from_be_def u64_to_be_def be_nat_be_bytes)

lemma u32_le_roundtrip [simp]: "u32_from_le (u32_to_le w) = w"
  by (simp add: u32_from_le_def u32_to_le_def be_nat_be_bytes)

lemma u64_le_roundtrip [simp]: "u64_from_le (u64_to_le w) = w"
  by (simp add: u64_from_le_def u64_to_le_def be_nat_be_bytes)

lemma u32_to_be_from_be [simp]: "length bs = 4 \<Longrightarrow> u32_to_be (u32_from_be bs) = bs"
  using be_nat_bound [of bs]
  by (simp add: u32_from_be_def u32_to_be_def unat_of_nat be_bytes_be_nat)

lemma u64_to_be_inj [simp]: "u64_to_be v = u64_to_be w \<longleftrightarrow> v = w"
  by (metis u64_be_roundtrip)

lemma u32_to_be_inj [simp]: "u32_to_be v = u32_to_be w \<longleftrightarrow> v = w"
  by (metis u32_be_roundtrip)

section \<open>Byte arrays compared\<close>

fun bytes_less :: "bytes \<Rightarrow> bytes \<Rightarrow> bool" where
  "bytes_less [] ys = (ys \<noteq> [])"
| "bytes_less (x # xs) [] = False"
| "bytes_less (x # xs) (y # ys) = (x < y \<or> (x = y \<and> bytes_less xs ys))"

lemma bytes_less_irrefl [simp]: "\<not> bytes_less xs xs"
  by (induction xs) auto

lemma bytes_less_total: "bytes_less xs ys \<or> xs = ys \<or> bytes_less ys xs"
proof (induction xs ys rule: bytes_less.induct)
  case (1 ys)
  then show ?case by (cases ys) auto
qed auto

lemma bytes_less_asym: "bytes_less xs ys \<Longrightarrow> \<not> bytes_less ys xs"
  by (induction xs ys rule: bytes_less.induct) (auto elim: bytes_less.elims)

lemma bytes_less_be_nat:
  "length xs = length ys \<Longrightarrow> bytes_less xs ys \<longleftrightarrow> be_nat xs < be_nat ys"
proof (induction xs ys rule: bytes_less.induct)
  case (3 x xs y ys)
  let ?k = "256 ^ length xs :: nat"
  have len: "length xs = length ys" using "3.prems" by simp
  have IH: "x = y \<Longrightarrow> bytes_less xs ys \<longleftrightarrow> be_nat xs < be_nat ys" using "3.IH" len by simp
  have bx: "be_nat xs < ?k" and bys: "be_nat ys < ?k"
    using be_nat_bound [of xs] be_nat_bound [of ys] len by simp_all
  have less: "u * ?k + be_nat as < v * ?k + be_nat bs"
    if "u < v" "be_nat as < ?k" for u v as bs
  proof -
    have "Suc u * ?k \<le> v * ?k" using that(1) by (intro mult_le_mono1) simp
    then have "u * ?k + ?k \<le> v * ?k" by simp
    with that(2) show ?thesis by linarith
  qed
  consider "unat x < unat y" | "unat y < unat x" | "x = y"
    by (metis linorder_neqE_nat word_unat_eq_iff)
  then show ?case
  proof cases
    case 1
    with less [OF 1 bx, of ys] len show ?thesis by (simp add: word_less_nat_alt)
  next
    case 2
    with less [OF 2 bys, of xs] len show ?thesis by (auto simp: word_less_nat_alt)
  next
    case 3
    with IH len show ?thesis by simp
  qed
qed auto

section \<open>Signed 64-bit numbers\<close>

text \<open>\<open>i64\<close> arithmetic of the release build: subtraction and \<open>abs\<close> wrap, so the absolute value
  of the least number is the least number.\<close>

definition i64_abs :: "i64 \<Rightarrow> i64" where
  "i64_abs d = (if sint d < 0 then - d else d)"

definition i64_gt :: "i64 \<Rightarrow> i64 \<Rightarrow> bool" where
  "i64_gt a b \<longleftrightarrow> sint b < sint a"

lemma sint_u64_bounds: "- (2 ^ 63) \<le> sint (d :: u64)" "sint (d :: u64) < 2 ^ 63"
  using sint_ge [of d] sint_lt [of d] by simp_all

lemma sint_neg_u64: "sint (d :: u64) \<noteq> - (2 ^ 63) \<Longrightarrow> sint (- d) = - sint d"
  using sint_u64_bounds [of d]
  by (simp add: sint_word_minus signed_take_bit_int_eq_self)

lemma i64_abs_value:
  "sint (i64_abs d) = (if d = 2 ^ 63 then - (2 ^ 63) else \<bar>sint d\<bar>)"
proof (cases "d = 2 ^ 63")
  case True
  then show ?thesis by (simp add: i64_abs_def)
next
  case False
  have "sint d \<noteq> - (2 ^ 63)"
  proof
    assume "sint d = - (2 ^ 63)"
    then have "sint d = sint (2 ^ 63 :: u64)" by simp
    then have "d = 2 ^ 63" by (rule signed_word_eqI)
    with False show False by simp
  qed
  with False sint_neg_u64 [of d] show ?thesis by (simp add: i64_abs_def)
qed

lemma i64_abs_gt_iff:
  "0 \<le> sint b \<Longrightarrow> \<not> i64_gt (i64_abs d) b \<longleftrightarrow> \<bar>sint d\<bar> \<le> sint b \<or> d = 2 ^ 63"
  by (auto simp: i64_gt_def i64_abs_value not_less)

section \<open>Strings\<close>

text \<open>A \<open>str\<close> is its UTF-8 bytes; a \<open>char\<close> of the model is one such byte.\<close>

definition str_bytes :: "string \<Rightarrow> bytes" where
  "str_bytes s = map of_char s"

lemma of_char_u8_inj: "(of_char c :: u8) = of_char d \<longleftrightarrow> c = d"
proof
  assume "(of_char c :: u8) = of_char d"
  then have "unat (of_char c :: u8) = unat (of_char d :: u8)" by simp
  moreover have "unat (of_char x :: u8) = of_char x" for x
    using of_nat_of_char [where 'a = u8, of x, symmetric] nat_of_char_less_256 [of x]
    by (simp add: unat_of_nat_u8)
  ultimately show "c = d" by simp
qed simp

lemma str_bytes_inj [simp]: "str_bytes s = str_bytes t \<longleftrightarrow> s = t"
  by (auto simp: str_bytes_def of_char_u8_inj inj_def inj_map_eq_map)

lemma length_str_bytes [simp]: "length (str_bytes s) = length s"
  by (simp add: str_bytes_def)

end
