(* ===== verification/Crypto_Params.thy ===== *)
theory Crypto_Params
  imports Nab_Bytes
begin

text \<open>
  The third-party cryptography \<open>naboscale-crypto\<close> is built on, as a record of functions that
  every definition using it takes as an argument: BLAKE2s (\<open>blake2\<close>), X25519 (\<open>x25519-dalek\<close>),
  Ed25519 (\<open>ed25519-dalek\<close>) and the Noise state machines of \<open>snow\<close> (\<open>'hs\<close> its
  \<open>HandshakeState\<close>, \<open>'ts\<close> its \<open>TransportState\<close>).  Nothing is assumed of them here; the
  documented behaviour a theorem relies on is one of the named predicates below:
  \<^item> \<open>digest_sizes\<close>: the output sizes the Rust types fix;
  \<^item> \<open>noise_handshake_works\<close>: an \<open>IKpsk2\<close> handshake between matching peers succeeds, with the
    message sizes of the pattern;
  \<^item> \<open>sequential_transport\<close>: \<open>snow\<close>'s stateful transport numbers the messages of a direction
    0, 1, 2, \<open>\<dots>\<close>, and reads a message only under the number it was written with.
  The instance \<open>plain\<close> at the end satisfies all of them; the witnesses run on it.  It also holds
  \<open>naboscale-crypto/src/error.rs\<close>.
\<close>

datatype snow_error = SnowError string

datatype crypto_error =
    Noise snow_error
  | HandshakeIncomplete
  | InvalidLength nat nat
  | InvalidMessageType u8
  | InvalidTimestamp
  | ReplayDetected
  | MacInvalid
  | CookieRequired
  | BufferTooSmall nat nat
  | TransportError string

record ('hs, 'ts) crypto =
  blake2s256 :: "bytes \<Rightarrow> bytes"
  blake2s_mac16 :: "bytes \<Rightarrow> bytes \<Rightarrow> bytes"
  x25519_public :: "bytes \<Rightarrow> bytes"
  ed25519_public :: "bytes \<Rightarrow> bytes"
  ed25519_valid_key :: "bytes \<Rightarrow> bool"
  ed25519_sign :: "bytes \<Rightarrow> bytes \<Rightarrow> bytes"
  ed25519_verify :: "bytes \<Rightarrow> bytes \<Rightarrow> bytes \<Rightarrow> bool"
  build_initiator :: "string \<Rightarrow> nat \<Rightarrow> bytes \<Rightarrow> bytes \<Rightarrow> bytes \<Rightarrow> bytes \<Rightarrow> snow_error + 'hs"
  build_responder :: "string \<Rightarrow> nat \<Rightarrow> bytes \<Rightarrow> bytes \<Rightarrow> bytes \<Rightarrow> snow_error + 'hs"
  hs_write :: "'hs \<Rightarrow> bytes \<Rightarrow> nat \<Rightarrow> (snow_error + bytes) \<times> 'hs"
  hs_read :: "'hs \<Rightarrow> bytes \<Rightarrow> nat \<Rightarrow> (snow_error + bytes) \<times> 'hs"
  hs_remote_static :: "'hs \<Rightarrow> bytes option"
  hs_into_transport :: "'hs \<Rightarrow> snow_error + 'ts"
  ts_write :: "'ts \<Rightarrow> bytes \<Rightarrow> nat \<Rightarrow> (snow_error + bytes) \<times> 'ts"
  ts_read :: "'ts \<Rightarrow> bytes \<Rightarrow> nat \<Rightarrow> (snow_error + bytes) \<times> 'ts"

text \<open>
  \<open>build_initiator\<close> takes the protocol name, the randomness of this session (the ephemeral key
  is drawn from it), the local private key, the remote public key, the prologue and the PSK;
  \<open>build_responder\<close> the same without the remote key.  The \<open>nat\<close> of the read and write
  functions is the size of the output buffer.
\<close>

section \<open>Documented behaviour\<close>

definition digest_sizes :: "('hs, 'ts) crypto \<Rightarrow> bool" where
  "digest_sizes C \<longleftrightarrow>
     (\<forall>x. length (blake2s256 C x) = 32) \<and> (\<forall>k x. length (blake2s_mac16 C k x) = 16)"

definition noise_handshake_works ::
  "('hs, 'ts) crypto \<Rightarrow> string \<Rightarrow> ('ts \<Rightarrow> 'ts \<Rightarrow> bool) \<Rightarrow> bool" where
  "noise_handshake_works C name paired \<longleftrightarrow>
     (\<forall>ri rr skI skR psk prologue payload.
        length payload = 12 \<longrightarrow> length skI = 32 \<longrightarrow> length skR = 32 \<longrightarrow> length psk = 32 \<longrightarrow>
        (\<exists>i0 r0 i1 r1 r2 i2 m1 m2 ti tr.
           build_initiator C name ri skI (x25519_public C skR) prologue psk = Inr i0 \<and>
           build_responder C name rr skR prologue psk = Inr r0 \<and>
           hs_write C i0 payload 108 = (Inr m1, i1) \<and> length m1 = 108 \<and>
           hs_read C r0 m1 256 = (Inr payload, r1) \<and>
           hs_remote_static C r1 = Some (x25519_public C skI) \<and>
           hs_write C r1 [] 48 = (Inr m2, r2) \<and> length m2 = 48 \<and>
           hs_read C i1 m2 256 = (Inr [], i2) \<and>
           hs_into_transport C i2 = Inr ti \<and> hs_into_transport C r2 = Inr tr \<and>
           paired ti tr \<and> length (x25519_public C skI) = 32))"

text \<open>
  \<open>seal k n p\<close> is the ciphertext of \<open>p\<close> under key \<open>k\<close> and number \<open>n\<close>; \<open>skey\<close>, \<open>snum\<close>,
  \<open>rkey\<close>, \<open>rnum\<close> read the sending and receiving key and number of a transport state.
\<close>

definition sequential_transport ::
  "('hs, 'ts) crypto \<Rightarrow> ('k \<Rightarrow> nat \<Rightarrow> bytes \<Rightarrow> bytes) \<Rightarrow>
   ('ts \<Rightarrow> 'k) \<Rightarrow> ('ts \<Rightarrow> nat) \<Rightarrow> ('ts \<Rightarrow> 'k) \<Rightarrow> ('ts \<Rightarrow> nat) \<Rightarrow> bool" where
  "sequential_transport C seal skey snum rkey rnum \<longleftrightarrow>
     (\<forall>k n p. length (seal k n p) = length p + 16) \<and>
     (\<forall>k n n' p p'. n < 2 ^ 64 \<longrightarrow> n' < 2 ^ 64 \<longrightarrow> seal k n p = seal k n' p' \<longrightarrow> n = n' \<and> p = p') \<and>
     (\<forall>t p cap. length p + 16 \<le> cap \<longrightarrow> snum t < 2 ^ 64 - 1 \<longrightarrow>
        (\<exists>t'. ts_write C t p cap = (Inr (seal (skey t) (snum t) p), t') \<and>
              skey t' = skey t \<and> snum t' = Suc (snum t) \<and>
              rkey t' = rkey t \<and> rnum t' = rnum t)) \<and>
     (\<forall>t p cap. length p \<le> cap \<longrightarrow> rnum t < 2 ^ 64 - 1 \<longrightarrow>
        (\<exists>t'. ts_read C t (seal (rkey t) (rnum t) p) cap = (Inr p, t') \<and>
              skey t' = skey t \<and> snum t' = snum t \<and>
              rkey t' = rkey t \<and> rnum t' = Suc (rnum t))) \<and>
     (\<forall>t c cap. (\<nexists>p. c = seal (rkey t) (rnum t) p) \<longrightarrow>
        (\<exists>e. ts_read C t c cap = (Inl e, t)))"

text \<open>Two transports of one session: each receives under the key the other sends with.\<close>

definition matched ::
  "('ts \<Rightarrow> 'k) \<Rightarrow> ('ts \<Rightarrow> nat) \<Rightarrow> ('ts \<Rightarrow> 'k) \<Rightarrow> ('ts \<Rightarrow> nat) \<Rightarrow> 'ts \<Rightarrow> 'ts \<Rightarrow> bool" where
  "matched skey snum rkey rnum a b \<longleftrightarrow>
     skey a = rkey b \<and> snum a = rnum b \<and> skey b = rkey a \<and> snum b = rnum a"

lemma digest_sizesD [simp]:
  "digest_sizes C \<Longrightarrow> length (blake2s256 C x) = 32"
  "digest_sizes C \<Longrightarrow> length (blake2s_mac16 C k x) = 16"
  by (simp_all add: digest_sizes_def)

section \<open>An instance without secrecy\<close>

text \<open>
  \<open>plain\<close> has the message formats and the sequencing of the real functions and no cryptography.
  Keys are their own public keys, a digest is a truncation, and a handshake message carries the
  keys in clear; a message for another key, or with another PSK, is refused.
\<close>

record plain_hs =
  ph_phase :: nat
  ph_local :: bytes
  ph_psk :: bytes
  ph_remote :: bytes
  ph_rand :: nat
  ph_peer_rand :: nat

record plain_ts =
  pt_skey :: nat
  pt_snum :: nat
  pt_rkey :: nat
  pt_rnum :: nat

definition pad_to :: "nat \<Rightarrow> bytes \<Rightarrow> bytes" where
  "pad_to n bs = take n (bs @ zeros n)"

definition plain_seal :: "nat \<Rightarrow> nat \<Rightarrow> bytes \<Rightarrow> bytes" where
  "plain_seal k n p = p @ be_bytes 8 k @ be_bytes 8 n"

definition plain_hs_write :: "plain_hs \<Rightarrow> bytes \<Rightarrow> nat \<Rightarrow> (snow_error + bytes) \<times> plain_hs" where
  "plain_hs_write h payload cap =
     (if ph_phase h = 0 then
        (Inr (ph_remote h @ ph_local h @ be_bytes 8 (ph_rand h) @ pad_to 24 (ph_psk h) @ payload),
         h\<lparr>ph_phase := 1\<rparr>)
      else if ph_phase h = 3 then
        (Inr (ph_remote h @ be_bytes 8 (ph_peer_rand h) @ be_bytes 8 (ph_rand h) @ payload),
         h\<lparr>ph_phase := 4\<rparr>)
      else (Inl (SnowError ''state''), h))"

definition plain_hs_read :: "plain_hs \<Rightarrow> bytes \<Rightarrow> nat \<Rightarrow> (snow_error + bytes) \<times> plain_hs" where
  "plain_hs_read h m cap =
     (if ph_phase h = 2 \<and> 96 \<le> length m \<and> seg m 0 32 = ph_local h
         \<and> seg m 72 96 = pad_to 24 (ph_psk h) then
        (Inr (drop 96 m),
         h\<lparr>ph_phase := 3, ph_remote := seg m 32 64, ph_peer_rand := be_nat (seg m 64 72)\<rparr>)
      else if ph_phase h = 1 \<and> 48 \<le> length m \<and> seg m 0 32 = ph_local h
         \<and> seg m 32 40 = be_bytes 8 (ph_rand h) then
        (Inr (drop 48 m), h\<lparr>ph_phase := 5, ph_peer_rand := be_nat (seg m 40 48)\<rparr>)
      else (Inl (SnowError ''decrypt''), h))"

definition plain_into_transport :: "plain_hs \<Rightarrow> snow_error + plain_ts" where
  "plain_into_transport h =
     (let mine = ph_rand h mod 2 ^ 64; theirs = ph_peer_rand h mod 2 ^ 64 in
      if ph_phase h = 5 then
        (let s = mine * 2 ^ 64 + theirs in
         Inr \<lparr>pt_skey = 2 * s, pt_snum = 0, pt_rkey = 2 * s + 1, pt_rnum = 0\<rparr>)
      else if ph_phase h = 4 then
        (let s = theirs * 2 ^ 64 + mine in
         Inr \<lparr>pt_skey = 2 * s + 1, pt_snum = 0, pt_rkey = 2 * s, pt_rnum = 0\<rparr>)
      else Inl (SnowError ''state''))"

definition plain_ts_write :: "plain_ts \<Rightarrow> bytes \<Rightarrow> nat \<Rightarrow> (snow_error + bytes) \<times> plain_ts" where
  "plain_ts_write t p cap =
     (if 2 ^ 64 - 1 \<le> pt_snum t \<or> cap < length p + 16 then (Inl (SnowError ''input''), t)
      else (Inr (plain_seal (pt_skey t) (pt_snum t) p), t\<lparr>pt_snum := Suc (pt_snum t)\<rparr>))"

definition plain_ts_read :: "plain_ts \<Rightarrow> bytes \<Rightarrow> nat \<Rightarrow> (snow_error + bytes) \<times> plain_ts" where
  "plain_ts_read t c cap =
     (if length c < 16 \<or> cap < length c - 16 \<or> 2 ^ 64 - 1 \<le> pt_rnum t
         \<or> drop (length c - 16) c \<noteq> be_bytes 8 (pt_rkey t) @ be_bytes 8 (pt_rnum t)
      then (Inl (SnowError ''decrypt''), t)
      else (Inr (take (length c - 16) c), t\<lparr>pt_rnum := Suc (pt_rnum t)\<rparr>))"

definition plain_hs0 :: "nat \<Rightarrow> bytes \<Rightarrow> bytes \<Rightarrow> bytes \<Rightarrow> nat \<Rightarrow> plain_hs" where
  "plain_hs0 phase sk psk rpub r =
     \<lparr>ph_phase = phase, ph_local = pad_to 32 sk, ph_psk = psk, ph_remote = rpub, ph_rand = r,
      ph_peer_rand = 0\<rparr>"

definition plain :: "(plain_hs, plain_ts) crypto" where
  "plain =
     \<lparr>blake2s256 = (\<lambda>x. pad_to 32 (rev x)),
      blake2s_mac16 = (\<lambda>k m. map2 (+) (pad_to 16 k) (pad_to 16 (rev m))),
      x25519_public = pad_to 32,
      ed25519_public = pad_to 32,
      ed25519_valid_key = (\<lambda>k. length k = 32),
      ed25519_sign = (\<lambda>k m. pad_to 64 (pad_to 32 k @ rev m)),
      ed25519_verify = (\<lambda>k m s. s = pad_to 64 (k @ rev m)),
      build_initiator = (\<lambda>name r sk rpub prologue psk. Inr (plain_hs0 0 sk psk rpub r)),
      build_responder = (\<lambda>name r sk prologue psk. Inr (plain_hs0 2 sk psk [] r)),
      hs_write = plain_hs_write,
      hs_read = plain_hs_read,
      hs_remote_static = (\<lambda>h. if ph_remote h = [] then None else Some (ph_remote h)),
      hs_into_transport = plain_into_transport,
      ts_write = plain_ts_write,
      ts_read = plain_ts_read\<rparr>"

lemma length_pad_to [simp]: "length (pad_to n bs) = n"
  by (simp add: pad_to_def)

lemma pad_to_same: "length bs = n \<Longrightarrow> pad_to n bs = bs"
  by (simp add: pad_to_def)

lemma plain_digest_sizes: "digest_sizes plain"
  by (simp add: digest_sizes_def plain_def)

lemma drop_pad_append: "length xs = n \<Longrightarrow> drop (n + k) (xs @ ys) = drop k ys"
  by simp

lemma seg_append_right: "length xs \<le> a \<Longrightarrow> seg (xs @ ys) a b = seg ys (a - length xs) (b - length xs)"
  by (simp add: seg_def)

lemma seg_whole: "length xs = n \<Longrightarrow> seg xs 0 n = xs"
  by (simp add: seg_def)

lemmas seg_append = seg_append_left seg_append_right seg_whole

text \<open>Two ends of a session that have sent nothing.\<close>

definition fresh_pair ::
  "('ts \<Rightarrow> 'k) \<Rightarrow> ('ts \<Rightarrow> nat) \<Rightarrow> ('ts \<Rightarrow> 'k) \<Rightarrow> ('ts \<Rightarrow> nat) \<Rightarrow> 'ts \<Rightarrow> 'ts \<Rightarrow> bool" where
  "fresh_pair skey snum rkey rnum a b \<longleftrightarrow> matched skey snum rkey rnum a b \<and> snum a = 0 \<and> snum b = 0"

lemma plain_handshake_fresh:
  "noise_handshake_works plain name (fresh_pair pt_skey pt_snum pt_rkey pt_rnum)"
  unfolding noise_handshake_works_def
proof (intro allI impI)
  fix ri rr :: nat and skI skR psk prologue payload :: bytes
  assume len: "length payload = 12" "length skI = 32" "length skR = 32" "length psk = 32"
  let ?i0 = "plain_hs0 0 skI psk (pad_to 32 skR) ri"
  let ?r0 = "plain_hs0 2 skR psk [] rr"
  let ?m1 = "pad_to 32 skR @ pad_to 32 skI @ be_bytes 8 ri @ pad_to 24 psk @ payload"
  let ?i1 = "?i0\<lparr>ph_phase := 1\<rparr>"
  let ?r1 = "?r0\<lparr>ph_phase := 3, ph_remote := pad_to 32 skI, ph_peer_rand := ri mod 2 ^ 64\<rparr>"
  let ?m2 = "pad_to 32 skI @ be_bytes 8 (ri mod 2 ^ 64) @ be_bytes 8 rr"
  let ?r2 = "?r1\<lparr>ph_phase := 4\<rparr>"
  let ?i2 = "?i1\<lparr>ph_phase := 5, ph_peer_rand := rr mod 2 ^ 64\<rparr>"
  have ri: "be_bytes 8 (ri mod 2 ^ 64) = be_bytes 8 ri" by (rule be_bytes_cong) simp
  have w1: "hs_write plain ?i0 payload 108 = (Inr ?m1, ?i1)"
    by (simp add: plain_def plain_hs_write_def plain_hs0_def)
  have rd1: "hs_read plain ?r0 ?m1 256 = (Inr payload, ?r1)"
    using len
    by (simp add: plain_def plain_hs_read_def plain_hs0_def seg_append be_nat_be_bytes)
  have w2: "hs_write plain ?r1 [] 48 = (Inr ?m2, ?r2)"
    by (simp add: plain_def plain_hs_write_def plain_hs0_def)
  have rd2: "hs_read plain ?i1 ?m2 256 = (Inr [], ?i2)"
    using ri by (simp add: plain_def plain_hs_read_def plain_hs0_def seg_append be_nat_be_bytes)
  have "pad_to 32 skI \<noteq> []" using length_pad_to [of 32 skI] by (metis list.size(3) zero_neq_numeral)
  then have rs: "hs_remote_static plain ?r1 = Some (x25519_public plain skI)"
    by (simp add: plain_def plain_hs0_def)
  have b1: "build_initiator plain name ri skI (x25519_public plain skR) prologue psk = Inr ?i0"
    and b2: "build_responder plain name rr skR prologue psk = Inr ?r0"
    and l1: "length ?m1 = 108" and l2: "length ?m2 = 48"
    and l3: "length (x25519_public plain skI) = 32"
    using len by (simp_all add: plain_def)
  obtain ti tr where t: "hs_into_transport plain ?i2 = Inr ti" "hs_into_transport plain ?r2 = Inr tr"
      "fresh_pair pt_skey pt_snum pt_rkey pt_rnum ti tr"
    by (simp add: plain_def plain_into_transport_def plain_hs0_def matched_def fresh_pair_def Let_def)
  show "\<exists>i0 r0 i1 r1 r2 i2 m1 m2 ti tr.
      build_initiator plain name ri skI (x25519_public plain skR) prologue psk = Inr i0 \<and>
      build_responder plain name rr skR prologue psk = Inr r0 \<and>
      hs_write plain i0 payload 108 = (Inr m1, i1) \<and> length m1 = 108 \<and>
      hs_read plain r0 m1 256 = (Inr payload, r1) \<and>
      hs_remote_static plain r1 = Some (x25519_public plain skI) \<and>
      hs_write plain r1 [] 48 = (Inr m2, r2) \<and> length m2 = 48 \<and>
      hs_read plain i1 m2 256 = (Inr [], i2) \<and>
      hs_into_transport plain i2 = Inr ti \<and> hs_into_transport plain r2 = Inr tr \<and>
      fresh_pair pt_skey pt_snum pt_rkey pt_rnum ti tr \<and> length (x25519_public plain skI) = 32"
    by (intro exI conjI, rule b1, rule b2, rule w1, rule l1, rule rd1, rule rs, rule w2, rule l2,
        rule rd2, rule t(1), rule t(2), rule t(3), rule l3)
qed

lemma noise_handshake_works_mono:
  assumes "noise_handshake_works C name paired" and "\<And>a b. paired a b \<Longrightarrow> paired' a b"
  shows "noise_handshake_works C name paired'"
  unfolding noise_handshake_works_def
proof (intro allI impI)
  fix ri rr :: nat and skI skR psk prologue payload :: bytes
  assume len: "length payload = 12" "length skI = 32" "length skR = 32" "length psk = 32"
  show "\<exists>i0 r0 i1 r1 r2 i2 m1 m2 ti tr.
      build_initiator C name ri skI (x25519_public C skR) prologue psk = Inr i0 \<and>
      build_responder C name rr skR prologue psk = Inr r0 \<and>
      hs_write C i0 payload 108 = (Inr m1, i1) \<and> length m1 = 108 \<and>
      hs_read C r0 m1 256 = (Inr payload, r1) \<and>
      hs_remote_static C r1 = Some (x25519_public C skI) \<and>
      hs_write C r1 [] 48 = (Inr m2, r2) \<and> length m2 = 48 \<and>
      hs_read C i1 m2 256 = (Inr [], i2) \<and>
      hs_into_transport C i2 = Inr ti \<and> hs_into_transport C r2 = Inr tr \<and>
      paired' ti tr \<and> length (x25519_public C skI) = 32"
    using assms(1) [unfolded noise_handshake_works_def, rule_format, OF len, of ri prologue rr]
    by (elim exE conjE) (intro exI conjI assms(2); assumption)
qed

lemma handshake_key_length:
  assumes "noise_handshake_works C name paired" and "length sk = 32"
  shows "length (x25519_public C sk) = 32"
  using assms(1) [unfolded noise_handshake_works_def, rule_format, of "zeros 12" sk sk "zeros 32"] assms(2) by auto

lemma plain_handshake_works:
  "noise_handshake_works plain name (matched pt_skey pt_snum pt_rkey pt_rnum)"
  by (rule noise_handshake_works_mono [OF plain_handshake_fresh]) (simp add: fresh_pair_def)

lemma plain_seal_unseal:
  "length c \<ge> 16 \<Longrightarrow> drop (length c - 16) c = be_bytes 8 k @ be_bytes 8 n \<Longrightarrow>
   c = plain_seal k n (take (length c - 16) c)"
  by (metis append_take_drop_id plain_seal_def)

lemma plain_sequential_transport:
  "sequential_transport plain plain_seal pt_skey pt_snum pt_rkey pt_rnum"
  unfolding sequential_transport_def
proof (intro conjI allI impI)
  fix k n n' :: nat and p p' :: bytes
  assume b: "n < 2 ^ 64" "n' < 2 ^ 64" and eq: "plain_seal k n p = plain_seal k n' p'"
  then show "p = p'" by (simp add: plain_seal_def)
  from eq have "be_bytes 8 n = be_bytes 8 n'" by (simp add: plain_seal_def)
  with b show "n = n'" by (intro be_bytes_inj [where k = 8]) simp_all
next
  fix t :: plain_ts and c :: bytes and cap
  assume "\<nexists>p. c = plain_seal (pt_rkey t) (pt_rnum t) p"
  then have "length c < 16 \<or> drop (length c - 16) c \<noteq> be_bytes 8 (pt_rkey t) @ be_bytes 8 (pt_rnum t)"
    using plain_seal_unseal not_less by blast
  then show "\<exists>e. ts_read plain t c cap = (Inl e, t)"
    by (auto simp: plain_def plain_ts_read_def)
qed (auto simp: plain_def plain_seal_def plain_ts_write_def plain_ts_read_def)

end
