(* ===== verification/Timestamp.thy ===== *)
theory Timestamp
  imports Crypto_Params
begin

text \<open>
  \<open>naboscale-crypto/src/timestamp.rs\<close>: the TAI64N timestamp of a handshake INIT, its 12-byte
  encoding, and the order Rust derives on its fields (seconds first, then nanoseconds).  A clock
  reading is an argument: \<open>tai_now\<close> takes what \<open>SystemTime::now()\<close> returned since the epoch.
  Additions wrap, as in the release build.
\<close>

datatype tai64n = Tai64N (seconds: u64) (nanos: u32)

definition TAI_OFFSET_SECONDS :: u64 where
  "TAI_OFFSET_SECONDS = 37"

definition TAI_SIZE :: nat where
  "TAI_SIZE = 12"

definition tai_now :: "u64 \<times> u32 \<Rightarrow> tai64n" where
  "tai_now dur = Tai64N (fst dur + TAI_OFFSET_SECONDS) (snd dur)"

definition tai_from_unix :: "u64 \<Rightarrow> u32 \<Rightarrow> tai64n" where
  "tai_from_unix secs ns = Tai64N (secs + TAI_OFFSET_SECONDS) ns"

definition tai_to_bytes :: "tai64n \<Rightarrow> bytes" where
  "tai_to_bytes t =
     put 8 (u32_to_be (nanos t)) (put 0 (u64_to_be (seconds t)) (zeros TAI_SIZE))"

definition tai_from_bytes :: "bytes \<Rightarrow> tai64n" where
  "tai_from_bytes bs = Tai64N (u64_from_be (seg bs 0 8)) (u32_from_be (seg bs 8 12))"

lemma tai64n_eq_iff: "s = t \<longleftrightarrow> seconds s = seconds t \<and> nanos s = nanos t"
  by (cases s; cases t) simp

instantiation tai64n :: linorder
begin

definition less_tai64n :: "tai64n \<Rightarrow> tai64n \<Rightarrow> bool" where
  "less_tai64n a b \<longleftrightarrow>
     seconds a < seconds b \<or> (seconds a = seconds b \<and> nanos a < nanos b)"

definition less_eq_tai64n :: "tai64n \<Rightarrow> tai64n \<Rightarrow> bool" where
  "less_eq_tai64n a b \<longleftrightarrow> a < b \<or> a = (b :: tai64n)"

instance
  by standard (auto simp: less_tai64n_def less_eq_tai64n_def tai64n_eq_iff)

end

lemma tai_to_bytes_append: "tai_to_bytes t = u64_to_be (seconds t) @ u32_to_be (nanos t)"
  by (simp add: tai_to_bytes_def put_def TAI_SIZE_def zeros_def)

lemma length_tai_to_bytes [simp]: "length (tai_to_bytes t) = 12"
  by (simp add: tai_to_bytes_append)

lemma tai_decode_encode [simp]: "tai_from_bytes (tai_to_bytes t) = t"
  by (simp add: tai_from_bytes_def tai_to_bytes_append seg_append)

lemma tai_encode_decode: "length bs = 12 \<Longrightarrow> tai_to_bytes (tai_from_bytes bs) = bs"
proof -
  assume len: "length bs = 12"
  have "u64_to_be (u64_from_be (seg bs 0 8)) = seg bs 0 8"
    using be_nat_bound [of "seg bs 0 8"] len
    by (simp add: u64_to_be_def u64_from_be_def unat_of_nat be_bytes_be_nat)
  with len have "tai_to_bytes (tai_from_bytes bs) = seg bs 0 8 @ seg bs 8 12"
    by (simp add: tai_to_bytes_append tai_from_bytes_def)
  also have "\<dots> = bs" using len by (simp add: seg_concat seg_whole)
  finally show ?thesis .
qed

lemma bytes_less_append:
  "length xs = length xs' \<Longrightarrow>
   bytes_less (xs @ ys) (xs' @ ys') \<longleftrightarrow> bytes_less xs xs' \<or> (xs = xs' \<and> bytes_less ys ys')"
  by (induction xs xs' rule: bytes_less.induct) auto

lemma bytes_less_u64: "bytes_less (u64_to_be v) (u64_to_be w) \<longleftrightarrow> v < w"
  by (simp add: bytes_less_be_nat u64_to_be_def be_nat_be_bytes word_less_nat_alt)

lemma bytes_less_u32: "bytes_less (u32_to_be v) (u32_to_be w) \<longleftrightarrow> v < w"
  by (simp add: bytes_less_be_nat u32_to_be_def be_nat_be_bytes word_less_nat_alt)

text \<open>the 12-byte TAI64N encoding loses nothing in either direction and preserves order:
  comparing two encodings byte by byte is the order Rust derives on the fields of the
  timestamps (the point of a big-endian TAI64N label).\<close>

lemma tai64n_encoding_faithful:
  "tai_from_bytes (tai_to_bytes t) = t"
  "length (tai_to_bytes t) = TAI_SIZE"
  "bytes_less (tai_to_bytes s) (tai_to_bytes t) \<longleftrightarrow> s < t"
  by (auto simp: TAI_SIZE_def tai_to_bytes_append bytes_less_append bytes_less_u64 bytes_less_u32
      less_tai64n_def tai_from_bytes_def seg_append)

end
