(* ===== verification/Mac.thy ===== *)
theory Mac
  imports Crypto_Params
begin

text \<open>
  \<open>naboscale-crypto/src/mac.rs\<close>: the keys and message authentication codes of the handshake
  messages, over the BLAKE2s functions of the \<open>crypto\<close> record.
\<close>

definition LABEL_MAC1 :: bytes where
  "LABEL_MAC1 = str_bytes ''mac1----''"

definition LABEL_COOKIE :: bytes where
  "LABEL_COOKIE = str_bytes ''cookie--''"

definition hash1 :: "('hs, 'ts) crypto \<Rightarrow> bytes \<Rightarrow> bytes" where
  "hash1 C label_and_responder_pub = blake2s256 C label_and_responder_pub"

definition mac1_key :: "('hs, 'ts) crypto \<Rightarrow> bytes \<Rightarrow> bytes" where
  "mac1_key C responder_pub =
     hash1 C (put 8 responder_pub (put 0 LABEL_MAC1 (zeros (8 + 32))))"

definition cookie_key :: "('hs, 'ts) crypto \<Rightarrow> bytes \<Rightarrow> bytes" where
  "cookie_key C responder_pub =
     hash1 C (put 8 responder_pub (put 0 LABEL_COOKIE (zeros (8 + 32))))"

definition compute_mac1 :: "('hs, 'ts) crypto \<Rightarrow> bytes \<Rightarrow> bytes \<Rightarrow> bytes" where
  "compute_mac1 C key msg_before_mac = blake2s_mac16 C key msg_before_mac"

definition compute_mac2 :: "('hs, 'ts) crypto \<Rightarrow> bytes \<Rightarrow> bytes \<Rightarrow> bytes" where
  "compute_mac2 C cookie msg = blake2s_mac16 C cookie msg"

definition hash_bytes :: "('hs, 'ts) crypto \<Rightarrow> bytes \<Rightarrow> bytes" where
  "hash_bytes C input = blake2s256 C input"

lemma length_macs [simp]:
  "digest_sizes C \<Longrightarrow> length (compute_mac1 C k m) = 16"
  "digest_sizes C \<Longrightarrow> length (compute_mac2 C k m) = 16"
  by (simp_all add: compute_mac1_def compute_mac2_def)

lemma key_inputs:
  "length pub = 32 \<Longrightarrow> mac1_key C pub = blake2s256 C (LABEL_MAC1 @ pub)"
  "length pub = 32 \<Longrightarrow> cookie_key C pub = blake2s256 C (LABEL_COOKIE @ pub)"
  by (simp_all add: mac1_key_def cookie_key_def hash1_def put_def LABEL_MAC1_def LABEL_COOKIE_def
      zeros_def)

text \<open>The two kinds of key are digests of different inputs, also for different peers.\<close>

lemma label_inputs_distinct:
  "LABEL_MAC1 @ p \<noteq> LABEL_COOKIE @ q"
  "LABEL_MAC1 @ p = LABEL_MAC1 @ q \<longleftrightarrow> p = q"
proof -
  have "take 8 (LABEL_MAC1 @ p) \<noteq> take 8 (LABEL_COOKIE @ q)"
    by (simp add: LABEL_MAC1_def LABEL_COOKIE_def)
  then show "LABEL_MAC1 @ p \<noteq> LABEL_COOKIE @ q" by metis
qed simp

end
