(* ===== verification/Keys_Identity.thy ===== *)
theory Keys_Identity
  imports Crypto_Params
begin

text \<open>
  \<open>naboscale-crypto/src/keys.rs\<close> and \<open>identity.rs\<close>: the X25519 key pair of the tunnel and the
  Ed25519 identity that signs requests to the coordination server.  Random bytes are arguments.
\<close>

record keypair =
  kp_secret :: bytes
  kp_public :: bytes

definition keypair_from_bytes :: "('hs, 'ts) crypto \<Rightarrow> bytes \<Rightarrow> keypair" where
  "keypair_from_bytes C private = \<lparr>kp_secret = private, kp_public = x25519_public C private\<rparr>"

definition keypair_generate :: "('hs, 'ts) crypto \<Rightarrow> bytes \<Rightarrow> keypair" where
  "keypair_generate C random = \<lparr>kp_secret = random, kp_public = x25519_public C random\<rparr>"

record identity =
  signing_key :: bytes
  verifying_key :: bytes

definition identity_from_bytes :: "('hs, 'ts) crypto \<Rightarrow> bytes \<Rightarrow> identity" where
  "identity_from_bytes C private =
     \<lparr>signing_key = private, verifying_key = ed25519_public C private\<rparr>"

definition identity_generate :: "('hs, 'ts) crypto \<Rightarrow> bytes \<Rightarrow> identity" where
  "identity_generate C random =
     \<lparr>signing_key = random, verifying_key = ed25519_public C random\<rparr>"

definition identity_from_public :: "('hs, 'ts) crypto \<Rightarrow> bytes \<Rightarrow> identity option" where
  "identity_from_public C pubkey =
     (if ed25519_valid_key C pubkey
      then Some \<lparr>signing_key = zeros 32, verifying_key = pubkey\<rparr>
      else None)"

definition identity_public :: "identity \<Rightarrow> bytes" where
  "identity_public i = verifying_key i"

definition identity_private_bytes :: "identity \<Rightarrow> bytes" where
  "identity_private_bytes i = signing_key i"

definition identity_sign :: "('hs, 'ts) crypto \<Rightarrow> identity \<Rightarrow> bytes \<Rightarrow> bytes" where
  "identity_sign C i msg = ed25519_sign C (signing_key i) msg"

definition identity_verify :: "('hs, 'ts) crypto \<Rightarrow> bytes \<Rightarrow> bytes \<Rightarrow> bytes \<Rightarrow> bool" where
  "identity_verify C pubkey msg sig =
     (if \<not> ed25519_valid_key C pubkey then False else ed25519_verify C pubkey msg sig)"

definition identity_zeroize :: "identity \<Rightarrow> identity" where
  "identity_zeroize i = i\<lparr>signing_key := zeros 32\<rparr>"

text \<open>The documented contract of Ed25519: a key's signatures verify under its public key.\<close>

definition signatures_verify :: "('hs, 'ts) crypto \<Rightarrow> bool" where
  "signatures_verify C \<longleftrightarrow>
     (\<forall>sk m. length sk = 32 \<longrightarrow>
        ed25519_valid_key C (ed25519_public C sk) \<and> length (ed25519_public C sk) = 32 \<and>
        length (ed25519_sign C sk m) = 64 \<and>
        ed25519_verify C (ed25519_public C sk) m (ed25519_sign C sk m))"

lemma plain_signatures_verify: "signatures_verify plain"
  by (simp add: signatures_verify_def plain_def)

lemma own_signature_verifies:
  "signatures_verify C \<Longrightarrow> length sk = 32 \<Longrightarrow>
   identity_verify C (identity_public (identity_from_bytes C sk)) m
     (identity_sign C (identity_from_bytes C sk) m)"
  by (simp add: identity_verify_def identity_public_def identity_from_bytes_def identity_sign_def
      signatures_verify_def)

lemma zeroize_erases_key:
  "identity_private_bytes (identity_zeroize i) = zeros 32"
  "identity_public (identity_zeroize i) = identity_public i"
  by (simp_all add: identity_zeroize_def identity_private_bytes_def identity_public_def)

end
