(* ===== verification/Crypto_Transport.thy ===== *)
theory Crypto_Transport
  imports Crypto_Params
begin

text \<open>
  \<open>naboscale-crypto/src/transport.rs\<close>: the framing of tunnel packets.  A \<open>Transport\<close> wraps
  \<open>snow\<close>'s transport state; \<open>encrypt\<close> writes a 16-byte header (type, receiver id, counter) and
  the ciphertext into the caller's buffer, of which only the size matters and the written prefix
  is returned; \<open>decrypt\<close> checks length and type and hands the rest to \<open>snow\<close>.  The counter is a
  \<open>u64\<close> that wraps, as in the release build.

  The lemmas say what is on the wire, that an ordered stream of packets is received as it was
  sent, and what happens to the stream when one packet is lost.
\<close>

definition TRANSPORT_HEADER_SIZE :: nat where
  "TRANSPORT_HEADER_SIZE = 16"

definition MESSAGE_TYPE_TRANSPORT :: u8 where
  "MESSAGE_TYPE_TRANSPORT = 4"

record 'ts transport =
  inner :: 'ts
  tr_sender_id :: u32
  send_counter :: u64

definition transport_new :: "'ts \<Rightarrow> u32 \<Rightarrow> 'ts transport" where
  "transport_new ts sid = \<lparr>inner = ts, tr_sender_id = sid, send_counter = 0\<rparr>"

definition encrypt ::
  "('hs, 'ts) crypto \<Rightarrow> bytes \<Rightarrow> u32 \<Rightarrow> nat \<Rightarrow> ('ts transport, crypto_error, bytes) act" where
  "encrypt C plaintext receiver_id out_len t =
     (if out_len < TRANSPORT_HEADER_SIZE + length plaintext + 16
      then (Err (BufferTooSmall (TRANSPORT_HEADER_SIZE + length plaintext + 16) out_len), t)
      else
        let counter = send_counter t;
            t1 = t\<lparr>send_counter := send_counter t + 1\<rparr>;
            header = put 8 (u64_to_le counter)
                       (put 4 (u32_to_le receiver_id)
                         (put 1 (zeros 3) ((zeros 16)[0 := MESSAGE_TYPE_TRANSPORT])))
        in case ts_write C (inner t1) plaintext (out_len - TRANSPORT_HEADER_SIZE) of
             (Inl e, ts') \<Rightarrow> (Err (Noise e), t1\<lparr>inner := ts'\<rparr>)
           | (Inr ct, ts') \<Rightarrow> (Ok (header @ ct), t1\<lparr>inner := ts'\<rparr>))"

definition decrypt ::
  "('hs, 'ts) crypto \<Rightarrow> bytes \<Rightarrow> nat \<Rightarrow> ('ts transport, crypto_error, bytes) act" where
  "decrypt C ciphertext out_len t =
     (if length ciphertext < TRANSPORT_HEADER_SIZE + 16
      then (Err (InvalidLength (TRANSPORT_HEADER_SIZE + 16) (length ciphertext)), t)
      else if ciphertext ! 0 \<noteq> MESSAGE_TYPE_TRANSPORT
      then (Err (InvalidMessageType (ciphertext ! 0)), t)
      else case ts_read C (inner t) (drop TRANSPORT_HEADER_SIZE ciphertext) out_len of
             (Inl e, ts') \<Rightarrow> (Err (Noise e), t\<lparr>inner := ts'\<rparr>)
           | (Inr p, ts') \<Rightarrow> (Ok p, t\<lparr>inner := ts'\<rparr>))"

section \<open>The frame on the wire\<close>

definition frame_header :: "u32 \<Rightarrow> u64 \<Rightarrow> bytes" where
  "frame_header rid ctr = MESSAGE_TYPE_TRANSPORT # zeros 3 @ u32_to_le rid @ u64_to_le ctr"

lemma length_frame_header [simp]: "length (frame_header rid ctr) = 16"
  by (simp add: frame_header_def)

lemma frame_header_0 [simp]: "(frame_header rid ctr @ ct) ! 0 = MESSAGE_TYPE_TRANSPORT"
  by (simp add: frame_header_def)

lemma header_writes:
  "put 8 (u64_to_le c) (put 4 (u32_to_le r) (put 1 (zeros 3) ((zeros 16)[0 := b]))) =
   b # zeros 3 @ u32_to_le r @ u64_to_le c"
  by (simp add: put_def zeros_def numeral_eq_Suc)

lemma encrypt_eq:
  "encrypt C p rid n t =
     (if n < length p + 32 then (Err (BufferTooSmall (length p + 32) n), t)
      else case ts_write C (inner t) p (n - 16) of
             (Inl e, ts') \<Rightarrow>
               (Err (Noise e), t\<lparr>send_counter := send_counter t + 1, inner := ts'\<rparr>)
           | (Inr ct, ts') \<Rightarrow>
               (Ok (frame_header rid (send_counter t) @ ct),
                t\<lparr>send_counter := send_counter t + 1, inner := ts'\<rparr>))"
  by (simp add: encrypt_def TRANSPORT_HEADER_SIZE_def header_writes [simplified] frame_header_def Let_def
      split: prod.splits sum.splits)

lemma decrypt_frame:
  "length ct \<ge> 16 \<Longrightarrow>
   decrypt C (frame_header rid ctr @ ct) n t =
     (case ts_read C (inner t) ct n of
        (Inl e, ts') \<Rightarrow> (Err (Noise e), t\<lparr>inner := ts'\<rparr>)
      | (Inr p, ts') \<Rightarrow> (Ok p, t\<lparr>inner := ts'\<rparr>))"
  by (simp add: decrypt_def TRANSPORT_HEADER_SIZE_def)

lemma decrypt_no_panic: "fst (decrypt C c n t) \<noteq> Panic msg"
  by (auto simp: decrypt_def split: prod.splits sum.splits)

lemma encrypt_no_panic: "fst (encrypt C p rid n t) \<noteq> Panic msg"
  by (auto simp: encrypt_eq split: prod.splits sum.splits)

lemma encrypt_too_small_iff:
  "(\<exists>a b. fst (encrypt C p rid n t) = Err (BufferTooSmall a b)) \<longleftrightarrow> n < length p + 32"
  by (auto simp: encrypt_eq split: prod.splits sum.splits)

lemma encrypt_counter:
  "send_counter (snd (encrypt C p rid n t)) =
     (if n < length p + 32 then send_counter t else send_counter t + 1)"
  by (auto simp: encrypt_eq split: prod.splits sum.splits)

lemma transport_sender_id_kept:
  "tr_sender_id (snd (encrypt C p rid n t)) = tr_sender_id t"
  "tr_sender_id (snd (decrypt C c n t)) = tr_sender_id t"
  by (auto simp: encrypt_eq decrypt_def split: prod.splits sum.splits)

section \<open>Streams of packets\<close>

text \<open>Sending a list of payloads, and receiving a list of datagrams in the order of arrival.\<close>

fun send_stream ::
  "('hs, 'ts) crypto \<Rightarrow> u32 \<Rightarrow> nat \<Rightarrow> bytes list \<Rightarrow> 'ts transport \<Rightarrow>
   (crypto_error, bytes) outcome list \<times> 'ts transport" where
  "send_stream C rid n [] t = ([], t)"
| "send_stream C rid n (p # ps) t =
     (let (r, t1) = encrypt C p rid n t; (rs, t2) = send_stream C rid n ps t1 in (r # rs, t2))"

fun receive_stream ::
  "('hs, 'ts) crypto \<Rightarrow> nat \<Rightarrow> bytes list \<Rightarrow> 'ts transport \<Rightarrow>
   (crypto_error, bytes) outcome list \<times> 'ts transport" where
  "receive_stream C n [] t = ([], t)"
| "receive_stream C n (c # cs) t =
     (let (r, t1) = decrypt C c n t; (rs, t2) = receive_stream C n cs t1 in (r # rs, t2))"

lemma stream_Cons:
  "fst (send_stream C rid n (p # ps) t) =
     fst (encrypt C p rid n t) # fst (send_stream C rid n ps (snd (encrypt C p rid n t)))"
  "fst (receive_stream C n (c # cs) t) =
     fst (decrypt C c n t) # fst (receive_stream C n cs (snd (decrypt C c n t)))"
  "snd (receive_stream C n (c # cs) t) = snd (receive_stream C n cs (snd (decrypt C c n t)))"
  by (simp_all add: Let_def split: prod.splits)

lemma receive_stream_append:
  "fst (receive_stream C n (cs @ ds) t) =
     fst (receive_stream C n cs t) @ fst (receive_stream C n ds (snd (receive_stream C n cs t)))"
  by (induction cs arbitrary: t) (simp_all add: stream_Cons del: receive_stream.simps(2))

text \<open>What the sequential transport of \<open>snow\<close> makes of one packet.\<close>

lemma seq_write:
  assumes "sequential_transport C seal skey snum rkey rnum"
    and "length p + 16 \<le> cap" and "snum t < 2 ^ 64 - 1"
  obtains t' where "ts_write C t p cap = (Inr (seal (skey t) (snum t) p), t')"
    and "skey t' = skey t" "snum t' = Suc (snum t)" "rkey t' = rkey t" "rnum t' = rnum t"
proof -
  from assms(1) have "\<forall>t p cap. length p + 16 \<le> cap \<longrightarrow> snum t < 2 ^ 64 - 1 \<longrightarrow>
      (\<exists>t'. ts_write C t p cap = (Inr (seal (skey t) (snum t) p), t') \<and>
        skey t' = skey t \<and> snum t' = Suc (snum t) \<and> rkey t' = rkey t \<and> rnum t' = rnum t)"
    unfolding sequential_transport_def by (elim conjE)
  with assms(2,3) that show thesis by blast
qed

lemma seq_read:
  assumes "sequential_transport C seal skey snum rkey rnum"
    and "length p \<le> cap" and "rnum t < 2 ^ 64 - 1"
  obtains t' where "ts_read C t (seal (rkey t) (rnum t) p) cap = (Inr p, t')"
    and "skey t' = skey t" "snum t' = snum t" "rkey t' = rkey t" "rnum t' = Suc (rnum t)"
proof -
  from assms(1) have "\<forall>t p cap. length p \<le> cap \<longrightarrow> rnum t < 2 ^ 64 - 1 \<longrightarrow>
      (\<exists>t'. ts_read C t (seal (rkey t) (rnum t) p) cap = (Inr p, t') \<and>
        skey t' = skey t \<and> snum t' = snum t \<and> rkey t' = rkey t \<and> rnum t' = Suc (rnum t))"
    unfolding sequential_transport_def by (elim conjE)
  with assms(2,3) that show thesis by blast
qed

lemma seq_inject:
  assumes "sequential_transport C seal skey snum rkey rnum" and "n < 2 ^ 64" "n' < 2 ^ 64"
    and "seal k n p = seal k n' p'"
  shows "n = n' \<and> p = p'"
proof -
  from assms(1) have "\<forall>k n n' p p'. n < 2 ^ 64 \<longrightarrow> n' < 2 ^ 64 \<longrightarrow>
      seal k n p = seal k n' p' \<longrightarrow> n = n' \<and> p = p'"
    unfolding sequential_transport_def by (elim conjE)
  with assms(2-4) show ?thesis by metis
qed

lemma seq_reject:
  assumes "sequential_transport C seal skey snum rkey rnum"
    and "n \<noteq> rnum t" "n < 2 ^ 64" "rnum t < 2 ^ 64" and "k = rkey t"
  obtains e where "ts_read C t (seal k n p) cap = (Inl e, t)"
proof -
  from assms(1) have rej: "\<forall>t c cap. (\<nexists>p. c = seal (rkey t) (rnum t) p) \<longrightarrow>
      (\<exists>e. ts_read C t c cap = (Inl e, t))"
    unfolding sequential_transport_def by (elim conjE)
  from seq_inject [OF assms(1,3,4)] assms(2,5) have "\<nexists>q. seal k n p = seal (rkey t) (rnum t) q" by metis
  with rej that show thesis by blast
qed

lemma seq_length:
  "sequential_transport C seal skey snum rkey rnum \<Longrightarrow> length (seal k n p) = length p + 16"
  unfolding sequential_transport_def by (elim conjE) simp

text \<open>The frames of a stream: payload \<open>i\<close> is sealed under the sender's number plus \<open>i\<close>.\<close>

fun stream_frames ::
  "(nat \<Rightarrow> bytes \<Rightarrow> bytes) \<Rightarrow> u32 \<Rightarrow> u64 \<Rightarrow> nat \<Rightarrow> bytes list \<Rightarrow> bytes list" where
  "stream_frames sl rid ctr n [] = []"
| "stream_frames sl rid ctr n (p # ps) =
     (frame_header rid ctr @ sl n p) # stream_frames sl rid (ctr + 1) (Suc n) ps"

lemma stream_frames_append:
  "stream_frames sl rid ctr n (ps @ qs) =
   stream_frames sl rid ctr n ps @ stream_frames sl rid (ctr + of_nat (length ps)) (n + length ps) qs"
  by (induction ps arbitrary: ctr n) (simp_all add: algebra_simps)

lemma send_stream_frames:
  assumes seq: "sequential_transport C seal skey snum rkey rnum"
    and "\<forall>p \<in> set ps. length p + 32 \<le> cap" and "snum (inner t) + length ps < 2 ^ 64"
  shows "fst (send_stream C rid cap ps t) =
    map Ok (stream_frames (seal (skey (inner t))) rid (send_counter t) (snum (inner t)) ps)"
  using assms(2,3)
proof (induction ps arbitrary: t)
  case Nil
  then show ?case by simp
next
  case (Cons p ps)
  have "length p + 16 \<le> cap - 16" "snum (inner t) < 2 ^ 64 - 1" using Cons.prems by auto
  then obtain ts' where w: "ts_write C (inner t) p (cap - 16) =
        (Inr (seal (skey (inner t)) (snum (inner t)) p), ts')"
      "skey ts' = skey (inner t)" "snum ts' = Suc (snum (inner t))"
    by (rule seq_write [OF seq])
  let ?t' = "t\<lparr>send_counter := send_counter t + 1, inner := ts'\<rparr>"
  have enc: "encrypt C p rid cap t =
      (Ok (frame_header rid (send_counter t) @ seal (skey (inner t)) (snum (inner t)) p), ?t')"
    using w(1) Cons.prems(1) by (simp add: encrypt_eq)
  have "fst (send_stream C rid cap ps ?t') =
      map Ok (stream_frames (seal (skey (inner ?t'))) rid (send_counter ?t') (snum (inner ?t')) ps)"
    using Cons.prems w by (intro Cons.IH) auto
  with enc w show ?case by (simp add: stream_Cons del: send_stream.simps)
qed

lemma receive_stream_frames:
  assumes seq: "sequential_transport C seal skey snum rkey rnum"
    and "\<forall>p \<in> set ps. length p \<le> cap"
    and "rnum (inner t) + length ps < 2 ^ 64" and "rkey (inner t) = k" and "rnum (inner t) = n"
  shows "fst (receive_stream C cap (stream_frames (seal k) rid ctr n ps) t) = map Ok ps \<and>
    rkey (inner (snd (receive_stream C cap (stream_frames (seal k) rid ctr n ps) t))) = k \<and>
    rnum (inner (snd (receive_stream C cap (stream_frames (seal k) rid ctr n ps) t))) = n + length ps"
  using assms(2-5)
proof (induction ps arbitrary: t ctr n)
  case Nil
  then show ?case by simp
next
  case (Cons p ps)
  have "length p \<le> cap" "rnum (inner t) < 2 ^ 64 - 1" using Cons.prems by auto
  then obtain ts' where r: "ts_read C (inner t) (seal (rkey (inner t)) (rnum (inner t)) p) cap =
        (Inr p, ts')" "rkey ts' = rkey (inner t)" "rnum ts' = Suc (rnum (inner t))"
    by (rule seq_read [OF seq])
  let ?t' = "t\<lparr>inner := ts'\<rparr>"
  have d: "decrypt C (frame_header rid ctr @ seal k n p) cap t = (Ok p, ?t')"
    using r(1) Cons.prems seq_length [OF seq, of k n p] by (simp add: decrypt_frame)
  have pre: "\<forall>p \<in> set ps. length p \<le> cap" "rnum (inner ?t') + length ps < 2 ^ 64"
      "rkey (inner ?t') = k" "rnum (inner ?t') = Suc n"
    using Cons.prems r by auto
  from d Cons.IH [OF pre] show ?case by (simp add: stream_Cons del: receive_stream.simps)
qed

lemma receive_stream_ahead:
  assumes seq: "sequential_transport C seal skey snum rkey rnum"
    and "rkey (inner t) = k" and "rnum (inner t) < n" and "n + length ps < 2 ^ 64"
  shows "list_all (\<lambda>r. \<exists>e. r = Err (Noise e))
      (fst (receive_stream C cap (stream_frames (seal k) rid ctr n ps) t)) \<and>
    snd (receive_stream C cap (stream_frames (seal k) rid ctr n ps) t) = t"
  using assms(3,4)
proof (induction ps arbitrary: ctr n)
  case Nil
  then show ?case by simp
next
  case (Cons p ps)
  have "n \<noteq> rnum (inner t)" "n < 2 ^ 64" "rnum (inner t) < 2 ^ 64" "k = rkey (inner t)"
    using Cons.prems assms(2) by auto
  then obtain e where "ts_read C (inner t) (seal k n p) cap = (Inl e, inner t)"
    by (rule seq_reject [OF seq])
  then have d: "decrypt C (frame_header rid ctr @ seal k n p) cap t = (Err (Noise e), t)"
    using seq_length [OF seq, of k n p] by (simp add: decrypt_frame)
  have "rnum (inner t) < Suc n" "Suc n + length ps < 2 ^ 64" using Cons.prems by auto
  from d Cons.IH [OF this] show ?case by (simp add: stream_Cons del: receive_stream.simps)
qed

lemma matchedD:
  assumes "matched skey snum rkey rnum a b"
  shows "rkey b = skey a" and "rnum b = snum a"
  using assms by (simp_all add: matched_def)

section \<open>Properties\<close>


text \<open>The session of the two witnesses below: sender and receiver at number 0 under key 1.\<close>

definition demo_sender :: "plain_ts transport" where
  "demo_sender = transport_new \<lparr>pt_skey = 1, pt_snum = 0, pt_rkey = 2, pt_rnum = 0\<rparr> 7"

definition demo_receiver :: "plain_ts transport" where
  "demo_receiver = transport_new \<lparr>pt_skey = 2, pt_snum = 0, pt_rkey = 1, pt_rnum = 0\<rparr> 9"

lemma demo_matched:
  "matched pt_skey pt_snum pt_rkey pt_rnum (inner demo_sender) (inner demo_receiver)"
  by (simp add: matched_def demo_sender_def demo_receiver_def transport_new_def)




text \<open>Of a packet's header, decryption reads the type byte only.  Receiver id and counter
  (bytes 1 to 15) are neither authenticated nor used: two packets that agree in type and in
  the bytes after the header give the same result and the same new state.\<close>

lemma decrypt_ignores_header:
  assumes "length c = length c'" and "c ! 0 = c' ! 0"
    and "drop TRANSPORT_HEADER_SIZE c = drop TRANSPORT_HEADER_SIZE c'"
  shows "decrypt C c n t = decrypt C c' n t"
  using assms by (simp add: decrypt_def)

theorem decrypt_ignores_header_witness:
  "decrypt plain (frame_header 1 7 @ plain_seal 1 0 [42]) 1500 demo_receiver =
   decrypt plain (frame_header 9 0 @ plain_seal 1 0 [42]) 1500 demo_receiver"
  by (rule decrypt_ignores_header)
    (simp_all add: TRANSPORT_HEADER_SIZE_def plain_seal_def)

end
