(* ===== verification/Handshake.thy ===== *)
theory Handshake
  imports Timestamp Mac Keys_Identity Crypto_Transport
begin

text \<open>
  \<open>naboscale-crypto/src/handshake.rs\<close>: the Noise \<open>IKpsk2\<close> handshake messages.  An \<open>Initiator\<close>
  writes a 148-byte INIT (type, sender id, 108 bytes of Noise message carrying the timestamp,
  16 zero bytes, mac1) and consumes a 92-byte RESPONSE; a \<open>Responder\<close> consumes the INIT and
  writes the RESPONSE.  Both become a \<open>Transport\<close>.  A method that takes \<open>&mut self\<close> is an
  \<open>act\<close> on the record and one that takes \<open>self\<close> is a function of it.  The checks are in the
  order of the code; what \<open>snow\<close> has read stays read when a later check fails.
\<close>

definition INIT_SIZE :: nat where "INIT_SIZE = 148"
definition INIT_WITH_COOKIE_SIZE :: nat where "INIT_WITH_COOKIE_SIZE = INIT_SIZE + 16"
definition RESPONSE_SIZE :: nat where "RESPONSE_SIZE = 92"
definition COOKIE_SIZE :: nat where "COOKIE_SIZE = 64"

definition MESSAGE_TYPE_INIT :: u8 where "MESSAGE_TYPE_INIT = 1"
definition MESSAGE_TYPE_RESPONSE :: u8 where "MESSAGE_TYPE_RESPONSE = 2"
definition MESSAGE_TYPE_COOKIE :: u8 where "MESSAGE_TYPE_COOKIE = 3"
definition MESSAGE_TYPE_RELAY :: u8 where "MESSAGE_TYPE_RELAY = 5"

definition REPLAY_WINDOW_SECONDS :: i64 where "REPLAY_WINDOW_SECONDS = 120"
definition NOISE_INIT_PAYLOAD_OFFSET :: nat where "NOISE_INIT_PAYLOAD_OFFSET = 8"
definition NOISE_INIT_PAYLOAD_SIZE :: nat where "NOISE_INIT_PAYLOAD_SIZE = 108"
definition NOISE_RESPONSE_PAYLOAD_OFFSET :: nat where "NOISE_RESPONSE_PAYLOAD_OFFSET = 12"
definition NOISE_RESPONSE_PAYLOAD_SIZE :: nat where "NOISE_RESPONSE_PAYLOAD_SIZE = 48"
definition MAC1_OFFSET_INIT :: nat where "MAC1_OFFSET_INIT = 132"
definition MAC1_OFFSET_RESPONSE :: nat where "MAC1_OFFSET_RESPONSE = 76"

definition WG_IDENTIFIER :: bytes where
  "WG_IDENTIFIER = str_bytes ''WireGuard v1 zx2c4 Jason@zx2c4.com''"

definition PROTOCOL_NAME :: string where
  "PROTOCOL_NAME = ''Noise_IKpsk2_25519_ChaChaPoly_BLAKE2s''"

lemmas message_sizes =
  INIT_SIZE_def INIT_WITH_COOKIE_SIZE_def RESPONSE_SIZE_def COOKIE_SIZE_def TAI_SIZE_def
  NOISE_INIT_PAYLOAD_OFFSET_def NOISE_INIT_PAYLOAD_SIZE_def NOISE_RESPONSE_PAYLOAD_OFFSET_def
  NOISE_RESPONSE_PAYLOAD_SIZE_def MAC1_OFFSET_INIT_def MAC1_OFFSET_RESPONSE_def
  TRANSPORT_HEADER_SIZE_def

lemmas message_types =
  MESSAGE_TYPE_INIT_def MESSAGE_TYPE_RESPONSE_def MESSAGE_TYPE_COOKIE_def
  MESSAGE_TYPE_TRANSPORT_def MESSAGE_TYPE_RELAY_def

definition read_u32 :: "bytes \<Rightarrow> bytes" where
  "read_u32 s = take 4 s"

record 'hs initiator =
  i_state :: 'hs
  i_sender_id :: u32
  i_local_pub :: bytes
  i_responder_pub :: bytes
  i_timestamp :: tai64n

record 'hs responder =
  r_state :: 'hs
  r_sender_id :: u32
  r_local_pub :: bytes
  r_current_time :: tai64n

section \<open>Initiator\<close>

text \<open>The last argument is the randomness \<open>snow\<close> draws for the session.\<close>

definition initiator_new ::
  "('hs, 'ts) crypto \<Rightarrow> keypair \<Rightarrow> bytes \<Rightarrow> bytes \<Rightarrow> u32 \<Rightarrow> tai64n \<Rightarrow> nat \<Rightarrow>
   (crypto_error, 'hs initiator) outcome" where
  "initiator_new C local remote_pub psk sender_id timestamp rand =
     (case build_initiator C PROTOCOL_NAME rand (kp_secret local) remote_pub WG_IDENTIFIER psk of
        Inl e \<Rightarrow> Err (Noise e)
      | Inr hs \<Rightarrow> Ok \<lparr>i_state = hs, i_sender_id = sender_id, i_local_pub = kp_public local,
                     i_responder_pub = remote_pub, i_timestamp = timestamp\<rparr>)"

definition write_init :: "('hs, 'ts) crypto \<Rightarrow> ('hs initiator, crypto_error, bytes) act" where
  "write_init C i =
     (let out = put 4 (u32_to_le (i_sender_id i)) ((zeros INIT_SIZE)[0 := MESSAGE_TYPE_INIT])
      in case hs_write C (i_state i) (tai_to_bytes (i_timestamp i)) NOISE_INIT_PAYLOAD_SIZE of
           (Inl e, hs) \<Rightarrow> (Err (Noise e), i\<lparr>i_state := hs\<rparr>)
         | (Inr m, hs) \<Rightarrow>
             if length m \<noteq> NOISE_INIT_PAYLOAD_SIZE
             then (Err (InvalidLength NOISE_INIT_PAYLOAD_SIZE (length m)), i\<lparr>i_state := hs\<rparr>)
             else
               let out1 = put NOISE_INIT_PAYLOAD_OFFSET m out;
                   key = mac1_key C (i_responder_pub i);
                   mac1 = compute_mac1 C key (take MAC1_OFFSET_INIT out1)
               in (Ok (put MAC1_OFFSET_INIT mac1 out1), i\<lparr>i_state := hs\<rparr>))"

definition consume_response ::
  "('hs, 'ts) crypto \<Rightarrow> 'hs initiator \<Rightarrow> bytes \<Rightarrow> (crypto_error, 'ts transport) outcome" where
  "consume_response C i response =
     (if length response < RESPONSE_SIZE
      then Err (InvalidLength RESPONSE_SIZE (length response))
      else if response ! 0 \<noteq> MESSAGE_TYPE_RESPONSE
      then Err (InvalidMessageType (response ! 0))
      else if u32_from_le (read_u32 (seg response 8 12)) \<noteq> i_sender_id i
      then Err (InvalidMessageType (response ! 0))
      else
        let key = mac1_key C (i_local_pub i);
            expected_mac1 = compute_mac1 C key (take MAC1_OFFSET_RESPONSE response)
        in if seg response MAC1_OFFSET_RESPONSE (MAC1_OFFSET_RESPONSE + 16) \<noteq> expected_mac1
           then Err MacInvalid
           else case hs_read C (i_state i)
                       (seg response NOISE_RESPONSE_PAYLOAD_OFFSET
                          (NOISE_RESPONSE_PAYLOAD_OFFSET + NOISE_RESPONSE_PAYLOAD_SIZE)) 256 of
                  (Inl e, _) \<Rightarrow> Err (Noise e)
                | (Inr _, hs) \<Rightarrow>
                    (case hs_into_transport C hs of
                       Inl e \<Rightarrow> Err (Noise e)
                     | Inr ts \<Rightarrow> Ok (transport_new ts (i_sender_id i))))"

section \<open>Responder\<close>

definition responder_new ::
  "('hs, 'ts) crypto \<Rightarrow> keypair \<Rightarrow> bytes \<Rightarrow> u32 \<Rightarrow> tai64n \<Rightarrow> nat \<Rightarrow>
   (crypto_error, 'hs responder) outcome" where
  "responder_new C local psk sender_id current_time rand =
     (case build_responder C PROTOCOL_NAME rand (kp_secret local) WG_IDENTIFIER psk of
        Inl e \<Rightarrow> Err (Noise e)
      | Inr hs \<Rightarrow> Ok \<lparr>r_state = hs, r_sender_id = sender_id, r_local_pub = kp_public local,
                     r_current_time = current_time\<rparr>)"

definition set_current_time :: "tai64n \<Rightarrow> 'hs responder \<Rightarrow> 'hs responder" where
  "set_current_time t r = r\<lparr>r_current_time := t\<rparr>"

definition outside_replay_window :: "tai64n \<Rightarrow> tai64n \<Rightarrow> bool" where
  "outside_replay_window current timestamp =
     i64_gt (i64_abs (seconds current - seconds timestamp)) REPLAY_WINDOW_SECONDS"

definition respond_to :: "('hs, 'ts) crypto \<Rightarrow> bytes \<Rightarrow> ('hs responder, crypto_error, bytes) act" where
  "respond_to C init_msg r =
     (case hs_remote_static C (r_state r) of
        None \<Rightarrow> (Err HandshakeIncomplete, r)
      | Some initiator_static \<Rightarrow>
          if length initiator_static \<noteq> 32 then (Err HandshakeIncomplete, r)
          else
            let response_key = mac1_key C initiator_static;
                out = put 8 (read_u32 (seg init_msg 4 8))
                        (put 4 (u32_to_le (r_sender_id r))
                          ((zeros RESPONSE_SIZE)[0 := MESSAGE_TYPE_RESPONSE]))
            in case hs_write C (r_state r) [] NOISE_RESPONSE_PAYLOAD_SIZE of
                 (Inl e, hs) \<Rightarrow> (Err (Noise e), r\<lparr>r_state := hs\<rparr>)
               | (Inr m, hs) \<Rightarrow>
                   if length m \<noteq> NOISE_RESPONSE_PAYLOAD_SIZE
                   then (Err (InvalidLength NOISE_RESPONSE_PAYLOAD_SIZE (length m)),
                         r\<lparr>r_state := hs\<rparr>)
                   else
                     let out1 = put NOISE_RESPONSE_PAYLOAD_OFFSET m out;
                         mac1 = compute_mac1 C response_key (take MAC1_OFFSET_RESPONSE out1)
                     in (Ok (put MAC1_OFFSET_RESPONSE mac1 out1), r\<lparr>r_state := hs\<rparr>))"

definition consume_init :: "('hs, 'ts) crypto \<Rightarrow> bytes \<Rightarrow> ('hs responder, crypto_error, bytes) act" where
  "consume_init C init_msg r =
     (if length init_msg < INIT_SIZE
      then (Err (InvalidLength INIT_SIZE (length init_msg)), r)
      else if init_msg ! 0 \<noteq> MESSAGE_TYPE_INIT
      then (Err (InvalidMessageType (init_msg ! 0)), r)
      else case hs_read C (r_state r)
                  (seg init_msg NOISE_INIT_PAYLOAD_OFFSET
                     (NOISE_INIT_PAYLOAD_OFFSET + NOISE_INIT_PAYLOAD_SIZE)) 256 of
             (Inl e, hs) \<Rightarrow> (Err (Noise e), r\<lparr>r_state := hs\<rparr>)
           | (Inr payload, hs) \<Rightarrow>
               let r1 = r\<lparr>r_state := hs\<rparr> in
               if length payload \<noteq> TAI_SIZE
               then (Err (InvalidLength TAI_SIZE (length payload)), r1)
               else if outside_replay_window (r_current_time r) (tai_from_bytes payload)
               then (Err InvalidTimestamp, r1)
               else if seg init_msg MAC1_OFFSET_INIT (MAC1_OFFSET_INIT + 16) \<noteq>
                       compute_mac1 C (mac1_key C (r_local_pub r)) (take MAC1_OFFSET_INIT init_msg)
               then (Err MacInvalid, r1)
               else respond_to C init_msg r1)"

definition into_transport ::
  "('hs, 'ts) crypto \<Rightarrow> 'hs responder \<Rightarrow> (crypto_error, 'ts transport) outcome" where
  "into_transport C r =
     (case hs_into_transport C (r_state r) of
        Inl e \<Rightarrow> Err (Noise e)
      | Inr ts \<Rightarrow> Ok (transport_new ts (r_sender_id r)))"

section \<open>The replay window\<close>

lemma replay_window_iff:
  "\<not> outside_replay_window current timestamp \<longleftrightarrow>
     \<bar>sint (seconds current - seconds timestamp)\<bar> \<le> 120 \<or>
     seconds current - seconds timestamp = 2 ^ 63"
  using i64_abs_gt_iff [of REPLAY_WINDOW_SECONDS "seconds current - seconds timestamp"]
  by (simp add: outside_replay_window_def REPLAY_WINDOW_SECONDS_def)

text \<open>Which INIT timestamps a responder accepts.  The timestamp passes the replay check
  exactly when the two clocks differ by at most 120 seconds, or when they differ by exactly
  2^63 seconds: there the wrapped difference is the least \<open>i64\<close>, its absolute value is itself in
  a release build, and a negative number is not greater than 120.\<close>

lemma replay_window_exact:
  "\<not> outside_replay_window current timestamp \<longleftrightarrow>
     \<bar>sint (seconds current - seconds timestamp)\<bar> \<le> 120 \<or>
     seconds current - seconds timestamp = 2 ^ 63"
  by (rule replay_window_iff)

lemma inside_window_diff: "\<not> outside_replay_window (Tai64N s x) (Tai64N s y)"
  by (simp add: replay_window_iff)

section \<open>Message layouts\<close>

text \<open>An INIT before its mac1, and a RESPONSE before its mac1, as concatenated fields.\<close>

definition init_body :: "u32 \<Rightarrow> bytes \<Rightarrow> bytes" where
  "init_body sid m = MESSAGE_TYPE_INIT # zeros 3 @ u32_to_le sid @ m @ zeros 16"

definition response_body :: "u32 \<Rightarrow> bytes \<Rightarrow> bytes \<Rightarrow> bytes" where
  "response_body sid rid m = MESSAGE_TYPE_RESPONSE # zeros 3 @ u32_to_le sid @ rid @ m @ zeros 16"

lemma length_bodies [simp]:
  "length m = 108 \<Longrightarrow> length (init_body sid m) = 132"
  "length rid = 4 \<Longrightarrow> length m = 48 \<Longrightarrow> length (response_body sid rid m) = 76"
  by (simp_all add: init_body_def response_body_def)

lemma put_in_zeros:
  assumes "length src \<le> n" and "k = length xs"
  shows "put k src (xs @ zeros n) = xs @ src @ zeros (n - length src)"
  using assms by (simp add: put_def zeros_def)

lemma init_writes:
  assumes "length m = 108"
  shows "length mac = 16 \<Longrightarrow> put 132 mac (put 8 m (put 4 (u32_to_le sid) ((zeros 148)[0 := b]))) =
      (b # zeros 3 @ u32_to_le sid @ m @ zeros 16) @ mac"
    and "take 132 (put 8 m (put 4 (u32_to_le sid) ((zeros 148)[0 := b]))) =
      b # zeros 3 @ u32_to_le sid @ m @ zeros 16"
proof -
  have z: "(zeros 148)[0 := b] = (b # zeros 3) @ zeros 144"
    by (simp add: zeros_def numeral_eq_Suc)
  have 1: "put 4 (u32_to_le sid) ((b # zeros 3) @ zeros 144) =
      (b # zeros 3 @ u32_to_le sid) @ zeros 140"
    by (subst put_in_zeros) simp_all
  have 2: "put 8 m ((b # zeros 3 @ u32_to_le sid) @ zeros 140) =
      (b # zeros 3 @ u32_to_le sid @ m) @ zeros 32"
    using assms by (subst put_in_zeros) simp_all
  have z32: "zeros 32 = zeros 16 @ zeros 16" by (simp add: zeros_def flip: replicate_add)
  have 3: "length mac = 16 \<Longrightarrow>
      put 132 mac ((b # zeros 3 @ u32_to_le sid @ m @ zeros 16) @ zeros 16) =
      (b # zeros 3 @ u32_to_le sid @ m @ zeros 16) @ mac"
    using assms by (subst put_in_zeros) (simp_all add: zeros_def)
  from z 1 2 3 z32 assms
  show "length mac = 16 \<Longrightarrow> put 132 mac (put 8 m (put 4 (u32_to_le sid) ((zeros 148)[0 := b]))) =
      (b # zeros 3 @ u32_to_le sid @ m @ zeros 16) @ mac"
    and "take 132 (put 8 m (put 4 (u32_to_le sid) ((zeros 148)[0 := b]))) =
      b # zeros 3 @ u32_to_le sid @ m @ zeros 16"
    by simp_all
qed

lemma response_writes:
  assumes "length m = 48" and "length rid = 4"
  shows "length mac = 16 \<Longrightarrow> put 76 mac (put 12 m (put 8 rid (put 4 (u32_to_le sid) ((zeros 92)[0 := b])))) =
      (b # zeros 3 @ u32_to_le sid @ rid @ m @ zeros 16) @ mac"
    and "take 76 (put 12 m (put 8 rid (put 4 (u32_to_le sid) ((zeros 92)[0 := b])))) =
      b # zeros 3 @ u32_to_le sid @ rid @ m @ zeros 16"
proof -
  have z: "(zeros 92)[0 := b] = (b # zeros 3) @ zeros 88"
    by (simp add: zeros_def numeral_eq_Suc)
  have 1: "put 4 (u32_to_le sid) ((b # zeros 3) @ zeros 88) =
      (b # zeros 3 @ u32_to_le sid) @ zeros 84"
    by (subst put_in_zeros) simp_all
  have 2: "put 8 rid ((b # zeros 3 @ u32_to_le sid) @ zeros 84) =
      (b # zeros 3 @ u32_to_le sid @ rid) @ zeros 80"
    using assms by (subst put_in_zeros) simp_all
  have 3: "put 12 m ((b # zeros 3 @ u32_to_le sid @ rid) @ zeros 80) =
      (b # zeros 3 @ u32_to_le sid @ rid @ m) @ zeros 32"
    using assms by (subst put_in_zeros) simp_all
  have z32: "zeros 32 = zeros 16 @ zeros 16" by (simp add: zeros_def flip: replicate_add)
  have 4: "length mac = 16 \<Longrightarrow> put 76 mac ((b # zeros 3 @ u32_to_le sid @ rid @ m @ zeros 16) @ zeros 16) =
      (b # zeros 3 @ u32_to_le sid @ rid @ m @ zeros 16) @ mac"
    using assms by (subst put_in_zeros) (simp_all add: zeros_def)
  from z 1 2 3 4 z32 assms
  show "length mac = 16 \<Longrightarrow> put 76 mac (put 12 m (put 8 rid (put 4 (u32_to_le sid) ((zeros 92)[0 := b])))) =
      (b # zeros 3 @ u32_to_le sid @ rid @ m @ zeros 16) @ mac"
    and "take 76 (put 12 m (put 8 rid (put 4 (u32_to_le sid) ((zeros 92)[0 := b])))) =
      b # zeros 3 @ u32_to_le sid @ rid @ m @ zeros 16"
    by simp_all
qed

lemma write_init_eq:
  assumes "digest_sizes C"
  shows "write_init C i =
    (case hs_write C (i_state i) (tai_to_bytes (i_timestamp i)) 108 of
       (Inl e, hs) \<Rightarrow> (Err (Noise e), i\<lparr>i_state := hs\<rparr>)
     | (Inr m, hs) \<Rightarrow>
         if length m \<noteq> 108 then (Err (InvalidLength 108 (length m)), i\<lparr>i_state := hs\<rparr>)
         else (Ok (init_body (i_sender_id i) m @
                   compute_mac1 C (mac1_key C (i_responder_pub i)) (init_body (i_sender_id i) m)),
               i\<lparr>i_state := hs\<rparr>))"
  using assms
  by (simp add: write_init_def message_sizes init_body_def init_writes Let_def
      split: prod.splits sum.splits)

lemma respond_to_eq:
  assumes "digest_sizes C" and "length init_msg \<ge> 8"
  shows "respond_to C init_msg r =
    (case hs_remote_static C (r_state r) of
       None \<Rightarrow> (Err HandshakeIncomplete, r)
     | Some st \<Rightarrow>
         if length st \<noteq> 32 then (Err HandshakeIncomplete, r)
         else case hs_write C (r_state r) [] 48 of
           (Inl e, hs) \<Rightarrow> (Err (Noise e), r\<lparr>r_state := hs\<rparr>)
         | (Inr m, hs) \<Rightarrow>
             if length m \<noteq> 48 then (Err (InvalidLength 48 (length m)), r\<lparr>r_state := hs\<rparr>)
             else (Ok (response_body (r_sender_id r) (seg init_msg 4 8) m @
                       compute_mac1 C (mac1_key C st)
                         (response_body (r_sender_id r) (seg init_msg 4 8) m)),
                   r\<lparr>r_state := hs\<rparr>))"
proof -
  have "read_u32 (seg init_msg 4 8) = seg init_msg 4 8" "length (seg init_msg 4 8) = 4"
    using assms(2) by (simp_all add: read_u32_def)
  then show ?thesis using assms(1)
    by (simp add: respond_to_def message_sizes response_body_def response_writes Let_def
        split: option.splits prod.splits sum.splits)
qed

lemma init_fields:
  assumes "length m = 108" and "length mac = 16"
  shows "length (init_body sid m @ mac) = 148"
    and "(init_body sid m @ mac) ! 0 = MESSAGE_TYPE_INIT"
    and "seg (init_body sid m @ mac) 4 8 = u32_to_le sid"
    and "seg (init_body sid m @ mac) 8 116 = m"
    and "seg (init_body sid m @ mac) 132 148 = mac"
    and "take 132 (init_body sid m @ mac) = init_body sid m"
  using assms by (simp_all add: init_body_def seg_def)

lemma response_fields:
  assumes "length m = 48" and "length mac = 16" and "length rid = 4"
  shows "length (response_body sid rid m @ mac) = 92"
    and "(response_body sid rid m @ mac) ! 0 = MESSAGE_TYPE_RESPONSE"
    and "seg (response_body sid rid m @ mac) 4 8 = u32_to_le sid"
    and "seg (response_body sid rid m @ mac) 8 12 = rid"
    and "seg (response_body sid rid m @ mac) 12 60 = m"
    and "seg (response_body sid rid m @ mac) 76 92 = mac"
    and "take 76 (response_body sid rid m @ mac) = response_body sid rid m"
  using assms by (simp_all add: response_body_def seg_def)

section \<open>What acceptance implies\<close>

lemma consume_init_OkD:
  assumes "consume_init C m r = (Ok resp, r')"
  shows "148 \<le> length m" and "m ! 0 = MESSAGE_TYPE_INIT"
    and "\<exists>payload hs. hs_read C (r_state r) (seg m 8 116) 256 = (Inr payload, hs) \<and>
           length payload = 12 \<and>
           \<not> outside_replay_window (r_current_time r) (tai_from_bytes payload) \<and>
           respond_to C m (r\<lparr>r_state := hs\<rparr>) = (Ok resp, r')"
    and "seg m 132 148 = compute_mac1 C (mac1_key C (r_local_pub r)) (take 132 m)"
  using assms
  by (auto simp: consume_init_def message_sizes Let_def not_less
      split: if_splits prod.splits sum.splits)

lemma respond_to_OkD:
  assumes "digest_sizes C" and "8 \<le> length m" and "respond_to C m r = (Ok resp, r')"
  obtains st nm hs where "hs_remote_static C (r_state r) = Some st" "length st = 32"
    "hs_write C (r_state r) [] 48 = (Inr nm, hs)" "length nm = 48"
    "resp = response_body (r_sender_id r) (seg m 4 8) nm @
       compute_mac1 C (mac1_key C st) (response_body (r_sender_id r) (seg m 4 8) nm)"
    "r' = r\<lparr>r_state := hs\<rparr>"
  using assms
  by (auto simp: respond_to_eq split: if_splits prod.splits sum.splits option.splits)

lemma consume_init_no_panic: "fst (consume_init C m r) \<noteq> Panic msg"
  by (auto simp: consume_init_def respond_to_def Let_def
      split: prod.splits sum.splits option.splits)

lemma write_init_no_panic: "fst (write_init C i) \<noteq> Panic msg"
  by (auto simp: write_init_def Let_def split: prod.splits sum.splits)

lemma consume_response_no_panic: "consume_response C i m \<noteq> Panic msg"
  by (auto simp: consume_response_def Let_def split: prod.splits sum.splits)

lemma into_transport_no_panic: "into_transport C r \<noteq> Panic msg"
  by (auto simp: into_transport_def split: sum.splits)

lemma new_no_panic:
  "initiator_new C kp pub psk sid ts rnd \<noteq> Panic msg"
  "responder_new C kp psk sid ts rnd \<noteq> Panic msg"
  by (auto simp: initiator_new_def responder_new_def split: sum.splits)

section \<open>A complete handshake\<close>

text \<open>The messages of a handshake between matching peers, each accepted by the other side.\<close>

lemma handshake_messages:
  assumes works: "noise_handshake_works C PROTOCOL_NAME paired"
    and sizes: "digest_sizes C"
    and len: "length skI = 32" "length skR = 32" "length psk = 32"
    and fresh: "\<not> outside_replay_window now ts"
  shows "\<exists>i0 i1 m1 ti. initiator_new C (keypair_from_bytes C skI) (x25519_public C skR) psk sidI ts ri = Ok i0 \<and>
    write_init C i0 = (Ok m1, i1) \<and> length m1 = 148 \<and> seg m1 4 8 = u32_to_le sidI \<and>
    m1 ! 0 = MESSAGE_TYPE_INIT \<and>
    (\<exists>r0 r1 m2 tr.
       responder_new C (keypair_from_bytes C skR) psk sidR now rr = Ok r0 \<and>
       consume_init C m1 r0 = (Ok m2, r1) \<and> length m2 = 92 \<and> m2 ! 0 = MESSAGE_TYPE_RESPONSE \<and>
       seg m2 4 8 = u32_to_le sidR \<and>
       consume_response C i1 m2 = Ok (transport_new ti sidI) \<and>
       into_transport C r1 = Ok (transport_new tr sidR) \<and> paired ti tr)"
proof -
  have "length (tai_to_bytes ts) = 12" by simp
  with works len obtain i0 r0 i1 r1 r2 i2 m1 m2 ti tr where
    N: "build_initiator C PROTOCOL_NAME ri skI (x25519_public C skR) WG_IDENTIFIER psk = Inr i0"
      "build_responder C PROTOCOL_NAME rr skR WG_IDENTIFIER psk = Inr r0"
      "hs_write C i0 (tai_to_bytes ts) 108 = (Inr m1, i1)" "length m1 = 108"
      "hs_read C r0 m1 256 = (Inr (tai_to_bytes ts), r1)"
      "hs_remote_static C r1 = Some (x25519_public C skI)"
      "hs_write C r1 [] 48 = (Inr m2, r2)" "length m2 = 48"
      "hs_read C i1 m2 256 = (Inr [], i2)"
      "hs_into_transport C i2 = Inr ti" "hs_into_transport C r2 = Inr tr"
      "paired ti tr" "length (x25519_public C skI) = 32"
    unfolding noise_handshake_works_def by metis
  let ?I = "\<lparr>i_state = i0, i_sender_id = sidI, i_local_pub = x25519_public C skI,
      i_responder_pub = x25519_public C skR, i_timestamp = ts\<rparr>"
  let ?R = "\<lparr>r_state = r0, r_sender_id = sidR, r_local_pub = x25519_public C skR,
      r_current_time = now\<rparr>"
  let ?b1 = "init_body sidI m1"
  let ?mac1 = "compute_mac1 C (mac1_key C (x25519_public C skR)) ?b1"
  let ?b2 = "response_body sidR (u32_to_le sidI) m2"
  let ?mac2 = "compute_mac1 C (mac1_key C (x25519_public C skI)) ?b2"
  have 1: "initiator_new C (keypair_from_bytes C skI) (x25519_public C skR) psk sidI ts ri = Ok ?I"
    using N(1) by (simp add: initiator_new_def keypair_from_bytes_def)
  have 2: "write_init C ?I = (Ok (?b1 @ ?mac1), ?I\<lparr>i_state := i1\<rparr>)"
    using N(3,4) sizes by (simp add: write_init_eq)
  have 3: "responder_new C (keypair_from_bytes C skR) psk sidR now rr = Ok ?R"
    using N(2) by (simp add: responder_new_def keypair_from_bytes_def)
  have len1: "length ?mac1 = 16" "length ?mac2 = 16" using sizes by simp_all
  note F1 = init_fields [OF N(4) len1(1)]
  have 4: "consume_init C (?b1 @ ?mac1) ?R = (Ok (?b2 @ ?mac2), ?R\<lparr>r_state := r2\<rparr>)"
    using N F1 sizes fresh
    by (simp add: consume_init_def message_sizes respond_to_eq Let_def)
  note F2 = response_fields [OF N(8) len1(2), of "u32_to_le sidI"]
  have 5: "consume_response C (?I\<lparr>i_state := i1\<rparr>) (?b2 @ ?mac2) = Ok (transport_new ti sidI)"
    using N F2 by (simp add: consume_response_def message_sizes read_u32_def Let_def)
  have 6: "into_transport C (?R\<lparr>r_state := r2\<rparr>) = Ok (transport_new tr sidR)"
    using N by (simp add: into_transport_def)
  have l1: "length (?b1 @ ?mac1) = 148" "seg (?b1 @ ?mac1) 4 8 = u32_to_le sidI"
      "(?b1 @ ?mac1) ! 0 = MESSAGE_TYPE_INIT" using F1 by simp_all
  have l2: "length (?b2 @ ?mac2) = 92" "(?b2 @ ?mac2) ! 0 = MESSAGE_TYPE_RESPONSE"
      "seg (?b2 @ ?mac2) 4 8 = u32_to_le sidR" using F2 by simp_all
  show ?thesis
    by (intro exI conjI, rule 1, rule 2, rule l1(1), rule l1(2), rule l1(3), rule 3, rule 4,
        rule l2(1), rule l2(2), rule l2(3), rule 5, rule 6, rule N(12))
qed

lemma plain_works:
  "noise_handshake_works plain PROTOCOL_NAME (matched pt_skey pt_snum pt_rkey pt_rnum)"
  by (rule plain_handshake_works)

text \<open>C38: A responder answers an INIT only after every check.  If \<open>consume_init\<close> returns a
  RESPONSE, the INIT was long enough and of the right type, its Noise part was authentic and
  carried a 12-byte timestamp inside the replay window, and its mac1 is the one keyed with the
  responder's own public key; the RESPONSE is 92 bytes, names the responder as sender and the
  INIT's sender as receiver.\<close>

theorem consume_init_sound:
  assumes "digest_sizes C" and "consume_init C m r = (Ok resp, r')"
  shows "INIT_SIZE \<le> length m \<and> m ! 0 = MESSAGE_TYPE_INIT \<and>
    (\<exists>payload hs. hs_read C (r_state r) (seg m 8 116) 256 = (Inr payload, hs) \<and>
       length payload = TAI_SIZE \<and>
       \<not> outside_replay_window (r_current_time r) (tai_from_bytes payload)) \<and>
    seg m MAC1_OFFSET_INIT INIT_SIZE =
      compute_mac1 C (mac1_key C (r_local_pub r)) (take MAC1_OFFSET_INIT m) \<and>
    length resp = RESPONSE_SIZE \<and> resp ! 0 = MESSAGE_TYPE_RESPONSE \<and>
    seg resp 4 8 = u32_to_le (r_sender_id r) \<and> seg resp 8 12 = seg m 4 8 \<and>
    r_sender_id r' = r_sender_id r"
proof -
  note D = consume_init_OkD [OF assms(2)]
  from D(3) obtain payload hs where
    p: "hs_read C (r_state r) (seg m 8 116) 256 = (Inr payload, hs)" "length payload = 12"
      "\<not> outside_replay_window (r_current_time r) (tai_from_bytes payload)"
    and resp: "respond_to C m (r\<lparr>r_state := hs\<rparr>) = (Ok resp, r')" by blast
  have "8 \<le> length m" and four: "length (seg m 4 8) = 4" using D(1) by simp_all
  obtain st nm hs' where
    "length nm = 48" "resp = response_body (r_sender_id r) (seg m 4 8) nm @
       compute_mac1 C (mac1_key C st) (response_body (r_sender_id r) (seg m 4 8) nm)"
    "r' = r\<lparr>r_state := hs'\<rparr>"
    by (rule respond_to_OkD [OF assms(1) \<open>8 \<le> length m\<close> resp]) (auto intro: that)
  with D p four assms(1) show ?thesis
    by (simp add: message_sizes response_fields)
qed

theorem consume_init_sound_witness:
  "\<exists>m r resp r'. consume_init plain m r = (Ok resp, r') \<and> r_sender_id r = 2 \<and>
     INIT_SIZE \<le> length m \<and> m ! 0 = MESSAGE_TYPE_INIT \<and>
     length resp = RESPONSE_SIZE \<and> resp ! 0 = MESSAGE_TYPE_RESPONSE \<and>
     seg resp 4 8 = u32_to_le 2 \<and> seg resp 8 12 = seg m 4 8"
proof -
  have lens: "length (replicate 32 (5 :: u8)) = 32" "length (replicate 32 (6 :: u8)) = 32"
    "length (zeros 32) = 32" by simp_all
  from handshake_messages [OF plain_works plain_digest_sizes lens inside_window_diff [of 1000 0 0],
      of 1 11 2 12]
  obtain m r resp r' where
    new: "responder_new plain (keypair_from_bytes plain (replicate 32 6)) (zeros 32) 2 (Tai64N 1000 0) 12
      = Ok r" and acc: "consume_init plain m r = (Ok resp, r')" by blast
  from new have "r_sender_id r = 2" by (auto simp: responder_new_def split: sum.splits)
  with acc consume_init_sound [OF plain_digest_sizes acc] show ?thesis by auto
qed

text \<open>C16: A handshake between matching peers completes.  When the initiator knows the responder's
  public key, both hold the same PSK and the initiator's timestamp is inside the replay window,
  the INIT is 148 bytes and accepted, the RESPONSE is 92 bytes and accepted, and the two
  transports belong to one session: they are paired, carry the local sender ids and count
  from 0.\<close>

theorem handshake_completes:
  assumes "noise_handshake_works C PROTOCOL_NAME paired" and "digest_sizes C"
    and "length skI = 32" and "length skR = 32" and "length psk = 32"
    and "\<not> outside_replay_window now ts"
  shows "\<exists>i0 i1 r0 r1 m1 m2 ti tr.
    initiator_new C (keypair_from_bytes C skI) (kp_public (keypair_from_bytes C skR)) psk sidI ts ri
      = Ok i0 \<and>
    responder_new C (keypair_from_bytes C skR) psk sidR now rr = Ok r0 \<and>
    write_init C i0 = (Ok m1, i1) \<and> length m1 = INIT_SIZE \<and>
    consume_init C m1 r0 = (Ok m2, r1) \<and> length m2 = RESPONSE_SIZE \<and>
    consume_response C i1 m2 = Ok ti \<and> into_transport C r1 = Ok tr \<and>
    paired (inner ti) (inner tr) \<and>
    tr_sender_id ti = sidI \<and> tr_sender_id tr = sidR \<and> send_counter ti = 0 \<and> send_counter tr = 0"
  using handshake_messages [OF assms, of sidI ri sidR rr]
  by (fastforce simp: keypair_from_bytes_def transport_new_def message_sizes)

theorem handshake_completes_witness:
  "\<exists>i0 i1 r0 r1 m1 m2 ti tr.
    initiator_new plain (keypair_from_bytes plain (replicate 32 5))
      (kp_public (keypair_from_bytes plain (replicate 32 6))) (zeros 32) 1 (Tai64N 1000 0) 11
      = Ok i0 \<and>
    responder_new plain (keypair_from_bytes plain (replicate 32 6)) (zeros 32) 2 (Tai64N 1030 0) 12
      = Ok r0 \<and>
    write_init plain i0 = (Ok m1, i1) \<and> length m1 = INIT_SIZE \<and>
    consume_init plain m1 r0 = (Ok m2, r1) \<and> length m2 = RESPONSE_SIZE \<and>
    consume_response plain i1 m2 = Ok ti \<and> into_transport plain r1 = Ok tr \<and>
    matched pt_skey pt_snum pt_rkey pt_rnum (inner ti) (inner tr) \<and>
    tr_sender_id ti = 1 \<and> tr_sender_id tr = 2 \<and> send_counter ti = 0 \<and> send_counter tr = 0"
  by (rule handshake_completes [OF plain_works plain_digest_sizes])
    (simp_all add: replay_window_iff)

text \<open>A captured INIT is accepted again.  Two responders built afresh from the same key and PSK
  (which is what the manager does on every INIT of an established session) both answer the same
  INIT as long as its timestamp is in the window; nothing remembers it, and \<open>ReplayDetected\<close> is
  never returned.\<close>

lemma init_replay_accepted:
  assumes "noise_handshake_works C PROTOCOL_NAME paired" and "digest_sizes C"
    and "length skI = 32" and "length skR = 32" and "length psk = 32"
    and "\<not> outside_replay_window now1 ts" and "\<not> outside_replay_window now2 ts"
  shows "\<exists>i0 i1 m1.
    initiator_new C (keypair_from_bytes C skI) (kp_public (keypair_from_bytes C skR)) psk sidI ts ri
      = Ok i0 \<and> write_init C i0 = (Ok m1, i1) \<and>
    (\<exists>ra ra' m2a. responder_new C (keypair_from_bytes C skR) psk sidR now1 rr1 = Ok ra \<and>
       consume_init C m1 ra = (Ok m2a, ra')) \<and>
    (\<exists>rb rb' m2b. responder_new C (keypair_from_bytes C skR) psk sidR now2 rr2 = Ok rb \<and>
       consume_init C m1 rb = (Ok m2b, rb'))"
proof -
  note A = handshake_messages [OF assms(1-6), of sidI ri sidR rr1]
  note B = handshake_messages [OF assms(1-5,7), of sidI ri sidR rr2]
  have pub: "kp_public (keypair_from_bytes C skR) = x25519_public C skR"
    by (simp add: keypair_from_bytes_def)
  from A B show ?thesis unfolding pub by (metis outcome.inject(1) prod.inject)
qed

theorem init_replay_accepted_witness:
  "\<exists>i0 i1 m1.
    initiator_new plain (keypair_from_bytes plain (replicate 32 5))
      (kp_public (keypair_from_bytes plain (replicate 32 6))) (zeros 32) 1 (Tai64N 1000 0) 11
      = Ok i0 \<and> write_init plain i0 = (Ok m1, i1) \<and>
    (\<exists>ra ra' m2a. responder_new plain (keypair_from_bytes plain (replicate 32 6)) (zeros 32) 2
         (Tai64N 1000 0) 12 = Ok ra \<and> consume_init plain m1 ra = (Ok m2a, ra')) \<and>
    (\<exists>rb rb' m2b. responder_new plain (keypair_from_bytes plain (replicate 32 6)) (zeros 32) 2
         (Tai64N 1120 0) 13 = Ok rb \<and> consume_init plain m1 rb = (Ok m2b, rb'))"
  by (rule init_replay_accepted [OF plain_works plain_digest_sizes])
    (simp_all add: inside_window_diff, simp add: outside_replay_window_def i64_gt_def i64_abs_def
      REPLAY_WINDOW_SECONDS_def)

text \<open>An initiator has 120 seconds from its construction.  Its INIT carries the time it was built;
  a responder with the matching keys whose clock is outside the replay window of that time
  refuses the INIT, no matter when it was sent, with \<open>InvalidTimestamp\<close>.\<close>

lemma late_init_refused:
  assumes "noise_handshake_works C PROTOCOL_NAME paired" and "digest_sizes C"
    and "length skI = 32" and "length skR = 32" and "length psk = 32"
    and "outside_replay_window later built"
  shows "\<exists>i0 i1 m1 r0.
    initiator_new C (keypair_from_bytes C skI) (kp_public (keypair_from_bytes C skR)) psk sidI built ri
      = Ok i0 \<and> write_init C i0 = (Ok m1, i1) \<and>
    responder_new C (keypair_from_bytes C skR) psk sidR now rr = Ok r0 \<and>
    fst (consume_init C m1 (set_current_time later r0)) = Err InvalidTimestamp"
proof -
  have "length (tai_to_bytes built) = 12" by simp
  with assms(1,3-5) obtain i0 r0 i1 r1 m1 where
    N: "build_initiator C PROTOCOL_NAME ri skI (x25519_public C skR) WG_IDENTIFIER psk = Inr i0"
      "build_responder C PROTOCOL_NAME rr skR WG_IDENTIFIER psk = Inr r0"
      "hs_write C i0 (tai_to_bytes built) 108 = (Inr m1, i1)" "length m1 = 108"
      "hs_read C r0 m1 256 = (Inr (tai_to_bytes built), r1)"
    unfolding noise_handshake_works_def by metis
  let ?I = "\<lparr>i_state = i0, i_sender_id = sidI, i_local_pub = x25519_public C skI,
      i_responder_pub = x25519_public C skR, i_timestamp = built\<rparr>"
  let ?R = "\<lparr>r_state = r0, r_sender_id = sidR, r_local_pub = x25519_public C skR,
      r_current_time = now\<rparr>"
  let ?m = "init_body sidI m1 @ compute_mac1 C (mac1_key C (x25519_public C skR)) (init_body sidI m1)"
  have 1: "initiator_new C (keypair_from_bytes C skI) (kp_public (keypair_from_bytes C skR)) psk sidI built ri
      = Ok ?I" using N(1) by (simp add: initiator_new_def keypair_from_bytes_def)
  have 2: "write_init C ?I = (Ok ?m, ?I\<lparr>i_state := i1\<rparr>)"
    using N(3,4) assms(2) by (simp add: write_init_eq)
  have 3: "responder_new C (keypair_from_bytes C skR) psk sidR now rr = Ok ?R"
    using N(2) by (simp add: responder_new_def keypair_from_bytes_def)
  have "length (compute_mac1 C (mac1_key C (x25519_public C skR)) (init_body sidI m1)) = 16"
    using assms(2) by simp
  note F = init_fields [OF N(4) this]
  have 4: "fst (consume_init C ?m (set_current_time later ?R)) = Err InvalidTimestamp"
    using N(5) F assms(6) by (simp add: consume_init_def message_sizes Let_def set_current_time_def)
  show ?thesis using 1 2 3 4 by blast
qed

theorem late_init_refused_witness:
  "\<exists>i0 i1 m1 r0.
    initiator_new plain (keypair_from_bytes plain (replicate 32 5))
      (kp_public (keypair_from_bytes plain (replicate 32 6))) (zeros 32) 1 (Tai64N 1000 0) 11
      = Ok i0 \<and> write_init plain i0 = (Ok m1, i1) \<and>
    responder_new plain (keypair_from_bytes plain (replicate 32 6)) (zeros 32) 2 (Tai64N 1000 0) 12
      = Ok r0 \<and>
    fst (consume_init plain m1 (set_current_time (Tai64N 1121 0) r0)) = Err InvalidTimestamp"
  by (rule late_init_refused [OF plain_works plain_digest_sizes])
    (simp_all add: outside_replay_window_def i64_gt_def i64_abs_def REPLAY_WINDOW_SECONDS_def)

end
