(* ===== verification/Nab_Net.thy ===== *)
theory Nab_Net
  imports Nab_Bytes
begin

text \<open>
  The parts of \<open>std::net\<close> and \<open>std::time\<close> the crates use as data: IP addresses with their
  octets, socket addresses, and durations in nanoseconds.  An \<open>Instant\<close> is a natural number of
  nanoseconds since some start; \<open>duration_since\<close> saturates at zero, as subtraction on naturals
  does.
\<close>

datatype ip_addr = V4 u32 | V6 "128 word"

datatype socket_addr = SocketV4 u32 u16 | SocketV6 "128 word" u16 u32 u32

fun sock_ip :: "socket_addr \<Rightarrow> ip_addr" where
  "sock_ip (SocketV4 a p) = V4 a"
| "sock_ip (SocketV6 a p f s) = V6 a"

fun is_unspecified :: "ip_addr \<Rightarrow> bool" where
  "is_unspecified (V4 a) = (a = 0)"
| "is_unspecified (V6 a) = (a = 0)"

definition v4_octets :: "u32 \<Rightarrow> bytes" where
  "v4_octets a = u32_to_be a"

definition v6_octets :: "128 word \<Rightarrow> bytes" where
  "v6_octets a = be_bytes 16 (unat a)"

definition ipv4_new :: "u8 \<Rightarrow> u8 \<Rightarrow> u8 \<Rightarrow> u8 \<Rightarrow> u32" where
  "ipv4_new a b c d = u32_from_be [a, b, c, d]"

lemma length_octets [simp]: "length (v4_octets a) = 4" "length (v6_octets b) = 16"
  by (simp_all add: v4_octets_def v6_octets_def)

lemma ipv4_new_octets: "v4_octets (ipv4_new a b c d) = [a, b, c, d]"
  by (simp add: v4_octets_def ipv4_new_def)

type_synonym instant = nat
type_synonym duration = nat

definition from_secs :: "nat \<Rightarrow> duration" where
  "from_secs s = s * 1000000000"

definition from_millis :: "nat \<Rightarrow> duration" where
  "from_millis ms = ms * 1000000"

definition as_secs :: "duration \<Rightarrow> nat" where
  "as_secs d = d div 1000000000"

definition duration_since :: "instant \<Rightarrow> instant \<Rightarrow> duration" where
  "duration_since now earlier = now - earlier"

end
