(* ===== verification/Manager.thy ===== *)
theory Manager
  imports Handshake Nab_Net
begin

text \<open>
  \<open>naboscale-tunnel/src/manager.rs\<close> (with the error type of \<open>error.rs\<close>): the tunnel manager,
  one per node, with one session per peer.

  State.  \<open>manager\<close> is \<open>TunnelManager\<close>; a map is a partial function, \<open>peers\<close> a list indexed as
  the code indexes it.  What the code does to the outside is recorded in two more fields: \<open>sent\<close>
  (datagrams the UDP socket accepted) and \<open>written\<close> (packets the TUN device accepted).

  Inputs.  \<open>env\<close> is what one handler call sees of the outside: the monotonic clock, the TAI clock,
  the randomness of new Noise sessions (per peer index), 32 random bytes, whether the socket and
  the device accept a write, and what the device has to read.  One handler call reads each clock
  once in the model; the code reads them a few times within the call.

  Every handler is an \<open>act\<close>: state changes made before an early return stay.  Indexing the peer
  list out of range is a \<open>Panic\<close>.  Logging is left out.
\<close>

section \<open>Errors, configuration, sessions\<close>

datatype tunnel_error =
    Tun string
  | Io string
  | Crypto crypto_error
  | BufferTooSmallT nat nat
  | HandshakeTimeout
  | NotReady
  | InvalidConfig string

definition INIT_RETRY_INTERVAL :: duration where "INIT_RETRY_INTERVAL = from_secs 2"
definition COOKIE_SECRET_ROTATION :: duration where "COOKIE_SECRET_ROTATION = from_secs 120"
definition COOKIE_INIT_RATE_LIMIT :: u32 where "COOKIE_INIT_RATE_LIMIT = 5"
definition RELAY_HEADER_SIZE :: nat where "RELAY_HEADER_SIZE = 1 + 32 + 4"
definition MAC1_LEN :: nat where "MAC1_LEN = 16"
definition MAC2_OFFSET_INIT :: nat where "MAC2_OFFSET_INIT = 148"

record manager_timings =
  keepalive :: duration
  rekey_after :: duration
  reject_after :: duration
  maintenance_tick :: duration

definition default_timings :: manager_timings where
  "default_timings =
     \<lparr>keepalive = from_secs 10, rekey_after = from_secs 120, reject_after = from_secs 180,
      maintenance_tick = from_millis 500\<rparr>"

record manager_config =
  local_keypair :: keypair
  local_ip :: u32
  timings :: manager_timings

definition default_manager_config :: "('hs, 'ts) crypto \<Rightarrow> bytes \<Rightarrow> manager_config" where
  "default_manager_config C random =
     \<lparr>local_keypair = keypair_generate C random, local_ip = 0, timings = default_timings\<rparr>"

record peer_config =
  peer_pub :: bytes
  psk :: bytes
  local_sender_id :: u32
  is_initiator :: bool
  peer_endpoint :: socket_addr
  peer_ip :: u32
  via_relay :: "socket_addr option"

record 'hs rehandshake =
  rh_initiator :: "'hs initiator"
  rh_init_msg :: bytes
  rh_started_at :: instant
  rh_next_retry_at :: instant

datatype ('hs, 'ts) peer_state =
    Init
  | HandshakingAsInitiator "'hs initiator"
  | HandshakingAsResponder "'hs responder"
  | Ready "'ts transport" u32 "'hs rehandshake option"

record ('hs, 'ts) peer_session =
  config :: peer_config
  state :: "('hs, 'ts) peer_state"
  next_init_at :: "instant option"
  cached_init :: "bytes option"
  last_rx_at :: "instant option"
  last_tx_at :: "instant option"
  last_handshake_at :: "instant option"
  stale :: bool
  init_rx_count :: u32
  init_rx_window_start :: instant
  cookie_required :: bool
  sent_cookie :: "bytes option"
  received_cookie :: "bytes option"

record ('hs, 'ts) manager =
  mcfg :: manager_config
  peers :: "('hs, 'ts) peer_session list"
  endpoint_to_peer :: "socket_addr \<Rightarrow> nat option"
  pubkey_to_peer :: "bytes \<Rightarrow> nat option"
  learned_endpoints :: "bytes \<Rightarrow> socket_addr option"
  last_maintenance_at :: instant
  cookie_secret :: bytes
  cookie_secret_rotated_at :: instant
  last_cookie_secret :: "bytes option"
  sent :: "(socket_addr \<times> bytes) list"
  written :: "bytes list"

record env =
  now :: instant
  tai :: tai64n
  seed :: "nat \<Rightarrow> nat"
  random32 :: bytes
  send_error :: "socket_addr \<Rightarrow> bytes \<Rightarrow> string option"
  device_error :: "bytes \<Rightarrow> string option"
  device_packet :: "tunnel_error + bytes option"

type_synonym ('hs, 'ts, 'a) mact = "(('hs, 'ts) manager, tunnel_error, 'a) act"

fun is_ready_state :: "('hs, 'ts) peer_state \<Rightarrow> bool" where
  "is_ready_state (Ready t sid rh) = True"
| "is_ready_state _ = False"

section \<open>Effects\<close>

definition upd_peer ::
  "nat \<Rightarrow> (('hs, 'ts) peer_session \<Rightarrow> ('hs, 'ts) peer_session) \<Rightarrow>
   ('hs, 'ts) manager \<Rightarrow> ('hs, 'ts) manager" where
  "upd_peer i f m = m\<lparr>peers := (peers m)[i := f (peers m ! i)]\<rparr>"

text \<open>\<open>UdpTransport::send_to\<close> and \<open>Device::write\<close>: the outside accepts or reports an error.\<close>

definition send_to :: "env \<Rightarrow> socket_addr \<Rightarrow> bytes \<Rightarrow> ('hs, 'ts, unit) mact" where
  "send_to E addr buf m =
     (case send_error E addr buf of
        Some e \<Rightarrow> (Err (Io e), m)
      | None \<Rightarrow> (Ok (), m\<lparr>sent := sent m @ [(addr, buf)]\<rparr>))"

definition device_write :: "env \<Rightarrow> bytes \<Rightarrow> ('hs, 'ts, unit) mact" where
  "device_write E buf m =
     (case device_error E buf of
        Some e \<Rightarrow> (Err (Io e), m)
      | None \<Rightarrow> (Ok (), m\<lparr>written := written m @ [buf]\<rparr>))"

definition local_pub :: "('hs, 'ts) manager \<Rightarrow> bytes" where
  "local_pub m = kp_public (local_keypair (mcfg m))"

definition relay_wrap :: "bytes \<Rightarrow> u32 \<Rightarrow> bytes \<Rightarrow> bytes" where
  "relay_wrap from_pub dest_ip body =
     put RELAY_HEADER_SIZE body
       (put 33 (v4_octets dest_ip)
         (put 1 from_pub ((zeros (RELAY_HEADER_SIZE + length body))[0 := MESSAGE_TYPE_RELAY])))"

definition send_maybe_relay ::
  "env \<Rightarrow> socket_addr \<Rightarrow> socket_addr option \<Rightarrow> u32 \<Rightarrow> bytes \<Rightarrow> bytes \<Rightarrow>
   ('hs, 'ts, unit) mact" where
  "send_maybe_relay E endpoint relay dest_ip from_pub body =
     (case relay of
        Some r \<Rightarrow> send_to E r (relay_wrap from_pub dest_ip body)
      | None \<Rightarrow> send_to E endpoint body)"

section \<open>Construction\<close>

definition session_new ::
  "('hs, 'ts) crypto \<Rightarrow> env \<Rightarrow> keypair \<Rightarrow> nat \<Rightarrow> peer_config \<Rightarrow>
   (tunnel_error, ('hs, 'ts) peer_session) outcome" where
  "session_new C E kp i cfg =
     try_ok
       (if is_initiator cfg
        then (case initiator_new C kp (peer_pub cfg) (psk cfg) (local_sender_id cfg) (tai E) (seed E i) of
                Ok ini \<Rightarrow> Ok (HandshakingAsInitiator ini)
              | Err e \<Rightarrow> Err (Crypto e)
              | Panic p \<Rightarrow> Panic p)
        else (case responder_new C kp (psk cfg) (local_sender_id cfg) (tai E) (seed E i) of
                Ok rsp \<Rightarrow> Ok (HandshakingAsResponder rsp)
              | Err e \<Rightarrow> Err (Crypto e)
              | Panic p \<Rightarrow> Panic p))
       (\<lambda>st. Ok \<lparr>config = cfg, state = st,
                next_init_at = (if is_initiator cfg then Some (now E) else None),
                cached_init = None, last_rx_at = None, last_tx_at = None,
                last_handshake_at = None, stale = False, init_rx_count = 0,
                init_rx_window_start = now E, cookie_required = False,
                sent_cookie = None, received_cookie = None\<rparr>)"

fun new_sessions ::
  "('hs, 'ts) crypto \<Rightarrow> env \<Rightarrow> nat \<Rightarrow> peer_config list \<Rightarrow> ('hs, 'ts) manager \<Rightarrow>
   (tunnel_error, ('hs, 'ts) manager) outcome" where
  "new_sessions C E i [] m = Ok m"
| "new_sessions C E i (cfg # cfgs) m =
     try_ok (session_new C E (local_keypair (mcfg m)) i cfg)
       (\<lambda>s. new_sessions C E (Suc i) cfgs
          (m\<lparr>endpoint_to_peer := (endpoint_to_peer m)(peer_endpoint cfg \<mapsto> i),
             pubkey_to_peer := (pubkey_to_peer m)(peer_pub cfg \<mapsto> i),
             peers := peers m @ [s]\<rparr>))"

definition manager_new ::
  "('hs, 'ts) crypto \<Rightarrow> env \<Rightarrow> manager_config \<Rightarrow> peer_config list \<Rightarrow>
   (tunnel_error, ('hs, 'ts) manager) outcome" where
  "manager_new C E cfg peer_cfgs =
     new_sessions C E 0 peer_cfgs
       \<lparr>mcfg = cfg, peers = [], endpoint_to_peer = Map.empty, pubkey_to_peer = Map.empty,
        learned_endpoints = Map.empty, last_maintenance_at = now E, cookie_secret = random32 E,
        cookie_secret_rotated_at = now E, last_cookie_secret = None, sent = [], written = []\<rparr>"

definition add_peer :: "('hs, 'ts) crypto \<Rightarrow> env \<Rightarrow> peer_config \<Rightarrow> ('hs, 'ts, bool) mact" where
  "add_peer C E cfg m =
     (if pubkey_to_peer m (peer_pub cfg) \<noteq> None then (Ok False, m)
      else
        let i = length (peers m) in
        case session_new C E (local_keypair (mcfg m)) i cfg of
          Err e \<Rightarrow> (Err e, m)
        | Panic p \<Rightarrow> (Panic p, m)
        | Ok s \<Rightarrow>
            (Ok True,
             m\<lparr>endpoint_to_peer := (endpoint_to_peer m)(peer_endpoint cfg \<mapsto> i),
               pubkey_to_peer := (pubkey_to_peer m)(peer_pub cfg \<mapsto> i),
               peers := peers m @ [s]\<rparr>))"

section \<open>Queries\<close>

definition is_ready :: "('hs, 'ts) manager \<Rightarrow> bool" where
  "is_ready m \<longleftrightarrow> peers m \<noteq> [] \<and> list_all (\<lambda>p. is_ready_state (state p)) (peers m)"

definition any_peer_ready :: "('hs, 'ts) manager \<Rightarrow> bool" where
  "any_peer_ready m \<longleftrightarrow> list_ex (\<lambda>p. is_ready_state (state p)) (peers m)"

definition peer_count :: "('hs, 'ts) manager \<Rightarrow> nat" where
  "peer_count m = length (peers m)"

definition ready_peer_count :: "('hs, 'ts) manager \<Rightarrow> nat" where
  "ready_peer_count m = length (filter (\<lambda>p. is_ready_state (state p)) (peers m))"

definition is_peer_stale :: "('hs, 'ts) manager \<Rightarrow> nat \<Rightarrow> bool" where
  "is_peer_stale m idx = (if idx < length (peers m) then stale (peers m ! idx) else False)"

text \<open>The two age queries, before the conversion to floating-point seconds.\<close>

definition peer_handshake_age :: "('hs, 'ts) manager \<Rightarrow> instant \<Rightarrow> nat \<Rightarrow> duration option" where
  "peer_handshake_age m t idx =
     (if idx < length (peers m)
      then map_option (duration_since t) (last_handshake_at (peers m ! idx)) else None)"

definition peer_tx_age :: "('hs, 'ts) manager \<Rightarrow> instant \<Rightarrow> nat \<Rightarrow> duration option" where
  "peer_tx_age m t idx =
     (if idx < length (peers m)
      then map_option (duration_since t) (last_tx_at (peers m ! idx)) else None)"

end
