(* ===== verification/Manager_Handlers.thy ===== *)
theory Manager_Handlers
  imports Manager
begin

text \<open>
  The message handlers of \<open>TunnelManager\<close> (\<open>naboscale-tunnel/src/manager.rs\<close>), in the order of
  the source: cookie protection, packets from the TUN device, dispatch of incoming datagrams,
  relaying, and the three handshake handlers.
\<close>

section \<open>Cookie protection\<close>

text \<open>\<open>copy_from_slice\<close> panics unless both slices have one length.\<close>

definition copied :: "nat \<Rightarrow> bytes \<Rightarrow> (tunnel_error, bytes) outcome" where
  "copied dst_len src =
     (if length src = dst_len then Ok src
      else Panic ''copy_from_slice: source slice length does not match destination slice length'')"

text \<open>
  \<open>generate_cookie\<close> copies the octets of the source address into the last 6 of 38 bytes.  For an
  IPv6 source it converts the first 6 octets into an array, whose type the IPv4 arm of the same
  \<open>match\<close> fixes as \<open>[u8; 4]\<close>; \<open>unwrap\<close> panics when the lengths differ.
\<close>

definition source_octets :: "socket_addr \<Rightarrow> (tunnel_error, bytes) outcome" where
  "source_octets source =
     (case sock_ip source of
        V4 a \<Rightarrow> Ok (v4_octets a)
      | V6 a \<Rightarrow>
          (if length (take 6 (v6_octets a)) = 4 then Ok (take 6 (v6_octets a))
           else Panic ''called Result::unwrap() on an Err value: TryFromSliceError''))"

definition generate_cookie ::
  "('hs, 'ts) crypto \<Rightarrow> ('hs, 'ts) manager \<Rightarrow> socket_addr \<Rightarrow> (tunnel_error, bytes) outcome" where
  "generate_cookie C m source =
     (let key_material = put 0 (cookie_secret m) (zeros (32 + 6))
      in try_ok (source_octets source) (\<lambda>ip.
         try_ok (copied (length (drop 32 key_material)) (take (min 6 (length ip)) ip)) (\<lambda>src.
           let key_material' = put 32 src key_material
           in Ok (compute_mac2 C (take 16 (cookie_secret m)) (drop 32 key_material')))))"

definition send_cookie_reply :: "env \<Rightarrow> nat \<Rightarrow> socket_addr \<Rightarrow> bytes \<Rightarrow> ('hs, 'ts, unit) mact" where
  "send_cookie_reply E peer_idx source cookie m =
     (let recv_id = local_sender_id (config (peers m ! peer_idx));
          pkt = put 8 cookie
                  (put 4 (u32_to_le recv_id) ((zeros COOKIE_SIZE)[0 := MESSAGE_TYPE_COOKIE]))
      in send_to E source pkt m)"

text \<open>
  \<open>Ok True\<close>: the INIT was handled here (cookie sent or packet dropped); \<open>Ok False\<close>: go on.
\<close>

definition count_init :: "env \<Rightarrow> ('hs, 'ts) peer_session \<Rightarrow> ('hs, 'ts) peer_session" where
  "count_init E p =
     (let p1 = (if from_secs 1 \<le> duration_since (now E) (init_rx_window_start p)
                then p\<lparr>init_rx_count := 0, init_rx_window_start := now E\<rparr> else p)
      in p1\<lparr>init_rx_count := init_rx_count p1 + 1\<rparr>)"

definition check_init_cookie ::
  "('hs, 'ts) crypto \<Rightarrow> env \<Rightarrow> nat \<Rightarrow> socket_addr \<Rightarrow> bytes \<Rightarrow> ('hs, 'ts, bool) mact" where
  "check_init_cookie C E peer_idx source pkt m0 =
     (let m = upd_peer peer_idx (count_init E) m0;
          peer = peers m ! peer_idx
      in if cookie_required peer then
           (if length pkt < INIT_WITH_COOKIE_SIZE then (Ok True, m)
            else case sent_cookie peer of
                None \<Rightarrow>
                  (Ok False,
                   upd_peer peer_idx (\<lambda>p. p\<lparr>cookie_required := False, init_rx_count := 0\<rparr>) m)
              | Some issued \<Rightarrow>
                  if compute_mac2 C issued (take MAC2_OFFSET_INIT pkt) \<noteq>
                     seg pkt MAC2_OFFSET_INIT (MAC2_OFFSET_INIT + MAC1_LEN)
                  then (Ok True, m)
                  else (Ok False,
                        upd_peer peer_idx
                          (\<lambda>p. p\<lparr>cookie_required := False, sent_cookie := None,
                                 init_rx_count := 0\<rparr>) m))
         else if COOKIE_INIT_RATE_LIMIT < init_rx_count peer then
           (case generate_cookie C m source of
              Err e \<Rightarrow> (Err e, m)
            | Panic p \<Rightarrow> (Panic p, m)
            | Ok cookie \<Rightarrow>
                andthen (send_cookie_reply E peer_idx source cookie)
                  (\<lambda>_ m1. (Ok True,
                     upd_peer peer_idx
                       (\<lambda>p. p\<lparr>cookie_required := True, sent_cookie := Some cookie\<rparr>) m1)) m)
         else (Ok False, m))"

definition handle_cookie :: "env \<Rightarrow> nat \<Rightarrow> bytes \<Rightarrow> ('hs, 'ts, unit) mact" where
  "handle_cookie E peer_idx pkt m =
     (if length pkt < 24 then (Ok (), m)
      else (Ok (),
            upd_peer peer_idx
              (\<lambda>p. p\<lparr>received_cookie := Some (seg pkt 8 24), cached_init := None,
                     next_init_at := Some (now E)\<rparr>) m))"

section \<open>Packets from the TUN device\<close>

text \<open>\<open>Iterator::position\<close> and \<open>find\<close>: the first index that satisfies a test.\<close>

fun find_index :: "nat \<Rightarrow> ('a \<Rightarrow> bool) \<Rightarrow> 'a list \<Rightarrow> nat option" where
  "find_index i P [] = None"
| "find_index i P (x # xs) = (if P x then Some i else find_index (Suc i) P xs)"

definition lookup_peer_by_dest_ip :: "('hs, 'ts) manager \<Rightarrow> bytes \<Rightarrow> nat option" where
  "lookup_peer_by_dest_ip m pkt =
     (if pkt = [] then None
      else if drop_bit 4 (pkt ! 0) \<noteq> 4 \<or> length pkt < 20 then None
      else
        let dest_ip = ipv4_new (pkt ! 16) (pkt ! 17) (pkt ! 18) (pkt ! 19)
        in find_index 0 (\<lambda>p. peer_ip (config p) = dest_ip) (peers m))"

definition dispatch_tun_packet ::
  "('hs, 'ts) crypto \<Rightarrow> env \<Rightarrow> bytes \<Rightarrow> ('hs, 'ts, unit) mact" where
  "dispatch_tun_packet C E pkt m =
     (case lookup_peer_by_dest_ip m pkt of
        None \<Rightarrow> (Ok (), m)
      | Some peer_idx \<Rightarrow>
          let peer = peers m ! peer_idx; cfg = config peer in
          case state peer of
            Ready transport sid rh \<Rightarrow>
              (case encrypt C pkt sid 1600 transport of
                 (Err e, t') \<Rightarrow>
                   (Err (Crypto e), upd_peer peer_idx (\<lambda>p. p\<lparr>state := Ready t' sid rh\<rparr>) m)
               | (Panic e, t') \<Rightarrow> (Panic e, m)
               | (Ok ct, t') \<Rightarrow>
                   andthen
                     (send_maybe_relay E (peer_endpoint cfg) (via_relay cfg) (peer_ip cfg)
                        (local_pub m) ct)
                     (\<lambda>_ m1. (Ok (), upd_peer peer_idx (\<lambda>p. p\<lparr>last_tx_at := Some (now E)\<rparr>) m1))
                     (upd_peer peer_idx (\<lambda>p. p\<lparr>state := Ready t' sid rh\<rparr>) m))
          | _ \<Rightarrow> (Ok (), m))"

definition identify_initiator_by_mac1 ::
  "('hs, 'ts) crypto \<Rightarrow> ('hs, 'ts) manager \<Rightarrow> bytes \<Rightarrow> nat option" where
  "identify_initiator_by_mac1 C m init_pkt =
     (let mac1 = seg init_pkt MAC1_OFFSET_INIT (MAC1_OFFSET_INIT + MAC1_LEN);
          msg_before_mac = take MAC1_OFFSET_INIT init_pkt
      in find_index 0
           (\<lambda>p. compute_mac1 C (mac1_key C (peer_pub (config p))) msg_before_mac = mac1)
           (peers m))"

section \<open>Handshake handlers\<close>

definition fresh_responder ::
  "('hs, 'ts) crypto \<Rightarrow> env \<Rightarrow> nat \<Rightarrow> ('hs, 'ts) manager \<Rightarrow>
   (tunnel_error, 'hs responder) outcome" where
  "fresh_responder C E peer_idx m =
     (let cfg = config (peers m ! peer_idx) in
      case responder_new C (local_keypair (mcfg m)) (psk cfg) (local_sender_id cfg) (tai E)
             (seed E peer_idx) of
        Ok r \<Rightarrow> Ok r
      | Err e \<Rightarrow> Err (Crypto e)
      | Panic p \<Rightarrow> Panic p)"

text \<open>
  The end of both responder paths: the state is taken out (leaving \<open>Init\<close>), turned into a
  transport and put back as \<open>Ready\<close>.
\<close>

definition responder_ready ::
  "('hs, 'ts) crypto \<Rightarrow> env \<Rightarrow> nat \<Rightarrow> u32 \<Rightarrow> ('hs, 'ts, unit) mact" where
  "responder_ready C E peer_idx sid m =
     (let taken = state (peers m ! peer_idx);
          m1 = upd_peer peer_idx (\<lambda>p. p\<lparr>state := Init\<rparr>) m
      in case taken of
           HandshakingAsResponder r \<Rightarrow>
             (case into_transport C r of
                Err e \<Rightarrow> (Err (Crypto e), m1)
              | Panic p \<Rightarrow> (Panic p, m1)
              | Ok t \<Rightarrow>
                  (Ok (), upd_peer peer_idx
                     (\<lambda>p. p\<lparr>state := Ready t sid None, last_handshake_at := Some (now E),
                            last_rx_at := Some (now E)\<rparr>) m1))
         | _ \<Rightarrow> (Ok (), m1))"

text \<open>
  The waiting responder consumes the INIT; \<open>answer\<close> sends the RESPONSE.  When the INIT is refused
  the responder is replaced by a fresh one.
\<close>

definition initial_respond ::
  "('hs, 'ts) crypto \<Rightarrow> env \<Rightarrow> nat \<Rightarrow> 'hs responder \<Rightarrow> bytes \<Rightarrow>
   (bytes \<Rightarrow> ('hs, 'ts, unit) mact) \<Rightarrow> ('hs, 'ts, unit) mact" where
  "initial_respond C E peer_idx responder pkt answer m =
     (case consume_init C pkt (set_current_time (tai E) responder) of
        (Panic p, r') \<Rightarrow> (Panic p, m)
      | (Err e, r') \<Rightarrow>
          (case fresh_responder C E peer_idx m of
             Ok fresh \<Rightarrow>
               (Ok (), upd_peer peer_idx (\<lambda>p. p\<lparr>state := HandshakingAsResponder fresh\<rparr>) m)
           | Err e' \<Rightarrow>
               (Err e', upd_peer peer_idx (\<lambda>p. p\<lparr>state := HandshakingAsResponder r'\<rparr>) m)
           | Panic p \<Rightarrow> (Panic p, m))
      | (Ok response, r') \<Rightarrow>
          andthen (answer response)
            (\<lambda>_. responder_ready C E peer_idx (u32_from_le (seg pkt 4 8)))
            (upd_peer peer_idx (\<lambda>p. p\<lparr>state := HandshakingAsResponder r'\<rparr>) m))"

definition handle_init ::
  "('hs, 'ts) crypto \<Rightarrow> env \<Rightarrow> nat \<Rightarrow> socket_addr \<Rightarrow> bytes \<Rightarrow> ('hs, 'ts, unit) mact" where
  "handle_init C E peer_idx source pkt m =
     (if length pkt < INIT_SIZE then (Err (InvalidConfig ''init message too short''), m)
      else
        let sid = u32_from_le (seg pkt 4 8) in
        case state (peers m ! peer_idx) of
          Ready old_transport old_sid rh \<Rightarrow>
            (case fresh_responder C E peer_idx m of
               Err e \<Rightarrow> (Err e, m)
             | Panic p \<Rightarrow> (Panic p, m)
             | Ok responder \<Rightarrow>
                 (case consume_init C pkt (set_current_time (tai E) responder) of
                    (Panic p, r') \<Rightarrow> (Panic p, m)
                  | (Err e, r') \<Rightarrow> (Ok (), m)
                  | (Ok response, r') \<Rightarrow>
                      (case into_transport C r' of
                         Err e \<Rightarrow> (Err (Crypto e), m)
                       | Panic p \<Rightarrow> (Panic p, m)
                       | Ok new_transport \<Rightarrow>
                           andthen (send_to E source response)
                             (\<lambda>_ m1. (Ok (), upd_peer peer_idx
                                (\<lambda>p. p\<lparr>state := Ready new_transport sid rh,
                                       last_handshake_at := Some (now E), stale := False\<rparr>) m1))
                             m)))
        | HandshakingAsResponder responder \<Rightarrow>
            initial_respond C E peer_idx responder pkt (send_to E source) m
        | _ \<Rightarrow> (Ok (), m))"

definition handle_init_via_relay ::
  "('hs, 'ts) crypto \<Rightarrow> env \<Rightarrow> nat \<Rightarrow> bytes \<Rightarrow> socket_addr \<Rightarrow> bytes \<Rightarrow> ('hs, 'ts, unit) mact" where
  "handle_init_via_relay C E peer_idx initiator_pub source pkt m =
     (if length pkt < INIT_SIZE then (Err (InvalidConfig ''init message too short''), m)
      else
        let initiator_ip = peer_ip (config (peers m ! peer_idx)) in
        case state (peers m ! peer_idx) of
          HandshakingAsResponder responder \<Rightarrow>
            initial_respond C E peer_idx responder pkt
              (\<lambda>response. send_to E source (relay_wrap (local_pub m) initiator_ip response)) m
        | _ \<Rightarrow> (Ok (), m))"

definition handle_response ::
  "('hs, 'ts) crypto \<Rightarrow> env \<Rightarrow> nat \<Rightarrow> bytes \<Rightarrow> ('hs, 'ts, unit) mact" where
  "handle_response C E peer_idx pkt m =
     (if length pkt < RESPONSE_SIZE then (Err (InvalidConfig ''response message too short''), m)
      else
        let sid = u32_from_le (seg pkt 4 8);
            taken = state (peers m ! peer_idx)
        in case taken of
             Ready transport old_sid (Some rs) \<Rightarrow>
               (case consume_response C (rh_initiator rs) pkt of
                  Err e \<Rightarrow>
                    (Err (Crypto e),
                     upd_peer peer_idx (\<lambda>p. p\<lparr>state := Ready transport old_sid None\<rparr>) m)
                | Panic p \<Rightarrow> (Panic p, m)
                | Ok new_transport \<Rightarrow>
                    (Ok (), upd_peer peer_idx
                       (\<lambda>p. p\<lparr>state := Ready new_transport sid None,
                              last_handshake_at := Some (now E)\<rparr>) m))
           | _ \<Rightarrow>
               (let m1 = upd_peer peer_idx (\<lambda>p. p\<lparr>state := Init\<rparr>) m in
                case taken of
                  HandshakingAsInitiator i \<Rightarrow>
                    (case consume_response C i pkt of
                       Err e \<Rightarrow> (Err (Crypto e), m1)
                     | Panic p \<Rightarrow> (Panic p, m1)
                     | Ok transport \<Rightarrow>
                         (Ok (), upd_peer peer_idx
                            (\<lambda>p. p\<lparr>state := Ready transport sid None,
                                   last_handshake_at := Some (now E)\<rparr>) m1))
                | _ \<Rightarrow> (Ok (), m1)))"

section \<open>Tunnel data\<close>

definition handle_transport :: "('hs, 'ts) crypto \<Rightarrow> env \<Rightarrow> nat \<Rightarrow> bytes \<Rightarrow> ('hs, 'ts, unit) mact" where
  "handle_transport C E peer_idx pkt m =
     (if length pkt < TRANSPORT_HEADER_SIZE + 16
      then (Err (InvalidConfig ''transport packet too short''), m)
      else
        let peer = peers m ! peer_idx in
        if stale peer then (Ok (), m)
        else case state peer of
          Ready transport sid rh \<Rightarrow>
            (case decrypt C pkt 1500 transport of
               (Ok data, t') \<Rightarrow>
                 (let m1 = upd_peer peer_idx (\<lambda>p. p\<lparr>state := Ready t' sid rh\<rparr>) m in
                  if 0 < length data then device_write E data m1 else (Ok (), m1))
             | (Err e, t') \<Rightarrow>
                 (Ok (), upd_peer peer_idx (\<lambda>p. p\<lparr>state := Ready t' sid rh\<rparr>) m)
             | (Panic p, t') \<Rightarrow> (Panic p, m))
        | _ \<Rightarrow> (Ok (), m))"

section \<open>Relaying\<close>

definition relayed_transport :: "('hs, 'ts) crypto \<Rightarrow> env \<Rightarrow> nat \<Rightarrow> bytes \<Rightarrow> ('hs, 'ts, unit) mact" where
  "relayed_transport C E peer_idx body m =
     (case state (peers m ! peer_idx) of
        Ready transport sid rh \<Rightarrow>
          (if length body < TRANSPORT_HEADER_SIZE + 16
           then (Err (InvalidConfig ''relay inner transport packet too short''), m)
           else case decrypt C body 1500 transport of
             (Err e, t') \<Rightarrow>
               (Err (Crypto e), upd_peer peer_idx (\<lambda>p. p\<lparr>state := Ready t' sid rh\<rparr>) m)
           | (Panic p, t') \<Rightarrow> (Panic p, m)
           | (Ok data, t') \<Rightarrow>
               (let m1 = upd_peer peer_idx (\<lambda>p. p\<lparr>state := Ready t' sid rh\<rparr>) m in
                if 0 < length data then device_write E data m1 else (Ok (), m1)))
      | _ \<Rightarrow> (Ok (), m))"

definition handle_relay ::
  "('hs, 'ts) crypto \<Rightarrow> env \<Rightarrow> socket_addr \<Rightarrow> bytes \<Rightarrow> ('hs, 'ts, unit) mact" where
  "handle_relay C E source pkt m =
     (if length pkt < RELAY_HEADER_SIZE then (Err (InvalidConfig ''relay packet too short''), m)
      else
        let from_pub = seg pkt 1 33;
            dest_ip = ipv4_new (pkt ! 33) (pkt ! 34) (pkt ! 35) (pkt ! 36);
            body = drop RELAY_HEADER_SIZE pkt
        in if dest_ip = local_ip (mcfg m) then
             (case pubkey_to_peer m from_pub of
                None \<Rightarrow> (Err (InvalidConfig ''relay from_pub not a known peer''), m)
              | Some peer_idx \<Rightarrow>
                  if length (peers m) \<le> peer_idx then (Panic ''index out of bounds'', m)
                  else if body \<noteq> [] \<and> body ! 0 = MESSAGE_TYPE_TRANSPORT
                  then relayed_transport C E peer_idx body m
                  else if body \<noteq> [] \<and> body ! 0 = MESSAGE_TYPE_INIT
                  then handle_init_via_relay C E peer_idx from_pub source body m
                  else if body \<noteq> [] \<and> body ! 0 = MESSAGE_TYPE_RESPONSE
                  then handle_response C E peer_idx body m
                  else (Err (InvalidConfig ''relay inner is not a recognized message type''), m))
           else
             (case find_index 0 (\<lambda>p. peer_ip (config p) = dest_ip) (peers m) of
                None \<Rightarrow> (Err (InvalidConfig ''relay dest not a known peer''), m)
              | Some dest_idx \<Rightarrow>
                  let dest_cfg = config (peers m ! dest_idx);
                      endpoint = (case learned_endpoints m (peer_pub dest_cfg) of
                                    Some a \<Rightarrow> a | None \<Rightarrow> peer_endpoint dest_cfg)
                  in send_to E endpoint pkt m))"

section \<open>Incoming datagrams\<close>

text \<open>Point the peer's stored endpoint, and the endpoint map, at the source of a packet.\<close>

definition refresh_endpoint ::
  "env \<Rightarrow> nat \<Rightarrow> socket_addr \<Rightarrow> ('hs, 'ts) manager \<Rightarrow> ('hs, 'ts) manager" where
  "refresh_endpoint E peer_idx source m =
     (let old = peer_endpoint (config (peers m ! peer_idx));
          m1 = (if old \<noteq> source
                then upd_peer peer_idx (\<lambda>p. p\<lparr>config := (config p)\<lparr>peer_endpoint := source\<rparr>\<rparr>)
                       (m\<lparr>endpoint_to_peer :=
                            ((endpoint_to_peer m)(old := None))(source \<mapsto> peer_idx)\<rparr>)
                else m)
      in upd_peer peer_idx (\<lambda>p. p\<lparr>last_rx_at := Some (now E)\<rparr>) m1)"

definition guarded_init ::
  "('hs, 'ts) crypto \<Rightarrow> env \<Rightarrow> nat \<Rightarrow> socket_addr \<Rightarrow> bytes \<Rightarrow> ('hs, 'ts, unit) mact" where
  "guarded_init C E peer_idx source pkt =
     andthen (check_init_cookie C E peer_idx source pkt)
       (\<lambda>handled. if handled then ret () else handle_init C E peer_idx source pkt)"

definition handle_message ::
  "('hs, 'ts) crypto \<Rightarrow> env \<Rightarrow> nat \<Rightarrow> socket_addr \<Rightarrow> bytes \<Rightarrow> ('hs, 'ts, unit) mact" where
  "handle_message C E peer_idx source pkt =
     (if pkt ! 0 = MESSAGE_TYPE_INIT then guarded_init C E peer_idx source pkt
      else if pkt ! 0 = MESSAGE_TYPE_RESPONSE then handle_response C E peer_idx pkt
      else if pkt ! 0 = MESSAGE_TYPE_TRANSPORT then handle_transport C E peer_idx pkt
      else if pkt ! 0 = MESSAGE_TYPE_COOKIE then handle_cookie E peer_idx pkt
      else ret ())"

definition handle_incoming ::
  "('hs, 'ts) crypto \<Rightarrow> env \<Rightarrow> socket_addr \<Rightarrow> bytes \<Rightarrow> ('hs, 'ts, unit) mact" where
  "handle_incoming C E source pkt m =
     (if pkt = [] then (Ok (), m)
      else if pkt ! 0 = MESSAGE_TYPE_RELAY then
        (if length pkt < RELAY_HEADER_SIZE then (Ok (), m)
         else
           let from_pub = seg pkt 1 33 in
           case pubkey_to_peer m from_pub of
             None \<Rightarrow> (Ok (), m)
           | Some peer_idx \<Rightarrow>
               if length (peers m) \<le> peer_idx then (Panic ''index out of bounds'', m)
               else
                 let m1 = (if endpoint_to_peer m source = None
                           then m\<lparr>learned_endpoints := (learned_endpoints m)(from_pub \<mapsto> source)\<rparr>
                           else m)
                 in handle_relay C E source pkt
                      (upd_peer peer_idx (\<lambda>p. p\<lparr>last_rx_at := Some (now E)\<rparr>) m1))
      else
        (case endpoint_to_peer m source of
           Some peer_idx \<Rightarrow>
             (if length (peers m) \<le> peer_idx then (Panic ''index out of bounds'', m)
              else handle_message C E peer_idx source pkt (refresh_endpoint E peer_idx source m))
         | None \<Rightarrow>
             (if pkt ! 0 = MESSAGE_TYPE_INIT \<and> INIT_SIZE \<le> length pkt
                 \<and> MAC1_OFFSET_INIT + MAC1_LEN \<le> length pkt
              then (case identify_initiator_by_mac1 C m pkt of
                      Some peer_idx \<Rightarrow>
                        guarded_init C E peer_idx source pkt (refresh_endpoint E peer_idx source m)
                    | None \<Rightarrow> (Ok (), m))
              else (Ok (), m))))"

end
