(* ===== verification/Manager_Step.thy ===== *)
theory Manager_Step
  imports Manager_Handlers
begin

text \<open>
  The driving loop of \<open>TunnelManager\<close> (\<open>naboscale-tunnel/src/manager.rs\<close>): \<open>step\<close> drains the
  socket, sends the handshake INITs that are due, forwards one packet of the TUN device and runs
  the periodic maintenance; \<open>run_until_ready\<close> repeats it.

  One step sees a list \<open>arrivals\<close> of what successive \<open>try_recv_from\<close> calls return before the
  socket would block, each with the environment its handler runs in, and one environment for the
  rest of the step.  \<open>maintenance\<close> first plans its actions from the unchanged peer list and then
  performs them in order, as the code does; an error stops the rest.
\<close>

section \<open>Draining the socket\<close>

type_synonym arrival = "env \<times> (tunnel_error + socket_addr \<times> bytes)"

text \<open>The receive buffer has 2048 bytes; a longer datagram is cut.\<close>

fun drain :: "('hs, 'ts) crypto \<Rightarrow> arrival list \<Rightarrow> ('hs, 'ts, unit) mact" where
  "drain C [] = ret ()"
| "drain C ((E, Inl e) # as) = (\<lambda>m. (Err e, m))"
| "drain C ((E, Inr (source, pkt)) # as) =
     andthen (handle_incoming C E source (take 2048 pkt)) (\<lambda>_. drain C as)"

section \<open>Sending INITs\<close>

definition init_with_cookie :: "('hs, 'ts) crypto \<Rightarrow> bytes option \<Rightarrow> bytes \<Rightarrow> bytes" where
  "init_with_cookie C received init_msg =
     (case received of
        Some cookie \<Rightarrow>
          (let extended = put 0 init_msg (zeros INIT_WITH_COOKIE_SIZE);
               mac2 = compute_mac2 C cookie (take MAC2_OFFSET_INIT extended)
           in put MAC2_OFFSET_INIT mac2 extended)
      | None \<Rightarrow> init_msg)"

definition init_due :: "env \<Rightarrow> ('hs, 'ts) peer_session \<Rightarrow> bool" where
  "init_due E p = (case next_init_at p of None \<Rightarrow> False | Some t \<Rightarrow> t \<le> now E)"

definition send_cached_init :: "env \<Rightarrow> nat \<Rightarrow> bytes \<Rightarrow> ('hs, 'ts, unit) mact" where
  "send_cached_init E i init_msg m =
     (let cfg = config (peers m ! i) in
      andthen (send_maybe_relay E (peer_endpoint cfg) (via_relay cfg) (peer_ip cfg) (local_pub m) init_msg)
        (\<lambda>_ m1. (Ok (), upd_peer i (\<lambda>p. p\<lparr>next_init_at := Some (now E + INIT_RETRY_INTERVAL)\<rparr>) m1)) m)"

definition init_tick :: "('hs, 'ts) crypto \<Rightarrow> env \<Rightarrow> nat \<Rightarrow> ('hs, 'ts, unit) mact" where
  "init_tick C E i m =
     (let peer = peers m ! i in
      if init_due E peer then
        (case state peer of
           HandshakingAsInitiator initiator \<Rightarrow>
             (case cached_init peer of
                Some init_msg \<Rightarrow> send_cached_init E i init_msg m
              | None \<Rightarrow>
                  (case write_init C initiator of
                     (Err e, initiator') \<Rightarrow>
                       (Err (Crypto e),
                        upd_peer i (\<lambda>p. p\<lparr>state := HandshakingAsInitiator initiator'\<rparr>) m)
                   | (Panic msg, initiator') \<Rightarrow> (Panic msg, m)
                   | (Ok init_msg, initiator') \<Rightarrow>
                       (let full_init = init_with_cookie C (received_cookie peer) init_msg in
                        send_cached_init E i full_init
                          (upd_peer i
                             (\<lambda>p. p\<lparr>state := HandshakingAsInitiator initiator',
                                    cached_init := Some full_init\<rparr>) m))))
         | _ \<Rightarrow> (Ok (), upd_peer i (\<lambda>p. p\<lparr>next_init_at := None, cached_init := None\<rparr>) m))
      else (Ok (), m))"

definition init_ticks :: "('hs, 'ts) crypto \<Rightarrow> env \<Rightarrow> ('hs, 'ts, unit) mact" where
  "init_ticks C E m = for_each (init_tick C E) [0..<length (peers m)] m"

section \<open>One packet of the device\<close>

definition read_device :: "('hs, 'ts) crypto \<Rightarrow> env \<Rightarrow> ('hs, 'ts, unit) mact" where
  "read_device C E m =
     (if any_peer_ready m
      then (case device_packet E of
              Inl e \<Rightarrow> (Err e, m)
            | Inr None \<Rightarrow> (Ok (), m)
            | Inr (Some pkt) \<Rightarrow> dispatch_tun_packet C E (take 1500 pkt) m)
      else (Ok (), m))"

section \<open>Maintenance\<close>

datatype 'hs action =
    MarkStale
  | SendKeepalive
  | StartRekey "'hs initiator" bytes
  | RetryRekey

definition needs_keepalive :: "manager_timings \<Rightarrow> instant \<Rightarrow> ('hs, 'ts) peer_session \<Rightarrow> bool" where
  "needs_keepalive T t p =
     (case last_tx_at p of None \<Rightarrow> True | Some tx \<Rightarrow> keepalive T < duration_since t tx)"

definition rekey_due :: "manager_timings \<Rightarrow> instant \<Rightarrow> ('hs, 'ts) peer_session \<Rightarrow> bool" where
  "rekey_due T t p =
     (case last_handshake_at p of None \<Rightarrow> False | Some h \<Rightarrow> rekey_after T < duration_since t h)"

definition rx_timed_out :: "manager_timings \<Rightarrow> instant \<Rightarrow> ('hs, 'ts) peer_session \<Rightarrow> bool" where
  "rx_timed_out T t p =
     (case last_rx_at p of None \<Rightarrow> False | Some rx \<Rightarrow> reject_after T < duration_since t rx)"

text \<open>A failure to build or write the rekey INIT is logged and nothing is planned.\<close>

definition build_rekey ::
  "('hs, 'ts) crypto \<Rightarrow> env \<Rightarrow> keypair \<Rightarrow> nat \<Rightarrow> ('hs, 'ts) peer_session \<Rightarrow> 'hs action list" where
  "build_rekey C E kp i p =
     (case initiator_new C kp (peer_pub (config p)) (psk (config p)) (local_sender_id (config p))
             (tai E) (seed E i) of
        Ok ini \<Rightarrow>
          (case write_init C ini of
             (Ok msg, ini') \<Rightarrow> [StartRekey ini' (init_with_cookie C (received_cookie p) msg)]
           | _ \<Rightarrow> [])
      | _ \<Rightarrow> [])"

definition plan_peer ::
  "('hs, 'ts) crypto \<Rightarrow> env \<Rightarrow> manager_config \<Rightarrow> nat \<Rightarrow> ('hs, 'ts) peer_session \<Rightarrow> 'hs action list" where
  "plan_peer C E cfg i p =
     (if stale p then []
      else case state p of
        Ready t sid (Some rs) \<Rightarrow> (if rh_next_retry_at rs \<le> now E then [RetryRekey] else [])
      | Ready t sid None \<Rightarrow>
          (if rx_timed_out (timings cfg) (now E) p then [MarkStale]
           else
             (if needs_keepalive (timings cfg) (now E) p then [SendKeepalive] else []) @
             (if is_initiator (config p) \<and> rekey_due (timings cfg) (now E) p
                 \<and> \<not> is_unspecified (sock_ip (peer_endpoint (config p)))
              then build_rekey C E (local_keypair cfg) i p else []))
      | _ \<Rightarrow> [])"

definition plan :: "('hs, 'ts) crypto \<Rightarrow> env \<Rightarrow> ('hs, 'ts) manager \<Rightarrow> (nat \<times> 'hs action) list" where
  "plan C E m =
     concat (map (\<lambda>i. map (Pair i) (plan_peer C E (mcfg m) i (peers m ! i))) [0..<length (peers m)])"

definition send_keepalive :: "('hs, 'ts) crypto \<Rightarrow> env \<Rightarrow> nat \<Rightarrow> ('hs, 'ts, unit) mact" where
  "send_keepalive C E i m =
     (let cfg = config (peers m ! i) in
      case state (peers m ! i) of
        Ready transport sid rh \<Rightarrow>
          (case encrypt C [] sid (TRANSPORT_HEADER_SIZE + 16) transport of
             (Err e, t') \<Rightarrow> (Err (Crypto e), upd_peer i (\<lambda>p. p\<lparr>state := Ready t' sid rh\<rparr>) m)
           | (Panic e, t') \<Rightarrow> (Panic e, m)
           | (Ok ct, t') \<Rightarrow>
               andthen
                 (send_maybe_relay E (peer_endpoint cfg) (via_relay cfg) (peer_ip cfg) (local_pub m) ct)
                 (\<lambda>_ m1. (Ok (), upd_peer i (\<lambda>p. p\<lparr>last_tx_at := Some (now E)\<rparr>) m1))
                 (upd_peer i (\<lambda>p. p\<lparr>state := Ready t' sid rh\<rparr>) m))
      | _ \<Rightarrow> (Ok (), m))"

fun set_rehandshake :: "'hs rehandshake \<Rightarrow> ('hs, 'ts) peer_state \<Rightarrow> ('hs, 'ts) peer_state" where
  "set_rehandshake rs (Ready t sid rh) = Ready t sid (Some rs)"
| "set_rehandshake rs st = st"

definition start_rekey :: "env \<Rightarrow> nat \<Rightarrow> 'hs initiator \<Rightarrow> bytes \<Rightarrow> ('hs, 'ts, unit) mact" where
  "start_rekey E i initiator init_msg m =
     (let cfg = config (peers m ! i) in
      andthen
        (send_maybe_relay E (peer_endpoint cfg) (via_relay cfg) (peer_ip cfg) (local_pub m) init_msg)
        (\<lambda>_ m1. (Ok (), upd_peer i
           (\<lambda>p. p\<lparr>state := set_rehandshake
                    \<lparr>rh_initiator = initiator, rh_init_msg = init_msg, rh_started_at = now E,
                     rh_next_retry_at = now E + INIT_RETRY_INTERVAL\<rparr> (state p)\<rparr>) m1)) m)"

definition retry_rekey :: "env \<Rightarrow> nat \<Rightarrow> ('hs, 'ts, unit) mact" where
  "retry_rekey E i m =
     (let cfg = config (peers m ! i) in
      case state (peers m ! i) of
        Ready t sid (Some rs) \<Rightarrow>
          andthen
            (send_maybe_relay E (peer_endpoint cfg) (via_relay cfg) (peer_ip cfg) (local_pub m)
               (rh_init_msg rs))
            (\<lambda>_ m1. (Ok (), upd_peer i
               (\<lambda>p. p\<lparr>state := Ready t sid
                        (Some (rs\<lparr>rh_next_retry_at := now E + INIT_RETRY_INTERVAL\<rparr>))\<rparr>) m1)) m
      | _ \<Rightarrow> (Ok (), m))"

fun perform :: "('hs, 'ts) crypto \<Rightarrow> env \<Rightarrow> nat \<times> 'hs action \<Rightarrow> ('hs, 'ts, unit) mact" where
  "perform C E (i, MarkStale) = (\<lambda>m. (Ok (), upd_peer i (\<lambda>p. p\<lparr>stale := True\<rparr>) m))"
| "perform C E (i, SendKeepalive) = send_keepalive C E i"
| "perform C E (i, StartRekey initiator init_msg) = start_rekey E i initiator init_msg"
| "perform C E (i, RetryRekey) = retry_rekey E i"

definition rotate_cookie_secret :: "env \<Rightarrow> ('hs, 'ts) manager \<Rightarrow> ('hs, 'ts) manager" where
  "rotate_cookie_secret E m =
     (if COOKIE_SECRET_ROTATION \<le> duration_since (now E) (cookie_secret_rotated_at m)
      then m\<lparr>last_cookie_secret := Some (cookie_secret m), cookie_secret := random32 E,
             cookie_secret_rotated_at := now E\<rparr>
      else m)"

definition maintenance :: "('hs, 'ts) crypto \<Rightarrow> env \<Rightarrow> ('hs, 'ts, unit) mact" where
  "maintenance C E m =
     (if duration_since (now E) (last_maintenance_at m) < maintenance_tick (timings (mcfg m))
      then (Ok (), m)
      else
        let m1 = rotate_cookie_secret E (m\<lparr>last_maintenance_at := now E\<rparr>)
        in for_each (perform C E) (plan C E m1) m1)"

section \<open>The step and its repetition\<close>

definition step :: "('hs, 'ts) crypto \<Rightarrow> arrival list \<times> env \<Rightarrow> ('hs, 'ts, unit) mact" where
  "step C input =
     andthen (drain C (fst input)) (\<lambda>_.
       andthen (init_ticks C (snd input)) (\<lambda>_.
         andthen (read_device C (snd input)) (\<lambda>_.
           maintenance C (snd input))))"

text \<open>\<open>max_steps\<close> is the number of inputs.\<close>

fun run_until_ready ::
  "('hs, 'ts) crypto \<Rightarrow> (arrival list \<times> env) list \<Rightarrow> ('hs, 'ts, unit) mact" where
  "run_until_ready C [] = (\<lambda>m. (Err HandshakeTimeout, m))"
| "run_until_ready C (input # inputs) =
     (\<lambda>m. if is_ready m then (Ok (), m)
          else andthen (step C input) (\<lambda>_. run_until_ready C inputs) m)"

text \<open>\<open>run\<close>, observed for as many iterations as there are inputs.\<close>

definition run :: "('hs, 'ts) crypto \<Rightarrow> (arrival list \<times> env) list \<Rightarrow> ('hs, 'ts, unit) mact" where
  "run C = for_each (step C)"

end
