(* ===== verification/Manager_Frame.thy ===== *)
theory Manager_Frame
  imports Manager_Step
begin

text \<open>
  What no operation of the manager changes, and how a session may change.

  \<^item> \<open>session_move\<close>: the moves of a session between the four constructors of \<open>PeerState\<close>.
  \<^item> \<open>handler_frame\<close>: a message handler keeps the configuration, the three address maps and every
    session's configuration; a session moves along \<open>session_move\<close>; the cookie protection is
    never switched on.
  \<^item> \<open>evolution\<close>: the same for the operations that may also move a peer's endpoint.
  \<^item> \<open>maps_ok\<close>: the invariant of the address maps, kept by every operation.
\<close>

section \<open>The session state machine\<close>

datatype kind = KInit | KInitiator | KResponder | KReady

fun kind_of :: "('hs, 'ts) peer_state \<Rightarrow> kind" where
  "kind_of Init = KInit"
| "kind_of (HandshakingAsInitiator i) = KInitiator"
| "kind_of (HandshakingAsResponder r) = KResponder"
| "kind_of (Ready t sid rh) = KReady"

inductive session_move :: "kind \<Rightarrow> kind \<Rightarrow> bool" where
  init_answered: "session_move KResponder KReady"
| response_accepted: "session_move KInitiator KReady"
| session_lost: "session_move k KInit"

inductive_simps session_move_simps [simp]:
  "session_move KInit k" "session_move KReady k" "session_move k KInitiator" "session_move k KResponder"

definition moves :: "kind \<Rightarrow> kind \<Rightarrow> bool" where
  "moves a b \<longleftrightarrow> a = b \<or> b = KInit \<or> (b = KReady \<and> a \<noteq> KInit)"

lemma moves_eq: "moves = session_move\<^sup>*\<^sup>*"
proof (intro ext iffI)
  fix a b assume "moves a b"
  then show "session_move\<^sup>*\<^sup>* a b"
    by (cases a; cases b) (auto simp: moves_def intro: session_move.intros)
next
  fix a b assume "session_move\<^sup>*\<^sup>* a b"
  then show "moves a b"
    by (induction rule: rtranclp_induct) (auto simp: moves_def elim!: session_move.cases)
qed

lemma is_ready_kind: "is_ready_state st \<longleftrightarrow> kind_of st = KReady"
  by (cases st) simp_all

section \<open>Frames\<close>

definition session_frame :: "('hs, 'ts) peer_session \<Rightarrow> ('hs, 'ts) peer_session \<Rightarrow> bool" where
  "session_frame p q \<longleftrightarrow>
     moves (kind_of (state p)) (kind_of (state q)) \<and>
     (cookie_required q \<longrightarrow> cookie_required p) \<and>
     (sent_cookie q \<noteq> None \<longrightarrow> sent_cookie p \<noteq> None)"

definition handler_frame :: "('hs, 'ts) manager \<Rightarrow> ('hs, 'ts) manager \<Rightarrow> bool" where
  "handler_frame m n \<longleftrightarrow>
     mcfg n = mcfg m \<and> endpoint_to_peer n = endpoint_to_peer m \<and>
     pubkey_to_peer n = pubkey_to_peer m \<and> learned_endpoints n = learned_endpoints m \<and>
     length (peers n) = length (peers m) \<and>
     (\<forall>i < length (peers m).
        config (peers n ! i) = config (peers m ! i) \<and> session_frame (peers m ! i) (peers n ! i))"

definition evolution :: "('hs, 'ts) manager \<Rightarrow> ('hs, 'ts) manager \<Rightarrow> bool" where
  "evolution m n \<longleftrightarrow>
     mcfg n = mcfg m \<and> length (peers m) \<le> length (peers n) \<and>
     (\<forall>i < length (peers m).
        config (peers n ! i) =
          (config (peers m ! i))\<lparr>peer_endpoint := peer_endpoint (config (peers n ! i))\<rparr> \<and>
        session_frame (peers m ! i) (peers n ! i))"

lemma session_frame_refl [simp]: "session_frame p p"
  by (simp add: session_frame_def moves_def)

lemma session_frame_trans: "session_frame p q \<Longrightarrow> session_frame q r \<Longrightarrow> session_frame p r"
  by (auto simp: session_frame_def moves_def)

interpretation hf: frame handler_frame
  by unfold_locales (auto simp: handler_frame_def intro: session_frame_trans)

interpretation ev: frame evolution
proof
  fix m n k :: "('a, 'b) manager"
  show "evolution m m" by (simp add: evolution_def)
  assume mn: "evolution m n" and nk: "evolution n k"
  have "config (peers k ! i) =
      (config (peers m ! i))\<lparr>peer_endpoint := peer_endpoint (config (peers k ! i))\<rparr> \<and>
      session_frame (peers m ! i) (peers k ! i)" if i: "i < length (peers m)" for i
  proof
    from i mn have i': "i < length (peers n)" by (simp add: evolution_def)
    have "config (peers n ! i) =
        (config (peers m ! i))\<lparr>peer_endpoint := peer_endpoint (config (peers n ! i))\<rparr>"
      using mn i by (simp add: evolution_def)
    moreover have "config (peers k ! i) =
        (config (peers n ! i))\<lparr>peer_endpoint := peer_endpoint (config (peers k ! i))\<rparr>"
      using nk i' by (simp add: evolution_def)
    ultimately show "config (peers k ! i) =
        (config (peers m ! i))\<lparr>peer_endpoint := peer_endpoint (config (peers k ! i))\<rparr>"
      by (metis peer_config.update_convs(5) peer_config.surjective)
    have "session_frame (peers m ! i) (peers n ! i)" "session_frame (peers n ! i) (peers k ! i)"
      using mn nk i i' by (simp_all add: evolution_def)
    then show "session_frame (peers m ! i) (peers k ! i)" by (rule session_frame_trans)
  qed
  with mn nk show "evolution m k" by (auto simp: evolution_def)
qed

lemma handler_frame_evolution: "handler_frame m n \<Longrightarrow> evolution m n"
  by (simp add: handler_frame_def evolution_def)

lemma stays_handler_evolution: "stays handler_frame f \<Longrightarrow> stays evolution f"
  by (simp add: stays_def handler_frame_evolution)

section \<open>What each operation keeps\<close>

lemma upd_peer_simps [simp]:
  "mcfg (upd_peer i f m) = mcfg m"
  "endpoint_to_peer (upd_peer i f m) = endpoint_to_peer m"
  "pubkey_to_peer (upd_peer i f m) = pubkey_to_peer m"
  "learned_endpoints (upd_peer i f m) = learned_endpoints m"
  "sent (upd_peer i f m) = sent m"
  "written (upd_peer i f m) = written m"
  "cookie_secret (upd_peer i f m) = cookie_secret m"
  "length (peers (upd_peer i f m)) = length (peers m)"
  by (simp_all add: upd_peer_def)

lemma nth_upd_peer [simp]:
  "j < length (peers m) \<Longrightarrow>
   peers (upd_peer i f m) ! j = (if j = i then f (peers m ! j) else peers m ! j)"
  by (simp add: upd_peer_def nth_list_update)

lemma upd_peer_upd_peer [simp]:
  "upd_peer i f (upd_peer i g m) = upd_peer i (\<lambda>p. f (g p)) m"
  by (cases "i < length (peers m)") (simp_all add: upd_peer_def list_update_beyond)

lemma stays_send: "stays handler_frame (send_to E a b)" "stays handler_frame (device_write E c)"
  by (auto simp: stays_def send_to_def device_write_def handler_frame_def split: option.splits)

lemma stays_send_maybe_relay: "stays handler_frame (send_maybe_relay E ep r ip pub b)"
  by (cases r) (simp_all add: stays_def send_maybe_relay_def staysD [OF stays_send(1)])

text \<open>The effects leave everything but the two logs alone.\<close>

lemma send_cases:
  "send_to E a b m = (Ok (), m\<lparr>sent := sent m @ [(a, b)]\<rparr>) \<or>
   (\<exists>e. send_to E a b m = (Err (Io e), m))"
  by (auto simp: send_to_def split: option.splits)

lemma send_maybe_relay_cases:
  obtains (ok) l where "send_maybe_relay E ep r ip pub b m = (Ok (), m\<lparr>sent := l\<rparr>)"
  | (err) e where "send_maybe_relay E ep r ip pub b m = (Err (Io e), m)"
  using send_cases [of E "case r of None \<Rightarrow> ep | Some a \<Rightarrow> a"
      "case r of None \<Rightarrow> b | Some a \<Rightarrow> relay_wrap pub ip b" m]
  by (cases r) (auto simp: send_maybe_relay_def)

lemma count_init_simps [simp]:
  "config (count_init E p) = config p" "state (count_init E p) = state p"
  "cookie_required (count_init E p) = cookie_required p" "sent_cookie (count_init E p) = sent_cookie p"
  by (simp_all add: count_init_def Let_def)

lemma upd_sent_handler_frame:
  "(i < length (peers m) \<Longrightarrow> config (f (peers m ! i)) = config (peers m ! i) \<and>
     session_frame (peers m ! i) (f (peers m ! i))) \<Longrightarrow>
   handler_frame m (upd_peer i f (m\<lparr>sent := l\<rparr>))"
  "(i < length (peers m) \<Longrightarrow> config (f (peers m ! i)) = config (peers m ! i) \<and>
     session_frame (peers m ! i) (f (peers m ! i))) \<Longrightarrow>
   handler_frame m (upd_peer i f m)"
  "handler_frame m (m\<lparr>sent := l\<rparr>)" "handler_frame m (m\<lparr>written := w\<rparr>)" "handler_frame m m"
  by (auto simp: handler_frame_def)

lemma generate_cookie_panics: "\<exists>msg. generate_cookie C m source = Panic msg"
  by (cases "sock_ip source")
    (auto simp: generate_cookie_def source_octets_def copied_def Let_def put_def)

lemma check_init_cookie_frame: "stays handler_frame (check_init_cookie C E i source pkt)"
proof (rule staysI)
  fix m
  obtain msg where "generate_cookie C (upd_peer i (count_init E) m) source = Panic msg"
    using generate_cookie_panics by blast
  then show "handler_frame m (snd (check_init_cookie C E i source pkt m))"
    by (auto simp: check_init_cookie_def Let_def session_frame_def moves_def
        split: option.splits intro!: upd_sent_handler_frame)
qed

lemma handle_cookie_frame: "stays handler_frame (handle_cookie E i pkt)"
  by (auto simp: stays_def handle_cookie_def session_frame_def moves_def
      intro!: upd_sent_handler_frame)

lemma initial_respond_frame:
  assumes "kind_of (state (peers m ! i)) = KResponder"
    and "\<And>resp. stays handler_frame (answer resp)"
  shows "handler_frame m (snd (initial_respond C E i responder pkt answer m))"
proof -
  obtain r r' where ci: "consume_init C pkt (set_current_time (tai E) responder) = (r, r')"
    by (cases "consume_init C pkt (set_current_time (tai E) responder)")
  have upd: "handler_frame m (upd_peer i (\<lambda>p. p\<lparr>state := HandshakingAsResponder x\<rparr>) m)" for x
    using assms(1) by (intro upd_sent_handler_frame) (simp add: session_frame_def moves_def)
  have ready: "stays handler_frame (responder_ready C E i sid)" for sid
    by (auto simp: stays_def responder_ready_def Let_def session_frame_def moves_def
        split: peer_state.splits outcome.splits intro!: upd_sent_handler_frame)
  have answered: "stays handler_frame (andthen (answer resp) (\<lambda>_. responder_ready C E i sid))"
    for resp sid
    by (rule hf.stays_andthen [OF assms(2) ready])
  show ?thesis
  proof (cases r)
    case (Ok resp)
    with ci show ?thesis
      by (simp add: initial_respond_def) (rule hf.frame_trans [OF upd staysD [OF answered]])
  qed (use ci upd in \<open>auto simp: initial_respond_def handler_frame_def split: outcome.splits\<close>)
qed

lemma handle_init_frame: "stays handler_frame (handle_init C E i source pkt)"
proof (rule staysI)
  fix m
  show "handler_frame m (snd (handle_init C E i source pkt m))"
  proof (cases "state (peers m ! i)")
    case (HandshakingAsResponder r)
    then show ?thesis
      by (auto simp: handle_init_def Let_def intro!: upd_sent_handler_frame initial_respond_frame stays_send)
  next
    case (Ready t sid rh)
    then show ?thesis
      by (auto simp: handle_init_def Let_def andthen_def send_to_def session_frame_def moves_def
          split: outcome.splits prod.splits option.splits intro!: upd_sent_handler_frame)
  qed (auto simp: handle_init_def Let_def intro!: upd_sent_handler_frame)
qed

lemma handle_init_via_relay_frame:
  "stays handler_frame (handle_init_via_relay C E i pub source pkt)"
proof (rule staysI)
  fix m
  show "handler_frame m (snd (handle_init_via_relay C E i pub source pkt m))"
    by (cases "state (peers m ! i)")
      (auto simp: handle_init_via_relay_def Let_def
        intro!: upd_sent_handler_frame initial_respond_frame stays_send)
qed

lemma handle_response_frame: "stays handler_frame (handle_response C E i pkt)"
  by (auto simp: stays_def handle_response_def Let_def session_frame_def moves_def
      split: peer_state.splits option.splits outcome.splits intro!: upd_sent_handler_frame)

lemma upd_written_handler_frame:
  "(i < length (peers m) \<Longrightarrow> config (f (peers m ! i)) = config (peers m ! i) \<and>
     session_frame (peers m ! i) (f (peers m ! i))) \<Longrightarrow>
   handler_frame m ((upd_peer i f m)\<lparr>written := w\<rparr>)"
  by (auto simp: handler_frame_def)

lemma handle_transport_frame: "stays handler_frame (handle_transport C E i pkt)"
  by (auto simp: stays_def handle_transport_def device_write_def Let_def session_frame_def moves_def
      split: peer_state.splits option.splits outcome.splits prod.splits
      intro!: upd_sent_handler_frame upd_written_handler_frame)

lemma relayed_transport_frame: "stays handler_frame (relayed_transport C E i pkt)"
  by (auto simp: stays_def relayed_transport_def device_write_def Let_def session_frame_def moves_def
      split: peer_state.splits option.splits outcome.splits prod.splits
      intro!: upd_sent_handler_frame upd_written_handler_frame)

lemma handle_relay_frame: "stays handler_frame (handle_relay C E source pkt)"
  by (auto simp: stays_def handle_relay_def Let_def hf.frame_refl split: option.splits
      intro!: staysD [OF relayed_transport_frame] staysD [OF handle_init_via_relay_frame]
        staysD [OF handle_response_frame] staysD [OF stays_send(1)])

lemma guarded_init_frame: "stays handler_frame (guarded_init C E i source pkt)"
  unfolding guarded_init_def
  by (rule hf.stays_andthen [OF check_init_cookie_frame])
    (simp add: handle_init_frame hf.stays_ret)

lemma handle_message_frame: "stays handler_frame (handle_message C E i source pkt)"
  by (simp add: handle_message_def guarded_init_frame handle_response_frame handle_transport_frame
      handle_cookie_frame hf.stays_ret)

section \<open>The address maps\<close>

text \<open>
  Every entry of the two maps names an existing session; the session an address is mapped to has
  this address as its endpoint, the session a key is mapped to has this key, and every session's
  key is in the map.
\<close>

definition maps_ok :: "('hs, 'ts) manager \<Rightarrow> bool" where
  "maps_ok m \<longleftrightarrow>
     (\<forall>src i. endpoint_to_peer m src = Some i \<longrightarrow>
        i < length (peers m) \<and> peer_endpoint (config (peers m ! i)) = src) \<and>
     (\<forall>pk i. pubkey_to_peer m pk = Some i \<longrightarrow>
        i < length (peers m) \<and> peer_pub (config (peers m ! i)) = pk) \<and>
     (\<forall>i < length (peers m). pubkey_to_peer m (peer_pub (config (peers m ! i))) \<noteq> None)"

lemma maps_okD:
  assumes "maps_ok m"
  shows "endpoint_to_peer m src = Some i \<Longrightarrow> i < length (peers m)"
    and "endpoint_to_peer m src = Some i \<Longrightarrow> peer_endpoint (config (peers m ! i)) = src"
    and "pubkey_to_peer m pk = Some i \<Longrightarrow> i < length (peers m)"
    and "pubkey_to_peer m pk = Some i \<Longrightarrow> peer_pub (config (peers m ! i)) = pk"
  using assms by (auto simp: maps_ok_def)

lemma handler_frame_maps_ok: "handler_frame m n \<Longrightarrow> maps_ok m \<Longrightarrow> maps_ok n"
  by (auto simp: handler_frame_def maps_ok_def)

lemma handler_keeps_maps: "stays handler_frame f \<Longrightarrow> keeps maps_ok f"
  by (auto simp: stays_def keeps_def intro: handler_frame_maps_ok)

lemma refresh_known_source:
  assumes "maps_ok m" and "endpoint_to_peer m source = Some i"
  shows "refresh_endpoint E i source m = upd_peer i (\<lambda>p. p\<lparr>last_rx_at := Some (now E)\<rparr>) m"
  using maps_okD(2) [OF assms] by (simp add: refresh_endpoint_def)

lemma refresh_unknown_source_maps_ok:
  assumes ok: "maps_ok m" and i: "i < length (peers m)"
  shows "maps_ok (refresh_endpoint E i source m)"
proof -
  let ?old = "peer_endpoint (config (peers m ! i))"
  have "endpoint_to_peer m src = Some i \<Longrightarrow> src = ?old" for src
    using maps_okD(2) [OF ok] by blast
  then show ?thesis
    using ok i by (auto simp: maps_ok_def refresh_endpoint_def Let_def split: if_splits)
qed

lemma refresh_endpoint_evolution: "evolution m (refresh_endpoint E i source m)"
  by (auto simp: evolution_def refresh_endpoint_def Let_def session_frame_def moves_def)

lemma find_index_Some:
  "find_index k P xs = Some i \<Longrightarrow> k \<le> i \<and> i < k + length xs \<and> P (xs ! (i - k)) \<and>
     (\<forall>j < i - k. \<not> P (xs ! j))"
proof (induction xs arbitrary: k)
  case (Cons x xs)
  show ?case
  proof (cases "P x")
    case False
    with Cons.prems have "find_index (Suc k) P xs = Some i" by simp
    from Cons.IH [OF this] have IH: "Suc k \<le> i" "i < Suc k + length xs" "P (xs ! (i - Suc k))"
      "\<forall>j < i - Suc k. \<not> P (xs ! j)" by auto
    then obtain d where d: "i - k = Suc d" "i - Suc k = d" by (metis Suc_diff_le diff_Suc_Suc)
    with IH False show ?thesis by (auto simp: nth_Cons split: nat.splits)
  qed (use Cons.prems in simp)
qed simp

lemma find_index_None: "find_index k P xs = None \<longleftrightarrow> (\<forall>x \<in> set xs. \<not> P x)"
  by (induction xs arbitrary: k) auto

lemma find_index_0:
  "find_index 0 P xs = Some i \<Longrightarrow> i < length xs \<and> P (xs ! i) \<and> (\<forall>j < i. \<not> P (xs ! j))"
  using find_index_Some [of 0 P xs i] by simp

lemma identified_lt: "identify_initiator_by_mac1 C m pkt = Some i \<Longrightarrow> i < length (peers m)"
  by (auto simp: identify_initiator_by_mac1_def Let_def dest: find_index_0)

lemma set_learned_maps_ok [simp]:
  "maps_ok (m\<lparr>learned_endpoints := l\<rparr>) = maps_ok m"
  by (simp add: maps_ok_def)

lemma upd_rx_maps_ok [simp]:
  "maps_ok m \<Longrightarrow> maps_ok (upd_peer i (\<lambda>p. p\<lparr>last_rx_at := x\<rparr>) m)"
  by (auto simp: maps_ok_def)

lemma handle_incoming_keeps_maps:
  fixes C :: "('hs, 'ts) crypto"
  shows "keeps maps_ok (handle_incoming C E source pkt)"
proof (rule keepsI)
  fix m :: "('hs, 'ts) manager"
  assume ok: "maps_ok m"
  have relay: "maps_ok n \<Longrightarrow> maps_ok (snd (handle_relay C E source pkt n))" for n :: "('hs, 'ts) manager"
    by (rule keepsD [OF handler_keeps_maps [OF handle_relay_frame]])
  have message: "i < length (peers m) \<Longrightarrow>
      maps_ok (snd (handle_message C E i source pkt (refresh_endpoint E i source m)))" for i
    by (rule keepsD [OF handler_keeps_maps [OF handle_message_frame]
          refresh_unknown_source_maps_ok [OF ok]])
  have init: "i < length (peers m) \<Longrightarrow>
      maps_ok (snd (guarded_init C E i source pkt (refresh_endpoint E i source m)))" for i
    by (rule keepsD [OF handler_keeps_maps [OF guarded_init_frame]
          refresh_unknown_source_maps_ok [OF ok]])
  show "maps_ok (snd (handle_incoming C E source pkt m))"
    unfolding handle_incoming_def Let_def
    by (simp add: ok relay message init not_le identified_lt split: option.split)
qed

lemma handle_incoming_evolution:
  fixes C :: "('hs, 'ts) crypto"
  shows "stays evolution (handle_incoming C E source pkt)"
proof (rule staysI)
  fix m :: "('hs, 'ts) manager"
  have relay: "evolution m (snd (handle_relay C E source pkt n))" if "evolution m n" for n
    by (rule ev.frame_trans [OF that staysD [OF stays_handler_evolution [OF handle_relay_frame]]])
  have message: "evolution m (snd (handle_message C E i source pkt (refresh_endpoint E i source m)))"
    for i
    by (rule ev.frame_trans [OF refresh_endpoint_evolution
          staysD [OF stays_handler_evolution [OF handle_message_frame]]])
  have init: "evolution m (snd (guarded_init C E i source pkt (refresh_endpoint E i source m)))" for i
    by (rule ev.frame_trans [OF refresh_endpoint_evolution
          staysD [OF stays_handler_evolution [OF guarded_init_frame]]])
  have learned: "evolution m (upd_peer i (\<lambda>p. p\<lparr>last_rx_at := x\<rparr>) (m\<lparr>learned_endpoints := l\<rparr>))"
    "evolution m (upd_peer i (\<lambda>p. p\<lparr>last_rx_at := x\<rparr>) m)" for i x l
    by (auto simp: evolution_def session_frame_def moves_def)
  show "evolution m (snd (handle_incoming C E source pkt m))"
    unfolding handle_incoming_def Let_def
    by (simp add: ev.frame_refl relay message init learned split: option.split)
qed

section \<open>The driving loop\<close>

lemma drain_all:
  assumes "\<And>E source pkt. P (handle_incoming C E source pkt)"
    and "P (ret ())" and "\<And>e. P (\<lambda>m. (Err e, m))"
    and "\<And>f g. P f \<Longrightarrow> P g \<Longrightarrow> P (andthen f (\<lambda>_. g))"
  shows "P (drain C as)"
proof (induction as)
  case (Cons a as)
  obtain E r where "a = (E, r)" by (cases a)
  then show ?case
    by (cases r) (use Cons.IH assms(1, 3) in \<open>auto intro!: assms(4)\<close>)
qed (use assms(2) in simp)

lemma after_send:
  assumes "handler_frame m n" and "\<And>l. handler_frame m (snd (k () (n\<lparr>sent := l\<rparr>)))"
  shows "handler_frame m (snd (andthen (send_maybe_relay E ep r ip pub b) k n))"
  by (cases rule: send_maybe_relay_cases
      [where E = E and ep = ep and r = r and ip = ip and pub = pub and b = b and m = n])
    (simp_all add: act_simps assms)

lemma send_cached_init_frame: "stays handler_frame (send_cached_init E i msg)"
  by (auto simp: stays_def send_cached_init_def Let_def session_frame_def moves_def
      intro!: after_send upd_sent_handler_frame)

lemma init_tick_frame:
  fixes C :: "('hs, 'ts) crypto"
  shows "stays handler_frame (init_tick C E i)"
proof (rule staysI)
  fix m :: "('hs, 'ts) manager"
  have send: "handler_frame m (snd (send_cached_init E i msg n))" if "handler_frame m n" for msg n
    using that staysD [OF send_cached_init_frame] hf.frame_trans by blast
  show "handler_frame m (snd (init_tick C E i m))"
    by (auto simp: init_tick_def Let_def session_frame_def moves_def
        split: peer_state.splits option.splits prod.splits outcome.splits
        intro!: send upd_sent_handler_frame)
qed

lemma init_ticks_frame: "stays handler_frame (init_ticks C E)"
  by (auto simp: stays_def init_ticks_def
      intro!: staysD [OF hf.stays_for_each] init_tick_frame)

lemma encrypted_send_frame:
  assumes "state (peers m ! i) = Ready t sid rh"
  shows "handler_frame m
    (snd (andthen (send_maybe_relay E ep r ip pub ct)
            (\<lambda>_ m1. (Ok (), upd_peer i (\<lambda>p. p\<lparr>last_tx_at := x\<rparr>) m1))
            (upd_peer i (\<lambda>p. p\<lparr>state := Ready t' sid rh\<rparr>) m)))"
  using assms
  by (intro after_send) (auto simp: session_frame_def moves_def handler_frame_def)

lemma dispatch_tun_packet_frame: "stays handler_frame (dispatch_tun_packet C E pkt)"
  by (auto simp: stays_def dispatch_tun_packet_def Let_def session_frame_def moves_def
      split: option.splits peer_state.splits prod.splits outcome.splits
      intro!: encrypted_send_frame upd_sent_handler_frame)

lemma read_device_frame: "stays handler_frame (read_device C E)"
  by (auto simp: stays_def read_device_def hf.frame_refl split: sum.splits option.splits
      intro!: staysD [OF dispatch_tun_packet_frame])

lemma perform_frame: "stays handler_frame (perform C E (i, a))"
proof (rule staysI)
  fix m
  show "handler_frame m (snd (perform C E (i, a) m))"
  proof (cases a)
    case MarkStale
    then show ?thesis by (auto simp: session_frame_def moves_def intro!: upd_sent_handler_frame)
  next
    case SendKeepalive
    then show ?thesis
      by (auto simp: send_keepalive_def Let_def session_frame_def moves_def
          split: peer_state.splits prod.splits outcome.splits
          intro!: encrypted_send_frame upd_sent_handler_frame)
  next
    case (StartRekey ini msg)
    have "moves (kind_of st) (kind_of (set_rehandshake rs st))" for rs st
      by (cases st) (simp_all add: moves_def)
    with StartRekey show ?thesis
      by (auto simp: start_rekey_def Let_def session_frame_def
          intro!: after_send upd_sent_handler_frame)
  next
    case RetryRekey
    then show ?thesis
      by (auto simp: retry_rekey_def Let_def session_frame_def moves_def
          split: peer_state.split option.split intro!: after_send upd_sent_handler_frame)
  qed
qed

lemma rotate_frame: "handler_frame m (rotate_cookie_secret E (m\<lparr>last_maintenance_at := t\<rparr>))"
  by (simp add: rotate_cookie_secret_def handler_frame_def)

lemma maintenance_frame: "stays handler_frame (maintenance C E)"
proof (rule staysI)
  fix m
  have "stays handler_frame (perform C E x)" for x
    by (cases x) (simp add: perform_frame)
  then have "stays handler_frame (for_each (perform C E) xs)" for xs
    by (rule hf.stays_for_each)
  from staysD [OF this] show "handler_frame m (snd (maintenance C E m))"
    by (auto simp: maintenance_def Let_def hf.frame_refl intro: hf.frame_trans [OF rotate_frame])
qed

lemma drain_evolution: "stays evolution (drain C as)"
proof (rule drain_all [where P = "stays evolution"])
  show "stays evolution (\<lambda>m. (Err e, m))" for e by (simp add: stays_def ev.frame_refl)
qed (simp_all add: handle_incoming_evolution ev.stays_ret ev.stays_andthen)

lemma drain_keeps_maps: "keeps maps_ok (drain C as)"
proof (rule drain_all [where P = "keeps maps_ok"])
  show "keeps maps_ok (\<lambda>m. (Err e, m))" for e by (simp add: keeps_def)
qed (simp_all add: handle_incoming_keeps_maps keeps_ret keeps_andthen)

lemma step_evolution: "stays evolution (step C input)"
  unfolding step_def
  by (intro ev.stays_andthen drain_evolution stays_handler_evolution [OF init_ticks_frame]
      stays_handler_evolution [OF read_device_frame] stays_handler_evolution [OF maintenance_frame])

lemma step_keeps_maps: "keeps maps_ok (step C input)"
  unfolding step_def
  by (intro keeps_andthen drain_keeps_maps handler_keeps_maps [OF init_ticks_frame]
      handler_keeps_maps [OF read_device_frame] handler_keeps_maps [OF maintenance_frame])

end
