(* ===== verification/Manager_Safety.thy ===== *)
theory Manager_Safety
  imports Manager_Frame
begin

text \<open>
  The manager from its construction on: the operations an owner calls (\<open>step\<close>, \<open>add_peer\<close>) keep
  the address maps and never switch the cookie protection on; where a datagram makes the manager
  panic; how a session can move; what one forged RESPONSE does to it.
\<close>

section \<open>Construction and operations\<close>

definition no_cookies :: "('hs, 'ts) manager \<Rightarrow> bool" where
  "no_cookies m \<longleftrightarrow>
     (\<forall>i < length (peers m). \<not> cookie_required (peers m ! i) \<and> sent_cookie (peers m ! i) = None)"

definition manager_ok :: "('hs, 'ts) manager \<Rightarrow> bool" where
  "manager_ok m \<longleftrightarrow> maps_ok m \<and> no_cookies m"

datatype manager_op = Step "arrival list \<times> env" | AddPeer env peer_config

fun apply_op :: "('hs, 'ts) crypto \<Rightarrow> manager_op \<Rightarrow> ('hs, 'ts) manager \<Rightarrow> ('hs, 'ts) manager" where
  "apply_op C (Step input) m = snd (step C input m)"
| "apply_op C (AddPeer E cfg) m = snd (add_peer C E cfg m)"

lemma session_new_OkD:
  assumes "session_new C E kp i cfg = Ok s"
  shows "config s = cfg" "\<not> cookie_required s" "sent_cookie s = None"
    "kind_of (state s) = (if is_initiator cfg then KInitiator else KResponder)"
  using assms
  by (auto simp: session_new_def try_ok_Ok_iff split: if_splits outcome.splits)

definition push_session ::
  "peer_config \<Rightarrow> ('hs, 'ts) peer_session \<Rightarrow> ('hs, 'ts) manager \<Rightarrow> ('hs, 'ts) manager" where
  "push_session cfg s m =
     m\<lparr>endpoint_to_peer := (endpoint_to_peer m)(peer_endpoint cfg \<mapsto> length (peers m)),
       pubkey_to_peer := (pubkey_to_peer m)(peer_pub cfg \<mapsto> length (peers m)),
       peers := peers m @ [s]\<rparr>"

lemma push_session_ok:
  assumes ok: "manager_ok m" and s: "session_new C E kp i cfg = Ok s"
  shows "manager_ok (push_session cfg s m)"
  using ok session_new_OkD [OF s]
  by (auto simp: manager_ok_def maps_ok_def no_cookies_def push_session_def nth_append less_Suc_eq
      split: if_splits)

lemma push_session_evolution: "evolution m (push_session cfg s m)"
  by (simp add: evolution_def push_session_def nth_append)

lemma new_sessions_ok:
  "new_sessions C E (length (peers m)) cfgs m = Ok m' \<Longrightarrow> manager_ok m \<Longrightarrow>
   manager_ok m' \<and> length (peers m') = length (peers m) + length cfgs"
proof (induction cfgs arbitrary: m)
  case (Cons cfg cfgs)
  then obtain s where s: "session_new C E (local_keypair (mcfg m)) (length (peers m)) cfg = Ok s"
    and rest: "new_sessions C E (Suc (length (peers m))) cfgs (push_session cfg s m) = Ok m'"
    by (auto simp: try_ok_Ok_iff push_session_def)
  have "length (peers (push_session cfg s m)) = Suc (length (peers m))"
    by (simp add: push_session_def)
  with Cons.IH [of "push_session cfg s m"] rest push_session_ok [OF Cons.prems(2) s]
  show ?case by simp
qed simp

lemma manager_new_ok: "manager_new C E cfg pcs = Ok m \<Longrightarrow> manager_ok m"
proof -
  let ?m0 = "\<lparr>mcfg = cfg, peers = [] :: ('a, 'b) peer_session list, endpoint_to_peer = Map.empty,
      pubkey_to_peer = Map.empty, learned_endpoints = Map.empty, last_maintenance_at = now E,
      cookie_secret = random32 E, cookie_secret_rotated_at = now E, last_cookie_secret = None,
      sent = [], written = []\<rparr>"
  assume "manager_new C E cfg pcs = Ok m"
  then have "new_sessions C E (length (peers ?m0)) pcs ?m0 = Ok m" by (simp add: manager_new_def)
  moreover have "manager_ok ?m0" by (simp add: manager_ok_def maps_ok_def no_cookies_def)
  ultimately show ?thesis using new_sessions_ok by blast
qed

lemma add_peer_cases:
  obtains (known) "pubkey_to_peer m (peer_pub cfg) \<noteq> None" "add_peer C E cfg m = (Ok False, m)"
  | (added) s where "pubkey_to_peer m (peer_pub cfg) = None"
      "session_new C E (local_keypair (mcfg m)) (length (peers m)) cfg = Ok s"
      "add_peer C E cfg m = (Ok True, push_session cfg s m)"
  | (failed) r where "add_peer C E cfg m = (r, m)" "\<not> is_ok r"
  by (cases "session_new C E (local_keypair (mcfg m)) (length (peers m)) cfg";
      cases "pubkey_to_peer m (peer_pub cfg)")
    (auto simp: add_peer_def push_session_def Let_def)

lemma evolution_no_cookies:
  assumes "evolution m n" and "no_cookies m" and "length (peers n) = length (peers m)"
  shows "no_cookies n"
  using assms unfolding evolution_def session_frame_def no_cookies_def by auto

lemma handle_incoming_same_length: "length (peers (snd (handle_incoming C E source pkt m))) = length (peers m)"
proof -
  have hf: "handler_frame n k \<Longrightarrow> length (peers k) = length (peers n)"
    for n k :: "('a, 'b) manager" by (simp add: handler_frame_def)
  note lens = hf [OF staysD [OF handle_relay_frame]] hf [OF staysD [OF handle_message_frame]]
    hf [OF staysD [OF guarded_init_frame]]
  show ?thesis
    unfolding handle_incoming_def Let_def
    by (simp add: lens refresh_endpoint_def Let_def split: option.split)
qed

definition same_length :: "('hs, 'ts) manager \<Rightarrow> ('hs, 'ts) manager \<Rightarrow> bool" where
  "same_length m n \<longleftrightarrow> length (peers n) = length (peers m)"

interpretation len: frame same_length
  by unfold_locales (simp_all add: same_length_def)

lemma handler_frame_same_length: "stays handler_frame f \<Longrightarrow> stays same_length f"
  by (simp add: stays_def handler_frame_def same_length_def)

lemma step_same_length: "length (peers (snd (step C input m))) = length (peers m)"
proof -
  have "stays same_length (drain C as)" for as
  proof (rule drain_all [where P = "stays same_length"])
    show "stays same_length (\<lambda>m. (Err e, m))" for e by (simp add: stays_def len.frame_refl)
  qed (simp_all add: stays_def [of _ "handle_incoming _ _ _ _"] same_length_def
        handle_incoming_same_length len.stays_ret len.stays_andthen)
  then have "stays same_length (step C input)"
    unfolding step_def
    by (intro len.stays_andthen handler_frame_same_length [OF init_ticks_frame]
        handler_frame_same_length [OF read_device_frame] handler_frame_same_length [OF maintenance_frame])
  from staysD [OF this, of m] show ?thesis by (simp add: same_length_def)
qed

lemma apply_op_ok: "manager_ok m \<Longrightarrow> manager_ok (apply_op C op m)"
proof (cases op)
  case (Step input)
  assume "manager_ok m"
  then show ?thesis
    using Step keepsD [OF step_keeps_maps [of C input], of m]
      evolution_no_cookies [OF staysD [OF step_evolution [of C input], of m] _ step_same_length]
    by (simp add: manager_ok_def)
next
  case (AddPeer E cfg)
  assume "manager_ok m"
  then show ?thesis
    using AddPeer push_session_ok
    by (cases rule: add_peer_cases [of m cfg C E]) auto
qed

lemma apply_op_evolution: "evolution m (apply_op C op m)"
proof (cases op)
  case (Step input)
  then show ?thesis using staysD [OF step_evolution] by simp
next
  case (AddPeer E cfg)
  then show ?thesis
    by (cases rule: add_peer_cases [of m cfg C E]) (auto simp: push_session_evolution ev.frame_refl)
qed

interpretation manager: step_invariant "apply_op C" manager_ok for C
  by unfold_locales (rule apply_op_ok)

lemma ops_evolution: "evolution m (fold (apply_op C) ops m)"
proof (induction ops arbitrary: m)
  case (Cons op ops)
  then show ?case using apply_op_evolution ev.frame_trans by fastforce
qed (simp add: ev.frame_refl)

section \<open>Where a datagram makes the manager panic\<close>

lemma not_Panic_pairs [simp]:
  "consume_init C pkt r \<noteq> (Panic msg, r')" "write_init C i \<noteq> (Panic msg, i')"
  "encrypt C p rid n t \<noteq> (Panic msg, t')" "decrypt C c n t \<noteq> (Panic msg, t')"
  using consume_init_no_panic [of C pkt r msg] write_init_no_panic [of C i msg]
    encrypt_no_panic [of C p rid n t msg] decrypt_no_panic [of C c n t msg]
  by auto

lemma not_Panic_pure [simp]:
  "fresh_responder C E i m \<noteq> Panic msg" "consume_response C ini pkt \<noteq> Panic msg"
  "into_transport C r \<noteq> Panic msg"
  by (auto simp: fresh_responder_def Let_def consume_response_no_panic into_transport_no_panic new_no_panic
      split: outcome.splits)

lemma effects_no_panic [simp]:
  "send_to E a b m \<noteq> (Panic msg, m')" "device_write E b m \<noteq> (Panic msg, m')"
  by (auto simp: send_to_def device_write_def split: option.splits)

lemma andthen_no_panic:
  assumes "\<And>msg m'. f m \<noteq> (Panic msg, m')" and "\<And>x m' msg. fst (k x m') \<noteq> Panic msg"
  shows "fst (andthen f k m) \<noteq> Panic msg"
  using assms by (auto simp: andthen_def split: prod.splits outcome.splits)

lemma initial_respond_no_panic:
  assumes "\<And>resp m msg m'. answer resp m \<noteq> (Panic msg, m')"
  shows "fst (initial_respond C E i r pkt answer m) \<noteq> Panic msg"
proof -
  have ready: "fst (responder_ready C E i sid n) \<noteq> Panic msg" for sid n msg
    by (auto simp: responder_ready_def Let_def split: peer_state.splits outcome.splits)
  have "fst (andthen (answer resp) (\<lambda>_. responder_ready C E i sid) n) \<noteq> Panic msg" for resp sid n
    by (intro andthen_no_panic ready assms)
  then show ?thesis
    by (auto simp: initial_respond_def split: prod.splits outcome.splits)
qed

lemma responses_no_panic:
  "fst (initial_respond C E i r pkt (send_to E source) m) \<noteq> Panic msg"
  "fst (initial_respond C E i r pkt (\<lambda>resp. send_to E source (relay_wrap pub ip resp)) m) \<noteq> Panic msg"
  by (intro initial_respond_no_panic; simp)+

lemma rekeyed_no_panic: "fst (andthen (send_to E source resp) (\<lambda>_ m1. (Ok (), f m1)) n) \<noteq> Panic msg"
  by (intro andthen_no_panic) simp_all

lemma handlers_no_panic:
  "fst (handle_init C E i source pkt m) \<noteq> Panic msg"
  "fst (handle_init_via_relay C E i pub source pkt m) \<noteq> Panic msg"
  "fst (handle_response C E i pkt m) \<noteq> Panic msg"
  "fst (handle_transport C E i pkt m) \<noteq> Panic msg"
  "fst (relayed_transport C E i pkt m) \<noteq> Panic msg"
  "fst (handle_cookie E i pkt m) \<noteq> Panic msg"
proof -
  note splits = peer_state.splits option.splits prod.splits outcome.splits
  show "fst (handle_init C E i source pkt m) \<noteq> Panic msg"
    by (simp add: handle_init_def Let_def responses_no_panic rekeyed_no_panic split: splits)
  show "fst (handle_init_via_relay C E i pub source pkt m) \<noteq> Panic msg"
    by (simp add: handle_init_via_relay_def Let_def responses_no_panic split: splits)
  show "fst (handle_response C E i pkt m) \<noteq> Panic msg"
    by (auto simp: handle_response_def Let_def split: splits)
  show "fst (handle_transport C E i pkt m) \<noteq> Panic msg"
    by (auto simp: handle_transport_def device_write_def Let_def split: splits)
  show "fst (relayed_transport C E i pkt m) \<noteq> Panic msg"
    by (auto simp: relayed_transport_def device_write_def Let_def split: splits)
  show "fst (handle_cookie E i pkt m) \<noteq> Panic msg"
    by (simp add: handle_cookie_def)
qed

lemma handle_relay_no_panic:
  assumes "maps_ok m"
  shows "fst (handle_relay C E source pkt m) \<noteq> Panic msg"
proof -
  have "fst (send_to E a b m) \<noteq> Panic msg" for a b by (simp add: send_to_def split: option.splits)
  moreover have "pubkey_to_peer m pk = Some i \<Longrightarrow> \<not> length (peers m) \<le> i" for pk i
    using maps_okD(3) [OF assms] by (simp add: not_le)
  ultimately show ?thesis
    unfolding handle_relay_def Let_def
    by (cases "pubkey_to_peer m (seg pkt 1 33)")
      (simp_all add: handlers_no_panic del: One_nat_def split: option.split)
qed

lemma check_init_cookie_panic_iff:
  assumes "i < length (peers m)"
  shows "(\<exists>msg. fst (check_init_cookie C E i source pkt m) = Panic msg) \<longleftrightarrow>
    \<not> cookie_required (peers m ! i) \<and>
    COOKIE_INIT_RATE_LIMIT < init_rx_count (count_init E (peers m ! i))"
proof -
  obtain msg where "generate_cookie C (upd_peer i (count_init E) m) source = Panic msg"
    using generate_cookie_panics by blast
  with assms show ?thesis
    by (simp add: check_init_cookie_def Let_def split: option.split)
qed

lemma guarded_init_panic_iff:
  assumes "i < length (peers m)"
  shows "(\<exists>msg. fst (guarded_init C E i source pkt m) = Panic msg) \<longleftrightarrow>
    \<not> cookie_required (peers m ! i) \<and>
    COOKIE_INIT_RATE_LIMIT < init_rx_count (count_init E (peers m ! i))"
proof -
  obtain r m' where r: "check_init_cookie C E i source pkt m = (r, m')"
    by (cases "check_init_cookie C E i source pkt m")
  have "(\<exists>msg. fst (guarded_init C E i source pkt m) = Panic msg) \<longleftrightarrow> (\<exists>msg. r = Panic msg)"
    using r by (cases r) (auto simp: guarded_init_def andthen_def ret_def handlers_no_panic)
  with r check_init_cookie_panic_iff [OF assms, of C E source pkt] show ?thesis by simp
qed

text \<open>The session whose INIT handler a datagram reaches directly, if any.\<close>

definition init_target ::
  "('hs, 'ts) crypto \<Rightarrow> ('hs, 'ts) manager \<Rightarrow> socket_addr \<Rightarrow> bytes \<Rightarrow> nat option" where
  "init_target C m source pkt =
     (if pkt = [] \<or> pkt ! 0 \<noteq> MESSAGE_TYPE_INIT then None
      else case endpoint_to_peer m source of
        Some i \<Rightarrow> Some i
      | None \<Rightarrow> if INIT_SIZE \<le> length pkt then identify_initiator_by_mac1 C m pkt else None)"


end
