(* ===== verification/Manager_Props.thy ===== *)
theory Manager_Props
  imports Manager_Safety
begin

text \<open>
  Properties of one manager: its invariant over every sequence of operations, the session state
  machine, what is ignored, what is forwarded, and the ways a session is lost.  The concrete
  managers of the witnesses come first: one peer at \<open>demo_addr\<close>, in a given state.
\<close>

section \<open>Concrete managers for the witnesses\<close>

definition demo_addr :: socket_addr where "demo_addr = SocketV4 1 51820"
definition demo_stranger :: socket_addr where "demo_stranger = SocketV4 9 9"

definition demo_env :: env where
  "demo_env =
     \<lparr>now = 5000000000, tai = Tai64N 1000 0, seed = (\<lambda>i. 11 + i), random32 = zeros 32,
      send_error = (\<lambda>a b. None), device_error = (\<lambda>b. None), device_packet = Inr None\<rparr>"

definition demo_keys :: keypair where "demo_keys = keypair_from_bytes plain (replicate 32 6)"
definition demo_peer_keys :: keypair where "demo_peer_keys = keypair_from_bytes plain (replicate 32 5)"

definition demo_peer_config :: peer_config where
  "demo_peer_config =
     \<lparr>peer_pub = kp_public demo_peer_keys, psk = zeros 32, local_sender_id = 2, is_initiator = False,
      peer_endpoint = demo_addr, peer_ip = 100, via_relay = None\<rparr>"

definition demo_config :: manager_config where
  "demo_config = \<lparr>local_keypair = demo_keys, local_ip = 200, timings = default_timings\<rparr>"

definition demo_session ::
  "(plain_hs, plain_ts) peer_state \<Rightarrow> (plain_hs, plain_ts) peer_session" where
  "demo_session st =
     \<lparr>config = demo_peer_config, state = st, next_init_at = None, cached_init = None,
      last_rx_at = None, last_tx_at = None, last_handshake_at = None, stale = False,
      init_rx_count = 5, init_rx_window_start = 5000000000, cookie_required = False,
      sent_cookie = None, received_cookie = None\<rparr>"

definition demo_manager :: "(plain_hs, plain_ts) peer_state \<Rightarrow> (plain_hs, plain_ts) manager" where
  "demo_manager st =
     \<lparr>mcfg = demo_config, peers = [demo_session st], endpoint_to_peer = [demo_addr \<mapsto> 0],
      pubkey_to_peer = [kp_public demo_peer_keys \<mapsto> 0], learned_endpoints = Map.empty,
      last_maintenance_at = 0, cookie_secret = zeros 32, cookie_secret_rotated_at = 0,
      last_cookie_secret = None, sent = [], written = []\<rparr>"

definition demo_ops :: "manager_op list" where
  "demo_ops = [Step ([(demo_env, Inr (demo_addr, [9]))], demo_env), AddPeer demo_env demo_peer_config]"

definition demo_ready :: "(plain_hs, plain_ts) peer_state" where
  "demo_ready = Ready demo_sender 7 None"

lemma demo_env_simps [simp]:
  "send_error demo_env a b = None" "device_error demo_env c = None"
  by (simp_all add: demo_env_def)

lemma demo_keys_simps [simp]:
  "kp_public demo_keys = replicate 32 6" "kp_public demo_peer_keys = replicate 32 5"
  "kp_secret demo_keys = replicate 32 6" "kp_secret demo_peer_keys = replicate 32 5"
  by (simp_all add: demo_keys_def demo_peer_keys_def keypair_from_bytes_def plain_def pad_to_def)

lemma demo_manager_ok: "manager_ok (demo_manager st)"
  by (simp add: manager_ok_def maps_ok_def no_cookies_def demo_manager_def demo_session_def
      demo_peer_config_def)

lemma demo_manager_maps: "maps_ok (demo_manager st)"
  using demo_manager_ok by (simp add: manager_ok_def)

lemma demo_manager_simps [simp]:
  "peers (demo_manager st) = [demo_session st]" "endpoint_to_peer (demo_manager st) = [demo_addr \<mapsto> 0]"
  "pubkey_to_peer (demo_manager st) = [kp_public demo_peer_keys \<mapsto> 0]"
  "state (demo_session st) = st" "stale (demo_session st) = False"
  "config (demo_session st) = demo_peer_config" "peer_endpoint demo_peer_config = demo_addr"
  "mcfg (demo_manager st) = demo_config" "learned_endpoints (demo_manager st) = Map.empty"
  "sent (demo_manager st) = []" "written (demo_manager st) = []"
  by (simp_all add: demo_manager_def demo_session_def demo_peer_config_def)

lemma demo_addr_neq [simp]: "demo_stranger \<noteq> demo_addr" "demo_addr \<noteq> demo_stranger"
  by (simp_all add: demo_addr_def demo_stranger_def)


section \<open>Invariant and session state machine\<close>

text \<open>C3: The manager's invariant holds from construction on.  After any sequence of steps (with
  any datagrams, clocks, randomness and I/O errors) and peer additions, every entry of the two
  address maps names a session with that endpoint or key, every session is found under its key,
  and no session has the cookie protection switched on.\<close>

theorem manager_invariant:
  assumes "manager_new C E cfg pcs = Ok m"
  shows "manager_ok (fold (apply_op C) ops m)"
  by (rule manager.run_keeps [OF manager_new_ok [OF assms]])

theorem manager_invariant_witness:
  "\<exists>m. manager_new plain demo_env demo_config [demo_peer_config] = Ok m \<and>
     manager_ok (fold (apply_op plain) demo_ops m)"
proof -
  obtain m where m: "manager_new plain demo_env demo_config [demo_peer_config] = Ok m"
    by (simp add: manager_new_def session_new_def demo_peer_config_def responder_new_def plain_def)
  from manager_invariant [OF m] m show ?thesis by blast
qed



lemma Init_absorbing:
  assumes "i < length (peers m)" and "state (peers m ! i) = Init"
  shows "state (peers (fold (apply_op C) ops m) ! i) = Init \<and> \<not> is_ready (fold (apply_op C) ops m)"
proof -
  let ?n = "fold (apply_op C) ops m"
  have len: "i < length (peers ?n)" and moves: "moves KInit (kind_of (state (peers ?n ! i)))"
    using ops_evolution [of m C ops] assms by (auto simp: evolution_def session_frame_def)
  have Init: "state (peers ?n ! i) = Init"
    using moves by (cases "state (peers ?n ! i)") (simp_all add: moves_def)
  then have "\<not> is_ready_state (state (peers ?n ! i))" "peers ?n ! i \<in> set (peers ?n)"
    using len by simp_all
  with Init show ?thesis unfolding is_ready_def list_all_iff by blast
qed

section \<open>Losing a session\<close>

text \<open>One forged RESPONSE ends a session for good.  A RESPONSE-typed datagram of at least 92
  bytes, whatever its content, that comes from the address of a peer whose session is
  established (and not in the middle of our own rekey) is accepted without any check, puts the
  session into \<open>Init\<close>, and from there no sequence of operations makes the manager ready again.\<close>

lemma forged_response_ends_session:
  assumes "maps_ok m" and "endpoint_to_peer m source = Some i"
    and "state (peers m ! i) = Ready t sid None"
    and "RESPONSE_SIZE \<le> length pkt" and "pkt ! 0 = MESSAGE_TYPE_RESPONSE"
  shows "fst (handle_incoming C E source pkt m) = Ok () \<and>
    state (peers (fold (apply_op C) ops (snd (handle_incoming C E source pkt m))) ! i) = Init \<and>
    \<not> is_ready (fold (apply_op C) ops (snd (handle_incoming C E source pkt m)))"
proof -
  have i: "i < length (peers m)" by (rule maps_okD(1) [OF assms(1,2)])
  let ?r = "handle_incoming C E source pkt m"
  have pkt: "pkt \<noteq> []" using assms(4) by (auto simp: RESPONSE_SIZE_def)
  have r: "?r = (Ok (), upd_peer i (\<lambda>p. p\<lparr>last_rx_at := Some (now E), state := Init\<rparr>) m)"
    using assms i pkt
    by (simp add: handle_incoming_def handle_message_def refresh_known_source message_types
        handle_response_def Let_def not_less)
  then have "i < length (peers (snd ?r))" "state (peers (snd ?r) ! i) = Init" using i by simp_all
  from Init_absorbing [OF this] r show ?thesis by simp
qed

theorem forged_response_ends_session_witness:
  "\<not> is_ready (fold (apply_op plain) []
     (snd (handle_incoming plain demo_env demo_addr (MESSAGE_TYPE_RESPONSE # zeros 91)
        (demo_manager demo_ready)))) \<and> is_ready (demo_manager demo_ready)"
  using forged_response_ends_session [OF demo_manager_maps, of demo_ready demo_addr 0 demo_sender 7
      "MESSAGE_TYPE_RESPONSE # zeros 91" plain demo_env "[]"]
  by (simp add: is_ready_def demo_ready_def RESPONSE_SIZE_def)

text \<open>A RESPONSE that fails its checks loses a waiting initiator too: the handler returns the
  error and leaves the session in \<open>Init\<close> instead of keeping the handshake, and it stays there.\<close>

lemma bad_response_ends_handshake:
  assumes "maps_ok m" and "endpoint_to_peer m source = Some i"
    and "state (peers m ! i) = HandshakingAsInitiator ini"
    and "RESPONSE_SIZE \<le> length pkt" and "pkt ! 0 = MESSAGE_TYPE_RESPONSE"
    and "consume_response C ini pkt = Err e"
  shows "fst (handle_incoming C E source pkt m) = Err (Crypto e) \<and>
    state (peers (fold (apply_op C) ops (snd (handle_incoming C E source pkt m))) ! i) = Init"
proof -
  have i: "i < length (peers m)" by (rule maps_okD(1) [OF assms(1,2)])
  let ?r = "handle_incoming C E source pkt m"
  have pkt: "pkt \<noteq> []" using assms(4) by (auto simp: RESPONSE_SIZE_def)
  have r: "?r = (Err (Crypto e), upd_peer i (\<lambda>p. p\<lparr>last_rx_at := Some (now E), state := Init\<rparr>) m)"
    using assms i pkt
    by (simp add: handle_incoming_def handle_message_def refresh_known_source message_types
        handle_response_def Let_def not_less)
  then have "i < length (peers (snd ?r))" "state (peers (snd ?r) ! i) = Init" using i by simp_all
  from Init_absorbing [OF this] r show ?thesis by simp
qed

definition demo_initiator :: "plain_hs initiator" where
  "demo_initiator =
     \<lparr>i_state = plain_hs0 1 (replicate 32 6) (zeros 32) (replicate 32 5) 11, i_sender_id = 2,
      i_local_pub = replicate 32 6, i_responder_pub = replicate 32 5, i_timestamp = Tai64N 1000 0\<rparr>"

theorem bad_response_ends_handshake_witness:
  "\<exists>e. fst (handle_incoming plain demo_env demo_addr (MESSAGE_TYPE_RESPONSE # zeros 91)
        (demo_manager (HandshakingAsInitiator demo_initiator))) = Err (Crypto e) \<and>
     state (peers (fold (apply_op plain) demo_ops
       (snd (handle_incoming plain demo_env demo_addr (MESSAGE_TYPE_RESPONSE # zeros 91)
          (demo_manager (HandshakingAsInitiator demo_initiator))))) ! 0) = Init"
proof -
  have wrong_id: "consume_response plain demo_initiator pkt = Err (InvalidMessageType (pkt ! 0))"
    if "length pkt = 92" "pkt ! 0 = MESSAGE_TYPE_RESPONSE" "u32_from_le (read_u32 (seg pkt 8 12)) \<noteq> 2"
    for pkt
    using that by (simp add: consume_response_def demo_initiator_def RESPONSE_SIZE_def)
  have "seg (MESSAGE_TYPE_RESPONSE # zeros 91) 8 12 = zeros 4"
    by (simp add: seg_def zeros_def drop_Cons')
  moreover have "zeros 4 = [0, 0, 0, 0]" by (simp add: zeros_def eval_nat_numeral)
  ultimately have "u32_from_le (read_u32 (seg (MESSAGE_TYPE_RESPONSE # zeros 91) 8 12)) = 0"
    by (simp add: read_u32_def u32_from_le_def)
  then have "consume_response plain demo_initiator (MESSAGE_TYPE_RESPONSE # zeros 91) =
      Err (InvalidMessageType MESSAGE_TYPE_RESPONSE)"
    by (subst wrong_id) simp_all
  with bad_response_ends_handshake [OF demo_manager_maps, of "HandshakingAsInitiator demo_initiator"
      demo_addr 0 demo_initiator "MESSAGE_TYPE_RESPONSE # zeros 91" plain _ demo_env demo_ops]
  show ?thesis by (simp add: RESPONSE_SIZE_def)
qed

lemma count_init_rx: "count_init E (p\<lparr>last_rx_at := x\<rparr>) = (count_init E p)\<lparr>last_rx_at := x\<rparr>"
  by (simp add: count_init_def Let_def)

lemma init_rekeys_session:
  assumes "maps_ok m" and "endpoint_to_peer m source = Some i"
    and "state (peers m ! i) = Ready t sid rh"
    and "\<not> cookie_required (peers m ! i)"
    and "init_rx_count (count_init E (peers m ! i)) \<le> COOKIE_INIT_RATE_LIMIT"
    and "fresh_responder C E i m = Ok r"
    and "consume_init C pkt (set_current_time (tai E) r) = (Ok response, r')"
    and "into_transport C r' = Ok t'"
    and "send_error E source response = None"
  shows "handle_incoming C E source pkt m =
    (Ok (), upd_peer i (\<lambda>p. (count_init E p)\<lparr>last_rx_at := Some (now E),
        state := Ready t' (u32_from_le (seg pkt 4 8)) rh, last_handshake_at := Some (now E), stale := False\<rparr>)
       (m\<lparr>sent := sent m @ [(source, response)]\<rparr>))"
proof -
  have i: "i < length (peers m)" by (rule maps_okD(1) [OF assms(1,2)])
  note D = consume_init_OkD [OF assms(7)]
  have pkt: "pkt \<noteq> []" "\<not> length pkt < INIT_SIZE" "pkt ! 0 = MESSAGE_TYPE_INIT"
    using D by (auto simp: INIT_SIZE_def MESSAGE_TYPE_INIT_def)
  let ?n = "upd_peer i (\<lambda>p. count_init E (p\<lparr>last_rx_at := Some (now E)\<rparr>)) m"
  have few: "\<not> COOKIE_INIT_RATE_LIMIT < init_rx_count (count_init E (peers m ! i))"
    using assms(5) by (simp add: not_less)
  have counted: "init_rx_count (count_init E ((peers m ! i)\<lparr>last_rx_at := x\<rparr>)) =
      init_rx_count (count_init E (peers m ! i))" for x
    by (simp add: count_init_def Let_def)
  have checked: "check_init_cookie C E i source pkt
      (upd_peer i (\<lambda>p. p\<lparr>last_rx_at := Some (now E)\<rparr>) m) = (Ok False, ?n)"
    using assms(4) few i counted by (simp add: check_init_cookie_def Let_def)
  have fresh: "fresh_responder C E i ?n = Ok r"
    using assms(6) i by (simp add: fresh_responder_def)
  have "handle_incoming C E source pkt m =
      guarded_init C E i source pkt (upd_peer i (\<lambda>p. p\<lparr>last_rx_at := Some (now E)\<rparr>) m)"
    using pkt i assms(2) refresh_known_source [OF assms(1,2), of E]
    by (simp add: handle_incoming_def handle_message_def message_types)
  also have "\<dots> = handle_init C E i source pkt ?n"
    unfolding guarded_init_def by (subst andthen_simps(1), rule checked) simp
  finally have all: "handle_incoming C E source pkt m = handle_init C E i source pkt ?n" .
  have "state (peers ?n ! i) = Ready t sid rh" using assms(3) i by simp
  then have "handle_init C E i source pkt ?n =
      andthen (send_to E source response)
        (\<lambda>_ m1. (Ok (), upd_peer i
           (\<lambda>p. p\<lparr>state := Ready t' (u32_from_le (seg pkt 4 8)) rh,
                  last_handshake_at := Some (now E), stale := False\<rparr>) m1)) ?n"
    unfolding handle_init_def using pkt(2) fresh assms(7,8) by simp
  with all i assms(9) show ?thesis
    by (simp add: send_to_def andthen_def count_init_rx) (simp add: upd_peer_def)
qed


lemma responder_new_time: "responder_new C kp ps sid t rand = Ok r \<Longrightarrow> set_current_time t r = r"
  by (auto simp: responder_new_def set_current_time_def split: sum.splits)

definition demo_quiet :: "(plain_hs, plain_ts) peer_state \<Rightarrow> (plain_hs, plain_ts) manager" where
  "demo_quiet st = (demo_manager st)\<lparr>peers := [(demo_session st)\<lparr>init_rx_count := 0\<rparr>]\<rparr>"

lemma demo_quiet_maps: "maps_ok (demo_quiet st)"
  by (simp add: maps_ok_def demo_quiet_def, simp add: demo_peer_config_def)


section \<open>Strangers and known sources\<close>

text \<open>A stranger changes nothing.  A datagram from an address that is no peer's endpoint, that is
  not a RELAY packet of a known key and not an INIT that mac1 attributes to a peer, is dropped:
  the result is Ok and the whole state, the two output logs included, is what it was.\<close>

lemma stranger_ignored:
  assumes "endpoint_to_peer m source = None"
    and "init_target C m source pkt = None"
    and "pkt \<noteq> [] \<and> pkt ! 0 = MESSAGE_TYPE_RELAY \<and> RELAY_HEADER_SIZE \<le> length pkt \<Longrightarrow>
         pubkey_to_peer m (seg pkt 1 33) = None"
  shows "handle_incoming C E source pkt m = (Ok (), m)"
proof -
  have sizes: "MAC1_OFFSET_INIT + MAC1_LEN = INIT_SIZE"
    by (simp add: message_sizes MAC1_LEN_def)
  show ?thesis
    using assms by (auto simp: handle_incoming_def init_target_def sizes split: if_splits)
qed

theorem stranger_ignored_witness:
  "handle_incoming plain demo_env demo_stranger (MESSAGE_TYPE_RESPONSE # zeros 91) (demo_manager demo_ready)
     = (Ok (), demo_manager demo_ready)"
  by (rule stranger_ignored) (simp_all add: init_target_def message_types)

text \<open>The endpoint of a peer never follows a packet.  For a datagram from a known source the
  block that is meant to update the stored endpoint (for peers behind a NAT) does nothing but
  note the time: in a manager with consistent maps the source is already the stored endpoint.\<close>

lemma known_source_endpoint_fixed:
  assumes "maps_ok m" and "endpoint_to_peer m source = Some i"
  shows "refresh_endpoint E i source m = upd_peer i (\<lambda>p. p\<lparr>last_rx_at := Some (now E)\<rparr>) m"
  by (rule refresh_known_source [OF assms])

theorem known_source_endpoint_fixed_witness:
  "refresh_endpoint demo_env 0 demo_addr (demo_manager demo_ready) =
     upd_peer 0 (\<lambda>p. p\<lparr>last_rx_at := Some (now demo_env)\<rparr>) (demo_manager demo_ready)"
  by (rule known_source_endpoint_fixed [OF demo_manager_maps]) simp

text \<open>What a direct datagram does to the other sessions: nothing.\<close>

definition isolated :: "nat \<Rightarrow> ('hs, 'ts) manager \<Rightarrow> ('hs, 'ts) manager \<Rightarrow> bool" where
  "isolated j m n \<longleftrightarrow> length (peers n) = length (peers m) \<and>
     (\<forall>k < length (peers m). k \<noteq> j \<longrightarrow> peers n ! k = peers m ! k)"

interpretation iso: frame "isolated j" for j
  by unfold_locales (auto simp: isolated_def)

lemma isolated_upd [simp]:
  "isolated j m (upd_peer j f n) \<longleftrightarrow> isolated j m n" "isolated j m m"
  "isolated j m (n\<lparr>sent := l\<rparr>) \<longleftrightarrow> isolated j m n"
  "isolated j m (n\<lparr>written := w\<rparr>) \<longleftrightarrow> isolated j m n"
  by (auto simp: isolated_def)

lemma check_init_cookie_states:
  "isolated j m (snd (check_init_cookie C E j source pkt m))"
  "k < length (peers m) \<Longrightarrow>
     state (peers (snd (check_init_cookie C E j source pkt m)) ! k) = state (peers m ! k)"
proof -
  obtain msg where "generate_cookie C (upd_peer j (count_init E) m) source = Panic msg"
    using generate_cookie_panics by blast
  then show "isolated j m (snd (check_init_cookie C E j source pkt m))"
    "k < length (peers m) \<Longrightarrow>
     state (peers (snd (check_init_cookie C E j source pkt m)) ! k) = state (peers m ! k)"
    by (simp_all add: check_init_cookie_def Let_def split: option.split)
qed

lemma initial_respond_isolated:
  assumes "\<And>resp. stays (isolated j) (answer resp)"
  shows "isolated j m (snd (initial_respond C E j r pkt answer m))"
proof -
  have ready: "stays (isolated j) (responder_ready C E j sid)" for sid
    by (simp add: stays_def responder_ready_def Let_def split: peer_state.split outcome.split)
  have "isolated j m (snd (andthen (answer resp) (\<lambda>_. responder_ready C E j sid) (upd_peer j f m)))"
    for resp sid f
    by (rule iso.frame_trans [OF _ staysD [OF iso.stays_andthen [OF assms ready]]]) simp
  then show ?thesis
    by (simp add: initial_respond_def split: prod.split outcome.split)
qed

lemma send_isolated: "stays (isolated j) (send_to E a b)"
  by (simp add: stays_def send_to_def split: option.split)

lemma handle_init_isolated: "stays (isolated j) (handle_init C E j source pkt)"
  by (simp add: stays_def handle_init_def Let_def andthen_def send_to_def
      initial_respond_isolated [OF send_isolated]
      split: peer_state.split outcome.split prod.split option.split)

lemma guarded_init_isolated: "stays (isolated j) (guarded_init C E j source pkt)"
  unfolding guarded_init_def
  by (rule iso.stays_andthen)
    (simp_all add: stays_def [of _ "check_init_cookie _ _ _ _ _"] check_init_cookie_states
      handle_init_isolated iso.stays_ret)

lemma guarded_init_ready:
  assumes "state (peers m ! i) = HandshakingAsResponder r" and "i < length (peers m)"
    and "is_ready_state (state (peers (snd (guarded_init C E i source pkt m)) ! i))"
  shows "\<exists>resp r'. consume_init C pkt (set_current_time (tai E) r) = (Ok resp, r')"
proof -
  obtain c n where c: "check_init_cookie C E i source pkt m = (c, n)"
    by (cases "check_init_cookie C E i source pkt m")
  have n: "state (peers n ! i) = HandshakingAsResponder r" "i < length (peers n)"
    using check_init_cookie_states [where m = m and j = i and C = C and E = E and source = source
        and pkt = pkt] assms(1,2) c by (auto simp: isolated_def)
  have "c = Ok False"
    using assms(3) c n by (cases c) (auto simp: guarded_init_def andthen_def ret_def split: if_splits)
  then have "guarded_init C E i source pkt m = handle_init C E i source pkt n"
    using c by (simp add: guarded_init_def andthen_def)
  with assms(3) n have ready: "is_ready_state (state (peers (snd
      (initial_respond C E i r pkt (send_to E source) n)) ! i))"
    by (auto simp: handle_init_def split: if_splits)
  show ?thesis
  proof (cases "consume_init C pkt (set_current_time (tai E) r)")
    case (Pair res r')
    with ready n show ?thesis
      by (cases res) (auto simp: initial_respond_def split: outcome.splits)
  qed
qed

text \<open>An INIT from an unknown address cannot complete a handshake.  The manager looks for the
  peer whose own public key made the mac1, while a correct INIT for this node is keyed with this
  node's key.  So when such a datagram does turn a waiting responder into a Ready session, the
  two MACs over the same bytes, under the key of a peer and under the local key, coincide.\<close>

lemma unknown_initiator_needs_mac_collision:
  assumes "endpoint_to_peer m source = None" and "pkt ! 0 = MESSAGE_TYPE_INIT"
    and "state (peers m ! i) = HandshakingAsResponder r" and "r_local_pub r = local_pub m"
    and "i < length (peers m)"
    and "is_ready_state (state (peers (snd (handle_incoming C E source pkt m)) ! i))"
  shows "\<exists>p \<in> set (peers m).
    compute_mac1 C (mac1_key C (peer_pub (config p))) (take MAC1_OFFSET_INIT pkt) =
    compute_mac1 C (mac1_key C (local_pub m)) (take MAC1_OFFSET_INIT pkt)"
proof -
  have type: "pkt ! 0 \<noteq> MESSAGE_TYPE_RELAY" using assms(2) by (simp add: message_types)
  obtain j where j: "identify_initiator_by_mac1 C m pkt = Some j"
    and run: "snd (handle_incoming C E source pkt m) =
      snd (guarded_init C E j source pkt (refresh_endpoint E j source m))"
    using assms(1,3,6) type by (auto simp: handle_incoming_def split: if_splits option.splits)
  let ?n = "refresh_endpoint E j source m"
  have n: "length (peers ?n) = length (peers m)" "state (peers ?n ! k) = state (peers m ! k)"
    if "k < length (peers m)" for k
    using that by (simp_all add: refresh_endpoint_def Let_def)
  have "j = i"
  proof (rule ccontr)
    assume "j \<noteq> i"
    then have "peers (snd (guarded_init C E j source pkt ?n)) ! i = peers ?n ! i"
      using staysD [OF guarded_init_isolated [where j = j and C = C and E = E and source = source
        and pkt = pkt], of ?n] assms(5) n
      by (simp add: isolated_def)
    with assms(3,5,6) run n show False by simp
  qed
  then have "is_ready_state (state (peers (snd (guarded_init C E i source pkt ?n)) ! i))"
    using assms(6) run by simp
  from guarded_init_ready [OF _ _ this] assms(3,5) n \<open>j = i\<close>
  obtain resp r' where "consume_init C pkt (set_current_time (tai E) r) = (Ok resp, r')" by auto
  from consume_init_OkD(4) [OF this] assms(4)
  have mine: "seg pkt 132 148 = compute_mac1 C (mac1_key C (local_pub m)) (take 132 pkt)"
    by (simp add: set_current_time_def)
  from j have "j < length (peers m)" and
    "compute_mac1 C (mac1_key C (peer_pub (config (peers m ! j)))) (take 132 pkt) = seg pkt 132 148"
    by (auto simp: identify_initiator_by_mac1_def Let_def MAC1_OFFSET_INIT_def MAC1_LEN_def
        dest: find_index_0)
  with mine show ?thesis by (auto simp: MAC1_OFFSET_INIT_def intro!: bexI [of _ "peers m ! j"])
qed

text \<open>For the witness, the collision is real: the manager has its own key among its peers.\<close>

definition demo_self :: "plain_hs responder \<Rightarrow> (plain_hs, plain_ts) manager" where
  "demo_self r =
     (demo_quiet (HandshakingAsResponder r))
       \<lparr>peers := [(demo_session (HandshakingAsResponder r))
                    \<lparr>config := demo_peer_config\<lparr>peer_pub := replicate 32 6\<rparr>, init_rx_count := 0\<rparr>],
        endpoint_to_peer := Map.empty\<rparr>"

lemma guarded_init_completes:
  assumes "i < length (peers m)" and "state (peers m ! i) = HandshakingAsResponder r"
    and "\<not> cookie_required (peers m ! i)"
    and "\<not> COOKIE_INIT_RATE_LIMIT < init_rx_count (count_init E (peers m ! i))"
    and "consume_init C pkt (set_current_time (tai E) r) = (Ok resp, r')"
    and "into_transport C r' = Ok t" and "send_error E source resp = None"
  shows "guarded_init C E i source pkt m =
    (Ok (), upd_peer i
       (\<lambda>p. (count_init E p)\<lparr>state := Ready t (u32_from_le (seg pkt 4 8)) None,
              last_handshake_at := Some (now E), last_rx_at := Some (now E)\<rparr>)
       (m\<lparr>sent := sent m @ [(source, resp)]\<rparr>))"
proof -
  let ?n = "upd_peer i (count_init E) m"
  have "check_init_cookie C E i source pkt m = (Ok False, ?n)"
    using assms(1,3,4) by (simp add: check_init_cookie_def Let_def)
  then have "guarded_init C E i source pkt m = handle_init C E i source pkt ?n"
    by (simp add: guarded_init_def andthen_def)
  also have "\<dots> = initial_respond C E i r pkt (send_to E source) ?n"
    using assms(1,2) consume_init_OkD(1) [OF assms(5)] by (simp add: handle_init_def INIT_SIZE_def)
  also have "\<dots> = andthen (send_to E source resp) (\<lambda>_. responder_ready C E i (u32_from_le (seg pkt 4 8)))
      (upd_peer i (\<lambda>p. (count_init E p)\<lparr>state := HandshakingAsResponder r'\<rparr>) m)"
    using assms(5) by (simp add: initial_respond_def)
  also have "\<dots> = (Ok (), upd_peer i
       (\<lambda>p. (count_init E p)\<lparr>state := Ready t (u32_from_le (seg pkt 4 8)) None,
              last_handshake_at := Some (now E), last_rx_at := Some (now E)\<rparr>)
       (m\<lparr>sent := sent m @ [(source, resp)]\<rparr>))"
    using assms(1,6,7)
    by (simp add: andthen_def send_to_def responder_ready_def Let_def) (simp add: upd_peer_def)
  finally show ?thesis .
qed

theorem unknown_initiator_needs_mac_collision_witness:
  "\<exists>r pkt. is_ready_state (state (peers (snd (handle_incoming plain demo_env demo_stranger pkt (demo_self r))) ! 0)) \<and>
     (\<exists>p \<in> set (peers (demo_self r)).
        compute_mac1 plain (mac1_key plain (peer_pub (config p))) (take MAC1_OFFSET_INIT pkt) =
        compute_mac1 plain (mac1_key plain (local_pub (demo_self r))) (take MAC1_OFFSET_INIT pkt))"
proof -
  have lens: "length (replicate 32 (5 :: u8)) = 32" "length (replicate 32 (6 :: u8)) = 32"
    "length (zeros 32) = 32" by simp_all
  from handshake_messages [OF plain_works plain_digest_sizes lens inside_window_diff [of 1000 0 0],
      of 1 11 2 11]
  obtain m1 r0 m2 r1 t where len: "length m1 = 148" and type: "m1 ! 0 = MESSAGE_TYPE_INIT"
    and new: "responder_new plain demo_keys (zeros 32) 2 (Tai64N 1000 0) 11 = Ok r0"
    and acc: "consume_init plain m1 r0 = (Ok m2, r1)" and tr: "into_transport plain r1 = Ok t"
    unfolding demo_keys_def by blast
  have timed: "set_current_time (tai demo_env) r0 = r0"
    using responder_new_time [OF new] by (simp add: demo_env_def)
  have pub: "r_local_pub r0 = local_pub (demo_self r0)" "r_local_pub r0 = replicate 32 6"
    using new by (auto simp: responder_new_def local_pub_def demo_self_def demo_quiet_def demo_config_def
        split: sum.splits)
  have self: "peers (demo_self r0) = [(demo_session (HandshakingAsResponder r0))
      \<lparr>config := demo_peer_config\<lparr>peer_pub := replicate 32 6\<rparr>, init_rx_count := 0\<rparr>]"
    "endpoint_to_peer (demo_self r0) = Map.empty"
    by (simp_all add: demo_self_def)
  have "identify_initiator_by_mac1 plain (demo_self r0) m1 = Some 0"
    using consume_init_OkD(4) [OF acc] self pub
    by (simp add: identify_initiator_by_mac1_def MAC1_OFFSET_INIT_def MAC1_LEN_def)
  then have run: "handle_incoming plain demo_env demo_stranger m1 (demo_self r0) =
      guarded_init plain demo_env 0 demo_stranger m1
        (refresh_endpoint demo_env 0 demo_stranger (demo_self r0))"
    using len type self
    by (auto simp: handle_incoming_def message_types message_sizes MAC1_LEN_def)
  let ?n = "refresh_endpoint demo_env 0 demo_stranger (demo_self r0)"
  have n: "0 < length (peers ?n)" "state (peers ?n ! 0) = HandshakingAsResponder r0"
    "\<not> cookie_required (peers ?n ! 0)"
    "\<not> COOKIE_INIT_RATE_LIMIT < init_rx_count (count_init demo_env (peers ?n ! 0))"
    using self by (simp_all add: refresh_endpoint_def Let_def demo_session_def count_init_def
        COOKIE_INIT_RATE_LIMIT_def demo_env_def)
  have ready: "is_ready_state (state (peers (snd (handle_incoming plain demo_env demo_stranger m1 (demo_self r0))) ! 0))"
    unfolding run using n(1)
    by (subst guarded_init_completes [OF n, of plain m1 m2 r1 t]) (simp_all add: timed acc tr)
  have "endpoint_to_peer (demo_self r0) demo_stranger = None"
    "state (peers (demo_self r0) ! 0) = HandshakingAsResponder r0" "0 < length (peers (demo_self r0))"
    using self by simp_all
  from unknown_initiator_needs_mac_collision [OF this(1) type this(2) pub(1) this(3) ready] ready
  show ?thesis by blast
qed

end
