(* ===== verification/Manager_Relay.thy ===== *)
theory Manager_Relay
  imports Manager_Props
begin

text \<open>
  Relaying: the header a relayed packet carries and what a relay does with it.
  \<open>relay_unwrap\<close> is the reading side of the header as \<open>handle_relay\<close> takes it apart.
\<close>

definition relay_unwrap :: "bytes \<Rightarrow> bytes \<times> u32 \<times> bytes" where
  "relay_unwrap pkt =
     (seg pkt 1 33, ipv4_new (pkt ! 33) (pkt ! 34) (pkt ! 35) (pkt ! 36), drop RELAY_HEADER_SIZE pkt)"

lemma relay_wrap_eq:
  assumes "length from_pub = 32"
  shows "relay_wrap from_pub ip body = MESSAGE_TYPE_RELAY # from_pub @ v4_octets ip @ body"
proof -
  have z: "(zeros (37 + n))[0 := b] = [b] @ zeros (36 + n)" for n b
  proof -
    have "37 + n = Suc (36 + n)" by simp
    then show ?thesis by (simp only: zeros_def replicate_Suc list_update_code append_Cons append_Nil)
  qed
  have 1: "put 1 from_pub ([b] @ zeros (36 + n)) = (b # from_pub) @ zeros (4 + n)" for n b
    using assms by (subst put_in_zeros) simp_all
  have 2: "put 33 (v4_octets ip) ((b # from_pub) @ zeros (4 + n)) =
      (b # from_pub @ v4_octets ip) @ zeros n" for n b
    using assms by (subst put_in_zeros) simp_all
  have 3: "put 37 body ((b # from_pub @ v4_octets ip) @ zeros (length body)) =
      (b # from_pub @ v4_octets ip) @ body" for b
    using assms by (subst put_in_zeros) (simp_all add: zeros_def)
  show ?thesis
    unfolding relay_wrap_def RELAY_HEADER_SIZE_def using z 1 2 3 by simp
qed

lemma length_relay_wrap:
  "length from_pub = 32 \<Longrightarrow> length (relay_wrap from_pub ip body) = RELAY_HEADER_SIZE + length body"
  by (simp add: relay_wrap_eq RELAY_HEADER_SIZE_def)

lemma v4_octets_nth: "ipv4_new (v4_octets a ! 0) (v4_octets a ! 1) (v4_octets a ! 2) (v4_octets a ! 3) = a"
proof -
  have "[v4_octets a ! 0, v4_octets a ! 1, v4_octets a ! 2, v4_octets a ! 3] = v4_octets a"
    by (rule nth_equalityI) (auto simp: less_Suc_eq numeral_eq_Suc)
  then show ?thesis by (simp add: ipv4_new_def v4_octets_def)
qed

lemma relay_fields:
  assumes "length from_pub = 32"
  shows "seg (relay_wrap from_pub ip body) 1 33 = from_pub"
    and "ipv4_new (relay_wrap from_pub ip body ! 33) (relay_wrap from_pub ip body ! 34)
           (relay_wrap from_pub ip body ! 35) (relay_wrap from_pub ip body ! 36) = ip"
    and "drop RELAY_HEADER_SIZE (relay_wrap from_pub ip body) = body"
    and "relay_wrap from_pub ip body ! 0 = MESSAGE_TYPE_RELAY"
    and "relay_wrap from_pub ip body \<noteq> []"
  using assms v4_octets_nth [of ip]
  by (simp_all add: relay_wrap_eq seg_def RELAY_HEADER_SIZE_def nth_append nth_Cons' eval_nat_numeral)

text \<open>The relay header carries its three fields unchanged.  Wrapping a body for an address under
  a 32-byte key and taking the packet apart as \<open>handle_relay\<close> does gives back the key, the
  address and the body.\<close>

lemma relay_header_roundtrip:
  assumes "length from_pub = 32"
  shows "relay_unwrap (relay_wrap from_pub ip body) = (from_pub, ip, body)"
  using relay_fields [OF assms] by (simp add: relay_unwrap_def)

theorem relay_header_roundtrip_witness:
  "relay_unwrap (relay_wrap (replicate 32 5) 100 [1, 2, 3]) = (replicate 32 5, 100, [1, 2, 3])"
  by (rule relay_header_roundtrip) simp

section \<open>What a RELAY packet does to a manager\<close>

text \<open>The state in which \<open>handle_relay\<close> runs: the sender is noted as heard from, and an unknown
  source address is learned as the sender's.\<close>

definition relay_noted ::
  "env \<Rightarrow> socket_addr \<Rightarrow> bytes \<Rightarrow> nat \<Rightarrow> ('hs, 'ts) manager \<Rightarrow> ('hs, 'ts) manager" where
  "relay_noted E source from_pub i m =
     upd_peer i (\<lambda>p. p\<lparr>last_rx_at := Some (now E)\<rparr>)
       (if endpoint_to_peer m source = None
        then m\<lparr>learned_endpoints := (learned_endpoints m)(from_pub \<mapsto> source)\<rparr> else m)"

lemma relay_noted_simps [simp]:
  "mcfg (relay_noted E source pk i m) = mcfg m" "sent (relay_noted E source pk i m) = sent m"
  "written (relay_noted E source pk i m) = written m"
  "endpoint_to_peer (relay_noted E source pk i m) = endpoint_to_peer m"
  "pubkey_to_peer (relay_noted E source pk i m) = pubkey_to_peer m"
  "length (peers (relay_noted E source pk i m)) = length (peers m)"
  "j < length (peers m) \<Longrightarrow> config (peers (relay_noted E source pk i m) ! j) = config (peers m ! j)"
  "j < length (peers m) \<Longrightarrow> state (peers (relay_noted E source pk i m) ! j) = state (peers m ! j)"
  "j < length (peers m) \<Longrightarrow> stale (peers (relay_noted E source pk i m) ! j) = stale (peers m ! j)"
  "qk \<noteq> pk \<Longrightarrow> learned_endpoints (relay_noted E source pk i m) qk = learned_endpoints m qk"
  by (simp_all add: relay_noted_def)

lemma handle_incoming_relay:
  assumes "maps_ok m" and "RELAY_HEADER_SIZE \<le> length pkt" and "pkt ! 0 = MESSAGE_TYPE_RELAY"
    and "pubkey_to_peer m (seg pkt 1 33) = Some i"
  shows "handle_incoming C E source pkt m =
    handle_relay C E source pkt (relay_noted E source (seg pkt 1 33) i m)"
proof -
  have "i < length (peers m)" "pkt \<noteq> []" "\<not> length pkt < RELAY_HEADER_SIZE"
    using maps_okD(3) [OF assms(1,4)] assms(2) by (auto simp: RELAY_HEADER_SIZE_def)
  with assms(3,4) show ?thesis
    by (simp add: handle_incoming_def relay_noted_def Let_def)
qed

lemma find_index_map_cong:
  assumes "length xs = length ys" and "\<And>j. j < length xs \<Longrightarrow> f (xs ! j) = f (ys ! j)"
  shows "find_index k (\<lambda>x. f x = v) xs = find_index k (\<lambda>x. f x = v) ys"
proof -
  have "map f xs = map f ys" using assms by (auto intro: nth_equalityI)
  then have "find_index k (\<lambda>y. y = v) (map f xs) = find_index k (\<lambda>y. y = v) (map f ys)" by simp
  moreover have "find_index k (\<lambda>y. y = v) (map f zs) = find_index k (\<lambda>x. f x = v) zs" for k zs
    by (induction zs arbitrary: k) auto
  ultimately show ?thesis by simp
qed

lemma handle_incoming_forward:
  assumes "maps_ok m" and "RELAY_HEADER_SIZE \<le> length pkt" and "pkt ! 0 = MESSAGE_TYPE_RELAY"
    and "relay_unwrap pkt = (pub, dest, body)" and "pubkey_to_peer m pub = Some i"
    and "dest \<noteq> local_ip (mcfg m)"
    and "find_index 0 (\<lambda>p. peer_ip (config p) = dest) (peers m) = Some j"
    and "peer_pub (config (peers m ! j)) \<noteq> pub"
    and "a = (case learned_endpoints m (peer_pub (config (peers m ! j))) of
                Some l \<Rightarrow> l | None \<Rightarrow> peer_endpoint (config (peers m ! j)))"
    and "send_error E a pkt = None"
  shows "handle_incoming C E source pkt m =
    (Ok (), (relay_noted E source pub i m)\<lparr>sent := sent m @ [(a, pkt)]\<rparr>)"
proof -
  let ?n = "relay_noted E source pub i m"
  from assms(4) have pub: "seg pkt 1 33 = pub"
    and dest: "ipv4_new (pkt ! 33) (pkt ! 34) (pkt ! 35) (pkt ! 36) = dest"
    by (simp_all add: relay_unwrap_def)
  have j: "j < length (peers m)" using find_index_0 [OF assms(7)] by simp
  have found: "find_index 0 (\<lambda>p. peer_ip (config p) = dest) (peers ?n) = Some j"
    using assms(7) find_index_map_cong [of "peers ?n" "peers m" "\<lambda>p. peer_ip (config p)" 0 dest] by simp
  have "handle_incoming C E source pkt m = handle_relay C E source pkt ?n"
    using handle_incoming_relay [OF assms(1-3)] assms(5) pub by simp
  also have "\<dots> = send_to E a pkt ?n"
    using assms(2,6,8,9) pub dest j found by (simp add: handle_relay_def Let_def not_less)
  finally show ?thesis using assms(10) by (simp add: send_to_def)
qed

text \<open>A relay forwards a packet unchanged.  When a RELAY packet of a known key is addressed to
  another peer, the relay sends exactly the datagram it received, to the address it learned for
  that peer or else to the configured one, and touches nothing but the time it last heard from
  the sender and the sender's learned address; no session state is used.\<close>

lemma relay_forwards_unchanged:
  assumes "maps_ok m" and "RELAY_HEADER_SIZE \<le> length pkt" and "pkt ! 0 = MESSAGE_TYPE_RELAY"
    and "relay_unwrap pkt = (pub, dest, body)" and "pubkey_to_peer m pub = Some i"
    and "dest \<noteq> local_ip (mcfg m)"
    and "find_index 0 (\<lambda>p. peer_ip (config p) = dest) (peers m) = Some j"
    and "peer_pub (config (peers m ! j)) \<noteq> pub"
    and "a = (case learned_endpoints m (peer_pub (config (peers m ! j))) of
                Some l \<Rightarrow> l | None \<Rightarrow> peer_endpoint (config (peers m ! j)))"
    and "send_error E a pkt = None"
  shows "handle_incoming C E source pkt m =
    (Ok (), (relay_noted E source pub i m)\<lparr>sent := sent m @ [(a, pkt)]\<rparr>)"
  using assms by (rule handle_incoming_forward)

text \<open>A RELAYed INIT never rekeys.  An INIT that arrives through a relay for a session that is
  already Ready is dropped, whatever it contains: nothing is sent or written, every session
  state is kept, and the call succeeds.  A rekey between two peers that reach each other only
  through a relay therefore never gets an answer.\<close>

lemma relayed_init_dropped_when_ready:
  assumes "maps_ok m" and "length pub = 32" and "pubkey_to_peer m pub = Some i"
    and "state (peers m ! i) = Ready t sid rh"
    and "INIT_SIZE \<le> length init" and "init ! 0 = MESSAGE_TYPE_INIT"
  shows "handle_incoming C E source (relay_wrap pub (local_ip (mcfg m)) init) m =
    (Ok (), relay_noted E source pub i m)"
proof -
  let ?n = "relay_noted E source pub i m"
  let ?pkt = "relay_wrap pub (local_ip (mcfg m)) init"
  note f = relay_fields [OF assms(2), of "local_ip (mcfg m)" init]
  have i: "i < length (peers m)" by (rule maps_okD(3) [OF assms(1,3)])
  have len: "RELAY_HEADER_SIZE \<le> length ?pkt" using length_relay_wrap [OF assms(2)] by simp
  have "handle_incoming C E source ?pkt m = handle_relay C E source ?pkt ?n"
    using handle_incoming_relay [OF assms(1) len f(4), of i] assms(3) f(1) by simp
  also have "\<dots> = handle_init_via_relay C E i pub source init ?n"
    using f len assms(3,5,6) i by (auto simp: handle_relay_def message_types INIT_SIZE_def)
  also have "\<dots> = (Ok (), ?n)"
    using assms(4,5) i by (simp add: handle_init_via_relay_def not_less)
  finally show ?thesis .
qed

theorem relayed_init_dropped_when_ready_witness:
  "handle_incoming plain demo_env demo_stranger
     (relay_wrap (replicate 32 5) 200 (MESSAGE_TYPE_INIT # zeros 147)) (demo_manager demo_ready) =
   (Ok (), relay_noted demo_env demo_stranger (replicate 32 5) 0 (demo_manager demo_ready))"
proof -
  have "local_ip (mcfg (demo_manager demo_ready)) = 200" by (simp add: demo_config_def)
  then show ?thesis
    using relayed_init_dropped_when_ready [OF demo_manager_maps, of "replicate 32 5" demo_ready 0
        demo_sender 7 None "MESSAGE_TYPE_INIT # zeros 147" plain demo_env demo_stranger]
    by (simp add: demo_ready_def INIT_SIZE_def)
qed

text \<open>A relay between two peers, for the witness of \<open>relay_forwards_unchanged\<close>.\<close>

definition demo_other_config :: peer_config where
  "demo_other_config = demo_peer_config\<lparr>peer_pub := replicate 32 7, peer_endpoint := demo_stranger, peer_ip := 101\<rparr>"

definition demo_relay :: "(plain_hs, plain_ts) manager" where
  "demo_relay = (demo_manager Init)
     \<lparr>peers := [demo_session Init, (demo_session Init)\<lparr>config := demo_other_config\<rparr>],
      endpoint_to_peer := [demo_addr \<mapsto> 0, demo_stranger \<mapsto> 1],
      pubkey_to_peer := [replicate 32 5 \<mapsto> 0, replicate 32 7 \<mapsto> 1]\<rparr>"

lemma demo_relay_maps: "maps_ok demo_relay"
proof -
  have "peer_pub demo_peer_config = replicate 32 5" "(replicate 32 5 :: bytes) \<noteq> replicate 32 7"
    by (simp_all add: demo_peer_config_def replicate_eq_replicate)
  then show ?thesis
    by (auto simp: maps_ok_def demo_relay_def demo_other_config_def less_Suc_eq split: if_splits)
qed

theorem relay_forwards_unchanged_witness:
  "handle_incoming plain demo_env demo_addr (relay_wrap (replicate 32 5) 101 [4, 2]) demo_relay =
   (Ok (), (relay_noted demo_env demo_addr (replicate 32 5) 0 demo_relay)
             \<lparr>sent := [(demo_stranger, relay_wrap (replicate 32 5) 101 [4, 2])]\<rparr>)"
proof -
  have neq: "(replicate 32 (7 :: u8)) \<noteq> replicate 32 5" by (simp add: replicate_eq_replicate)
  have c: "peer_ip demo_peer_config = 100" "peer_ip demo_other_config = 101"
    "peer_pub demo_other_config = replicate 32 7" "peer_endpoint demo_other_config = demo_stranger"
    "local_ip demo_config = 200"
    by (simp_all add: demo_peer_config_def demo_other_config_def demo_config_def)
  have r: "sent demo_relay = []" "mcfg demo_relay = demo_config" "learned_endpoints demo_relay = Map.empty"
    "pubkey_to_peer demo_relay (replicate 32 5) = Some 0"
    "find_index 0 (\<lambda>p. peer_ip (config p) = 101) (peers demo_relay) = Some 1"
    "config (peers demo_relay ! 1) = demo_other_config"
    using neq c by (simp_all add: demo_relay_def)
  have len: "length (replicate 32 (5 :: u8)) = 32" by simp
  have "relay_unwrap (relay_wrap (replicate 32 5) 101 [4, 2]) = (replicate 32 5, 101, [4, 2])"
    using relay_fields [OF len] by (simp add: relay_unwrap_def)
  from relay_forwards_unchanged [OF demo_relay_maps _ _ this r(4) _ r(5), of demo_stranger demo_env plain demo_addr]
  show ?thesis using r c neq by (simp add: relay_fields [OF len] length_relay_wrap [OF len])
qed

end
