(* ===== verification/Manager_Timers.thy ===== *)
theory Manager_Timers
  imports Manager_Relay
begin

text \<open>
  Time in the manager: what the periodic maintenance does to each session (keepalive, rekey, stale
  marking), what a rekey in flight and staleness do to a session, the retransmission of INITs,
  and when \<open>run_until_ready\<close> succeeds.
\<close>

section \<open>The plan of a maintenance run\<close>

lemma plan_mem:
  "(i, a) \<in> set (plan C E m) \<longleftrightarrow> i < length (peers m) \<and> a \<in> set (plan_peer C E (mcfg m) i (peers m ! i))"
  by (auto simp: plan_def)

lemma build_rekey_mem:
  "a \<in> set (build_rekey C E kp i p) \<Longrightarrow> \<exists>ini msg. a = StartRekey ini msg"
  by (auto simp: build_rekey_def split: outcome.splits prod.splits)



section \<open>A rekey in flight\<close>

lemma isolated_trans_andthen:
  assumes "isolated i m n" and "\<And>x s. isolated i s (snd (k x s))" and "stays (isolated i) f"
  shows "isolated i m (snd (andthen f k n))"
  by (rule iso.frame_trans [OF assms(1)], rule staysD, rule iso.stays_andthen [OF assms(3)],
      rule staysI, rule assms(2))

lemma send_maybe_relay_isolated: "stays (isolated i) (send_maybe_relay E ep r ip pub b)"
  by (cases r) (simp_all add: send_maybe_relay_def stays_def send_to_def split: option.split)

lemma perform_isolated: "isolated i m (snd (perform C E (i, a) m))"
proof (cases a)
  case SendKeepalive
  then show ?thesis
    by (auto simp: send_keepalive_def Let_def split: peer_state.split prod.split outcome.split
        intro!: isolated_trans_andthen send_maybe_relay_isolated)
next
  case (StartRekey ini msg)
  then show ?thesis
    by (auto simp: start_rekey_def Let_def intro!: isolated_trans_andthen send_maybe_relay_isolated)
next
  case RetryRekey
  then show ?thesis
    by (auto simp: retry_rekey_def Let_def split: peer_state.split option.split
        intro!: isolated_trans_andthen send_maybe_relay_isolated)
qed simp

text \<open>The session fields a rekey in flight freezes.\<close>

definition rekey_waiting :: "nat \<Rightarrow> 'ts transport \<Rightarrow> u32 \<Rightarrow> bytes \<Rightarrow> instant option \<Rightarrow> ('hs, 'ts) manager \<Rightarrow> bool" where
  "rekey_waiting i t sid msg tx m \<longleftrightarrow>
     i < length (peers m) \<and> \<not> stale (peers m ! i) \<and> last_tx_at (peers m ! i) = tx \<and>
     (\<exists>rs. state (peers m ! i) = Ready t sid (Some rs) \<and> rh_init_msg rs = msg)"

lemma rekey_waiting_isolated:
  "isolated j m n \<Longrightarrow> j \<noteq> i \<Longrightarrow> rekey_waiting i t sid msg tx m \<Longrightarrow> rekey_waiting i t sid msg tx n"
  by (auto simp: isolated_def rekey_waiting_def)

lemma retry_rekey_waiting: "keeps (rekey_waiting i t sid msg tx) (retry_rekey E i)"
proof (rule keepsI)
  fix m :: "('a, 'b) manager"
  assume w: "rekey_waiting i t sid msg tx m"
  then obtain rs where rs: "state (peers m ! i) = Ready t sid (Some rs)" by (auto simp: rekey_waiting_def)
  show "rekey_waiting i t sid msg tx (snd (retry_rekey E i m))"
    using w rs unfolding retry_rekey_def Let_def
    by (cases rule: send_maybe_relay_cases
          [where E = E and ep = "peer_endpoint (config (peers m ! i))" and r = "via_relay (config (peers m ! i))"
             and ip = "peer_ip (config (peers m ! i))" and pub = "local_pub m" and b = "rh_init_msg rs" and m = m])
      (auto simp: act_simps rekey_waiting_def)
qed

text \<open>A rekey that is never answered hides a dead peer.  While a session has a rekey of its own in
  flight, a maintenance run, however late, neither marks it stale nor sends a keepalive nor
  gives the rekey up: the session stays Ready with the same transport, the same INIT to repeat
  and the same time of last transmission.\<close>

lemma rekey_in_flight_never_stale:
  assumes "rekey_waiting i t sid msg tx m"
  shows "rekey_waiting i t sid msg tx (snd (maintenance C E m))"
proof -
  let ?m1 = "rotate_cookie_secret E (m\<lparr>last_maintenance_at := now E\<rparr>)"
  have same: "peers ?m1 = peers m" "mcfg ?m1 = mcfg m" by (simp_all add: rotate_cookie_secret_def)
  have "keeps (rekey_waiting i t sid msg tx) (perform C E (j, a))" if "(j, a) \<in> set (plan C E ?m1)" for j a
  proof (cases "j = i")
    case True
    obtain rs where "state (peers m ! i) = Ready t sid (Some rs)"
      using assms by (auto simp: rekey_waiting_def)
    then have "a = RetryRekey"
      using that True same by (auto simp: plan_mem plan_peer_def split: if_splits)
    with True show ?thesis using retry_rekey_waiting by simp
  next
    case False
    show ?thesis
      by (rule keepsI) (rule rekey_waiting_isolated [OF perform_isolated False])
  qed
  then have "keeps (rekey_waiting i t sid msg tx) (for_each (perform C E) (plan C E ?m1))"
    by (intro for_each_keeps) auto
  moreover have "rekey_waiting i t sid msg tx ?m1" using assms same by (simp add: rekey_waiting_def)
  ultimately show ?thesis using assms by (auto simp: maintenance_def Let_def dest: keepsD)
qed

definition demo_rekeying :: "(plain_hs, plain_ts) peer_state" where
  "demo_rekeying = Ready demo_sender 7 (Some \<lparr>rh_initiator = demo_initiator, rh_init_msg = [1],
     rh_started_at = 0, rh_next_retry_at = 1\<rparr>)"

theorem rekey_in_flight_never_stale_witness:
  "rekey_waiting 0 demo_sender 7 [1] None
     (snd (maintenance plain (demo_env\<lparr>now := from_secs 100000\<rparr>) (demo_manager demo_rekeying)))"
  by (rule rekey_in_flight_never_stale)
    (simp add: rekey_waiting_def demo_rekeying_def, simp add: demo_session_def)

section \<open>Stale sessions\<close>

text \<open>A stale session is deaf and silent.  For a session marked stale, a tunnel packet from its
  peer is dropped unread (only the time of reception is noted), and no maintenance action is
  planned for it: it sends no keepalive and starts no rekey, also when it is the initiator.\<close>

lemma stale_session_deaf_and_silent:
  assumes "maps_ok m" and "endpoint_to_peer m source = Some i" and "stale (peers m ! i)"
    and "TRANSPORT_HEADER_SIZE + 16 \<le> length pkt" and "pkt ! 0 = MESSAGE_TYPE_TRANSPORT"
  shows "handle_incoming C E source pkt m =
      (Ok (), upd_peer i (\<lambda>p. p\<lparr>last_rx_at := Some (now E)\<rparr>) m) \<and>
    (\<forall>a. (i, a) \<notin> set (plan C E' m))"
proof -
  have i: "i < length (peers m)" by (rule maps_okD(1) [OF assms(1,2)])
  have "pkt \<noteq> []" using assms(4) by (auto simp: TRANSPORT_HEADER_SIZE_def)
  with assms i show ?thesis
    by (simp add: handle_incoming_def handle_message_def refresh_known_source message_types
        handle_transport_def not_less plan_mem plan_peer_def)
qed

definition demo_stale :: "(plain_hs, plain_ts) manager" where
  "demo_stale = upd_peer 0 (\<lambda>p. p\<lparr>stale := True\<rparr>) (demo_manager demo_ready)"

theorem stale_session_deaf_and_silent_witness:
  "handle_incoming plain demo_env demo_addr (MESSAGE_TYPE_TRANSPORT # zeros 31) demo_stale =
     (Ok (), upd_peer 0 (\<lambda>p. p\<lparr>last_rx_at := Some (now demo_env)\<rparr>) demo_stale) \<and>
   (\<forall>a. (0, a) \<notin> set (plan plain demo_env demo_stale))"
proof -
  have "manager_ok demo_stale"
    by (simp add: demo_stale_def manager_ok_def maps_ok_def no_cookies_def demo_session_def
        demo_peer_config_def)
  then have "maps_ok demo_stale" by (simp add: manager_ok_def)
  then show ?thesis
    by (rule stale_session_deaf_and_silent) (simp_all add: demo_stale_def TRANSPORT_HEADER_SIZE_def)
qed

section \<open>Waiting for readiness\<close>

text \<open>What \<open>run_until_ready\<close> reports.  It succeeds iff the manager is ready after fewer than
  \<open>max_steps\<close> error-free steps: when the last permitted step is the one that makes the manager
  ready, the call still reports a timeout.\<close>

lemma run_until_ready_iff:
  "fst (run_until_ready C inputs m) = Ok () \<longleftrightarrow>
   (\<exists>k < length inputs. fst (run C (take k inputs) m) = Ok () \<and>
      is_ready (snd (run C (take k inputs) m)))"
proof (induction inputs arbitrary: m)
  case (Cons input inputs)
  have run0: "run C (take 0 xs) m = (Ok (), m)" for xs by (simp add: run_def ret_def)
  show ?case
  proof (cases "is_ready m")
    case True
    then show ?thesis using run0 [of "input # inputs"] by force
  next
    case False
    obtain r m1 where st: "step C input m = (r, m1)" by (cases "step C input m")
    have run: "run C (take (Suc k) (input # inputs)) m =
        (case r of Ok _ \<Rightarrow> run C (take k inputs) m1 | Err e \<Rightarrow> (Err e, m1) | Panic p \<Rightarrow> (Panic p, m1))" for k
      using st by (cases r) (simp_all add: run_def andthen_def)
    have "fst (run_until_ready C (input # inputs) m) = Ok () \<longleftrightarrow>
        is_ok r \<and> fst (run_until_ready C inputs m1) = Ok ()"
      using False st by (cases r) (simp_all add: andthen_def)
    also have "\<dots> \<longleftrightarrow> (\<exists>k < length inputs. fst (run C (take (Suc k) (input # inputs)) m) = Ok () \<and>
        is_ready (snd (run C (take (Suc k) (input # inputs)) m)))"
      unfolding run by (cases r) (simp_all add: Cons.IH)
    also have "\<dots> \<longleftrightarrow> (\<exists>k < length (input # inputs). fst (run C (take k (input # inputs)) m) = Ok () \<and>
        is_ready (snd (run C (take k (input # inputs)) m)))"
      using False run0 [of "input # inputs"] by (metis (no_types, lifting) Suc_less_eq length_Cons not0_implies_Suc snd_conv)
    finally show ?thesis .
  qed
qed simp

section \<open>Retransmission of the handshake INIT\<close>

definition init_destination :: "('hs, 'ts) manager \<Rightarrow> nat \<Rightarrow> socket_addr" where
  "init_destination m i =
     (let cfg = config (peers m ! i) in case via_relay cfg of Some r \<Rightarrow> r | None \<Rightarrow> peer_endpoint cfg)"

definition init_datagram :: "('hs, 'ts) manager \<Rightarrow> nat \<Rightarrow> bytes \<Rightarrow> bytes" where
  "init_datagram m i msg =
     (let cfg = config (peers m ! i) in
      case via_relay cfg of Some r \<Rightarrow> relay_wrap (local_pub m) (peer_ip cfg) msg | None \<Rightarrow> msg)"

lemma send_cached_init_Ok:
  assumes "i < length (peers m)" and "\<And>a b. send_error E a b = None"
  shows "send_cached_init E i msg m =
    (Ok (), upd_peer i (\<lambda>p. p\<lparr>next_init_at := Some (now E + INIT_RETRY_INTERVAL)\<rparr>)
       (m\<lparr>sent := sent m @ [(init_destination m i, init_datagram m i msg)]\<rparr>))"
  using assms
  by (cases "via_relay (config (peers m ! i))")
    (simp_all add: send_cached_init_def send_maybe_relay_def send_to_def andthen_def init_destination_def
      init_datagram_def Let_def)

text \<open>The handshake INIT is built once and repeated verbatim.  The first due tick of an initiator
  writes the INIT and sends it (wrapped when the peer is behind a relay); two seconds later, and
  not before, a tick sends the same bytes again, with the timestamp and the ephemeral key the
  session was created with.\<close>

lemma init_retransmitted_verbatim:
  assumes "i < length (peers m)" and "state (peers m ! i) = HandshakingAsInitiator ini"
    and "init_due E1 (peers m ! i)" and "cached_init (peers m ! i) = None"
    and "write_init C ini = (Ok msg, ini')"
    and "\<And>a b. send_error E1 a b = None" and "\<And>a b. send_error E2 a b = None"
    and "m1 = snd (init_tick C E1 i m)"
    and "d = (init_destination m i, init_datagram m i (init_with_cookie C (received_cookie (peers m ! i)) msg))"
  shows "sent m1 = sent m @ [d] \<and>
    (if now E1 + INIT_RETRY_INTERVAL \<le> now E2
     then sent (snd (init_tick C E2 i m1)) = sent m @ [d, d]
     else init_tick C E2 i m1 = (Ok (), m1))"
proof -
  let ?full = "init_with_cookie C (received_cookie (peers m ! i)) msg"
  let ?n = "upd_peer i (\<lambda>p. p\<lparr>state := HandshakingAsInitiator ini', cached_init := Some ?full\<rparr>) m"
  have same: "init_destination ?n i = init_destination m i" "init_datagram ?n i b = init_datagram m i b" for b
    using assms(1) by (simp_all add: init_destination_def init_datagram_def local_pub_def Let_def
        split: option.split)
  have "init_tick C E1 i m = send_cached_init E1 i ?full ?n"
    using assms(2-5) by (simp add: init_tick_def Let_def)
  then have m1: "m1 = upd_peer i (\<lambda>p. p\<lparr>next_init_at := Some (now E1 + INIT_RETRY_INTERVAL)\<rparr>)
      (?n\<lparr>sent := sent m @ [d]\<rparr>)"
    using assms(1,6,8,9) same by (simp add: send_cached_init_Ok)
  have p1: "i < length (peers m1)" "state (peers m1 ! i) = HandshakingAsInitiator ini'"
    "cached_init (peers m1 ! i) = Some ?full" "config (peers m1 ! i) = config (peers m ! i)"
    "next_init_at (peers m1 ! i) = Some (now E1 + INIT_RETRY_INTERVAL)" "mcfg m1 = mcfg m" "sent m1 = sent m @ [d]"
    using assms(1) m1 by simp_all
  have again: "init_destination m1 i = init_destination m i" "init_datagram m1 i b = init_datagram m i b" for b
    using p1 by (simp_all add: init_destination_def init_datagram_def local_pub_def Let_def
        split: option.split)
  show ?thesis
  proof (cases "now E1 + INIT_RETRY_INTERVAL \<le> now E2")
    case True
    then have "init_tick C E2 i m1 = send_cached_init E2 i ?full m1"
      using p1 by (simp add: init_tick_def init_due_def Let_def)
    with True show ?thesis
      using p1 again assms(7,9) by (simp add: send_cached_init_Ok)
  next
    case False
    then show ?thesis using p1 by (simp add: init_tick_def init_due_def Let_def)
  qed
qed

definition demo_waiting :: "plain_hs initiator \<Rightarrow> (plain_hs, plain_ts) manager" where
  "demo_waiting ini =
     upd_peer 0 (\<lambda>p. p\<lparr>next_init_at := Some 0\<rparr>) (demo_manager (HandshakingAsInitiator ini))"

theorem init_retransmitted_verbatim_witness:
  "\<exists>ini msg. write_init plain ini = (Ok msg, ini\<lparr>i_state := (i_state ini)\<lparr>ph_phase := 1\<rparr>\<rparr>) \<and>
     sent (snd (init_tick plain (demo_env\<lparr>now := from_secs 7\<rparr>) 0
       (snd (init_tick plain demo_env 0 (demo_waiting ini))))) =
     [(demo_addr, msg), (demo_addr, msg)]"
proof -
  let ?ini = "demo_initiator\<lparr>i_state := (i_state demo_initiator)\<lparr>ph_phase := 0\<rparr>\<rparr>"
  have "\<exists>msg. write_init plain ?ini = (Ok msg, ?ini\<lparr>i_state := (i_state ?ini)\<lparr>ph_phase := 1\<rparr>\<rparr>)"
    by (simp add: write_init_eq [OF plain_digest_sizes])
      (simp add: plain_def plain_hs_write_def demo_initiator_def plain_hs0_def)
  then obtain msg where w: "write_init plain ?ini =
      (Ok msg, ?ini\<lparr>i_state := (i_state ?ini)\<lparr>ph_phase := 1\<rparr>\<rparr>)" by blast
  let ?m = "demo_waiting ?ini"
  have m: "0 < length (peers ?m)" "state (peers ?m ! 0) = HandshakingAsInitiator ?ini"
    "init_due demo_env (peers ?m ! 0)" "cached_init (peers ?m ! 0) = None" "sent ?m = []"
    by (simp_all add: demo_waiting_def init_due_def demo_session_def)
  have "via_relay demo_peer_config = None" by (simp add: demo_peer_config_def)
  then have d: "(demo_addr, msg) = (init_destination ?m 0,
      init_datagram ?m 0 (init_with_cookie plain (received_cookie (peers ?m ! 0)) msg))"
    by (simp add: init_destination_def init_datagram_def demo_waiting_def init_with_cookie_def
        demo_session_def)
  from init_retransmitted_verbatim [OF m(1-4) w _ _ refl d, of "demo_env\<lparr>now := from_secs 7\<rparr>"] m(5) w
  show ?thesis
    by (intro exI [of _ ?ini] exI [of _ msg])
      (simp add: demo_env_def INIT_RETRY_INTERVAL_def from_secs_def)
qed

end
