(* ===== verification/Manager_EndToEnd.thy ===== *)
theory Manager_EndToEnd
  imports Manager_Timers
begin

text \<open>
  Several managers together: a handshake between two of them, and a packet of the TUN device of
  one that comes out of the TUN device of the other, directly and through a relay.
\<close>

section \<open>One encrypted packet\<close>

lemma encrypt_decrypt_pair:
  assumes seq: "sequential_transport C seal skey snum rkey rnum"
    and m: "matched skey snum rkey rnum (inner a) (inner b)"
    and few: "snum (inner a) < 2 ^ 64 - 1"
    and fit: "length p + 32 \<le> cap" "length p \<le> cap'"
  obtains ct a' b' where "encrypt C p rid cap a = (Ok ct, a')" and "decrypt C ct cap' b = (Ok p, b')"
    and "length ct = length p + 32" and "ct ! 0 = MESSAGE_TYPE_TRANSPORT"
    and "matched skey snum rkey rnum (inner a') (inner b')"
    and "snum (inner a') = Suc (snum (inner a))" and "snum (inner b') = snum (inner b)"
proof -
  have cap: "length p + 16 \<le> cap - 16" using fit(1) by simp
  obtain ta where ta: "ts_write C (inner a) p (cap - 16) = (Inr (seal (skey (inner a)) (snum (inner a)) p), ta)"
    "skey ta = skey (inner a)" "snum ta = Suc (snum (inner a))" "rkey ta = rkey (inner a)"
    "rnum ta = rnum (inner a)"
    by (rule seq_write [OF seq cap few])
  have same: "skey (inner a) = rkey (inner b)" "snum (inner a) = rnum (inner b)"
    using m by (simp_all add: matched_def)
  have "rnum (inner b) < 2 ^ 64 - 1" using few same by simp
  with seq fit(2) obtain tb where
    tb: "ts_read C (inner b) (seal (rkey (inner b)) (rnum (inner b)) p) cap' = (Inr p, tb)"
    "skey tb = skey (inner b)" "snum tb = snum (inner b)" "rkey tb = rkey (inner b)"
    "rnum tb = Suc (rnum (inner b))"
    unfolding sequential_transport_def by metis
  have len: "length (seal k n p) = length p + 16" for k n
    using seq by (simp add: sequential_transport_def)
  let ?ct = "frame_header rid (send_counter a) @ seal (skey (inner a)) (snum (inner a)) p"
  let ?a = "a\<lparr>send_counter := send_counter a + 1, inner := ta\<rparr>"
  have "encrypt C p rid cap a = (Ok ?ct, ?a)"
    using fit(1) ta(1) by (simp add: encrypt_eq)
  moreover have "decrypt C ?ct cap' b = (Ok p, b\<lparr>inner := tb\<rparr>)"
    using tb(1) same len by (simp add: decrypt_frame)
  moreover have "matched skey snum rkey rnum (inner ?a) (inner (b\<lparr>inner := tb\<rparr>))"
    using m ta tb by (simp add: matched_def)
  ultimately show ?thesis
    using that len ta(3) tb(3) by simp
qed

lemma lookup_lt: "lookup_peer_by_dest_ip m pkt = Some i \<Longrightarrow> i < length (peers m) \<and> pkt \<noteq> []"
  by (auto simp: lookup_peer_by_dest_ip_def Let_def split: if_splits dest: find_index_0)

lemma dispatch_sends:
  assumes "lookup_peer_by_dest_ip m pkt = Some i" and "state (peers m ! i) = Ready t sid rh"
    and "encrypt C pkt sid 1600 t = (Ok ct, t')" and "\<And>a b. send_error E a b = None"
  shows "dispatch_tun_packet C E pkt m =
    (Ok (), upd_peer i (\<lambda>p. p\<lparr>state := Ready t' sid rh, last_tx_at := Some (now E)\<rparr>)
       (m\<lparr>sent := sent m @ [(init_destination m i, init_datagram m i ct)]\<rparr>))"
  using assms lookup_lt [OF assms(1)]
  by (cases "via_relay (config (peers m ! i))")
    (simp_all add: dispatch_tun_packet_def Let_def send_maybe_relay_def send_to_def andthen_def
      init_destination_def init_datagram_def local_pub_def upd_peer_def)

section \<open>A packet through the tunnel\<close>

lemma packet_through:
  assumes seq: "sequential_transport C seal skey snum rkey rnum"
    and A: "lookup_peer_by_dest_ip A pkt = Some i" "state (peers A ! i) = Ready tA sidA rhA"
      "via_relay (config (peers A ! i)) = None" "peer_endpoint (config (peers A ! i)) = addrB"
    and B: "maps_ok B" "endpoint_to_peer B addrA = Some j" "state (peers B ! j) = Ready tB sidB rhB"
      "\<not> stale (peers B ! j)"
    and session: "matched skey snum rkey rnum (inner tA) (inner tB)" "snum (inner tA) < 2 ^ 64 - 1"
    and fits: "length pkt \<le> 1500"
    and io: "\<And>a b. send_error EA a b = None" "\<And>b. device_error EB b = None"
  obtains ct tA' tB' where
    "dispatch_tun_packet C EA pkt A =
       (Ok (), upd_peer i (\<lambda>p. p\<lparr>state := Ready tA' sidA rhA, last_tx_at := Some (now EA)\<rparr>)
          (A\<lparr>sent := sent A @ [(addrB, ct)]\<rparr>))"
    "handle_incoming C EB addrA ct B =
       (Ok (), (upd_peer j (\<lambda>p. p\<lparr>last_rx_at := Some (now EB), state := Ready tB' sidB rhB\<rparr>) B)
          \<lparr>written := written B @ [pkt]\<rparr>)"
    "length ct = length pkt + 32" "matched skey snum rkey rnum (inner tA') (inner tB')"
    "snum (inner tA') = Suc (snum (inner tA))" "snum (inner tB') = snum (inner tB)"
    "i < length (peers A)" "j < length (peers B)"
proof -
  have "length pkt + 32 \<le> 1600" "length pkt \<le> 1500" using fits by simp_all
  then obtain ct tA' tB' where ct: "encrypt C pkt sidA 1600 tA = (Ok ct, tA')"
    "decrypt C ct 1500 tB = (Ok pkt, tB')" "length ct = length pkt + 32" "ct ! 0 = MESSAGE_TYPE_TRANSPORT"
    "matched skey snum rkey rnum (inner tA') (inner tB')" "snum (inner tA') = Suc (snum (inner tA))"
    "snum (inner tB') = snum (inner tB)"
    by (rule encrypt_decrypt_pair [OF seq session])
  have i: "i < length (peers A)" "pkt \<noteq> []" using lookup_lt [OF A(1)] by simp_all
  have j: "j < length (peers B)" by (rule maps_okD(1) [OF B(1,2)])
  have sendA: "dispatch_tun_packet C EA pkt A =
      (Ok (), upd_peer i (\<lambda>p. p\<lparr>state := Ready tA' sidA rhA, last_tx_at := Some (now EA)\<rparr>)
         (A\<lparr>sent := sent A @ [(addrB, ct)]\<rparr>))"
    using dispatch_sends [OF A(1,2) ct(1) io(1)] A(3,4)
    by (simp add: init_destination_def init_datagram_def)
  have "ct \<noteq> []" "\<not> length ct < 32" using ct(3) by auto
  then have recvB: "handle_incoming C EB addrA ct B =
      (Ok (), (upd_peer j (\<lambda>p. p\<lparr>last_rx_at := Some (now EB), state := Ready tB' sidB rhB\<rparr>) B)
         \<lparr>written := written B @ [pkt]\<rparr>)"
    using B j ct(2,4) i(2) io(2) refresh_known_source [OF B(1,2), of EB]
    by (simp add: handle_incoming_def handle_message_def message_types handle_transport_def
        TRANSPORT_HEADER_SIZE_def device_write_def Let_def)
  show ?thesis by (rule that [OF sendA recvB ct(3,5-7) i(1) j])
qed

text \<open>A TUN packet is delivered.  Let two managers hold the two ends of one session, both
  directly connected.  An IPv4 packet of at most 1500 bytes read from the first device, whose
  destination address is the peer's, is encrypted and sent to the peer's endpoint; the datagram
  is at most 1532 bytes, and the second manager, receiving it from the first one's address,
  writes exactly the packet to its device.  Afterwards both still hold the two ends of the
  session, one packet further.\<close>

lemma tun_packet_delivered:
  assumes seq: "sequential_transport C seal skey snum rkey rnum"
    and A: "lookup_peer_by_dest_ip A pkt = Some i" "state (peers A ! i) = Ready tA sidA rhA"
      "via_relay (config (peers A ! i)) = None" "peer_endpoint (config (peers A ! i)) = addrB"
    and B: "maps_ok B" "endpoint_to_peer B addrA = Some j" "state (peers B ! j) = Ready tB sidB rhB"
      "\<not> stale (peers B ! j)"
    and session: "matched skey snum rkey rnum (inner tA) (inner tB)" "snum (inner tA) < 2 ^ 64 - 1"
    and fits: "length pkt \<le> 1500"
    and io: "\<And>a b. send_error EA a b = None" "\<And>b. device_error EB b = None"
  shows "\<exists>datagram A' B' tA' tB'.
    dispatch_tun_packet C EA pkt A = (Ok (), A') \<and> sent A' = sent A @ [(addrB, datagram)] \<and>
    length datagram \<le> 1532 \<and>
    handle_incoming C EB addrA datagram B = (Ok (), B') \<and> written B' = written B @ [pkt] \<and>
    state (peers A' ! i) = Ready tA' sidA rhA \<and> state (peers B' ! j) = Ready tB' sidB rhB \<and>
    matched skey snum rkey rnum (inner tA') (inner tB') \<and>
    snum (inner tA') = Suc (snum (inner tA))"
proof -
  obtain ct tA' tB' where r:
    "dispatch_tun_packet C EA pkt A =
       (Ok (), upd_peer i (\<lambda>p. p\<lparr>state := Ready tA' sidA rhA, last_tx_at := Some (now EA)\<rparr>)
          (A\<lparr>sent := sent A @ [(addrB, ct)]\<rparr>))"
    "handle_incoming C EB addrA ct B =
       (Ok (), (upd_peer j (\<lambda>p. p\<lparr>last_rx_at := Some (now EB), state := Ready tB' sidB rhB\<rparr>) B)
          \<lparr>written := written B @ [pkt]\<rparr>)"
    "length ct = length pkt + 32" "matched skey snum rkey rnum (inner tA') (inner tB')"
    "snum (inner tA') = Suc (snum (inner tA))" "snum (inner tB') = snum (inner tB)"
    "i < length (peers A)" "j < length (peers B)"
    by (rule packet_through [OF assms])
  then show ?thesis
    using fits by (intro exI [of _ ct] exI) (auto simp: r(3))
qed

lemma relayed_transport_received:
  assumes "maps_ok m" and "length pub = 32" and "pubkey_to_peer m pub = Some j"
    and "state (peers m ! j) = Ready t sid rh"
    and "decrypt C body 1500 t = (Ok p, t')" and "p \<noteq> []"
    and "TRANSPORT_HEADER_SIZE + 16 \<le> length body" and "body ! 0 = MESSAGE_TYPE_TRANSPORT"
    and "device_error E p = None"
  shows "handle_incoming C E source (relay_wrap pub (local_ip (mcfg m)) body) m =
    (Ok (), (upd_peer j (\<lambda>q. q\<lparr>state := Ready t' sid rh\<rparr>) (relay_noted E source pub j m))
              \<lparr>written := written m @ [p]\<rparr>)"
proof -
  let ?n = "relay_noted E source pub j m"
  let ?pkt = "relay_wrap pub (local_ip (mcfg m)) body"
  note f = relay_fields [OF assms(2), of "local_ip (mcfg m)" body]
  have j: "j < length (peers m)" by (rule maps_okD(3) [OF assms(1,3)])
  have len: "RELAY_HEADER_SIZE \<le> length ?pkt" using length_relay_wrap [OF assms(2)] by simp
  have "handle_incoming C E source ?pkt m = handle_relay C E source ?pkt ?n"
    using handle_incoming_relay [OF assms(1) len f(4), of j] assms(3) f(1) by simp
  also have "\<dots> = relayed_transport C E j body ?n"
    using f len assms(3,7,8) j by (auto simp: handle_relay_def TRANSPORT_HEADER_SIZE_def)
  finally show ?thesis
    using assms(4-7,9) j by (simp add: relayed_transport_def device_write_def Let_def not_less)
qed


section \<open>A handshake between two managers\<close>

text \<open>The messages between an initiator and a responder built earlier.\<close>

lemma handshake_of_pair:
  assumes works: "noise_handshake_works C PROTOCOL_NAME paired" and sizes: "digest_sizes C"
    and keys: "length skA = 32" "length skB = 32" "length ps = 32"
    and ini: "initiator_new C (keypair_from_bytes C skA) (kp_public (keypair_from_bytes C skB)) ps sidA ts ra = Ok i0"
    and rsp: "responder_new C (keypair_from_bytes C skB) ps sidB built rb = Ok r0"
    and fresh: "\<not> outside_replay_window t ts"
  obtains i1 m1 ti r1 m2 tr where "write_init C i0 = (Ok m1, i1)" "length m1 = 148" "seg m1 4 8 = u32_to_le sidA"
    "m1 ! 0 = MESSAGE_TYPE_INIT" "consume_init C m1 (set_current_time t r0) = (Ok m2, r1)" "length m2 = 92"
    "m2 ! 0 = MESSAGE_TYPE_RESPONSE" "seg m2 4 8 = u32_to_le sidB"
    "consume_response C i1 m2 = Ok (transport_new ti sidA)"
    "into_transport C r1 = Ok (transport_new tr sidB)" "paired ti tr"
proof -
  from handshake_messages [OF works sizes keys fresh, of sidA ra sidB rb]
  obtain i0' i1 m1 ti r0' r1 m2 tr where
    new: "initiator_new C (keypair_from_bytes C skA) (x25519_public C skB) ps sidA ts ra = Ok i0'"
      "responder_new C (keypair_from_bytes C skB) ps sidB t rb = Ok r0'"
    and msgs: "write_init C i0' = (Ok m1, i1)" "length m1 = 148" "seg m1 4 8 = u32_to_le sidA"
      "m1 ! 0 = MESSAGE_TYPE_INIT" "consume_init C m1 r0' = (Ok m2, r1)" "length m2 = 92"
      "m2 ! 0 = MESSAGE_TYPE_RESPONSE" "seg m2 4 8 = u32_to_le sidB"
      "consume_response C i1 m2 = Ok (transport_new ti sidA)"
      "into_transport C r1 = Ok (transport_new tr sidB)" "paired ti tr"
    by blast
  have i0: "i0' = i0" using new(1) ini by (simp add: keypair_from_bytes_def)
  have r0: "r0' = set_current_time t r0"
    using new(2) rsp by (auto simp: responder_new_def set_current_time_def split: sum.splits)
  show ?thesis by (rule that [OF msgs(1) [unfolded i0] msgs(2-4) msgs(5) [unfolded r0] msgs(6-11)])
qed

lemma init_tick_first:
  assumes "i < length (peers m)" and "state (peers m ! i) = HandshakingAsInitiator i0" and "init_due E (peers m ! i)"
    and "cached_init (peers m ! i) = None" and "received_cookie (peers m ! i) = None"
    and "write_init C i0 = (Ok init, i1)" and "\<And>a b. send_error E a b = None"
  shows "init_tick C E i m =
    (Ok (), upd_peer i (\<lambda>p. p\<lparr>state := HandshakingAsInitiator i1, cached_init := Some init,
       next_init_at := Some (now E + INIT_RETRY_INTERVAL)\<rparr>)
     (m\<lparr>sent := sent m @ [(init_destination m i, init_datagram m i init)]\<rparr>))"
proof -
  have "init_destination (upd_peer i f m) i = init_destination m i"
    "init_datagram (upd_peer i f m) i b = init_datagram m i b"
    if "\<And>p. config (f p) = config p" for f b
    using assms(1) that
    by (cases "via_relay (config (peers m ! i))"; simp add: init_destination_def init_datagram_def local_pub_def)+
  then show ?thesis
    using assms by (simp add: init_tick_def init_with_cookie_def send_cached_init_Ok) (simp add: upd_peer_def)
qed

text \<open>The two managers after the handshake, written out.\<close>

lemma managers_handshake:
  assumes works: "noise_handshake_works C PROTOCOL_NAME paired" and sizes: "digest_sizes C"
    and keys: "length skA = 32" "length skB = 32" "length ps = 32"
    and ini: "initiator_new C (keypair_from_bytes C skA) (kp_public (keypair_from_bytes C skB)) ps sidA ts ra = Ok i0"
    and rsp: "responder_new C (keypair_from_bytes C skB) ps sidB built rb = Ok r0"
    and fresh: "\<not> outside_replay_window (tai EB) ts"
    and A: "maps_ok A" "endpoint_to_peer A addrB = Some i"
      "state (peers A ! i) = HandshakingAsInitiator i0" "init_due EA (peers A ! i)"
      "cached_init (peers A ! i) = None" "received_cookie (peers A ! i) = None"
      "via_relay (config (peers A ! i)) = None"
    and B: "maps_ok B" "endpoint_to_peer B addrA = Some j"
      "state (peers B ! j) = HandshakingAsResponder r0" "\<not> cookie_required (peers B ! j)"
      "init_rx_count (count_init EB (peers B ! j)) \<le> COOKIE_INIT_RATE_LIMIT"
    and io: "\<And>a b. send_error EA a b = None" "\<And>a b. send_error EB a b = None"
  obtains init response i1 ti tr where
    "init_tick C EA i A = (Ok (), upd_peer i (\<lambda>p. p\<lparr>state := HandshakingAsInitiator i1, cached_init := Some init,
       next_init_at := Some (now EA + INIT_RETRY_INTERVAL)\<rparr>) (A\<lparr>sent := sent A @ [(addrB, init)]\<rparr>))"
    "handle_incoming C EB addrA init B = (Ok (), upd_peer j
       (\<lambda>p. (count_init EB p)\<lparr>state := Ready (transport_new tr sidB) sidA None,
              last_handshake_at := Some (now EB), last_rx_at := Some (now EB)\<rparr>)
       (B\<lparr>sent := sent B @ [(addrA, response)]\<rparr>))"
    "handle_incoming C EA' addrB response (upd_peer i (\<lambda>p. p\<lparr>state := HandshakingAsInitiator i1,
        cached_init := Some init, next_init_at := Some (now EA + INIT_RETRY_INTERVAL)\<rparr>)
        (A\<lparr>sent := sent A @ [(addrB, init)]\<rparr>)) =
     (Ok (), upd_peer i (\<lambda>p. p\<lparr>cached_init := Some init, next_init_at := Some (now EA + INIT_RETRY_INTERVAL),
        last_rx_at := Some (now EA'), state := Ready (transport_new ti sidA) sidB None,
        last_handshake_at := Some (now EA')\<rparr>) (A\<lparr>sent := sent A @ [(addrB, init)]\<rparr>))"
    "paired ti tr"
proof -
  from works sizes keys ini rsp fresh obtain i1 m1 ti r1 m2 tr where
    msgs: "write_init C i0 = (Ok m1, i1)" "length m1 = 148" "seg m1 4 8 = u32_to_le sidA"
      "m1 ! 0 = MESSAGE_TYPE_INIT" "consume_init C m1 (set_current_time (tai EB) r0) = (Ok m2, r1)" "length m2 = 92"
      "m2 ! 0 = MESSAGE_TYPE_RESPONSE" "seg m2 4 8 = u32_to_le sidB"
      "consume_response C i1 m2 = Ok (transport_new ti sidA)"
      "into_transport C r1 = Ok (transport_new tr sidB)" "paired ti tr"
    by (rule handshake_of_pair)
  have i: "i < length (peers A)" by (rule maps_okD(1) [OF A(1,2)])
  have j: "j < length (peers B)" by (rule maps_okD(1) [OF B(1,2)])
  have epB: "peer_endpoint (config (peers A ! i)) = addrB" by (rule maps_okD(2) [OF A(1,2)])
  let ?A1 = "upd_peer i (\<lambda>p. p\<lparr>state := HandshakingAsInitiator i1, cached_init := Some m1,
      next_init_at := Some (now EA + INIT_RETRY_INTERVAL)\<rparr>) (A\<lparr>sent := sent A @ [(addrB, m1)]\<rparr>)"
  have tick: "init_tick C EA i A = (Ok (), ?A1)"
    using init_tick_first [OF i A(3-6) msgs(1) io(1)] A(7) epB
    by (simp add: init_destination_def init_datagram_def)
  let ?n = "upd_peer j (\<lambda>p. p\<lparr>last_rx_at := Some (now EB)\<rparr>) B"
  have count: "init_rx_count (count_init EB ((peers B ! j)\<lparr>last_rx_at := x\<rparr>)) =
      init_rx_count (count_init EB (peers B ! j))" for x
    by (simp add: count_init_def Let_def)
  have "handle_incoming C EB addrA m1 B = guarded_init C EB j addrA m1 ?n"
    using B(2) j msgs(2,4) refresh_known_source [OF B(1,2), of EB]
    by (auto simp: handle_incoming_def handle_message_def message_types)
  also have "\<dots> = (Ok (), upd_peer j
       (\<lambda>p. (count_init EB p)\<lparr>state := Ready (transport_new tr sidB) (u32_from_le (seg m1 4 8)) None,
              last_handshake_at := Some (now EB), last_rx_at := Some (now EB)\<rparr>)
       (?n\<lparr>sent := sent ?n @ [(addrA, m2)]\<rparr>))"
    using B j count msgs(5,10) io(2)
    by (intro guarded_init_completes [of _ _ r0]) (simp_all add: leD)
  finally have answer: "handle_incoming C EB addrA m1 B = (Ok (), upd_peer j
       (\<lambda>p. (count_init EB p)\<lparr>state := Ready (transport_new tr sidB) sidA None,
              last_handshake_at := Some (now EB), last_rx_at := Some (now EB)\<rparr>)
       (B\<lparr>sent := sent B @ [(addrA, m2)]\<rparr>))"
    using msgs(3) j by (simp add: upd_peer_def count_init_rx)
  have A1: "maps_ok ?A1" "endpoint_to_peer ?A1 addrB = Some i"
    using A(1,2) by (auto simp: maps_ok_def)
  have accept: "handle_incoming C EA' addrB m2 ?A1 = (Ok (), upd_peer i
      (\<lambda>p. p\<lparr>cached_init := Some m1, next_init_at := Some (now EA + INIT_RETRY_INTERVAL),
        last_rx_at := Some (now EA'), state := Ready (transport_new ti sidA) sidB None,
        last_handshake_at := Some (now EA')\<rparr>) (A\<lparr>sent := sent A @ [(addrB, m1)]\<rparr>))"
    using A1(2) i msgs(6-9) refresh_known_source [OF A1, of EA']
    by (auto simp: handle_incoming_def handle_message_def message_types handle_response_def
        RESPONSE_SIZE_def Let_def upd_peer_def)
  show ?thesis by (rule that [OF tick answer accept msgs(11)])
qed

text \<open>C8: Two managers establish a session.  One manager holds an initiator for the other, which holds
  a waiting responder for it, with matching keys and PSK; both are directly connected.  The
  initiator's due tick sends the INIT to the responder's address; the responder, receiving it
  from the initiator's address, answers with a RESPONSE and is Ready; the initiator receives it
  and is Ready.  The two sessions are the two ends of one Noise session with fresh counters, and
  each side has the other's sender id.\<close>

theorem managers_establish_session:
  assumes works: "noise_handshake_works C PROTOCOL_NAME paired" and sizes: "digest_sizes C"
    and keys: "length skA = 32" "length skB = 32" "length ps = 32"
    and ini: "initiator_new C (keypair_from_bytes C skA) (kp_public (keypair_from_bytes C skB)) ps sidA ts ra = Ok i0"
    and rsp: "responder_new C (keypair_from_bytes C skB) ps sidB built rb = Ok r0"
    and fresh: "\<not> outside_replay_window (tai EB) ts"
    and A: "maps_ok A" "endpoint_to_peer A addrB = Some i"
      "state (peers A ! i) = HandshakingAsInitiator i0" "init_due EA (peers A ! i)"
      "cached_init (peers A ! i) = None" "received_cookie (peers A ! i) = None"
      "via_relay (config (peers A ! i)) = None"
    and B: "maps_ok B" "endpoint_to_peer B addrA = Some j"
      "state (peers B ! j) = HandshakingAsResponder r0" "\<not> cookie_required (peers B ! j)"
      "init_rx_count (count_init EB (peers B ! j)) \<le> COOKIE_INIT_RATE_LIMIT"
    and io: "\<And>a b. send_error EA a b = None" "\<And>a b. send_error EB a b = None"
  shows "\<exists>init response A1 B1 A2 tA tB.
    init_tick C EA i A = (Ok (), A1) \<and> sent A1 = sent A @ [(addrB, init)] \<and>
    handle_incoming C EB addrA init B = (Ok (), B1) \<and> sent B1 = sent B @ [(addrA, response)] \<and>
    handle_incoming C EA' addrB response A1 = (Ok (), A2) \<and>
    state (peers A2 ! i) = Ready tA sidB None \<and> state (peers B1 ! j) = Ready tB sidA None \<and>
    paired (inner tA) (inner tB) \<and> send_counter tA = 0 \<and> send_counter tB = 0 \<and>
    tr_sender_id tA = sidA \<and> tr_sender_id tB = sidB"
proof -
  have ij: "i < length (peers A)" "j < length (peers B)"
    using maps_okD(1) [OF A(1,2)] maps_okD(1) [OF B(1,2)] .
  show ?thesis
    by (rule managers_handshake [OF assms, of EA'])
      (intro exI conjI, assumption, simp, assumption, simp, assumption,
        simp_all add: ij transport_new_def, simp_all)
qed

section \<open>Witnesses\<close>

definition demo_packet :: bytes where
  "demo_packet = [0x45, 0, 0, 20, 0, 0, 0, 0, 64, 17, 0, 0, 0, 0, 0, 200, 0, 0, 0, 100]"

lemma demo_packet_ip:
  "drop_bit 4 (demo_packet ! 0) = 4" "length demo_packet = 20" "demo_packet \<noteq> []"
  "ipv4_new (demo_packet ! 16) (demo_packet ! 17) (demo_packet ! 18) (demo_packet ! 19) = 100"
  by (simp_all add: demo_packet_def ipv4_new_def u32_from_be_def)

theorem tun_packet_delivered_witness:
  "\<exists>datagram A' B'.
    dispatch_tun_packet plain demo_env demo_packet (demo_manager (Ready demo_sender 9 None)) = (Ok (), A') \<and>
    sent A' = [(demo_addr, datagram)] \<and>
    handle_incoming plain demo_env demo_addr datagram (demo_manager (Ready demo_receiver 7 None)) = (Ok (), B') \<and>
    written B' = [demo_packet]"
proof -
  let ?A = "demo_manager (Ready demo_sender 9 None)"
  let ?B = "demo_manager (Ready demo_receiver 7 None)"
  have "peer_ip demo_peer_config = 100" "via_relay demo_peer_config = None"
    by (simp_all add: demo_peer_config_def)
  then have A: "lookup_peer_by_dest_ip ?A demo_packet = Some 0"
    "state (peers ?A ! 0) = Ready demo_sender 9 None" "via_relay (config (peers ?A ! 0)) = None"
    "peer_endpoint (config (peers ?A ! 0)) = demo_addr" "sent ?A = []"
    using demo_packet_ip by (simp_all add: lookup_peer_by_dest_ip_def)
  have B: "endpoint_to_peer ?B demo_addr = Some 0" "state (peers ?B ! 0) = Ready demo_receiver 7 None"
    "\<not> stale (peers ?B ! 0)" "written ?B = []" by simp_all
  have few: "pt_snum (inner demo_sender) < 2 ^ 64 - 1" "length demo_packet \<le> 1500"
    by (simp_all add: demo_sender_def transport_new_def demo_packet_ip)
  from tun_packet_delivered [OF plain_sequential_transport A(1-4) demo_manager_maps B(1-3) demo_matched few
      demo_env_simps] A(5) B(4)
  show ?thesis by auto
qed

definition demo_A :: "(plain_hs, plain_ts) manager" where
  "demo_A = upd_peer 0 (\<lambda>p. p\<lparr>config := demo_peer_config\<lparr>via_relay := Some demo_stranger\<rparr>\<rparr>)
     (demo_manager (Ready demo_sender 9 None))"

definition demo_R :: "(plain_hs, plain_ts) manager" where
  "demo_R = (demo_manager Init)
     \<lparr>peers := [(demo_session Init)\<lparr>config := demo_peer_config\<lparr>peer_pub := replicate 32 6, peer_ip := 200\<rparr>\<rparr>,
               (demo_session Init)\<lparr>config := demo_peer_config\<lparr>peer_pub := replicate 32 7, peer_endpoint := demo_stranger\<rparr>\<rparr>],
      endpoint_to_peer := [demo_addr \<mapsto> 0, demo_stranger \<mapsto> 1],
      pubkey_to_peer := [replicate 32 6 \<mapsto> 0, replicate 32 7 \<mapsto> 1]\<rparr>"

definition demo_B :: "(plain_hs, plain_ts) manager" where
  "demo_B = (demo_manager Init)
     \<lparr>peers := [(demo_session (Ready demo_receiver 7 None))\<lparr>config := demo_peer_config\<lparr>peer_pub := replicate 32 6\<rparr>\<rparr>],
      pubkey_to_peer := [replicate 32 6 \<mapsto> 0], mcfg := demo_config\<lparr>local_ip := 100\<rparr>\<rparr>"

lemma demo_triple_maps: "maps_ok demo_R" "maps_ok demo_B"
proof -
  have neq: "(replicate 32 (6 :: u8)) \<noteq> replicate 32 7" by (simp add: replicate_eq_replicate)
  then show "maps_ok demo_R"
    by (auto simp: maps_ok_def demo_R_def less_Suc_eq split: if_splits)
  show "maps_ok demo_B" by (auto simp: maps_ok_def demo_B_def split: if_splits)
qed


theorem managers_establish_session_witness:
  "\<exists>i0 r0 init response A1 B1 A2 tA tB.
    init_tick plain demo_env 0 (demo_waiting i0) = (Ok (), A1) \<and> sent A1 = [(demo_addr, init)] \<and>
    handle_incoming plain demo_env demo_addr init (demo_quiet (HandshakingAsResponder r0)) = (Ok (), B1) \<and>
    sent B1 = [(demo_addr, response)] \<and>
    handle_incoming plain demo_env demo_addr response A1 = (Ok (), A2) \<and>
    state (peers A2 ! 0) = Ready tA 2 None \<and> state (peers B1 ! 0) = Ready tB 1 None \<and>
    matched pt_skey pt_snum pt_rkey pt_rnum (inner tA) (inner tB)"
proof -
  have lens: "length (replicate 32 (5 :: u8)) = 32" "length (replicate 32 (6 :: u8)) = 32"
    "length (zeros 32) = 32" by simp_all
  obtain i0 where i0: "initiator_new plain (keypair_from_bytes plain (replicate 32 5))
      (kp_public (keypair_from_bytes plain (replicate 32 6))) (zeros 32) 1 (Tai64N 1000 0) 11 = Ok i0"
    by (simp add: initiator_new_def plain_def)
  obtain r0 where r0: "responder_new plain (keypair_from_bytes plain (replicate 32 6)) (zeros 32) 2
      (Tai64N 1000 0) 12 = Ok r0"
    by (simp add: responder_new_def plain_def)
  have fresh: "\<not> outside_replay_window (tai demo_env) (Tai64N 1000 0)"
    by (simp add: demo_env_def inside_window_diff)
  let ?A = "demo_waiting i0" and ?B = "demo_quiet (HandshakingAsResponder r0)"
  have "manager_ok ?A"
    by (simp add: manager_ok_def maps_ok_def no_cookies_def demo_waiting_def demo_session_def)
      (simp add: demo_peer_config_def)
  then have A: "maps_ok ?A" "endpoint_to_peer ?A demo_addr = Some 0"
    "state (peers ?A ! 0) = HandshakingAsInitiator i0" "init_due demo_env (peers ?A ! 0)"
    "cached_init (peers ?A ! 0) = None" "received_cookie (peers ?A ! 0) = None"
    "via_relay (config (peers ?A ! 0)) = None" "sent ?A = []"
    by (simp_all add: manager_ok_def demo_waiting_def init_due_def)
      (simp_all add: demo_session_def demo_peer_config_def)
  have B: "endpoint_to_peer ?B demo_addr = Some 0" "state (peers ?B ! 0) = HandshakingAsResponder r0"
    "\<not> cookie_required (peers ?B ! 0)"
    "init_rx_count (count_init demo_env (peers ?B ! 0)) \<le> COOKIE_INIT_RATE_LIMIT" "sent ?B = []"
    by (simp_all add: demo_quiet_def demo_session_def count_init_def Let_def demo_env_def
        COOKIE_INIT_RATE_LIMIT_def)
  from managers_establish_session [OF plain_works plain_digest_sizes lens i0 r0 fresh A(1-7)
      demo_quiet_maps B(1-4) demo_env_simps(1) demo_env_simps(1), of demo_env] A(8) B(5)
  show ?thesis by (metis append_Nil)
qed

end
