(* ===== verification/Manager_Stream.thy ===== *)
theory Manager_Stream
  imports Manager_EndToEnd
begin

text \<open>
  Two managers on a network that loses nothing and keeps the order: what is read from the TUN
  device of one end is written to the TUN device of the other, for any mix of packets in both
  directions.
\<close>

section \<open>The network between two managers\<close>

text \<open>
  A packet enters the device of the first manager; every datagram the manager sends to the address
  of the second one is handed to it.
\<close>

definition deliver ::
  "('hs, 'ts) crypto \<Rightarrow> env \<Rightarrow> socket_addr \<Rightarrow> socket_addr \<Rightarrow> (socket_addr \<times> bytes) list \<Rightarrow>
   ('hs, 'ts) manager \<Rightarrow> ('hs, 'ts) manager" where
  "deliver C E from to sents m =
     fold (\<lambda>(dst, d) m. if dst = to then snd (handle_incoming C E from d m) else m) sents m"

definition carry ::
  "('hs, 'ts) crypto \<Rightarrow> env \<Rightarrow> env \<Rightarrow> socket_addr \<Rightarrow> socket_addr \<Rightarrow> bytes \<Rightarrow>
   ('hs, 'ts) manager \<times> ('hs, 'ts) manager \<Rightarrow> ('hs, 'ts) manager \<times> ('hs, 'ts) manager" where
  "carry C EA EB addrA addrB pkt AB =
     (let (A, B) = AB; A' = snd (dispatch_tun_packet C EA pkt A)
      in (A', deliver C EB addrA addrB (drop (length (sent A)) (sent A')) B))"

datatype flow = Forth bytes | Back bytes

fun exchange ::
  "('hs, 'ts) crypto \<Rightarrow> env \<Rightarrow> env \<Rightarrow> socket_addr \<Rightarrow> socket_addr \<Rightarrow> flow \<Rightarrow>
   ('hs, 'ts) manager \<times> ('hs, 'ts) manager \<Rightarrow> ('hs, 'ts) manager \<times> ('hs, 'ts) manager" where
  "exchange C EA EB addrA addrB (Forth pkt) AB = carry C EA EB addrA addrB pkt AB"
| "exchange C EA EB addrA addrB (Back pkt) (A, B) =
     (case carry C EB EA addrB addrA pkt (B, A) of (B', A') \<Rightarrow> (A', B'))"

fun forth :: "flow list \<Rightarrow> bytes list" where
  "forth [] = []"
| "forth (Forth p # fs) = p # forth fs"
| "forth (Back p # fs) = forth fs"

fun backs :: "flow list \<Rightarrow> bytes list" where
  "backs [] = []"
| "backs (Forth p # fs) = backs fs"
| "backs (Back p # fs) = p # backs fs"

section \<open>Two ends of one session\<close>

text \<open>One side of a direct session with the peer at \<open>addr\<close>.\<close>

definition direct_session ::
  "socket_addr \<Rightarrow> nat \<Rightarrow> 'ts transport \<Rightarrow> ('hs, 'ts) manager \<Rightarrow> bool" where
  "direct_session addr i t m \<longleftrightarrow>
     maps_ok m \<and> endpoint_to_peer m addr = Some i \<and> via_relay (config (peers m ! i)) = None \<and>
     \<not> stale (peers m ! i) \<and> (\<exists>sid rh. state (peers m ! i) = Ready t sid rh)"

definition mesh_addresses :: "('hs, 'ts) manager \<Rightarrow> u32 list" where
  "mesh_addresses m = map (\<lambda>p. peer_ip (config p)) (peers m)"

text \<open>\<open>a\<close> and \<open>b\<close> count what each end has sent.\<close>

definition linked ::
  "('ts \<Rightarrow> 'k) \<Rightarrow> ('ts \<Rightarrow> nat) \<Rightarrow> ('ts \<Rightarrow> 'k) \<Rightarrow> ('ts \<Rightarrow> nat) \<Rightarrow> socket_addr \<Rightarrow> socket_addr \<Rightarrow>
   nat \<Rightarrow> nat \<Rightarrow> nat \<Rightarrow> nat \<Rightarrow> ('hs, 'ts) manager \<times> ('hs, 'ts) manager \<Rightarrow> bool" where
  "linked skey snum rkey rnum addrA addrB i j a b AB \<longleftrightarrow>
     (\<exists>tA tB. direct_session addrB i tA (fst AB) \<and> direct_session addrA j tB (snd AB) \<and>
        matched skey snum rkey rnum (inner tA) (inner tB) \<and> snum (inner tA) = a \<and> snum (inner tB) = b)"

lemma linkedI:
  "direct_session addrB i tA A \<Longrightarrow> direct_session addrA j tB B \<Longrightarrow>
   matched skey snum rkey rnum (inner tA) (inner tB) \<Longrightarrow> snum (inner tA) = a \<Longrightarrow> snum (inner tB) = b \<Longrightarrow>
   linked skey snum rkey rnum addrA addrB i j a b (A, B)"
  by (auto simp: linked_def)

lemma matched_sym: "matched skey snum rkey rnum a b \<longleftrightarrow> matched skey snum rkey rnum b a"
  by (auto simp: matched_def)

lemma linked_swap:
  "linked skey snum rkey rnum addrA addrB i j a b (A, B) \<longleftrightarrow>
   linked skey snum rkey rnum addrB addrA j i b a (B, A)"
  using matched_sym [of skey snum rkey rnum] by (auto simp: linked_def)

lemma find_index_map: "find_index k P (map f xs) = find_index k (\<lambda>x. P (f x)) xs"
  by (induction xs arbitrary: k) simp_all

lemma lookup_by_addresses:
  "mesh_addresses m = mesh_addresses n \<Longrightarrow> lookup_peer_by_dest_ip m = lookup_peer_by_dest_ip n"
proof
  fix pkt assume "mesh_addresses m = mesh_addresses n"
  then have "find_index 0 (\<lambda>p. peer_ip (config p) = ip) (peers m) =
      find_index 0 (\<lambda>p. peer_ip (config p) = ip) (peers n)" for ip
    using find_index_map [of 0 "\<lambda>a. a = ip"] by (metis mesh_addresses_def)
  then show "lookup_peer_by_dest_ip m pkt = lookup_peer_by_dest_ip n pkt"
    by (simp add: lookup_peer_by_dest_ip_def)
qed

lemma upd_peer_addresses:
  "(\<And>p. config (f p) = config p) \<Longrightarrow> mesh_addresses (upd_peer i f m) = mesh_addresses m"
  by (cases "i < length (peers m)")
    (simp_all add: mesh_addresses_def upd_peer_def map_update list_update_same_conv list_update_beyond)

text \<open>What makes a side of a session out of a manager that lists the peer.\<close>

lemma direct_session_upd:
  assumes "maps_ok m" and "endpoint_to_peer m addr = Some i" and "via_relay (config (peers m ! i)) = None"
    and "\<And>p. config (f p) = config p" and "\<not> stale (f (peers m ! i))"
    and "state (f (peers m ! i)) = Ready t sid rh"
  shows "direct_session addr i t ((upd_peer i f m)\<lparr>sent := s, written := w\<rparr>)"
    and "direct_session addr i t (upd_peer i f (m\<lparr>sent := s\<rparr>))"
proof -
  have "i < length (peers m)" by (rule maps_okD(1) [OF assms(1,2)])
  then show "direct_session addr i t ((upd_peer i f m)\<lparr>sent := s, written := w\<rparr>)"
    and "direct_session addr i t (upd_peer i f (m\<lparr>sent := s\<rparr>))"
    using assms by (auto simp: direct_session_def maps_ok_def upd_peer_def nth_list_update)
qed

lemma carry_linked:
  assumes seq: "sequential_transport C seal skey snum rkey rnum"
    and link: "linked skey snum rkey rnum addrA addrB i j a b (A, B)"
    and ip: "lookup_peer_by_dest_ip A pkt = Some i" and fits: "length pkt \<le> 1500" and few: "a < 2 ^ 64 - 1"
    and io: "\<And>a b. send_error EA a b = None" "\<And>b. device_error EB b = None"
  obtains A' B' where "carry C EA EB addrA addrB pkt (A, B) = (A', B')"
    "linked skey snum rkey rnum addrA addrB i j (Suc a) b (A', B')"
    "written A' = written A" "written B' = written B @ [pkt]"
    "mesh_addresses A' = mesh_addresses A" "mesh_addresses B' = mesh_addresses B"
proof -
  from link obtain tA tB sidA rhA sidB rhB where A: "direct_session addrB i tA A" "state (peers A ! i) = Ready tA sidA rhA"
    and B: "direct_session addrA j tB B" "state (peers B ! j) = Ready tB sidB rhB"
    and m: "matched skey snum rkey rnum (inner tA) (inner tB)" "snum (inner tA) = a" "snum (inner tB) = b"
    by (auto simp: linked_def direct_session_def)
  have epB: "peer_endpoint (config (peers A ! i)) = addrB" and via: "via_relay (config (peers A ! i)) = None"
    and Bok: "maps_ok B" "endpoint_to_peer B addrA = Some j" "\<not> stale (peers B ! j)"
    using A(1) B(1) maps_okD(2) by (auto simp: direct_session_def)
  have few': "snum (inner tA) < 2 ^ 64 - 1" using few m(2) by simp
  obtain ct tA' tB' where r:
    "dispatch_tun_packet C EA pkt A =
       (Ok (), upd_peer i (\<lambda>p. p\<lparr>state := Ready tA' sidA rhA, last_tx_at := Some (now EA)\<rparr>)
          (A\<lparr>sent := sent A @ [(addrB, ct)]\<rparr>))"
    "handle_incoming C EB addrA ct B =
       (Ok (), (upd_peer j (\<lambda>p. p\<lparr>last_rx_at := Some (now EB), state := Ready tB' sidB rhB\<rparr>) B)
          \<lparr>written := written B @ [pkt]\<rparr>)"
    "length ct = length pkt + 32" "matched skey snum rkey rnum (inner tA') (inner tB')"
    "snum (inner tA') = Suc (snum (inner tA))" "snum (inner tB') = snum (inner tB)"
    "i < length (peers A)" "j < length (peers B)"
    by (rule packet_through [OF seq ip A(2) via epB Bok(1,2) B(2) Bok(3) m(1) few' fits io])
  let ?f = "\<lambda>p. p\<lparr>state := Ready tA' sidA rhA, last_tx_at := Some (now EA)\<rparr>"
  let ?g = "\<lambda>p. p\<lparr>last_rx_at := Some (now EB), state := Ready tB' sidB rhB\<rparr>"
  let ?A = "(upd_peer i ?f A)\<lparr>sent := sent A @ [(addrB, ct)], written := written A\<rparr>"
  let ?B = "(upd_peer j ?g B)\<lparr>sent := sent B, written := written B @ [pkt]\<rparr>"
  have sides: "direct_session addrB i tA' ?A" "direct_session addrA j tB' ?B"
    using A(1) B(1) unfolding direct_session_def [of _ _ tA] direct_session_def [of _ _ tB]
    by (auto intro!: direct_session_upd)
  have eqs: "upd_peer i ?f (A\<lparr>sent := sent A @ [(addrB, ct)]\<rparr>) = ?A"
    "(upd_peer j ?g B)\<lparr>written := written B @ [pkt]\<rparr> = ?B"
    by (simp_all add: upd_peer_def)
  show ?thesis
  proof (rule that [of ?A ?B])
    show "carry C EA EB addrA addrB pkt (A, B) = (?A, ?B)"
      using r(1,2) unfolding eqs by (simp add: carry_def deliver_def)
    show "linked skey snum rkey rnum addrA addrB i j (Suc a) b (?A, ?B)"
      using sides r(4-6) m(2,3) by (auto simp: linked_def)
    show "mesh_addresses ?A = mesh_addresses A" "mesh_addresses ?B = mesh_addresses B"
      using upd_peer_addresses [of ?f i A] upd_peer_addresses [of ?g j B] by (simp_all add: mesh_addresses_def)
  qed (simp_all add: upd_peer_def)
qed


section \<open>Full duplex\<close>

lemma exchange_linked:
  assumes seq: "sequential_transport C seal skey snum rkey rnum"
    and link: "linked skey snum rkey rnum addrA addrB i j a b (A, B)"
    and fits: "case f of Forth p \<Rightarrow> lookup_peer_by_dest_ip A p = Some i \<and> length p \<le> 1500 \<and> a < 2 ^ 64 - 1
      | Back p \<Rightarrow> lookup_peer_by_dest_ip B p = Some j \<and> length p \<le> 1500 \<and> b < 2 ^ 64 - 1"
    and io: "\<And>a b. send_error EA a b = None" "\<And>a b. send_error EB a b = None"
      "\<And>b. device_error EA b = None" "\<And>b. device_error EB b = None"
  obtains A' B' where "exchange C EA EB addrA addrB f (A, B) = (A', B')"
    "linked skey snum rkey rnum addrA addrB i j (a + length (forth [f])) (b + length (backs [f])) (A', B')"
    "written A' = written A @ backs [f]" "written B' = written B @ forth [f]"
    "mesh_addresses A' = mesh_addresses A" "mesh_addresses B' = mesh_addresses B"
proof (cases f)
  case (Forth p)
  then have p: "lookup_peer_by_dest_ip A p = Some i" "length p \<le> 1500" "a < 2 ^ 64 - 1"
    using fits by simp_all
  obtain A' B' where "carry C EA EB addrA addrB p (A, B) = (A', B')"
    "linked skey snum rkey rnum addrA addrB i j (Suc a) b (A', B')"
    "written A' = written A" "written B' = written B @ [p]"
    "mesh_addresses A' = mesh_addresses A" "mesh_addresses B' = mesh_addresses B"
    by (rule carry_linked [OF seq link p io(1,4)])
  then show ?thesis using that Forth by simp
next
  case (Back p)
  then have p: "lookup_peer_by_dest_ip B p = Some j" "length p \<le> 1500" "b < 2 ^ 64 - 1"
    using fits by simp_all
  from link have link': "linked skey snum rkey rnum addrB addrA j i b a (B, A)" by (simp add: linked_swap)
  obtain B' A' where "carry C EB EA addrB addrA p (B, A) = (B', A')"
    "linked skey snum rkey rnum addrB addrA j i (Suc b) a (B', A')"
    "written B' = written B" "written A' = written A @ [p]"
    "mesh_addresses B' = mesh_addresses B" "mesh_addresses A' = mesh_addresses A"
    by (rule carry_linked [OF seq link' p io(2,3)])
  then show ?thesis
    using that [of A' B'] Back linked_swap [of skey snum rkey rnum addrB addrA j i "Suc b" a B' A'] by simp
qed

lemma flows_linked:
  assumes seq: "sequential_transport C seal skey snum rkey rnum"
    and io: "\<And>a b. send_error EA a b = None" "\<And>a b. send_error EB a b = None"
      "\<And>b. device_error EA b = None" "\<And>b. device_error EB b = None"
  shows "linked skey snum rkey rnum addrA addrB i j a b (A, B) \<Longrightarrow>
    (\<And>p. p \<in> set (forth fs) \<Longrightarrow> lookup_peer_by_dest_ip A p = Some i \<and> length p \<le> 1500) \<Longrightarrow>
    (\<And>p. p \<in> set (backs fs) \<Longrightarrow> lookup_peer_by_dest_ip B p = Some j \<and> length p \<le> 1500) \<Longrightarrow>
    a + length (forth fs) < 2 ^ 64 \<Longrightarrow> b + length (backs fs) < 2 ^ 64 \<Longrightarrow>
    \<exists>A' B'. fold (exchange C EA EB addrA addrB) fs (A, B) = (A', B') \<and>
      written B' = written B @ forth fs \<and> written A' = written A @ backs fs \<and>
      linked skey snum rkey rnum addrA addrB i j (a + length (forth fs)) (b + length (backs fs)) (A', B')"
proof (induction fs arbitrary: a b A B)
  case (Cons f fs)
  have split: "forth (f # fs) = forth [f] @ forth fs" "backs (f # fs) = backs [f] @ backs fs"
    by (cases f; simp)+
  have fits: "case f of Forth p \<Rightarrow> lookup_peer_by_dest_ip A p = Some i \<and> length p \<le> 1500 \<and> a < 2 ^ 64 - 1
      | Back p \<Rightarrow> lookup_peer_by_dest_ip B p = Some j \<and> length p \<le> 1500 \<and> b < 2 ^ 64 - 1"
  proof (cases f)
    case (Forth p)
    then have "lookup_peer_by_dest_ip A p = Some i \<and> length p \<le> 1500" using Cons.prems(2) by simp
    moreover have "a < 2 ^ 64 - 1" using Cons.prems(4) Forth by (simp del: power_numeral)
    ultimately show ?thesis using Forth by simp
  next
    case (Back p)
    then have "lookup_peer_by_dest_ip B p = Some j \<and> length p \<le> 1500" using Cons.prems(3) by simp
    moreover have "b < 2 ^ 64 - 1" using Cons.prems(5) Back by (simp del: power_numeral)
    ultimately show ?thesis using Back by simp
  qed
  obtain A1 B1 where s: "exchange C EA EB addrA addrB f (A, B) = (A1, B1)"
    "linked skey snum rkey rnum addrA addrB i j (a + length (forth [f])) (b + length (backs [f])) (A1, B1)"
    "written A1 = written A @ backs [f]" "written B1 = written B @ forth [f]"
    "mesh_addresses A1 = mesh_addresses A" "mesh_addresses B1 = mesh_addresses B"
    by (rule exchange_linked [OF seq Cons.prems(1) fits io])
  have look: "lookup_peer_by_dest_ip A1 = lookup_peer_by_dest_ip A"
    "lookup_peer_by_dest_ip B1 = lookup_peer_by_dest_ip B"
    by (rule lookup_by_addresses [OF s(5)], rule lookup_by_addresses [OF s(6)])
  obtain A' B' where "fold (exchange C EA EB addrA addrB) fs (A1, B1) = (A', B')"
    "written B' = written B1 @ forth fs" "written A' = written A1 @ backs fs"
    "linked skey snum rkey rnum addrA addrB i j (a + length (forth [f]) + length (forth fs))
       (b + length (backs [f]) + length (backs fs)) (A', B')"
    using Cons.IH [OF s(2)] Cons.prems(2-5) unfolding look split by auto
  then show ?case using s(1,3,4) unfolding split by (simp add: add.assoc)
qed simp

text \<open>C2: Traffic crosses the tunnel whole, in both directions.  Two managers hold the two ends of one
  session and the network between them loses nothing.  For any mix of IPv4 packets of at most
  1500 bytes read from the two devices, addressed to the other end, each device is written exactly
  the packets read from the other, in their order, up to the 2^64 - 1 packets each direction of a
  session can carry; afterwards the managers still hold the two ends of one session.\<close>

theorem tun_stream_delivered:
  assumes seq: "sequential_transport C seal skey snum rkey rnum"
    and link: "linked skey snum rkey rnum addrA addrB i j a b (A, B)"
    and fits: "\<And>p. p \<in> set (forth fs) \<Longrightarrow> lookup_peer_by_dest_ip A p = Some i \<and> length p \<le> 1500"
      "\<And>p. p \<in> set (backs fs) \<Longrightarrow> lookup_peer_by_dest_ip B p = Some j \<and> length p \<le> 1500"
    and few: "a + length (forth fs) < 2 ^ 64" "b + length (backs fs) < 2 ^ 64"
    and io: "\<And>a b. send_error EA a b = None" "\<And>a b. send_error EB a b = None"
      "\<And>b. device_error EA b = None" "\<And>b. device_error EB b = None"
  shows "\<exists>A' B'. fold (exchange C EA EB addrA addrB) fs (A, B) = (A', B') \<and>
    written B' = written B @ forth fs \<and> written A' = written A @ backs fs \<and>
    linked skey snum rkey rnum addrA addrB i j (a + length (forth fs)) (b + length (backs fs)) (A', B')"
  by (rule flows_linked [OF seq io link fits few])

text \<open>Three packets, two of them forth.\<close>

theorem tun_stream_delivered_witness:
  "\<exists>A' B'. fold (exchange plain demo_env demo_env demo_addr demo_addr)
      [Forth demo_packet, Back demo_packet, Forth demo_packet]
      (demo_manager (Ready demo_sender 9 None), demo_manager (Ready demo_receiver 7 None)) = (A', B') \<and>
    written B' = [demo_packet, demo_packet] \<and> written A' = [demo_packet]"
proof -
  let ?A = "demo_manager (Ready demo_sender 9 None)"
  let ?B = "demo_manager (Ready demo_receiver 7 None)"
  let ?fs = "[Forth demo_packet, Back demo_packet, Forth demo_packet]"
  have "peer_ip demo_peer_config = 100" "via_relay demo_peer_config = None"
    by (simp_all add: demo_peer_config_def)
  then have c: "lookup_peer_by_dest_ip ?A demo_packet = Some 0" "lookup_peer_by_dest_ip ?B demo_packet = Some 0"
    "direct_session demo_addr 0 demo_sender ?A" "direct_session demo_addr 0 demo_receiver ?B"
    "written ?A = []" "written ?B = []"
    using demo_packet_ip demo_manager_maps by (auto simp: lookup_peer_by_dest_ip_def direct_session_def)
  then have link: "linked pt_skey pt_snum pt_rkey pt_rnum demo_addr demo_addr 0 0
      (pt_snum (inner demo_sender)) (pt_snum (inner demo_receiver)) (?A, ?B)"
    using demo_matched by (auto simp: linked_def)
  have few: "pt_snum (inner demo_sender) + length (forth ?fs) < 2 ^ 64"
    "pt_snum (inner demo_receiver) + length (backs ?fs) < 2 ^ 64"
    by (simp_all add: demo_sender_def demo_receiver_def transport_new_def)
  have fits: "lookup_peer_by_dest_ip ?A p = Some 0 \<and> length p \<le> 1500" if "p \<in> set (forth ?fs)" for p
    using that c(1) demo_packet_ip(2) by auto
  have fits': "lookup_peer_by_dest_ip ?B p = Some 0 \<and> length p \<le> 1500" if "p \<in> set (backs ?fs)" for p
    using that c(2) demo_packet_ip(2) by auto
  show ?thesis
    using tun_stream_delivered [OF plain_sequential_transport link fits fits' few demo_env_simps(1)
        demo_env_simps(1) demo_env_simps(2) demo_env_simps(2)] c(5,6) by auto
qed

end

