(* ===== verification/Manager_Rekey.thy ===== *)
theory Manager_Rekey
  imports Manager_Stream
begin

text \<open>
  A rekey between two managers with an established session: the maintenance of the initiator plans
  and sends a new INIT, the responder answers it from its Ready state, and both go on with the new
  session.
\<close>

section \<open>The initiator's side\<close>

lemma rekey_planned:
  assumes "\<not> stale p" and "state p = Ready t sid None" and "\<not> rx_timed_out (timings cfg) (now E) p"
    and "is_initiator (config p)" and "rekey_due (timings cfg) (now E) p"
    and "\<not> is_unspecified (sock_ip (peer_endpoint (config p)))" and "received_cookie p = None"
    and "initiator_new C (local_keypair cfg) (peer_pub (config p)) (psk (config p))
      (local_sender_id (config p)) (tai E) (seed E i) = Ok ini"
    and "write_init C ini = (Ok msg, ini')"
  shows "StartRekey ini' msg \<in> set (plan_peer C E cfg i p)"
  using assms by (simp add: plan_peer_def build_rekey_def init_with_cookie_def)

lemma rekey_sent:
  assumes "i < length (peers m)" and "via_relay (config (peers m ! i)) = None"
    and "state (peers m ! i) = Ready t sid rh" and "\<And>a b. send_error E a b = None"
  shows "perform C E (i, StartRekey ini msg) m = (Ok (), upd_peer i (\<lambda>p. p\<lparr>state := Ready t sid
      (Some \<lparr>rh_initiator = ini, rh_init_msg = msg, rh_started_at = now E,
             rh_next_retry_at = now E + INIT_RETRY_INTERVAL\<rparr>)\<rparr>)
    (m\<lparr>sent := sent m @ [(peer_endpoint (config (peers m ! i)), msg)]\<rparr>))"
  using assms
  by (simp add: start_rekey_def Let_def send_maybe_relay_def send_to_def andthen_def) (simp add: upd_peer_def)

lemma rekey_answered:
  assumes "maps_ok m" and "endpoint_to_peer m source = Some i"
    and "state (peers m ! i) = Ready t sid (Some rs)"
    and "consume_response C (rh_initiator rs) pkt = Ok t'"
    and "length pkt = 92" and "pkt ! 0 = MESSAGE_TYPE_RESPONSE"
  shows "handle_incoming C E source pkt m = (Ok (), upd_peer i
    (\<lambda>p. p\<lparr>last_rx_at := Some (now E), state := Ready t' (u32_from_le (seg pkt 4 8)) None,
           last_handshake_at := Some (now E)\<rparr>) m)"
proof -
  have "i < length (peers m)" "pkt \<noteq> []" using maps_okD(1) [OF assms(1,2)] assms(5) by auto
  then show ?thesis
    using assms(2-6) refresh_known_source [OF assms(1,2), of E]
    by (simp add: handle_incoming_def handle_message_def message_types handle_response_def RESPONSE_SIZE_def
        Let_def)
qed

section \<open>The rekey\<close>

text \<open>C6: A rekey replaces the session at both ends.  One manager is Ready as the initiator of a direct
  session that is old enough for a rekey, the other is Ready as its responder, even a stale one.
  The maintenance of the first plans an INIT; performing that action sends it to the responder's
  address while the old session stays in use; the responder, receiving it, answers and goes on
  with the new session; the initiator receives the RESPONSE and does the same.  The two new
  sessions are the two ends of one Noise session with fresh counters, neither end is stale, and no
  further rekey is due.\<close>

theorem session_rekeyed:
  assumes works: "noise_handshake_works C PROTOCOL_NAME paired" and sizes: "digest_sizes C"
    and keys: "length skA = 32" "length skB = 32" "length ps = 32"
    and A: "maps_ok A" "endpoint_to_peer A addrB = Some i" "state (peers A ! i) = Ready tA sidA None"
      "via_relay (config (peers A ! i)) = None" "\<not> stale (peers A ! i)" "received_cookie (peers A ! i) = None"
      "local_keypair (mcfg A) = keypair_from_bytes C skA"
      "peer_pub (config (peers A ! i)) = kp_public (keypair_from_bytes C skB)" "psk (config (peers A ! i)) = ps"
    and due: "is_initiator (config (peers A ! i))" "rekey_due (timings (mcfg A)) (now EA) (peers A ! i)"
      "\<not> rx_timed_out (timings (mcfg A)) (now EA) (peers A ! i)" "\<not> is_unspecified (sock_ip addrB)"
    and B: "maps_ok B" "endpoint_to_peer B addrA = Some j" "state (peers B ! j) = Ready tB sidB rhB"
      "via_relay (config (peers B ! j)) = None" "\<not> cookie_required (peers B ! j)"
      "init_rx_count (count_init EB (peers B ! j)) \<le> COOKIE_INIT_RATE_LIMIT"
      "local_keypair (mcfg B) = keypair_from_bytes C skB" "psk (config (peers B ! j)) = ps"
    and fresh: "\<not> outside_replay_window (tai EB) (tai EA)"
    and io: "\<And>a b. send_error EA a b = None" "\<And>a b. send_error EB a b = None"
  shows "\<exists>ini init response A1 B1 A2 rs tA' tB'.
    StartRekey ini init \<in> set (plan_peer C EA (mcfg A) i (peers A ! i)) \<and>
    perform C EA (i, StartRekey ini init) A = (Ok (), A1) \<and> sent A1 = sent A @ [(addrB, init)] \<and>
    state (peers A1 ! i) = Ready tA sidA (Some rs) \<and>
    handle_incoming C EB addrA init B = (Ok (), B1) \<and> sent B1 = sent B @ [(addrA, response)] \<and>
    handle_incoming C EA' addrB response A1 = (Ok (), A2) \<and>
    direct_session addrB i tA' A2 \<and> direct_session addrA j tB' B1 \<and>
    paired (inner tA') (inner tB') \<and> send_counter tA' = 0 \<and> send_counter tB' = 0 \<and>
    \<not> rekey_due (timings (mcfg A2)) (now EA') (peers A2 ! i)"
proof -
  let ?cA = "config (peers A ! i)" and ?cB = "config (peers B ! j)"
  have pub: "kp_public (keypair_from_bytes C skB) = x25519_public C skB"
    by (simp add: keypair_from_bytes_def)
  from handshake_messages [OF works sizes keys fresh, of "local_sender_id ?cA" "seed EA i"
      "local_sender_id ?cB" "seed EB j"]
  obtain i0 i1 m1 ti r0 r1 m2 tr where
    new: "initiator_new C (keypair_from_bytes C skA) (x25519_public C skB) ps (local_sender_id ?cA) (tai EA) (seed EA i)
        = Ok i0"
      "responder_new C (keypair_from_bytes C skB) ps (local_sender_id ?cB) (tai EB) (seed EB j) = Ok r0"
    and msgs: "write_init C i0 = (Ok m1, i1)" "consume_init C m1 r0 = (Ok m2, r1)" "length m2 = 92"
      "m2 ! 0 = MESSAGE_TYPE_RESPONSE" "consume_response C i1 m2 = Ok (transport_new ti (local_sender_id ?cA))"
      "into_transport C r1 = Ok (transport_new tr (local_sender_id ?cB))" "paired ti tr"
    by blast
  have i: "i < length (peers A)" and ep: "peer_endpoint ?cA = addrB"
    using maps_okD(1,2) [OF A(1,2)] by simp_all
  have j: "j < length (peers B)" by (rule maps_okD(1) [OF B(1,2)])
  have planned: "StartRekey i1 m1 \<in> set (plan_peer C EA (mcfg A) i (peers A ! i))"
    using new(1) A due pub ep by (intro rekey_planned [OF A(5,3) due(3,1,2) _ A(6) _ msgs(1)]) simp_all
  let ?rs = "\<lparr>rh_initiator = i1, rh_init_msg = m1, rh_started_at = now EA,
    rh_next_retry_at = now EA + INIT_RETRY_INTERVAL\<rparr>"
  let ?A1 = "upd_peer i (\<lambda>p. p\<lparr>state := Ready tA sidA (Some ?rs)\<rparr>) (A\<lparr>sent := sent A @ [(addrB, m1)]\<rparr>)"
  have tick: "perform C EA (i, StartRekey i1 m1) A = (Ok (), ?A1)"
    using rekey_sent [OF i A(4,3) io(1)] ep by simp
  let ?g = "\<lambda>p. (count_init EB p)\<lparr>last_rx_at := Some (now EB),
      state := Ready (transport_new tr (local_sender_id ?cB)) (u32_from_le (seg m1 4 8)) rhB,
      last_handshake_at := Some (now EB), stale := False\<rparr>"
  have timed: "consume_init C m1 (set_current_time (tai EB) r0) = (Ok m2, r1)"
    unfolding responder_new_time [OF new(2)] by (rule msgs(2))
  have "fresh_responder C EB j B = Ok r0" using new(2) B(7,8) by (simp add: fresh_responder_def)
  then have answer: "handle_incoming C EB addrA m1 B =
      (Ok (), upd_peer j ?g (B\<lparr>sent := sent B @ [(addrA, m2)]\<rparr>))"
    by (rule init_rekeys_session [OF B(1-3,5,6) _ timed msgs(6) io(2)])
  have A1: "maps_ok ?A1" "endpoint_to_peer ?A1 addrB = Some i" "state (peers ?A1 ! i) = Ready tA sidA (Some ?rs)"
    using A(1,2) i by (auto simp: maps_ok_def)
  let ?f = "\<lambda>p. p\<lparr>last_rx_at := Some (now EA'),
      state := Ready (transport_new ti (local_sender_id ?cA)) (u32_from_le (seg m2 4 8)) None,
      last_handshake_at := Some (now EA')\<rparr>"
  have accept: "handle_incoming C EA' addrB m2 ?A1 = (Ok (), upd_peer i ?f ?A1)"
    using rekey_answered [OF A1, of C m2] msgs(3-5) by simp
  have sides: "direct_session addrB i (transport_new ti (local_sender_id ?cA)) (upd_peer i ?f ?A1)"
    "direct_session addrA j (transport_new tr (local_sender_id ?cB)) (upd_peer j ?g (B\<lparr>sent := sent B @ [(addrA, m2)]\<rparr>))"
    unfolding upd_peer_upd_peer using A B by (auto intro!: direct_session_upd(2))
  have quiet: "\<not> rekey_due (timings (mcfg (upd_peer i ?f ?A1))) (now EA') (peers (upd_peer i ?f ?A1) ! i)"
    using i by (simp add: rekey_due_def duration_since_def)
  show ?thesis
    by (intro exI conjI, rule planned, rule tick, simp, rule A1(3), rule answer, simp, rule accept, rule sides(1),
        rule sides(2)) (use msgs(7) quiet in \<open>simp_all add: transport_new_def\<close>)
qed

section \<open>Witness\<close>

definition demo_old :: "(plain_hs, plain_ts) manager" where
  "demo_old = upd_peer 0 (\<lambda>p. p\<lparr>config := demo_peer_config\<lparr>is_initiator := True\<rparr>, last_handshake_at := Some 0\<rparr>)
     (demo_manager (Ready demo_sender 9 None))"

definition demo_other :: "(plain_hs, plain_ts) manager" where
  "demo_other =
     \<lparr>mcfg = demo_config\<lparr>local_keypair := demo_peer_keys, local_ip := 100\<rparr>,
      peers = [(demo_session (Ready demo_receiver 7 None))
        \<lparr>config := demo_peer_config\<lparr>peer_pub := replicate 32 6, peer_ip := 200\<rparr>, stale := True, init_rx_count := 0\<rparr>],
      endpoint_to_peer = [demo_addr \<mapsto> 0], pubkey_to_peer = [replicate 32 6 \<mapsto> 0], learned_endpoints = Map.empty,
      last_maintenance_at = 0, cookie_secret = zeros 32, cookie_secret_rotated_at = 0,
      last_cookie_secret = None, sent = [], written = []\<rparr>"

lemma demo_rekey_maps: "maps_ok demo_old" "maps_ok demo_other"
  by (simp_all add: maps_ok_def demo_old_def demo_other_def) (simp_all add: demo_peer_config_def)

text \<open>The clock of the rekeying side is at 200 seconds; the responder's session is stale.\<close>

theorem session_rekeyed_witness:
  "\<exists>ini init response A1 B1 A2 tA' tB'.
    perform plain (demo_env\<lparr>now := from_secs 200\<rparr>) (0, StartRekey ini init) demo_old = (Ok (), A1) \<and>
    sent A1 = [(demo_addr, init)] \<and>
    handle_incoming plain demo_env demo_addr init demo_other = (Ok (), B1) \<and> sent B1 = [(demo_addr, response)] \<and>
    handle_incoming plain demo_env demo_addr response A1 = (Ok (), A2) \<and>
    direct_session demo_addr 0 tA' A2 \<and> direct_session demo_addr 0 tB' B1 \<and>
    matched pt_skey pt_snum pt_rkey pt_rnum (inner tA') (inner tB')"
proof -
  let ?E = "demo_env\<lparr>now := from_secs 200\<rparr>"
  have lens: "length (replicate 32 (6 :: u8)) = 32" "length (replicate 32 (5 :: u8)) = 32"
    "length (zeros 32) = 32" by simp_all
  have A: "endpoint_to_peer demo_old demo_addr = Some 0" "state (peers demo_old ! 0) = Ready demo_sender 9 None"
    "via_relay (config (peers demo_old ! 0)) = None" "\<not> stale (peers demo_old ! 0)"
    "received_cookie (peers demo_old ! 0) = None"
    "local_keypair (mcfg demo_old) = keypair_from_bytes plain (replicate 32 6)"
    "peer_pub (config (peers demo_old ! 0)) = kp_public (keypair_from_bytes plain (replicate 32 5))"
    "psk (config (peers demo_old ! 0)) = zeros 32" "is_initiator (config (peers demo_old ! 0))"
    "rekey_due (timings (mcfg demo_old)) (now ?E) (peers demo_old ! 0)"
    "\<not> rx_timed_out (timings (mcfg demo_old)) (now ?E) (peers demo_old ! 0)" "sent demo_old = []"
    by (simp_all add: demo_old_def demo_peer_config_def demo_peer_keys_def [symmetric] demo_session_def rx_timed_out_def)
      (simp_all add: demo_config_def demo_keys_def rekey_due_def default_timings_def duration_since_def from_secs_def)
  have B: "endpoint_to_peer demo_other demo_addr = Some 0" "state (peers demo_other ! 0) = Ready demo_receiver 7 None"
    "via_relay (config (peers demo_other ! 0)) = None" "\<not> cookie_required (peers demo_other ! 0)"
    "init_rx_count (count_init demo_env (peers demo_other ! 0)) \<le> COOKIE_INIT_RATE_LIMIT"
    "local_keypair (mcfg demo_other) = keypair_from_bytes plain (replicate 32 5)"
    "psk (config (peers demo_other ! 0)) = zeros 32" "sent demo_other = []"
    by (simp_all add: demo_other_def demo_peer_config_def demo_peer_keys_def demo_session_def count_init_def Let_def
        demo_env_def COOKIE_INIT_RATE_LIMIT_def)
  have addr: "\<not> is_unspecified (sock_ip demo_addr)" by (simp add: demo_addr_def)
  have fresh: "\<not> outside_replay_window (tai demo_env) (tai ?E)"
    by (simp add: demo_env_def inside_window_diff)
  have io: "send_error ?E a b = None" for a b by simp
  from session_rekeyed [OF plain_works plain_digest_sizes lens demo_rekey_maps(1) A(1-11) addr
      demo_rekey_maps(2) B(1-7) fresh io demo_env_simps(1), of demo_env] A(12) B(8)
  show ?thesis by (metis append_Nil)
qed

end
