(* ===== verification/Std_Net.thy ===== *)
theory Std_Net
  imports Nab_Net
begin

text \<open>
  The text side of \<open>core\<close> and \<open>std::net\<close> that the crates use: printing of numbers and IPv4
  addresses, \<open>str::split\<close>, \<open>str::parse\<close> for unsigned integers, and the address parser behind
  \<open>parse::<Ipv4Addr>\<close>, \<open>parse::<Ipv6Addr>\<close> and \<open>parse::<SocketAddr>\<close>.  A string is the list of
  its bytes, as characters.  The parser follows \<open>core::net::parser\<close>: every \<open>read_\<close> function
  consumes a prefix or fails without consuming, and a parse succeeds when nothing is left.
\<close>

section \<open>Numbers as text\<close>

definition digit_char :: "nat \<Rightarrow> char" where
  "digit_char d = char_of (48 + d)"

fun dec :: "nat \<Rightarrow> string" where
  "dec n = (if n < 10 then [digit_char n] else dec (n div 10) @ [digit_char (n mod 10)])"

declare dec.simps [simp del]

text \<open>\<open>char::to_digit\<close> for radix 10 and 16.\<close>

definition to_digit :: "nat \<Rightarrow> char \<Rightarrow> nat option" where
  "to_digit radix c =
     (let n = of_char c :: nat;
          d = (if 48 \<le> n \<and> n \<le> 57 then n - 48
               else if 97 \<le> n \<and> n \<le> 102 then n - 87
               else if 65 \<le> n \<and> n \<le> 70 then n - 55 else 99)
      in if d < radix then Some d else None)"

text \<open>\<open>parse::<u8>\<close> and the like: an optional plus sign, at least one digit, no overflow.\<close>

fun parse_digits :: "nat \<Rightarrow> nat \<Rightarrow> string \<Rightarrow> nat option" where
  "parse_digits bound acc [] = Some acc"
| "parse_digits bound acc (c # cs) =
     (case to_digit 10 c of
        None \<Rightarrow> None
      | Some d \<Rightarrow> if bound < acc * 10 + d then None else parse_digits bound (acc * 10 + d) cs)"

definition parse_uint :: "nat \<Rightarrow> string \<Rightarrow> nat option" where
  "parse_uint bound s =
     (case s of
        [] \<Rightarrow> None
      | c # cs \<Rightarrow>
          if c = CHR ''+'' then (if cs = [] then None else parse_digits bound 0 cs)
          else parse_digits bound 0 s)"

text \<open>\<open>parse\<close> for a signed type with largest value \<open>m\<close>: one more is allowed below zero.\<close>

definition parse_int :: "nat \<Rightarrow> string \<Rightarrow> int option" where
  "parse_int m s =
     (case s of
        [] \<Rightarrow> None
      | c # cs \<Rightarrow>
          if c = CHR ''-'' then (if cs = [] then None else map_option (\<lambda>n. - int n) (parse_digits (m + 1) 0 cs))
          else map_option int (parse_uint m s))"

text \<open>\<open>str::split\<close> at a character: one part more than there are separators.\<close>

fun split_on :: "char \<Rightarrow> string \<Rightarrow> string list" where
  "split_on sep [] = [[]]"
| "split_on sep (c # cs) =
     (if c = sep then [] # split_on sep cs
      else (case split_on sep cs of p # ps \<Rightarrow> (c # p) # ps | [] \<Rightarrow> [[c]]))"

definition show_ipv4 :: "bytes \<Rightarrow> string" where
  "show_ipv4 bs =
     dec (unat (bs ! 0)) @ ''.'' @ dec (unat (bs ! 1)) @ ''.'' @
     dec (unat (bs ! 2)) @ ''.'' @ dec (unat (bs ! 3))"

definition show_socket_v4 :: "u32 \<Rightarrow> u16 \<Rightarrow> string" where
  "show_socket_v4 a p = show_ipv4 (v4_octets a) @ '':'' @ dec (unat p)"

text \<open>Lower-case hexadecimal, \<open>{:x}\<close>.\<close>

definition hex_char :: "nat \<Rightarrow> char" where
  "hex_char d = char_of (if d < 10 then 48 + d else 87 + d)"

fun hex :: "nat \<Rightarrow> string" where
  "hex n = (if n < 16 then [hex_char n] else hex (n div 16) @ [hex_char (n mod 16)])"

declare hex.simps [simp del]

text \<open>\<open>Ipv6Addr::segments\<close>, and the loop of its \<open>Display\<close> that looks for the longest run of zeros:
  \<open>(start, len)\<close> of the longest run so far and of the current one.\<close>

definition v6_segments :: "128 word \<Rightarrow> u16 list" where
  "v6_segments a = map (\<lambda>i. of_nat (unat a div 65536 ^ (7 - i) mod 65536)) [0..<8]"

fun zero_span :: "nat \<Rightarrow> nat \<times> nat \<Rightarrow> nat \<times> nat \<Rightarrow> u16 list \<Rightarrow> nat \<times> nat" where
  "zero_span i longest current [] = longest"
| "zero_span i longest current (g # gs) =
     (if g = 0
      then let current' = (if snd current = 0 then i else fst current, snd current + 1)
           in zero_span (Suc i) (if snd longest < snd current' then current' else longest) current' gs
      else zero_span (Suc i) longest (0, 0) gs)"

fun show_segments :: "u16 list \<Rightarrow> string" where
  "show_segments [] = []"
| "show_segments [g] = hex (unat g)"
| "show_segments (g # gs) = hex (unat g) @ '':'' @ show_segments gs"

definition show_ipv6 :: "128 word \<Rightarrow> string" where
  "show_ipv6 a =
     (if take 6 (v6_segments a) = [0, 0, 0, 0, 0, 0xFFFF]
      then ''::ffff:'' @ show_ipv4 (v4_octets (of_nat (unat a mod 4294967296)))
      else
        let segments = v6_segments a;
            (start, len) = zero_span 0 (0, 0) (0, 0) segments
        in if 1 < len
           then show_segments (take start segments) @ ''::'' @ show_segments (drop (start + len) segments)
           else show_segments segments)"

text \<open>\<open>SocketAddr::to_string\<close>.\<close>

fun show_socket :: "socket_addr \<Rightarrow> string" where
  "show_socket (SocketV4 a p) = show_socket_v4 a p"
| "show_socket (SocketV6 a p flow scope) =
     (if scope = 0 then ''['' @ show_ipv6 a @ '']:'' @ dec (unat p)
      else ''['' @ show_ipv6 a @ ''%'' @ dec (unat scope) @ '']:'' @ dec (unat p))"

section \<open>The address parser\<close>

type_synonym 'a reader = "string \<Rightarrow> ('a \<times> string) option"

definition read_given_char :: "char \<Rightarrow> unit reader" where
  "read_given_char c s = (case s of [] \<Rightarrow> None | x # xs \<Rightarrow> if x = c then Some ((), xs) else None)"

definition read_then :: "'a reader \<Rightarrow> ('a \<Rightarrow> 'b reader) \<Rightarrow> 'b reader" where
  "read_then r k s = (case r s of None \<Rightarrow> None | Some (x, s') \<Rightarrow> k x s')"

definition read_separator :: "char \<Rightarrow> nat \<Rightarrow> 'a reader \<Rightarrow> 'a reader" where
  "read_separator sep index r =
     (if 0 < index then read_then (read_given_char sep) (\<lambda>_. r) else r)"

text \<open>The digits at the front of the input, with their value and number.\<close>

fun read_digits :: "nat \<Rightarrow> nat \<Rightarrow> nat \<Rightarrow> string \<Rightarrow> nat \<times> nat \<times> string" where
  "read_digits radix acc count [] = (acc, count, [])"
| "read_digits radix acc count (c # cs) =
     (case to_digit radix c of
        None \<Rightarrow> (acc, count, c # cs)
      | Some d \<Rightarrow> read_digits radix (acc * radix + d) (Suc count) cs)"

text \<open>\<open>bound\<close> is the largest value of the result type.\<close>

definition read_number :: "nat \<Rightarrow> nat option \<Rightarrow> bool \<Rightarrow> nat \<Rightarrow> nat reader" where
  "read_number radix max_digits allow_zero_prefix bound s =
     (let (v, count, rest) = read_digits radix 0 0 s;
          has_leading_zero = (s \<noteq> [] \<and> hd s = CHR ''0'')
      in if (case max_digits of None \<Rightarrow> False | Some k \<Rightarrow> k < count) then None
         else if count = 0 then None
         else if \<not> allow_zero_prefix \<and> has_leading_zero \<and> 1 < count then None
         else if bound < v then None
         else Some (v, rest))"

definition read_ipv4_group :: "nat \<Rightarrow> nat reader" where
  "read_ipv4_group i = read_separator CHR ''.'' i (read_number 10 (Some 3) False 255)"

definition read_ipv4_addr :: "u32 reader" where
  "read_ipv4_addr =
     read_then (read_ipv4_group 0) (\<lambda>a. read_then (read_ipv4_group 1) (\<lambda>b.
       read_then (read_ipv4_group 2) (\<lambda>c. read_then (read_ipv4_group 3) (\<lambda>d s.
         Some (ipv4_new (of_nat a) (of_nat b) (of_nat c) (of_nat d), s)))))"

text \<open>
  \<open>read_groups p groups\<close> with \<open>limit\<close> slots, from slot \<open>i\<close>: the groups read, and whether they
  end with an embedded IPv4 address.
\<close>

function read_groups :: "nat \<Rightarrow> nat \<Rightarrow> u16 list \<Rightarrow> string \<Rightarrow> u16 list \<times> bool \<times> string" where
  "read_groups limit i acc s =
     (if limit \<le> i then (acc, False, s)
      else case (if Suc i < limit then read_separator CHR '':'' i read_ipv4_addr s else None) of
        Some (a, s') \<Rightarrow>
          (acc @ [of_nat (unat a div 65536), of_nat (unat a mod 65536)], True, s')
      | None \<Rightarrow>
          (case read_separator CHR '':'' i (read_number 16 (Some 4) True 65535) s of
             Some (g, s') \<Rightarrow> read_groups limit (Suc i) (acc @ [of_nat g]) s'
           | None \<Rightarrow> (acc, False, s)))"
  by pat_completeness auto
termination by (relation "measure (\<lambda>(limit, i, acc, s). limit - i)") auto

definition ipv6_of_groups :: "u16 list \<Rightarrow> 128 word" where
  "ipv6_of_groups gs = of_nat (foldl (\<lambda>n g. n * 65536 + unat g) 0 gs)"

definition read_ipv6_addr :: "(128 word) reader" where
  "read_ipv6_addr s =
     (let (head, head_ipv4, s1) = read_groups 8 0 [] s in
      if length head = 8 then Some (ipv6_of_groups head, s1)
      else if head_ipv4 then None
      else
        read_then (read_given_char CHR '':'') (\<lambda>_. read_then (read_given_char CHR '':'') (\<lambda>_ s2.
          (let (tail, _, s3) = read_groups (8 - (length head + 1)) 0 [] s2 in
           Some (ipv6_of_groups
                   (head @ replicate (8 - length head - length tail) 0 @ tail), s3)))) s1)"

definition read_port :: "nat reader" where
  "read_port = read_then (read_given_char CHR '':'') (\<lambda>_. read_number 10 None True 65535)"

definition read_scope_id :: "nat reader" where
  "read_scope_id =
     read_then (read_given_char CHR ''%'') (\<lambda>_. read_number 10 None True 4294967295)"

definition read_socket_addr_v4 :: "socket_addr reader" where
  "read_socket_addr_v4 =
     read_then read_ipv4_addr (\<lambda>a. read_then read_port (\<lambda>p s. Some (SocketV4 a (of_nat p), s)))"

definition read_socket_addr_v6 :: "socket_addr reader" where
  "read_socket_addr_v6 =
     read_then (read_given_char CHR ''['') (\<lambda>_. read_then read_ipv6_addr (\<lambda>a s.
       (let (scope, s1) = (case read_scope_id s of Some r \<Rightarrow> r | None \<Rightarrow> (0, s)) in
        read_then (read_given_char CHR '']'') (\<lambda>_. read_then read_port (\<lambda>p s2.
          Some (SocketV6 a (of_nat p) 0 (of_nat scope), s2))) s1)))"

definition read_socket_addr :: "socket_addr reader" where
  "read_socket_addr s =
     (case read_socket_addr_v4 s of Some r \<Rightarrow> Some r | None \<Rightarrow> read_socket_addr_v6 s)"

definition parse_with :: "'a reader \<Rightarrow> string \<Rightarrow> 'a option" where
  "parse_with r s = (case r s of Some (x, []) \<Rightarrow> Some x | _ \<Rightarrow> None)"

definition parse_ipv4 :: "string \<Rightarrow> u32 option" where
  "parse_ipv4 s = (if 15 < length s then None else parse_with read_ipv4_addr s)"

definition parse_socket_addr :: "string \<Rightarrow> socket_addr option" where
  "parse_socket_addr = parse_with read_socket_addr"

section \<open>Reading what was printed\<close>

lemma to_digit_digit_char [simp]: "d < 10 \<Longrightarrow> to_digit 10 (digit_char d) = Some d"
  by (simp add: to_digit_def digit_char_def Let_def)

lemma dec_small: "n < 10 \<Longrightarrow> dec n = [digit_char n]"
  by (simp add: dec.simps)

lemma dec_big: "10 \<le> n \<Longrightarrow> dec n = dec (n div 10) @ [digit_char (n mod 10)]"
  by (subst dec.simps) simp

lemma dec_neq_Nil [simp]: "dec n \<noteq> []"
  by (cases "n < 10") (simp_all add: dec_small dec_big not_less)

lemma dec_digits: "c \<in> set (dec n) \<Longrightarrow> \<exists>d < 10. c = digit_char d"
proof (induction n rule: dec.induct)
  case (1 n)
  have "\<exists>d < 10. digit_char (n mod 10) = digit_char d" by (rule exI [of _ "n mod 10"]) simp
  with 1 show ?case by (cases "n < 10") (auto simp: dec_small dec_big not_less)
qed

lemma digit_char_neq [simp]:
  "d < 10 \<Longrightarrow> digit_char d \<noteq> CHR ''.''" "d < 10 \<Longrightarrow> digit_char d \<noteq> CHR '':''"
  "d < 10 \<Longrightarrow> digit_char d \<noteq> CHR ''+''"
  using to_digit_digit_char [of d] by (auto simp: to_digit_def)

lemma dec_no_sep [simp]: "CHR ''.'' \<notin> set (dec n)" "CHR '':'' \<notin> set (dec n)" "CHR ''+'' \<notin> set (dec n)"
  using dec_digits digit_char_neq by metis+

lemma digit_char_0_iff: "d < 10 \<Longrightarrow> digit_char d = CHR ''0'' \<longleftrightarrow> d = 0"
proof -
  have "CHR ''0'' = digit_char 0" by code_simp
  then show "d < 10 \<Longrightarrow> ?thesis"
    using to_digit_digit_char [of d] to_digit_digit_char [of 0] by fastforce
qed

lemma dec_leading: "hd (dec n) = CHR ''0'' \<longleftrightarrow> n = 0"
proof (induction n rule: dec.induct)
  case (1 n)
  then show ?case
    by (cases "n < 10") (simp_all add: dec_small dec_big not_less digit_char_0_iff, linarith?)
qed

lemma length_dec: "n < 10 ^ k \<Longrightarrow> 0 < k \<Longrightarrow> length (dec n) \<le> k"
proof (induction k arbitrary: n)
  case (Suc k)
  show ?case
  proof (cases "n < 10")
    case False
    with Suc.prems have "n div 10 < 10 ^ k" "0 < k"
      by (simp_all add: less_mult_imp_div_less mult.commute, cases k) auto
    from Suc.IH [OF this] False show ?thesis by (simp add: dec_big)
  qed (simp add: dec_small)
qed simp

lemma read_digits_append:
  "read_digits r acc k xs = (v, c, []) \<Longrightarrow> read_digits r acc k (xs @ ys) = read_digits r v c ys"
  by (induction r acc k xs rule: read_digits.induct) (auto split: option.splits)

lemma read_digits_dec: "read_digits 10 0 0 (dec n) = (n, length (dec n), [])"
proof (induction n rule: dec.induct)
  case (1 n)
  show ?case
  proof (cases "n < 10")
    case False
    then have "10 \<le> n" by simp
    with read_digits_append [OF 1 [OF False], of "[digit_char (n mod 10)]"] show ?thesis
      by (simp add: dec_big)
  qed (simp add: dec_small)
qed

definition ends_number :: "string \<Rightarrow> bool" where
  "ends_number rest \<longleftrightarrow> (case rest of [] \<Rightarrow> True | c # cs \<Rightarrow> to_digit 10 c = None)"

lemma read_digits_rest: "ends_number rest \<Longrightarrow> read_digits 10 v c rest = (v, c, rest)"
  by (cases rest) (simp_all add: ends_number_def)

lemma read_number_dec:
  assumes "ends_number rest" and "n \<le> bound" and "case m of None \<Rightarrow> True | Some k \<Rightarrow> n < 10 ^ k \<and> 0 < k"
  shows "read_number 10 m z bound (dec n @ rest) = Some (n, rest)"
proof -
  have rd: "read_digits 10 0 0 (dec n @ rest) = (n, length (dec n), rest)"
    using read_digits_append [OF read_digits_dec] read_digits_rest [OF assms(1)] by simp
  have "\<not> (hd (dec n @ rest) = CHR ''0'' \<and> 1 < length (dec n))"
    using dec_leading [of n] by (auto simp: dec_small)
  moreover have "case m of None \<Rightarrow> True | Some k \<Rightarrow> \<not> k < length (dec n)"
    using assms(3) length_dec by (auto simp: not_less split: option.splits)
  ultimately show ?thesis
    using rd assms(2) by (auto simp: read_number_def split: option.splits)
qed

lemma parse_digits_append:
  "parse_digits b acc (xs @ ys) =
     (case parse_digits b acc xs of None \<Rightarrow> None | Some v \<Rightarrow> parse_digits b v ys)"
  by (induction b acc xs rule: parse_digits.induct) (auto split: option.splits)

lemma parse_digits_dec: "n \<le> b \<Longrightarrow> parse_digits b 0 (dec n) = Some n"
proof (induction n rule: dec.induct)
  case (1 n)
  then show ?case
    by (cases "n < 10") (auto simp: dec_small dec_big not_less parse_digits_append)
qed

lemma parse_uint_dec: "n \<le> b \<Longrightarrow> parse_uint b (dec n) = Some n"
proof -
  assume b: "n \<le> b"
  obtain c cs where d: "dec n = c # cs" by (cases "dec n") auto
  then have "c \<noteq> CHR ''+''" using dec_no_sep(3) [of n] by auto
  with parse_digits_dec [OF b] d show ?thesis by (simp add: parse_uint_def)
qed

lemma split_on_none: "sep \<notin> set p \<Longrightarrow> split_on sep p = [p]"
  by (induction p) auto

lemma split_on_append: "sep \<notin> set p \<Longrightarrow> split_on sep (p @ sep # rest) = p # split_on sep rest"
  by (induction p) auto

lemma split_show_ipv4:
  "split_on CHR ''.'' (show_ipv4 bs) =
     [dec (unat (bs ! 0)), dec (unat (bs ! 1)), dec (unat (bs ! 2)), dec (unat (bs ! 3))]"
  by (simp add: show_ipv4_def split_on_append split_on_none)

lemma unat_u8_less [simp]: "unat (b :: u8) < 1000" "unat (b :: u8) \<le> 255"
  using unsigned_less [of b, where 'a = nat] by simp_all

lemma read_ipv4_addr_show:
  assumes "ends_number rest"
  shows "read_ipv4_addr (show_ipv4 (v4_octets a) @ rest) = Some (a, rest)"
proof -
  have dot: "ends_number (CHR ''.'' # xs)" for xs by (simp add: ends_number_def to_digit_def)
  have group: "ends_number r \<Longrightarrow>
      read_number 10 (Some 3) False 255 (dec (unat (b :: u8)) @ r) = Some (unat b, r)" for b r
    by (rule read_number_dec) simp_all
  have "v4_octets a = [v4_octets a ! 0, v4_octets a ! 1, v4_octets a ! 2, v4_octets a ! 3]"
    by (rule nth_equalityI) (auto simp: less_Suc_eq numeral_eq_Suc)
  then have "ipv4_new (v4_octets a ! 0) (v4_octets a ! 1) (v4_octets a ! 2) (v4_octets a ! 3) = a"
    unfolding ipv4_new_def v4_octets_def by (metis u32_be_roundtrip)
  then show ?thesis
    using assms by (simp add: read_ipv4_addr_def show_ipv4_def read_then_def read_ipv4_group_def
        read_separator_def read_given_char_def group dot)
qed

lemma length_show_ipv4: "length (show_ipv4 bs) \<le> 15"
proof -
  have "length (dec (unat (b :: u8))) \<le> 3" for b
    by (rule length_dec) simp_all
  from this [of "bs ! 0"] this [of "bs ! 1"] this [of "bs ! 2"] this [of "bs ! 3"] show ?thesis
    by (simp add: show_ipv4_def)
qed

lemma parse_show_ipv4 [simp]: "parse_ipv4 (show_ipv4 (v4_octets a)) = Some a"
  using read_ipv4_addr_show [of "[]" a] length_show_ipv4 [of "v4_octets a"]
  by (simp add: parse_ipv4_def parse_with_def ends_number_def)

lemma parse_show_socket_v4 [simp]: "parse_socket_addr (show_socket_v4 a p) = Some (SocketV4 a p)"
proof -
  have colon: "ends_number (CHR '':'' # xs)" for xs by (simp add: ends_number_def to_digit_def)
  have "unat p \<le> 65535" using unsigned_less [of p, where 'a = nat] by simp
  then have port: "read_number 10 None True 65535 (dec (unat p)) = Some (unat p, [])"
    using read_number_dec [of "[]" "unat p" 65535 None True] by (simp add: ends_number_def)
  show ?thesis
    using read_ipv4_addr_show [OF colon, of a "dec (unat p)"] port
    by (simp add: parse_socket_addr_def parse_with_def read_socket_addr_def read_socket_addr_v4_def
        show_socket_v4_def read_then_def read_port_def read_given_char_def)
qed

end
