(* ===== verification/Ip_Alloc.thy ===== *)
theory Ip_Alloc
  imports Std_Net Crypto_Params
begin

text \<open>
  \<open>naboscale-coord/src/error.rs\<close> and \<open>ip_alloc.rs\<close>: the errors of the coordination server and the
  allocator of mesh addresses 100.100.0.1 to 100.100.255.254.  The set of used addresses is the
  \<open>HashSet<u32>\<close> behind the mutex; each operation is one atomic step.  The interface of an
  allocator is the locale \<open>address_pool\<close>; the model is an interpretation of it.
\<close>

datatype coord_error =
    Database string
  | IpPoolExhausted
  | InvalidSignature
  | TimestampDrift i64
  | InvalidPubkey
  | InvalidAuthToken
  | TokenExpired i64
  | RateLimited nat
  | InvalidRequest string
  | NodeNotFound
  | Base64 string
  | Json string
  | CryptoError crypto_error

section \<open>The interface\<close>

locale address_pool =
  fixes alloc :: "('p, 'e, 'a) act"
    and free :: "'a \<Rightarrow> 'p \<Rightarrow> 'p"
    and taken :: "'p \<Rightarrow> 'a set"
    and range :: "'a set"
  assumes alloc_Ok: "alloc p = (Ok a, p') \<Longrightarrow> a \<in> range \<and> a \<notin> taken p \<and> taken p' = insert a (taken p)"
    and alloc_fails: "\<not> is_ok (fst (alloc p)) \<longleftrightarrow> range \<subseteq> taken p"
    and alloc_Err: "\<not> is_ok (fst (alloc p)) \<Longrightarrow> snd (alloc p) = p"
    and free_taken: "a \<in> range \<Longrightarrow> taken (free a p) = taken p - {a}"
begin

lemma alloc_after_free:
  "a \<in> range \<Longrightarrow> is_ok (fst (alloc (free a p)))"
  using alloc_fails [of "free a p"] free_taken [of a p] by auto

lemma free_absent: "a \<in> range \<Longrightarrow> a \<notin> taken p \<Longrightarrow> taken (free a p) = taken p"
  by (simp add: free_taken)

text \<open>Allocating repeatedly, until the first failure.\<close>

fun alloc_many :: "nat \<Rightarrow> 'p \<Rightarrow> 'a list \<times> 'p" where
  "alloc_many 0 p = ([], p)"
| "alloc_many (Suc n) p =
     (case alloc p of
        (Ok a, p') \<Rightarrow> (let (as, q) = alloc_many n p' in (a # as, q))
      | (_, p') \<Rightarrow> ([], p'))"

lemma alloc_many_fresh:
  "distinct (fst (alloc_many n p)) \<and> set (fst (alloc_many n p)) \<inter> taken p = {} \<and>
   set (fst (alloc_many n p)) \<subseteq> range"
proof (induction n arbitrary: p)
  case (Suc n)
  obtain r p' where ap: "alloc p = (r, p')" by (cases "alloc p")
  show ?case
  proof (cases r)
    case (Ok a)
    from alloc_Ok [OF ap [unfolded Ok]] Suc.IH [of p'] ap Ok show ?thesis
      by (auto split: prod.splits)
  qed (use ap in auto)
qed simp

end

section \<open>The allocator\<close>

definition IP_POOL_HOST_COUNT :: u32 where "IP_POOL_HOST_COUNT = 65534"
definition IP_POOL_FIRST_HOST :: u32 where "IP_POOL_FIRST_HOST = u32_from_be [100, 100, 0, 1]"

type_synonym used_ips = "u32 set"

text \<open>\<open>for i in 0..n\<close>: the first candidate that is not used.\<close>

fun find_free :: "nat \<Rightarrow> u32 \<Rightarrow> used_ips \<Rightarrow> u32 option" where
  "find_free 0 candidate used = None"
| "find_free (Suc n) candidate used =
     (if candidate \<notin> used then Some candidate else find_free n (candidate + 1) used)"

definition allocate :: "(used_ips, coord_error, bytes) act" where
  "allocate used =
     (case find_free (unat IP_POOL_HOST_COUNT) IP_POOL_FIRST_HOST used of
        Some candidate \<Rightarrow> (Ok (u32_to_be candidate), insert candidate used)
      | None \<Rightarrow> (Err IpPoolExhausted, used))"

definition release :: "bytes \<Rightarrow> used_ips \<Rightarrow> used_ips" where
  "release ip used = used - {u32_from_be ip}"

text \<open>\<open>ipv4_str_to_u32\<close>: a part that does not parse counts as 0, parts after the fourth are ignored.\<close>

definition ipv4_str_to_u32 :: "string \<Rightarrow> u32" where
  "ipv4_str_to_u32 s =
     u32_from_be (take 4 (map (\<lambda>p. case parse_uint 255 p of Some n \<Rightarrow> of_nat n | None \<Rightarrow> 0)
                            (split_on CHR ''.'' s) @ zeros 4))"

definition pool :: "u32 set" where
  "pool = {a. IP_POOL_FIRST_HOST \<le> a \<and> a < IP_POOL_FIRST_HOST + IP_POOL_HOST_COUNT}"

lemma first_host: "IP_POOL_FIRST_HOST = 1684275201"
  by (simp add: IP_POOL_FIRST_HOST_def u32_from_be_def)

lemma unat_host_count: "unat IP_POOL_HOST_COUNT = 65534"
  by (simp add: IP_POOL_HOST_COUNT_def)

lemma find_free_Some:
  "find_free n c used = Some a \<Longrightarrow>
   \<exists>k < n. a = c + of_nat k \<and> a \<notin> used \<and> (\<forall>j < k. c + of_nat j \<in> used)"
proof (induction n arbitrary: c)
  case (Suc n)
  show ?case
  proof (cases "c \<in> used")
    case True
    with Suc.prems have "find_free n (c + 1) used = Some a" by simp
    from Suc.IH [OF this] obtain k where k: "k < n" "a = c + 1 + of_nat k" "a \<notin> used"
      "\<forall>j < k. c + 1 + of_nat j \<in> used" by blast
    have "c + of_nat j \<in> used" if "j < Suc k" for j
      using True k(4) that by (cases j) (auto simp: ac_simps)
    with k show ?thesis by (intro exI [of _ "Suc k"]) (simp add: ac_simps)
  qed (use Suc.prems in \<open>auto intro: exI [of _ 0]\<close>)
qed simp

lemma find_free_None: "find_free n c used = None \<longleftrightarrow> (\<forall>k < n. c + of_nat k \<in> used)"
proof (induction n arbitrary: c)
  case (Suc n)
  have "(\<forall>k < Suc n. c + of_nat k \<in> used) \<longleftrightarrow> c \<in> used \<and> (\<forall>k < n. c + 1 + of_nat k \<in> used)"
    by (auto simp: less_Suc_eq_0_disj ac_simps)
  with Suc show ?case by simp
qed simp

lemma find_free_None_image:
  "find_free n c used = None \<longleftrightarrow> (\<lambda>k. c + of_nat k) ` {..<n} \<subseteq> used"
  by (auto simp: find_free_None)

lemma pool_iff: "a \<in> pool \<longleftrightarrow> (\<exists>k < 65534. a = IP_POOL_FIRST_HOST + of_nat k)"
proof
  assume "a \<in> pool"
  then have "1684275201 \<le> unat a" "unat a < 1684340735"
    by (simp_all add: pool_def first_host IP_POOL_HOST_COUNT_def word_le_nat_alt word_less_nat_alt)
  moreover from this have "a = 1684275201 + of_nat (unat a - 1684275201)"
    by (simp add: of_nat_diff)
  ultimately show "\<exists>k < 65534. a = IP_POOL_FIRST_HOST + of_nat k"
    unfolding first_host by (intro exI [of _ "unat a - 1684275201"]) simp
next
  assume "\<exists>k < 65534. a = IP_POOL_FIRST_HOST + of_nat k"
  then obtain k where k: "k < 65534" "a = 1684275201 + of_nat k" by (auto simp: first_host)
  then have "unat a = 1684275201 + k"
    by (simp add: unat_word_ariths unat_of_nat take_bit_eq_mod)
  with k(1) show "a \<in> pool"
    by (simp add: pool_def first_host IP_POOL_HOST_COUNT_def word_le_nat_alt word_less_nat_alt)
qed

lemma pool_less:
  assumes "j < 65534" and "k < 65534"
  shows "IP_POOL_FIRST_HOST + of_nat j < IP_POOL_FIRST_HOST + of_nat k \<longleftrightarrow> j < k"
  using assms
  by (simp add: first_host word_less_nat_alt unat_word_ariths unat_of_nat take_bit_eq_mod)

lemma allocate_Ok:
  assumes "allocate used = (Ok ip, used')"
  obtains a where "ip = u32_to_be a" "a \<in> pool" "a \<notin> used" "used' = insert a used"
    "\<forall>b \<in> pool. b < a \<longrightarrow> b \<in> used"
proof -
  obtain a where a: "find_free 65534 IP_POOL_FIRST_HOST used = Some a"
    "ip = u32_to_be a" "used' = insert a used"
    using assms by (auto simp: allocate_def unat_host_count split: option.splits)
  from find_free_Some [OF a(1)] obtain k where k: "k < 65534" "a = IP_POOL_FIRST_HOST + of_nat k"
    "a \<notin> used" "\<forall>j < k. IP_POOL_FIRST_HOST + of_nat j \<in> used" by blast
  have "b \<in> used" if "b \<in> pool" "b < a" for b
    using that k pool_less by (auto simp: pool_iff)
  with a k show ?thesis using that by (auto simp: pool_iff)
qed

lemma allocate_fails_iff: "\<not> is_ok (fst (allocate used)) \<longleftrightarrow> pool \<subseteq> used"
proof -
  have "\<not> is_ok (fst (allocate used)) \<longleftrightarrow> find_free 65534 IP_POOL_FIRST_HOST used = None"
    by (simp add: allocate_def unat_host_count split: option.split)
  also have "\<dots> \<longleftrightarrow> pool \<subseteq> used"
  proof -
    have "pool = (\<lambda>k. IP_POOL_FIRST_HOST + of_nat k) ` {..<65534}" by (auto simp: pool_iff)
    then show ?thesis by (simp only: find_free_None_image)
  qed
  finally show ?thesis .
qed

lemma allocate_unchanged: "\<not> is_ok (fst (allocate used)) \<Longrightarrow> allocate used = (Err IpPoolExhausted, used)"
  by (auto simp: allocate_def split: option.splits)

interpretation ips: address_pool allocate release "\<lambda>used. u32_to_be ` used" "u32_to_be ` pool"
proof
  fix p a p' assume "allocate p = (Ok a, p')"
  then show "a \<in> u32_to_be ` pool \<and> a \<notin> u32_to_be ` p \<and> u32_to_be ` p' = insert a (u32_to_be ` p)"
    by (rule allocate_Ok) auto
next
  fix p
  show "\<not> is_ok (fst (allocate p)) \<longleftrightarrow> u32_to_be ` pool \<subseteq> u32_to_be ` p"
    unfolding allocate_fails_iff by (auto simp: image_subset_iff)
next
  fix p assume "\<not> is_ok (fst (allocate p))"
  from allocate_unchanged [OF this] show "snd (allocate p) = p" by simp
next
  fix a p assume "a \<in> u32_to_be ` pool"
  then show "u32_to_be ` release a p = u32_to_be ` p - {a}" by (auto simp: release_def)
qed

text \<open>What the allocator hands out.  An allocation returns the lowest address of 100.100.0.1 to
  100.100.255.254 that is not in use and marks it used; it fails, with \<open>IpPoolExhausted\<close> and
  without a change, exactly when all 65534 addresses are in use.\<close>

lemma allocate_lowest_free:
  "(case allocate used of
      (Ok ip, used') \<Rightarrow>
        \<exists>a \<in> pool. ip = u32_to_be a \<and> a \<notin> used \<and> used' = insert a used \<and> pool \<inter> {..<a} \<subseteq> used
    | (Err e, used') \<Rightarrow> e = IpPoolExhausted \<and> used' = used \<and> pool \<subseteq> used
    | (Panic msg, used') \<Rightarrow> False)"
proof (cases "allocate used")
  case (Pair r used')
  show ?thesis
  proof (cases "is_ok r")
    case True
    then obtain ip where ip: "r = Ok ip" by (cases r) auto
    show ?thesis
      by (rule allocate_Ok [OF Pair [unfolded ip]]) (auto simp: Pair ip)
  next
    case False
    then have fails: "\<not> is_ok (fst (allocate used))" using Pair by simp
    show ?thesis using allocate_unchanged [OF fails] allocate_fails_iff [of used] fails by simp
  qed
qed

text \<open>Addresses are never shared, and come back.  Any number of successive allocations yields
  different addresses, none of them in use before; and after an address is released an
  allocation succeeds, whatever was in use.\<close>

lemma allocations_distinct_and_reusable:
  "distinct (fst (ips.alloc_many n used)) \<and>
   set (fst (ips.alloc_many n used)) \<inter> u32_to_be ` used = {} \<and>
   (a \<in> pool \<longrightarrow> is_ok (fst (allocate (release (u32_to_be a) used))))"
  using ips.alloc_many_fresh [of n used] ips.alloc_after_free [of "u32_to_be a" used] by auto

theorem allocations_distinct_and_reusable_witness:
  "is_ok (fst (allocate (release (u32_to_be 1684275205) pool)))"
  using allocations_distinct_and_reusable [of 0 pool 1684275205]
  by (simp add: pool_def first_host IP_POOL_HOST_COUNT_def)

text \<open>The text of an address is read back, by the allocator at start-up and by \<open>std::net\<close>.\<close>

lemma ipv4_str_to_u32_show: "ipv4_str_to_u32 (show_ipv4 (u32_to_be a)) = a"
proof -
  have "u32_to_be a = [u32_to_be a ! 0, u32_to_be a ! 1, u32_to_be a ! 2, u32_to_be a ! 3]"
    by (rule nth_equalityI) (auto simp: less_Suc_eq numeral_eq_Suc)
  then obtain b0 b1 b2 b3 where bs: "u32_to_be a = [b0, b1, b2, b3]" by blast
  have "parse_uint 255 (dec (unat (b :: u8))) = Some (unat b)" for b
    by (rule parse_uint_dec) simp
  then have "ipv4_str_to_u32 (show_ipv4 (u32_to_be a)) = u32_from_be [b0, b1, b2, b3]"
    unfolding ipv4_str_to_u32_def split_show_ipv4 bs by simp
  with bs show ?thesis by (metis u32_be_roundtrip)
qed

lemma parse_ipv4_show: "parse_ipv4 (show_ipv4 (u32_to_be a)) = Some a"
  using parse_show_ipv4 [of a] by (simp add: v4_octets_def)

lemma show_ipv4_inj: "show_ipv4 (u32_to_be a) = show_ipv4 (u32_to_be b) \<longleftrightarrow> a = b"
  by (metis parse_ipv4_show option.inject)

end
