(* ===== verification/Coord_Auth.thy ===== *)
theory Coord_Auth
  imports Ip_Alloc Keys_Identity
begin

text \<open>
  \<open>naboscale-coord/src/auth.rs\<close>: the messages clients sign, the timestamp window, and signature
  verification.  The current time is an argument of what uses it.  \<open>i64\<close> arithmetic wraps, as in a
  release build.
\<close>

definition REGISTER_TAG :: bytes where "REGISTER_TAG = str_bytes ''register''"
definition HEARTBEAT_TAG :: bytes where "HEARTBEAT_TAG = str_bytes ''heartbeat''"
definition REFRESH_TAG :: bytes where "REFRESH_TAG = str_bytes ''token_refresh''"
definition DELETE_NODE_TAG :: bytes where "DELETE_NODE_TAG = str_bytes ''delete_node''"
definition TIMESTAMP_WINDOW_SECONDS :: i64 where "TIMESTAMP_WINDOW_SECONDS = 300"

definition validate_timestamp :: "i64 \<Rightarrow> i64 \<Rightarrow> (coord_error, unit) outcome" where
  "validate_timestamp timestamp now =
     (let diff = i64_abs (now - timestamp)
      in if i64_gt diff TIMESTAMP_WINDOW_SECONDS then Err (TimestampDrift TIMESTAMP_WINDOW_SECONDS)
         else Ok ())"

definition build_register_message :: "i64 \<Rightarrow> bytes \<Rightarrow> bytes \<Rightarrow> bytes" where
  "build_register_message timestamp identity_pubkey wg_pubkey =
     REGISTER_TAG @ u64_to_be timestamp @ identity_pubkey @ wg_pubkey"

definition build_heartbeat_message :: "i64 \<Rightarrow> string \<Rightarrow> string option \<Rightarrow> bytes" where
  "build_heartbeat_message timestamp endpoint relay =
     HEARTBEAT_TAG @ u64_to_be timestamp @ str_bytes endpoint @
     (case relay of Some r \<Rightarrow> 0 # str_bytes r | None \<Rightarrow> [1])"

definition build_refresh_message :: "i64 \<Rightarrow> bytes" where
  "build_refresh_message timestamp = REFRESH_TAG @ u64_to_be timestamp"

definition build_delete_node_message :: "i64 \<Rightarrow> bytes" where
  "build_delete_node_message timestamp = DELETE_NODE_TAG @ u64_to_be timestamp"

definition verify_register_signature ::
  "('hs, 'ts) crypto \<Rightarrow> bytes \<Rightarrow> bytes \<Rightarrow> i64 \<Rightarrow> bytes \<Rightarrow> (coord_error, unit) outcome" where
  "verify_register_signature C identity_pubkey wg_pubkey timestamp signature =
     (let msg = build_register_message timestamp identity_pubkey wg_pubkey
      in if \<not> identity_verify C identity_pubkey msg signature then Err InvalidSignature else Ok ())"

definition verify_heartbeat_signature ::
  "('hs, 'ts) crypto \<Rightarrow> bytes \<Rightarrow> string \<Rightarrow> string option \<Rightarrow> i64 \<Rightarrow> bytes \<Rightarrow>
   (coord_error, unit) outcome" where
  "verify_heartbeat_signature C identity_pubkey endpoint relay timestamp signature =
     (let msg = build_heartbeat_message timestamp endpoint relay
      in if \<not> identity_verify C identity_pubkey msg signature then Err InvalidSignature else Ok ())"

section \<open>The window\<close>

lemma validate_timestamp_iff:
  "validate_timestamp timestamp now = Ok () \<longleftrightarrow>
     \<bar>sint (now - timestamp)\<bar> \<le> 300 \<or> now - timestamp = 2 ^ 63"
  using i64_abs_gt_iff [of TIMESTAMP_WINDOW_SECONDS "now - timestamp"]
  by (auto simp: validate_timestamp_def TIMESTAMP_WINDOW_SECONDS_def)

lemma validate_timestamp_no_panic: "validate_timestamp t n \<noteq> Panic msg"
  by (simp add: validate_timestamp_def Let_def)

section \<open>What a signature is for\<close>

lemma tag_bytes:
  "hd (build_register_message t i w) = of_char (CHR ''r'')"
  "hd (build_heartbeat_message t e r) = of_char (CHR ''h'')"
  "hd (build_refresh_message t) = of_char (CHR ''t'')"
  "hd (build_delete_node_message t) = of_char (CHR ''d'')"
  by (simp_all add: build_register_message_def build_heartbeat_message_def build_refresh_message_def
      build_delete_node_message_def REGISTER_TAG_def HEARTBEAT_TAG_def REFRESH_TAG_def
      DELETE_NODE_TAG_def str_bytes_def)

lemma tags_differ:
  "build_register_message t i w \<noteq> build_heartbeat_message t' e r"
  "build_register_message t i w \<noteq> build_refresh_message t'"
  "build_register_message t i w \<noteq> build_delete_node_message t'"
  "build_heartbeat_message t e r \<noteq> build_refresh_message t'"
  "build_heartbeat_message t e r \<noteq> build_delete_node_message t'"
  "build_refresh_message t \<noteq> build_delete_node_message t'"
proof -
  have neq: "(of_char (CHR ''r'') :: u8) \<noteq> of_char (CHR ''h'')" "(of_char (CHR ''r'') :: u8) \<noteq> of_char (CHR ''t'')"
    "(of_char (CHR ''r'') :: u8) \<noteq> of_char (CHR ''d'')" "(of_char (CHR ''h'') :: u8) \<noteq> of_char (CHR ''t'')"
    "(of_char (CHR ''h'') :: u8) \<noteq> of_char (CHR ''d'')" "(of_char (CHR ''t'') :: u8) \<noteq> of_char (CHR ''d'')"
    by simp_all
  show "build_register_message t i w \<noteq> build_heartbeat_message t' e r" using neq(1) tag_bytes(1,2) by metis
  show "build_register_message t i w \<noteq> build_refresh_message t'" using neq(2) tag_bytes(1,3) by metis
  show "build_register_message t i w \<noteq> build_delete_node_message t'" using neq(3) tag_bytes(1,4) by metis
  show "build_heartbeat_message t e r \<noteq> build_refresh_message t'" using neq(4) tag_bytes(2,3) by metis
  show "build_heartbeat_message t e r \<noteq> build_delete_node_message t'" using neq(5) tag_bytes(2,4) by metis
  show "build_refresh_message t \<noteq> build_delete_node_message t'" using neq(6) tag_bytes(3,4) by metis
qed

lemma split_at_nul:
  assumes "0 \<notin> set a" and "0 \<notin> set b" and "a @ 0 # x = b @ 0 # y"
  shows "a = b \<and> x = y"
  using assms
proof (induction a arbitrary: b)
  case Nil
  then show ?case by (cases b) auto
next
  case (Cons c a)
  then show ?case by (cases b) auto
qed

lemma nul_bytes: "0 \<in> set (str_bytes s) \<longleftrightarrow> CHR 0x00 \<in> set s"
proof -
  have "(of_char c :: u8) = 0 \<longleftrightarrow> c = CHR 0x00" for c
    using of_char_u8_inj [of c "CHR 0x00"] by simp
  then show ?thesis by (force simp: str_bytes_def)
qed

lemma u64_to_be_eq: "u64_to_be a @ x = u64_to_be b @ y \<longleftrightarrow> a = b \<and> x = y"
  using append_eq_append_conv [of "u64_to_be a" "u64_to_be b" x y] by simp

lemma nul_not_at_end:
  assumes "0 \<notin> set a"
  shows "a @ [1 :: u8] \<noteq> b @ 0 # y"
proof
  assume "a @ [1] = b @ 0 # y"
  then have "(0 :: u8) \<in> set (a @ [1])" by simp
  with assms show False by simp
qed

text \<open>C34: A signature covers exactly one request.  Messages of different kinds (register, heartbeat,
  refresh, delete) never coincide; register messages over 32-byte keys, refresh and delete
  messages determine all their fields; and so do heartbeat messages as long as the endpoints
  contain no NUL character.\<close>

theorem signed_messages_unambiguous:
  assumes "length i = 32" "length i' = 32" and "CHR 0x00 \<notin> set e" "CHR 0x00 \<notin> set e'"
  shows "build_register_message t i w \<noteq> build_heartbeat_message t' e r \<and>
    build_register_message t i w \<noteq> build_refresh_message t' \<and>
    build_register_message t i w \<noteq> build_delete_node_message t' \<and>
    build_heartbeat_message t e r \<noteq> build_refresh_message t' \<and>
    build_heartbeat_message t e r \<noteq> build_delete_node_message t' \<and>
    build_refresh_message t \<noteq> build_delete_node_message t' \<and>
    (build_register_message t i w = build_register_message t' i' w' \<longleftrightarrow> t = t' \<and> i = i' \<and> w = w') \<and>
    (build_refresh_message t = build_refresh_message t' \<longleftrightarrow> t = t') \<and>
    (build_delete_node_message t = build_delete_node_message t' \<longleftrightarrow> t = t') \<and>
    (build_heartbeat_message t e r = build_heartbeat_message t' e' r' \<longleftrightarrow> t = t' \<and> e = e' \<and> r = r')"
proof -
  have register: "build_register_message t i w = build_register_message t' i' w' \<longleftrightarrow> t = t' \<and> i = i' \<and> w = w'"
    using assms(1,2) by (auto simp: build_register_message_def u64_to_be_eq)
  have nul: "0 \<notin> set (str_bytes e)" "0 \<notin> set (str_bytes e')" using assms(3,4) by (simp_all add: nul_bytes)
  have heartbeat: "build_heartbeat_message t e r = build_heartbeat_message t' e' r' \<longleftrightarrow> t = t' \<and> e = e' \<and> r = r'"
  proof (cases r)
    case None
    then show ?thesis
      using nul_not_at_end [OF nul(1)]
      by (cases r') (auto simp: build_heartbeat_message_def u64_to_be_eq)
  next
    case (Some a)
    then show ?thesis
    proof (cases r')
      case None
      then show ?thesis
        using Some nul_not_at_end [OF nul(2), of "str_bytes e" "str_bytes a"]
        by (auto simp: build_heartbeat_message_def u64_to_be_eq)
    next
      case (Some a')
      with \<open>r = Some a\<close> split_at_nul [OF nul, of "str_bytes a" "str_bytes a'"] show ?thesis
        by (auto simp: build_heartbeat_message_def u64_to_be_eq)
    qed
  qed
  show ?thesis
    using register heartbeat tags_differ
    by (simp add: build_refresh_message_def build_delete_node_message_def)
qed

theorem signed_messages_unambiguous_witness:
  "build_heartbeat_message 5 ''1.2.3.4:5'' None \<noteq> build_heartbeat_message 5 ''1.2.3.4:5'' (Some ''9.9.9.9:9'')"
  using signed_messages_unambiguous [where i = "zeros 32" and i' = "zeros 32" and e = "''1.2.3.4:5''"
      and e' = "''1.2.3.4:5''" and t = 5 and t' = 5 and r = None and r' = "Some ''9.9.9.9:9''"]
  by simp

text \<open>With a NUL in the endpoint one signature fits two requests.\<close>

lemma heartbeat_ambiguous:
  "build_heartbeat_message t (e @ [CHR 0x00] @ r) None = build_heartbeat_message t e (Some (r @ [CHR 0x01]))"
  by (simp add: build_heartbeat_message_def str_bytes_def)

end
