(* ===== verification/Coord_Db.thy ===== *)
theory Coord_Db
  imports Ip_Alloc
begin

text \<open>
  \<open>naboscale-coord/src/db.rs\<close>: the SQLite database of the coordination server, one list of rows per
  table in the order of insertion (a scan without ORDER BY reads a rowid table in that order).
  Every function takes the connection mutex and is one atomic step.  SQLite itself is modelled by
  what the statements say: UNIQUE and PRIMARY KEY constraints reject an INSERT, a statement that
  fails changes nothing, \<open>COALESCE\<close> takes the first value that is not NULL.  \<open>fk\<close> says whether
  the linked SQLite enforces foreign keys.  There is no transaction around the two INSERTs of
  \<open>insert_node\<close>.
\<close>

record node_record =
  n_node_id :: string
  n_identity :: bytes
  n_wg :: bytes
  n_ip :: string
  n_last_endpoint :: "string option"
  n_via_relay :: "string option"
  n_last_seen :: "i64 option"
  n_created_at :: i64

record token_record =
  t_token :: string
  t_node_id :: string
  t_created_at :: i64
  t_expires_at :: i64
  t_revoked :: bool

record db =
  db_nodes :: "node_record list"
  db_tokens :: "token_record list"

type_synonym 'a dbact = "(db, coord_error, 'a) act"

definition DEFAULT_TOKEN_TTL_SECS :: i64 where
  "DEFAULT_TOKEN_TTL_SECS = 30 * 24 * 60 * 60"

definition open_in_memory :: db where
  "open_in_memory = \<lparr>db_nodes = [], db_tokens = []\<rparr>"

text \<open>\<open>init_schema\<close> on a database that has all columns: the backfill of \<open>expires_at\<close>.\<close>

definition init_schema :: "db \<Rightarrow> db" where
  "init_schema d =
     d\<lparr>db_tokens := map (\<lambda>t. if t_expires_at t = 0
         then t\<lparr>t_expires_at := t_created_at t + DEFAULT_TOKEN_TTL_SECS\<rparr> else t) (db_tokens d)\<rparr>"

definition insert_node_row :: "node_record \<Rightarrow> unit dbact" where
  "insert_node_row n d =
     (if list_ex (\<lambda>r. n_node_id r = n_node_id n \<or> n_identity r = n_identity n \<or>
                       n_wg r = n_wg n \<or> n_ip r = n_ip n) (db_nodes d)
      then (Err (Database ''UNIQUE constraint failed: nodes''), d)
      else (Ok (), d\<lparr>db_nodes := db_nodes d @ [n\<lparr>n_last_endpoint := None, n_last_seen := None\<rparr>]\<rparr>))"

definition insert_token_row :: "bool \<Rightarrow> token_record \<Rightarrow> unit dbact" where
  "insert_token_row fk t d =
     (if list_ex (\<lambda>r. t_token r = t_token t) (db_tokens d)
      then (Err (Database ''UNIQUE constraint failed: tokens.token''), d)
      else if fk \<and> \<not> list_ex (\<lambda>n. n_node_id n = t_node_id t) (db_nodes d)
      then (Err (Database ''FOREIGN KEY constraint failed''), d)
      else (Ok (), d\<lparr>db_tokens := db_tokens d @ [t]\<rparr>))"

definition insert_node :: "bool \<Rightarrow> node_record \<Rightarrow> string \<Rightarrow> i64 \<Rightarrow> unit dbact" where
  "insert_node fk node token ttl =
     andthen (insert_node_row node) (\<lambda>_.
       insert_token_row fk
         \<lparr>t_token = token, t_node_id = n_node_id node, t_created_at = n_created_at node,
          t_expires_at = n_created_at node + ttl, t_revoked = False\<rparr>)"

fun first_row :: "'a list \<Rightarrow> 'a option" where
  "first_row [] = None"
| "first_row (x # xs) = Some x"

definition token_live :: "i64 \<Rightarrow> token_record \<Rightarrow> bool" where
  "token_live now t \<longleftrightarrow> \<not> t_revoked t \<and> sint now < sint (t_expires_at t)"

definition get_node_by_token :: "db \<Rightarrow> string \<Rightarrow> i64 \<Rightarrow> node_record option" where
  "get_node_by_token d token now =
     first_row (concat (map (\<lambda>n. map (\<lambda>t. n)
       (filter (\<lambda>t. t_node_id t = n_node_id n \<and> t_token t = token \<and> token_live now t)
          (db_tokens d))) (db_nodes d)))"

definition list_peers :: "db \<Rightarrow> string option \<Rightarrow> node_record list" where
  "list_peers d exclude =
     filter (\<lambda>r. case exclude of Some e \<Rightarrow> n_node_id r \<noteq> e | None \<Rightarrow> True) (db_nodes d)"

definition update_nodes ::
  "string \<Rightarrow> (node_record \<Rightarrow> node_record) \<Rightarrow> db \<Rightarrow> db" where
  "update_nodes node_id f d =
     d\<lparr>db_nodes := map (\<lambda>r. if n_node_id r = node_id then f r else r) (db_nodes d)\<rparr>"

definition update_endpoint :: "string \<Rightarrow> string \<Rightarrow> i64 \<Rightarrow> db \<Rightarrow> db" where
  "update_endpoint node_id endpoint last_seen =
     update_nodes node_id (\<lambda>r. r\<lparr>n_last_endpoint := Some endpoint, n_last_seen := Some last_seen\<rparr>)"

definition coalesce :: "'a option \<Rightarrow> 'a option \<Rightarrow> 'a option" where
  "coalesce a b = (case a of Some x \<Rightarrow> Some x | None \<Rightarrow> b)"

definition update_heartbeat :: "string \<Rightarrow> string \<Rightarrow> string option \<Rightarrow> i64 \<Rightarrow> db \<Rightarrow> db" where
  "update_heartbeat node_id endpoint relay last_seen =
     update_nodes node_id
       (\<lambda>r. r\<lparr>n_last_endpoint := Some endpoint, n_via_relay := coalesce relay (n_via_relay r),
              n_last_seen := Some last_seen\<rparr>)"

definition revoke_all_tokens_for_node :: "string \<Rightarrow> db \<Rightarrow> nat \<times> db" where
  "revoke_all_tokens_for_node node_id d =
     (let hit = (\<lambda>t. t_node_id t = node_id \<and> \<not> t_revoked t)
      in (length (filter hit (db_tokens d)),
          d\<lparr>db_tokens := map (\<lambda>t. if hit t then t\<lparr>t_revoked := True\<rparr> else t) (db_tokens d)\<rparr>))"

definition create_token :: "bool \<Rightarrow> string \<Rightarrow> string \<Rightarrow> i64 \<Rightarrow> i64 \<Rightarrow> unit dbact" where
  "create_token fk node_id token created_at ttl =
     insert_token_row fk
       \<lparr>t_token = token, t_node_id = node_id, t_created_at = created_at,
        t_expires_at = created_at + ttl, t_revoked = False\<rparr>"

definition get_token :: "db \<Rightarrow> string \<Rightarrow> token_record option" where
  "get_token d token = first_row (filter (\<lambda>t. t_token t = token) (db_tokens d))"

definition db_delete_node :: "string \<Rightarrow> db \<Rightarrow> string option \<times> db" where
  "db_delete_node node_id d =
     (let ip = map_option n_ip (first_row (filter (\<lambda>n. n_node_id n = node_id) (db_nodes d)));
          d1 = d\<lparr>db_tokens := filter (\<lambda>t. t_node_id t \<noteq> node_id) (db_tokens d)\<rparr>
      in (ip, d1\<lparr>db_nodes := filter (\<lambda>n. n_node_id n \<noteq> node_id) (db_nodes d1)\<rparr>))"

section \<open>The invariant of the database\<close>

text \<open>The constraints of the schema, and every token belongs to a node.\<close>

definition db_ok :: "db \<Rightarrow> bool" where
  "db_ok d \<longleftrightarrow>
     distinct (map n_node_id (db_nodes d)) \<and> distinct (map n_identity (db_nodes d)) \<and>
     distinct (map n_wg (db_nodes d)) \<and> distinct (map n_ip (db_nodes d)) \<and>
     distinct (map t_token (db_tokens d)) \<and>
     (\<forall>t \<in> set (db_tokens d). t_node_id t \<in> n_node_id ` set (db_nodes d))"

lemma db_ok_empty [simp]: "db_ok open_in_memory"
  by (simp add: db_ok_def open_in_memory_def)

lemma insert_node_row_ok: "keeps db_ok (insert_node_row n)"
  by (auto simp: keeps_def insert_node_row_def db_ok_def list_ex_iff)

lemma insert_token_row_ok:
  assumes "t_node_id t \<in> n_node_id ` set (db_nodes d)" and "db_ok d"
  shows "db_ok (snd (insert_token_row fk t d))"
  using assms by (auto simp: insert_token_row_def db_ok_def list_ex_iff)

lemma insert_node_ok: "db_ok d \<Longrightarrow> db_ok (snd (insert_node fk n token ttl d))"
proof -
  assume ok: "db_ok d"
  obtain r d1 where row: "insert_node_row n d = (r, d1)" by (cases "insert_node_row n d")
  have ok1: "db_ok d1" using keepsD [OF insert_node_row_ok ok, of n] row by simp
  show ?thesis
  proof (cases r)
    case (Ok u)
    with row have "n_node_id n \<in> n_node_id ` set (db_nodes d1)"
      by (auto simp: insert_node_row_def split: if_splits)
    with row Ok ok1 show ?thesis
      by (simp add: insert_node_def andthen_def insert_token_row_ok)
  qed (use row ok1 in \<open>simp_all add: insert_node_def andthen_def\<close>)
qed

lemma update_nodes_ok:
  assumes "db_ok d" and "\<And>r. n_node_id (f r) = n_node_id r \<and> n_identity (f r) = n_identity r \<and>
    n_wg (f r) = n_wg r \<and> n_ip (f r) = n_ip r"
  shows "db_ok (update_nodes node_id f d)"
proof -
  have "map g (db_nodes (update_nodes node_id f d)) = map g (db_nodes d)"
    if "\<And>r. g (f r) = g r" for g :: "node_record \<Rightarrow> 'z"
    using that by (simp add: update_nodes_def)
  note cols = this [of n_node_id] this [of n_identity] this [of n_wg] this [of n_ip]
  have "n_node_id ` set (db_nodes (update_nodes node_id f d)) = n_node_id ` set (db_nodes d)"
    using cols(1) assms(2) by (metis list.set_map)
  with assms cols show ?thesis
    by (simp add: db_ok_def) (simp add: update_nodes_def)
qed

lemma revoke_ok: "db_ok d \<Longrightarrow> db_ok (snd (revoke_all_tokens_for_node node_id d))"
  by (auto simp: revoke_all_tokens_for_node_def db_ok_def Let_def comp_def if_distrib [of t_token]
      cong: if_cong)

lemma distinct_map_filter_keep: "distinct (map f xs) \<Longrightarrow> distinct (map f (filter P xs))"
  by (induction xs) auto

lemma db_delete_node_ok: "db_ok d \<Longrightarrow> db_ok (snd (db_delete_node node_id d))"
  by (auto simp: db_delete_node_def db_ok_def Let_def distinct_map_filter_keep)

section \<open>Looking up a token\<close>

lemma first_row_Some: "first_row xs = Some x \<Longrightarrow> x \<in> set xs"
  by (cases xs) simp_all

lemma first_row_None: "first_row xs = None \<longleftrightarrow> xs = []"
  by (cases xs) simp_all

lemma get_node_by_token_SomeD:
  assumes "get_node_by_token d token now = Some n"
  obtains t where "n \<in> set (db_nodes d)" "t \<in> set (db_tokens d)" "t_token t = token"
    "t_node_id t = n_node_id n" "token_live now t"
  using first_row_Some [OF assms [unfolded get_node_by_token_def]] by auto

lemma get_node_by_token_None:
  "get_node_by_token d token now = None \<longleftrightarrow>
     \<not> (\<exists>n \<in> set (db_nodes d). \<exists>t \<in> set (db_tokens d).
          t_node_id t = n_node_id n \<and> t_token t = token \<and> token_live now t)"
  by (auto simp: get_node_by_token_def first_row_None filter_empty_conv)

lemma distinct_key: "distinct (map f xs) \<Longrightarrow> x \<in> set xs \<Longrightarrow> y \<in> set xs \<Longrightarrow> f x = f y \<Longrightarrow> x = y"
  by (auto simp: distinct_map inj_on_def)

lemma get_node_by_token_iff:
  assumes "db_ok d"
  shows "get_node_by_token d token now = Some n \<longleftrightarrow>
    n \<in> set (db_nodes d) \<and>
    (\<exists>t \<in> set (db_tokens d). t_token t = token \<and> t_node_id t = n_node_id n \<and> token_live now t)"
proof
  assume "get_node_by_token d token now = Some n"
  then show "n \<in> set (db_nodes d) \<and>
    (\<exists>t \<in> set (db_tokens d). t_token t = token \<and> t_node_id t = n_node_id n \<and> token_live now t)"
    by (rule get_node_by_token_SomeD) blast
next
  assume *: "n \<in> set (db_nodes d) \<and>
    (\<exists>t \<in> set (db_tokens d). t_token t = token \<and> t_node_id t = n_node_id n \<and> token_live now t)"
  then obtain t where t: "t \<in> set (db_tokens d)" "t_token t = token" "t_node_id t = n_node_id n" "token_live now t"
    by blast
  have "get_node_by_token d token now \<noteq> None"
    using * unfolding get_node_by_token_None by blast
  then obtain m where m: "get_node_by_token d token now = Some m" by blast
  then obtain u where u: "m \<in> set (db_nodes d)" "u \<in> set (db_tokens d)" "t_token u = token"
    "t_node_id u = n_node_id m" by (rule get_node_by_token_SomeD)
  have d: "distinct (map t_token (db_tokens d))" "distinct (map n_node_id (db_nodes d))"
    using assms by (simp_all add: db_ok_def)
  have "t_token u = t_token t" by (rule trans [OF u(3) t(2) [symmetric]])
  from distinct_key [OF d(1) u(2) t(1) this] have "n_node_id m = n_node_id n" using u(4) t(3) by argo
  from distinct_key [OF d(2) u(1) _ this] * have "m = n" by blast
  with m show "get_node_by_token d token now = Some n" by simp
qed

end
