(* ===== verification/Rate_Limit.thy ===== *)
theory Rate_Limit
  imports Nab_Prelude Nab_Net
begin

text \<open>
  \<open>naboscale-coord/src/rate_limit.rs\<close>: the sliding-window rate limiter of the coordination server,
  and the rounding of its verdict into the \<open>Retry-After\<close> seconds (\<open>check_rate_limit\<close> of
  \<open>routes.rs\<close>).  The table maps an address and a bucket name to the times of the admitted
  requests, oldest first; a missing entry is an empty queue.  The mutex makes each \<open>check\<close> one
  atomic step.
\<close>

record limit =
  max_requests :: nat
  window :: duration

datatype bucket = Register | Heartbeat | Token | Default

fun bucket_limit :: "bucket \<Rightarrow> limit" where
  "bucket_limit Register = \<lparr>max_requests = 5, window = from_secs 60\<rparr>"
| "bucket_limit Heartbeat = \<lparr>max_requests = 30, window = from_secs 60\<rparr>"
| "bucket_limit Token = \<lparr>max_requests = 10, window = from_secs 60\<rparr>"
| "bucket_limit Default = \<lparr>max_requests = 120, window = from_secs 60\<rparr>"

fun bucket_name :: "bucket \<Rightarrow> string" where
  "bucket_name Register = ''register''"
| "bucket_name Heartbeat = ''heartbeat''"
| "bucket_name Token = ''token''"
| "bucket_name Default = ''default''"

type_synonym limiter = "ip_addr \<times> string \<Rightarrow> instant list option"

definition limiter_new :: limiter where
  "limiter_new = Map.empty"

definition timestamps :: "limiter \<Rightarrow> ip_addr \<Rightarrow> bucket \<Rightarrow> instant list" where
  "timestamps L peer b = (case L (peer, bucket_name b) of Some ts \<Rightarrow> ts | None \<Rightarrow> [])"

fun pop_stale :: "instant \<Rightarrow> duration \<Rightarrow> instant list \<Rightarrow> instant list" where
  "pop_stale now w [] = []"
| "pop_stale now w (front # ts) =
     (if w \<le> duration_since now front then pop_stale now w ts else front # ts)"

definition check :: "instant \<Rightarrow> ip_addr \<Rightarrow> bucket \<Rightarrow> (limiter, duration, unit) act" where
  "check now peer b L =
     (let lim = bucket_limit b;
          ts = pop_stale now (window lim) (timestamps L peer b)
      in if max_requests lim \<le> length ts
         then (Err ((window lim - duration_since now (hd ts)) + from_millis 50),
               L((peer, bucket_name b) \<mapsto> ts))
         else (Ok (), L((peer, bucket_name b) \<mapsto> ts @ [now])))"

text \<open>The seconds a rejected caller is told to wait.\<close>

definition retry_seconds :: "duration \<Rightarrow> nat" where
  "retry_seconds retry = max (as_secs retry) 1"

section \<open>The queue of one bucket\<close>

lemma pop_stale_dropWhile: "pop_stale now w ts = dropWhile (\<lambda>t. w \<le> duration_since now t) ts"
  by (induction ts) simp_all

lemma bucket_limit_pos [simp]: "0 < max_requests (bucket_limit b)" "window (bucket_limit b) = from_secs 60"
  by (cases b; simp)+

lemma bucket_name_inj [simp]: "bucket_name a = bucket_name b \<longleftrightarrow> a = b"
  by (cases a; cases b; simp)

lemma timestamps_new [simp]: "timestamps limiter_new peer b = []"
  by (simp add: timestamps_def limiter_new_def)

lemma timestamps_check:
  "timestamps (snd (check now peer b L)) q c =
     (if q = peer \<and> c = b
      then let ts = pop_stale now (from_secs 60) (timestamps L peer b)
           in (if max_requests (bucket_limit b) \<le> length ts then ts else ts @ [now])
      else timestamps L q c)"
  by (auto simp: check_def Let_def timestamps_def)

lemma check_admits_iff:
  "fst (check now peer b L) = Ok () \<longleftrightarrow>
     length (pop_stale now (from_secs 60) (timestamps L peer b)) < max_requests (bucket_limit b)"
  by (simp add: check_def Let_def)

section \<open>Runs\<close>

text \<open>A run of requests at given times; \<open>admitted\<close> lists the times at which requests of one address
  and bucket were let through.\<close>

type_synonym request = "instant \<times> ip_addr \<times> bucket"

definition serve :: "request \<Rightarrow> limiter \<Rightarrow> limiter" where
  "serve r L = snd (check (fst r) (fst (snd r)) (snd (snd r)) L)"

fun admitted :: "ip_addr \<Rightarrow> bucket \<Rightarrow> request list \<Rightarrow> limiter \<Rightarrow> instant list" where
  "admitted p b [] L = []"
| "admitted p b ((t, q, c) # rs) L =
     (if q = p \<and> c = b \<and> fst (check t q c L) = Ok () then [t] else []) @
     admitted p b rs (serve (t, q, c) L)"

text \<open>No bucket ever holds more than its limit: the invariant of the limiter.\<close>

definition within_limits :: "limiter \<Rightarrow> bool" where
  "within_limits L \<longleftrightarrow> (\<forall>p b. length (timestamps L p b) \<le> max_requests (bucket_limit b))"

lemma length_pop_stale: "length (pop_stale now w ts) \<le> length ts"
  by (induction ts) auto

lemma serve_within_limits: "within_limits L \<Longrightarrow> within_limits (serve r L)"
proof -
  assume "within_limits L"
  then have "length (pop_stale now w (timestamps L p b)) \<le> max_requests (bucket_limit b)" for now w p b
    using length_pop_stale le_trans unfolding within_limits_def by blast
  with \<open>within_limits L\<close> show ?thesis
    unfolding within_limits_def serve_def timestamps_check Let_def by (auto simp: not_le)
qed

interpretation limiter: step_invariant serve within_limits
  by unfold_locales (rule serve_within_limits)

lemma within_limits_new: "within_limits limiter_new"
  by (simp add: within_limits_def)

section \<open>The sliding window\<close>

text \<open>What a queue \<open>ts\<close> is of the times \<open>log\<close> admitted so far, at time \<open>now\<close>: a final part of them,
  the earlier ones being out of the window.\<close>

definition tracks :: "duration \<Rightarrow> instant \<Rightarrow> instant list \<Rightarrow> instant list \<Rightarrow> bool" where
  "tracks w now log ts \<longleftrightarrow>
     (\<exists>old. log = old @ ts \<and> (\<forall>t \<in> set old. t + w \<le> now)) \<and> (\<forall>t \<in> set log. t \<le> now)"

lemma tracks_later: "tracks w now log ts \<Longrightarrow> now \<le> later \<Longrightarrow> tracks w later log ts"
  unfolding tracks_def by (fastforce intro: le_trans)

lemma tracks_pop: "tracks w now log ts \<Longrightarrow> tracks w now log (pop_stale now w ts)"
proof -
  assume "tracks w now log ts"
  then obtain old where old: "log = old @ ts" "\<forall>t \<in> set old. t + w \<le> now" "\<forall>t \<in> set log. t \<le> now"
    unfolding tracks_def by blast
  let ?P = "\<lambda>t. w \<le> duration_since now t"
  have "log = (old @ takeWhile ?P ts) @ dropWhile ?P ts" using old(1) by simp
  moreover have "t + w \<le> now" if "t \<in> set (old @ takeWhile ?P ts)" for t
  proof (cases "t \<in> set old")
    case False
    with that have "t \<in> set ts" "w \<le> now - t"
      by (auto dest: set_takeWhileD simp: duration_since_def)
    moreover from this old have "t \<le> now" by auto
    ultimately show ?thesis by simp
  qed (use old in simp)
  ultimately show ?thesis using old(3) unfolding tracks_def pop_stale_dropWhile by blast
qed

lemma tracks_push: "tracks w now log ts \<Longrightarrow> tracks w now (log @ [now]) (ts @ [now])"
  unfolding tracks_def by auto

text \<open>The admitted times in the window from \<open>s\<close>.\<close>

definition in_window :: "instant \<Rightarrow> instant list \<Rightarrow> nat" where
  "in_window s log = length (filter (\<lambda>t. s \<le> t \<and> t < s + from_secs 60) log)"

lemma push_in_window:
  assumes "tracks (from_secs 60) now log ts" and "length ts < k" and "\<forall>s. in_window s log \<le> k"
  shows "in_window s (log @ [now]) \<le> k"
proof (cases "s \<le> now \<and> now < s + from_secs 60")
  case True
  from assms(1) obtain old where old: "log = old @ ts" "\<forall>t \<in> set old. t + from_secs 60 \<le> now"
    unfolding tracks_def by blast
  have "filter (\<lambda>t. s \<le> t \<and> t < s + from_secs 60) old = []"
    using old(2) True by (fastforce simp: filter_empty_conv)
  then have "in_window s (log @ [now]) \<le> length ts + 1"
    using old(1) True by (simp add: in_window_def)
  with assms(2) show ?thesis by simp
next
  case False
  with assms(3) show ?thesis by (auto simp: in_window_def)
qed

lemma admitted_window:
  assumes "sorted (now # map fst rs)" and "tracks (from_secs 60) now log (timestamps L p b)"
    and "\<forall>s. in_window s log \<le> max_requests (bucket_limit b)"
  shows "in_window s (log @ admitted p b rs L) \<le> max_requests (bucket_limit b)"
  using assms
proof (induction rs arbitrary: now log L)
  case (Cons r rs)
  obtain t q c where r: "r = (t, q, c)" by (cases r)
  have t: "now \<le> t" "sorted (t # map fst rs)" using Cons.prems(1) r by auto
  let ?L = "serve (t, q, c) L"
  have tr: "tracks (from_secs 60) t log (timestamps L p b)"
    by (rule tracks_later [OF Cons.prems(2) t(1)])
  note popped = tracks_pop [OF tr]
  show ?case
  proof (cases "q = p \<and> c = b")
    case False
    then have "timestamps ?L p b = timestamps L p b" by (auto simp: serve_def timestamps_check)
    with Cons.IH [OF t(2) _ Cons.prems(3), of ?L] tr False r show ?thesis by auto
  next
    case True
    show ?thesis
    proof (cases "fst (check t q c L) = Ok ()")
      case adm: True
      with True have few: "length (pop_stale t (from_secs 60) (timestamps L p b)) < max_requests (bucket_limit b)"
        by (simp add: check_admits_iff)
      then have "timestamps ?L p b = pop_stale t (from_secs 60) (timestamps L p b) @ [t]"
        using True by (simp add: serve_def timestamps_check Let_def)
      with Cons.IH [OF t(2), of "log @ [t]" ?L] tracks_push [OF popped]
        push_in_window [OF popped few Cons.prems(3)] True adm r show ?thesis by simp
    next
      case rej: False
      with True have "timestamps ?L p b = pop_stale t (from_secs 60) (timestamps L p b)"
        by (simp add: serve_def timestamps_check Let_def check_admits_iff)
      with Cons.IH [OF t(2) _ Cons.prems(3), of ?L] popped True rej r show ?thesis by simp
    qed
  qed
qed simp

text \<open>C32: No caller gets more than its share.  For any sequence of requests in the order of time, from
  any addresses to any buckets, and any 60-second window (from \<open>s\<close> to before \<open>s\<close> + 60 s), the
  number of requests of one address admitted to one bucket in that window is at most the
  bucket's limit (5 registrations, 30 heartbeats, 10 token operations, 120 others).\<close>

theorem sliding_window_bound:
  assumes "sorted (map fst rs)"
  shows "in_window s (admitted p b rs limiter_new) \<le> max_requests (bucket_limit b)"
proof -
  have "tracks (from_secs 60) 0 [] (timestamps limiter_new p b)" by (simp add: tracks_def)
  with admitted_window [of 0 rs "[]" limiter_new p b s] assms show ?thesis
    by (simp add: in_window_def)
qed

theorem sliding_window_bound_witness:
  "in_window 3 (admitted (V4 7) Register
     (map (\<lambda>t. (t, V4 7, Register)) [1, 2, 3, 4, 5, 6, 7, 8, 9]) limiter_new) \<le> 5"
  using sliding_window_bound [of "map (\<lambda>t. (t, V4 7, Register)) [1, 2, 3, 4, 5, 6, 7, 8, 9]" 3 "V4 7" Register]
  by simp

text \<open>Callers and buckets do not affect each other.  The verdict on a request of one address and
  bucket is the same before and after any requests of other addresses or to other buckets.\<close>

lemma buckets_isolated:
  assumes "\<forall>r \<in> set rs. snd r \<noteq> (p, b)"
  shows "fst (check now p b (fold serve rs L)) = fst (check now p b L)"
proof -
  have "timestamps (fold serve rs L) p b = timestamps L p b" using assms
  proof (induction rs arbitrary: L)
    case (Cons r rs)
    obtain t q c where "r = (t, q, c)" by (cases r)
    with Cons show ?case by (auto simp: serve_def timestamps_check)
  qed simp
  then show ?thesis by (simp add: check_def Let_def)
qed

theorem buckets_isolated_witness:
  "fst (check 9 (V4 7) Register (fold serve (map (\<lambda>t. (t, V4 8, Register)) [1, 2, 3, 4, 5, 6]) limiter_new))
     = fst (check 9 (V4 7) Register limiter_new)"
  by (rule buckets_isolated) simp

lemma pop_stale_later:
  assumes "now \<le> later"
  shows "pop_stale later w (pop_stale now w ts) = pop_stale later w ts"
  using assms by (induction ts) (auto simp: duration_since_def)

lemma rejected_Err:
  assumes "fst (check now p b L) = Err retry"
  obtains t ts where "pop_stale now (from_secs 60) (timestamps L p b) = t # ts"
    "max_requests (bucket_limit b) \<le> length (t # ts)" "now - t < from_secs 60"
    "retry = from_secs 60 - (now - t) + from_millis 50"
    "timestamps (snd (check now p b L)) p b = t # ts"
proof -
  let ?q = "pop_stale now (from_secs 60) (timestamps L p b)"
  have len: "max_requests (bucket_limit b) \<le> length ?q"
    and retry: "retry = from_secs 60 - (now - hd ?q) + from_millis 50"
    using assms by (auto simp: check_def Let_def duration_since_def split: if_splits)
  then obtain t ts where q: "?q = t # ts" using bucket_limit_pos(1) [of b] by (cases ?q) auto
  then have "now - t < from_secs 60"
    using hd_dropWhile [of "\<lambda>t. from_secs 60 \<le> duration_since now t" "timestamps L p b"]
    by (auto simp: pop_stale_dropWhile duration_since_def)
  then show ?thesis using that q len retry by (simp add: timestamps_check Let_def)
qed

text \<open>When a rejected caller may come back.  The duration the limiter computes is enough: a request
  after it is admitted.  The \<open>Retry-After\<close> header truncates it to whole seconds, so a caller that
  waits exactly as long as the header says is rejected again whenever the computed wait exceeds
  the header's by more than 50 milliseconds, and is admitted otherwise.\<close>

lemma retry_after:
  assumes "within_limits L" and "\<forall>t \<in> set (timestamps L p b). t \<le> now"
    and "fst (check now p b L) = Err retry"
  shows "(\<forall>later \<ge> now + retry. fst (check later p b (snd (check now p b L))) = Ok ()) \<and>
    (is_ok (fst (check (now + from_secs (retry_seconds retry)) p b (snd (check now p b L)))) \<longleftrightarrow>
     retry \<le> from_secs (retry_seconds retry) + from_millis 50)"
proof -
  obtain t ts where q: "pop_stale now (from_secs 60) (timestamps L p b) = t # ts"
    "max_requests (bucket_limit b) \<le> length (t # ts)" "now - t < from_secs 60"
    "retry = from_secs 60 - (now - t) + from_millis 50"
    "timestamps (snd (check now p b L)) p b = t # ts"
    by (rule rejected_Err [OF assms(3)])
  have "length (timestamps L p b) \<le> max_requests (bucket_limit b)"
    using assms(1) by (simp add: within_limits_def)
  then have few: "length ts < max_requests (bucket_limit b)"
    using length_pop_stale [of now "from_secs 60" "timestamps L p b"] q(1) by simp
  have verdict: "fst (check later p b (snd (check now p b L))) = Ok () \<longleftrightarrow> from_secs 60 \<le> later - t" for later
    using q(2,5) few length_pop_stale [of later "from_secs 60" ts]
    by (auto simp: check_admits_iff duration_since_def)
  have ok_iff: "is_ok r \<longleftrightarrow> r = Ok ()" for r :: "(duration, unit) outcome"
    by (cases r) simp_all
  have "t \<in> set (pop_stale now (from_secs 60) (timestamps L p b))" using q(1) by simp
  then have "t \<le> now" using assms(2) set_dropWhileD unfolding pop_stale_dropWhile by fastforce
  then have "now + k - t \<ge> from_secs 60 \<longleftrightarrow> retry \<le> k + from_millis 50" for k
    using q(3,4) by linarith
  moreover have "from_secs 60 \<le> later - t" if "now + retry \<le> later" for later
    using q(3,4) \<open>t \<le> now\<close> that by linarith
  ultimately show ?thesis unfolding verdict ok_iff by blast
qed

text \<open>Five registrations in the first 450 milliseconds, the sixth at 0.9 seconds: the wait is 59.2
  seconds, the header says 59.\<close>

definition demo_busy :: limiter where
  "demo_busy = [(V4 7, ''register'') \<mapsto> map (\<lambda>i. from_millis i) [50, 150, 250, 350, 450]]"

theorem retry_after_witness:
  "fst (check (from_millis 900) (V4 7) Register demo_busy) = Err (from_millis 59200) \<and>
   retry_seconds (from_millis 59200) = 59 \<and>
   \<not> is_ok (fst (check (from_millis 900 + from_secs 59) (V4 7) Register
       (snd (check (from_millis 900) (V4 7) Register demo_busy))))"
proof -
  have ts: "timestamps demo_busy q c = (if q = V4 7 \<and> c = Register
      then map (\<lambda>i. from_millis i) [50, 150, 250, 350, 450] else [])" for q c
    using bucket_name_inj [of c Register] by (auto simp: timestamps_def demo_busy_def simp del: bucket_name_inj)
  have "within_limits demo_busy" by (simp add: within_limits_def ts)
  moreover have "\<forall>t \<in> set (timestamps demo_busy (V4 7) Register). t \<le> from_millis 900"
    by (simp add: ts from_millis_def)
  moreover have err: "fst (check (from_millis 900) (V4 7) Register demo_busy) = Err (from_millis 59200)"
    by (simp add: check_def ts duration_since_def from_millis_def from_secs_def)
  moreover have "retry_seconds (from_millis 59200) = 59"
    by (simp add: retry_seconds_def as_secs_def from_millis_def)
  ultimately show ?thesis
    using retry_after [of demo_busy "V4 7" Register "from_millis 900" "from_millis 59200"]
    by (simp add: from_millis_def from_secs_def)
qed

end
