(* ===== verification/Coord_Routes.thy ===== *)
theory Coord_Routes
  imports Coord_Auth Coord_Db Rate_Limit
begin

text \<open>
  \<open>naboscale-coord/src/routes.rs\<close>, \<open>state.rs\<close> and the routing table of \<open>server.rs\<close>.

  State: \<open>coord\<close> is \<open>AppState\<close>.  What one request sees of the outside is \<open>coord_env\<close>: the peer
  address, the two clocks, the fresh UUID and the 32 random bytes of a new token.  The base64
  crate and the foreign-key setting of the linked SQLite are the parameters \<open>coord_libs\<close>.

  A handler has no await point; it is modelled as one atomic operation.  JSON is modelled after
  parsing; error texts that quote the input are shortened.
\<close>

record coord_libs =
  b64_encode :: "bytes \<Rightarrow> string"
  b64_decode :: "string \<Rightarrow> string + bytes"
  fk_enforced :: bool

record coord_env =
  peer :: socket_addr
  mono :: instant
  clock :: i64
  uuid :: string
  token_random :: bytes

record coord =
  cdb :: db
  ip_alloc :: used_ips
  token_ttl_secs :: i64
  rate_limiter :: limiter

type_synonym 'a cact = "(coord, coord_error, 'a) act"

section \<open>Construction\<close>

text \<open>\<open>IpAllocator::new\<close> marks the address of every stored node.\<close>

definition ip_allocator_new :: "db \<Rightarrow> used_ips" where
  "ip_allocator_new d = set (map (\<lambda>n. ipv4_str_to_u32 (n_ip n)) (list_peers d None))"

definition app_state_open :: "db \<Rightarrow> i64 \<Rightarrow> coord" where
  "app_state_open stored ttl =
     (let d = init_schema stored
      in \<lparr>cdb = d, ip_alloc = ip_allocator_new d, token_ttl_secs = ttl, rate_limiter = limiter_new\<rparr>)"

definition app_state_in_memory :: "i64 \<Rightarrow> coord" where
  "app_state_in_memory ttl =
     \<lparr>cdb = open_in_memory, ip_alloc = ip_allocator_new open_in_memory, token_ttl_secs = ttl,
      rate_limiter = limiter_new\<rparr>"

text \<open>The lifetime of a token, from \<open>NABOSCALE_COORD_TOKEN_TTL_SECS\<close>.\<close>

definition token_ttl_from_env :: "string option \<Rightarrow> i64" where
  "token_ttl_from_env var =
     (case var of
        Some s \<Rightarrow> (case parse_int 9223372036854775807 s of Some i \<Rightarrow> of_int i | None \<Rightarrow> DEFAULT_TOKEN_TTL_SECS)
      | None \<Rightarrow> DEFAULT_TOKEN_TTL_SECS)"

text \<open>
  The start of the server (\<open>main.rs\<close>): the path of the database, its state, and the address to
  listen on.  \<open>stored\<close> is what the file at a path holds; each variable is absent or a text.
\<close>

definition coord_start ::
  "(string \<Rightarrow> db) \<Rightarrow> string option \<Rightarrow> string option \<Rightarrow> string option \<Rightarrow>
   (coord_error, coord \<times> socket_addr) outcome" where
  "coord_start stored db_var addr_var ttl_var =
     (let db_path = (case db_var of Some p \<Rightarrow> p | None \<Rightarrow> ''naboscale-coord.sqlite'');
          state = app_state_open (stored db_path) (token_ttl_from_env ttl_var);
          addr = (case addr_var of Some a \<Rightarrow> a | None \<Rightarrow> ''0.0.0.0:8080'')
      in case parse_socket_addr addr of
           Some bind \<Rightarrow> Ok (state, bind)
         | None \<Rightarrow> Panic ''NABOSCALE_COORD_ADDR must be a valid socket address'')"

section \<open>Helpers\<close>

definition check_rate_limit :: "coord_env \<Rightarrow> bucket \<Rightarrow> unit cact" where
  "check_rate_limit E b s =
     (case check (mono E) (sock_ip (peer E)) b (rate_limiter s) of
        (Ok u, L) \<Rightarrow> (Ok (), s\<lparr>rate_limiter := L\<rparr>)
      | (Err retry, L) \<Rightarrow> (Err (RateLimited (retry_seconds retry)), s\<lparr>rate_limiter := L\<rparr>)
      | (Panic msg, L) \<Rightarrow> (Panic msg, s))"

definition pure_act :: "('e, 'a) outcome \<Rightarrow> ('s, 'e, 'a) act" where
  "pure_act r s = (r, s)"

definition with_db :: "'a dbact \<Rightarrow> 'a cact" where
  "with_db f s = (case f (cdb s) of (r, d) \<Rightarrow> (r, s\<lparr>cdb := d\<rparr>))"

definition with_ips :: "(used_ips, coord_error, 'a) act \<Rightarrow> 'a cact" where
  "with_ips f s = (case f (ip_alloc s) of (r, u) \<Rightarrow> (r, s\<lparr>ip_alloc := u\<rparr>))"

definition decode_pubkey :: "coord_libs \<Rightarrow> string \<Rightarrow> (coord_error, bytes) outcome" where
  "decode_pubkey X s =
     (case b64_decode X s of
        Inl e \<Rightarrow> Err (Base64 e)
      | Inr bs \<Rightarrow> if length bs \<noteq> 32 then Err InvalidPubkey else Ok bs)"

definition decode_signature :: "coord_libs \<Rightarrow> string \<Rightarrow> (coord_error, bytes) outcome" where
  "decode_signature X s =
     (case b64_decode X s of
        Inl e \<Rightarrow> Err (Base64 e)
      | Inr bs \<Rightarrow> if length bs \<noteq> 64 then Err (InvalidRequest ''invalid signature length'') else Ok bs)"

text \<open>\<open>headers\<close> is the value of the Authorization header when it is present and printable.\<close>

definition extract_bearer :: "string option \<Rightarrow> (coord_error, string) outcome" where
  "extract_bearer headers =
     (case headers of
        None \<Rightarrow> Err InvalidAuthToken
      | Some auth \<Rightarrow>
          if take 7 auth = ''Bearer '' then Ok (drop 7 auth) else Err InvalidAuthToken)"

definition generate_token :: "coord_libs \<Rightarrow> coord_env \<Rightarrow> string" where
  "generate_token X E = b64_encode X (token_random E)"

text \<open>The node of a live token; \<open>copy_from_slice\<close> of its key into 32 bytes panics on another length.\<close>

definition caller_of :: "coord_env \<Rightarrow> string \<Rightarrow> node_record cact" where
  "caller_of E token s =
     (case get_node_by_token (cdb s) token (clock E) of
        Some n \<Rightarrow> (Ok n, s)
      | None \<Rightarrow> (Err InvalidAuthToken, s))"

definition key_array :: "bytes \<Rightarrow> (coord_error, bytes) outcome" where
  "key_array bs =
     (if length bs = 32 then Ok bs
      else Panic ''copy_from_slice: source slice length does not match destination slice length'')"

section \<open>Handlers\<close>

record register_request =
  rq_identity_pubkey :: string
  rq_wg_pubkey :: string
  rq_timestamp :: i64
  rq_signature :: string

record register_response =
  rs_node_id :: string
  rs_ip :: string
  rs_auth_token :: string
  rs_auth_token_expires_at :: i64
  rs_derp_url :: string

definition register ::
  "('hs, 'ts) crypto \<Rightarrow> coord_libs \<Rightarrow> coord_env \<Rightarrow> register_request \<Rightarrow> register_response cact" where
  "register C X E req =
     andthen (check_rate_limit E Register) (\<lambda>_.
     andthen (pure_act (decode_pubkey X (rq_identity_pubkey req))) (\<lambda>identity_pubkey.
     andthen (pure_act (decode_pubkey X (rq_wg_pubkey req))) (\<lambda>wg_pubkey.
     andthen (pure_act (decode_signature X (rq_signature req))) (\<lambda>signature.
     andthen (pure_act (validate_timestamp (rq_timestamp req) (clock E))) (\<lambda>_.
     andthen (pure_act (verify_register_signature C identity_pubkey wg_pubkey (rq_timestamp req) signature)) (\<lambda>_.
     andthen (with_ips allocate) (\<lambda>ip_bytes s.
       let node = \<lparr>n_node_id = uuid E, n_identity = identity_pubkey, n_wg = wg_pubkey,
                   n_ip = show_ipv4 ip_bytes, n_last_endpoint = None, n_via_relay = None,
                   n_last_seen = None, n_created_at = clock E\<rparr>;
           ttl = token_ttl_secs s
       in andthen (with_db (insert_node (fk_enforced X) node (generate_token X E) ttl))
            (\<lambda>_. ret \<lparr>rs_node_id = uuid E, rs_ip = show_ipv4 ip_bytes,
                      rs_auth_token = generate_token X E,
                      rs_auth_token_expires_at = clock E + ttl, rs_derp_url = ''''\<rparr>) s)))))))"

record peer_entry =
  pe_node_id :: string
  pe_wg_pubkey :: string
  pe_ip :: string
  pe_last_endpoint :: "string option"
  pe_via_relay :: "string option"
  pe_last_seen :: "i64 option"

definition peer_entry_of :: "coord_libs \<Rightarrow> node_record \<Rightarrow> peer_entry" where
  "peer_entry_of X n =
     \<lparr>pe_node_id = n_node_id n, pe_wg_pubkey = b64_encode X (n_wg n), pe_ip = n_ip n,
      pe_last_endpoint = n_last_endpoint n, pe_via_relay = n_via_relay n,
      pe_last_seen = n_last_seen n\<rparr>"

definition peers_route :: "coord_libs \<Rightarrow> coord_env \<Rightarrow> string option \<Rightarrow> peer_entry list cact" where
  "peers_route X E headers =
     andthen (check_rate_limit E Default) (\<lambda>_.
     andthen (pure_act (extract_bearer headers)) (\<lambda>token.
     andthen (caller_of E token) (\<lambda>caller s.
       (Ok (map (peer_entry_of X) (list_peers (cdb s) (Some (n_node_id caller)))), s))))"

record heartbeat_request =
  hb_endpoint :: string
  hb_via_relay :: "string option"
  hb_timestamp :: i64
  hb_signature :: string

definition valid_relay :: "string option \<Rightarrow> (coord_error, unit) outcome" where
  "valid_relay relay =
     (case relay of
        None \<Rightarrow> Ok ()
      | Some r \<Rightarrow>
          (case parse_socket_addr r of
             Some a \<Rightarrow> Ok ()
           | None \<Rightarrow> Err (InvalidRequest ''via_relay is not a valid ip:port'')))"

definition heartbeat ::
  "('hs, 'ts) crypto \<Rightarrow> coord_libs \<Rightarrow> coord_env \<Rightarrow> string option \<Rightarrow> heartbeat_request \<Rightarrow> nat cact" where
  "heartbeat C X E headers req =
     andthen (check_rate_limit E Heartbeat) (\<lambda>_.
     andthen (pure_act (extract_bearer headers)) (\<lambda>token.
     andthen (caller_of E token) (\<lambda>caller.
     andthen (pure_act (decode_signature X (hb_signature req))) (\<lambda>signature.
     andthen (pure_act (validate_timestamp (hb_timestamp req) (clock E))) (\<lambda>_.
     andthen (pure_act (key_array (n_identity caller))) (\<lambda>identity_pubkey.
     andthen (pure_act (verify_heartbeat_signature C identity_pubkey (hb_endpoint req)
                          (hb_via_relay req) (hb_timestamp req) signature)) (\<lambda>_.
     andthen (pure_act (valid_relay (hb_via_relay req))) (\<lambda>_ s.
       (Ok 200, s\<lparr>cdb := update_heartbeat (n_node_id caller) (hb_endpoint req) (hb_via_relay req)
                           (clock E) (cdb s)\<rparr>)))))))))"

record signed_request =
  sg_timestamp :: i64
  sg_signature :: string

record refresh_response =
  rf_auth_token :: string
  rf_auth_token_expires_at :: i64
  rf_old_token_expires_at :: i64

text \<open>The common part of the two signed token routes: who calls, with a valid signature over \<open>msg\<close>.\<close>

definition signed_caller ::
  "('hs, 'ts) crypto \<Rightarrow> coord_libs \<Rightarrow> coord_env \<Rightarrow> string option \<Rightarrow> signed_request \<Rightarrow>
   (i64 \<Rightarrow> bytes) \<Rightarrow> node_record cact" where
  "signed_caller C X E headers req msg =
     andthen (check_rate_limit E Token) (\<lambda>_.
     andthen (pure_act (extract_bearer headers)) (\<lambda>token.
     andthen (caller_of E token) (\<lambda>caller.
     andthen (pure_act (decode_signature X (sg_signature req))) (\<lambda>signature.
     andthen (pure_act (validate_timestamp (sg_timestamp req) (clock E))) (\<lambda>_.
     andthen (pure_act (key_array (n_identity caller))) (\<lambda>identity_pubkey.
       if \<not> identity_verify C identity_pubkey (msg (sg_timestamp req)) signature
       then pure_act (Err InvalidSignature) else ret caller))))))"

definition refresh_token ::
  "('hs, 'ts) crypto \<Rightarrow> coord_libs \<Rightarrow> coord_env \<Rightarrow> string option \<Rightarrow> signed_request \<Rightarrow>
   refresh_response cact" where
  "refresh_token C X E headers req =
     andthen (signed_caller C X E headers req build_refresh_message) (\<lambda>caller s.
       let s1 = s\<lparr>cdb := snd (revoke_all_tokens_for_node (n_node_id caller) (cdb s))\<rparr>;
           new_token = generate_token X E;
           ttl = token_ttl_secs s
       in andthen (with_db (create_token (fk_enforced X) (n_node_id caller) new_token (clock E) ttl))
            (\<lambda>_. ret \<lparr>rf_auth_token = new_token, rf_auth_token_expires_at = clock E + ttl,
                      rf_old_token_expires_at = clock E + ttl\<rparr>) s1)"

definition delete_node ::
  "('hs, 'ts) crypto \<Rightarrow> coord_libs \<Rightarrow> coord_env \<Rightarrow> string option \<Rightarrow> signed_request \<Rightarrow> nat cact" where
  "delete_node C X E headers req =
     andthen (signed_caller C X E headers req build_delete_node_message) (\<lambda>caller s.
       let (ip, d) = db_delete_node (n_node_id caller) (cdb s);
           s1 = s\<lparr>cdb := d\<rparr>
       in (Ok 204,
           (case Option.bind ip parse_ipv4 of
              Some addr \<Rightarrow> s1\<lparr>ip_alloc := release (v4_octets addr) (ip_alloc s1)\<rparr>
            | None \<Rightarrow> s1)))"

definition health :: "string cact" where
  "health = ret ''ok''"

section \<open>Error responses\<close>

fun error_status :: "coord_error \<Rightarrow> nat" where
  "error_status (RateLimited secs) = 429"
| "error_status InvalidSignature = 401"
| "error_status InvalidAuthToken = 401"
| "error_status (TokenExpired t) = 401"
| "error_status NodeNotFound = 404"
| "error_status (InvalidRequest msg) = 400"
| "error_status InvalidPubkey = 400"
| "error_status (TimestampDrift w) = 400"
| "error_status IpPoolExhausted = 503"
| "error_status (Database msg) = 500"
| "error_status (Base64 msg) = 500"
| "error_status (Json msg) = 500"
| "error_status (CryptoError e) = 500"

text \<open>The seconds in the Retry-After header, if it is set.\<close>

fun retry_after_header :: "coord_error \<Rightarrow> nat option" where
  "retry_after_header (RateLimited secs) = Some secs"
| "retry_after_header _ = None"

section \<open>The routes\<close>

datatype http_request =
    PostRegister register_request
  | GetPeers "string option"
  | PostHeartbeat "string option" heartbeat_request
  | PostTokenRefresh "string option" signed_request
  | DeleteNode "string option" signed_request
  | GetHealth

datatype http_response =
    RegisteredResponse register_response
  | PeersResponse "peer_entry list"
  | RefreshedResponse refresh_response
  | StatusResponse nat
  | HealthResponse string
  | ErrorResponse nat "nat option"
  | HandlerPanic string

definition respond ::
  "('a \<Rightarrow> http_response) \<Rightarrow> (coord_error, 'a) outcome \<times> coord \<Rightarrow> http_response \<times> coord" where
  "respond f r =
     ((case fst r of
         Ok x \<Rightarrow> f x
       | Err e \<Rightarrow> ErrorResponse (error_status e) (retry_after_header e)
       | Panic msg \<Rightarrow> HandlerPanic msg), snd r)"

fun handle_request ::
  "('hs, 'ts) crypto \<Rightarrow> coord_libs \<Rightarrow> coord_env \<Rightarrow> http_request \<Rightarrow> coord \<Rightarrow> http_response \<times> coord" where
  "handle_request C X E (PostRegister req) s = respond RegisteredResponse (register C X E req s)"
| "handle_request C X E (GetPeers headers) s = respond PeersResponse (peers_route X E headers s)"
| "handle_request C X E (PostHeartbeat headers req) s =
     respond StatusResponse (heartbeat C X E headers req s)"
| "handle_request C X E (PostTokenRefresh headers req) s =
     respond RefreshedResponse (refresh_token C X E headers req s)"
| "handle_request C X E (DeleteNode headers req) s =
     respond StatusResponse (delete_node C X E headers req s)"
| "handle_request C X E GetHealth s = respond HealthResponse (health s)"

end
