(* ===== verification/Cli_Disk.thy ===== *)
theory Cli_Disk
  imports Manager Coord_Routes
begin

text \<open>
  What the command line client (\<open>naboscale-cli\<close>) sees of the operating system: its error type
  (\<open>error.rs\<close>), and the functions of \<open>std::fs\<close> it calls.

  A path is its list of components.  The disk is a map from paths to files and a set of
  directories.  \<open>faults\<close> says which operations the operating system refuses; a refused write may
  leave any content behind.  The disk belongs to this process between two calls of one command.
\<close>

section \<open>Errors\<close>

datatype io_error = NotFound | IoOther string

type_synonym path = "string list"

datatype cli_error =
    CliIo io_error
  | CliCrypto crypto_error
  | CliTunnel tunnel_error
  | NoConfigDir
  | BadConfig string
  | NotInitialized path
  | ServerError string
  | HttpError string
  | CliJson string
  | CliBase64 string
  | TomlDe string
  | TomlSer string
  | ConfigMissing

text \<open>\<open>map_err\<close> on an operation, and \<open>?\<close> with a conversion of the error.\<close>

definition map_err :: "('e \<Rightarrow> 'f) \<Rightarrow> ('s, 'e, 'a) act \<Rightarrow> ('s, 'f, 'a) act" where
  "map_err f m s =
     (case m s of
        (Ok x, s') \<Rightarrow> (Ok x, s')
      | (Err e, s') \<Rightarrow> (Err (f e), s')
      | (Panic p, s') \<Rightarrow> (Panic p, s'))"

lemma map_err_Ok [simp]: "map_err f m s = (Ok x, s') \<longleftrightarrow> m s = (Ok x, s')"
  by (auto simp: map_err_def split: prod.splits outcome.splits)

lemma map_err_Err: "map_err f m s = (Err e, s') \<longleftrightarrow> (\<exists>e'. m s = (Err e', s') \<and> e = f e')"
  by (auto simp: map_err_def split: prod.splits outcome.splits)

lemma map_err_Panic [simp]: "map_err f m s = (Panic p, s') \<longleftrightarrow> m s = (Panic p, s')"
  by (auto simp: map_err_def split: prod.splits outcome.splits)

lemma map_err_snd [simp]: "snd (map_err f m s) = snd (m s)"
  by (simp add: map_err_def split: prod.split outcome.split)

lemma map_err_apply:
  "m s = (Ok x, s') \<Longrightarrow> map_err f m s = (Ok x, s')"
  "m s = (Err e, s') \<Longrightarrow> map_err f m s = (Err (f e), s')"
  by (simp_all add: map_err_def)

lemma stays_map_err [simp]: "stays R (map_err f m) = stays R m"
  by (simp add: stays_def)

section \<open>Files\<close>

record fs_file =
  content :: bytes
  mode :: nat

record disk =
  files :: "path \<Rightarrow> fs_file option"
  directories :: "path set"

record faults =
  read_fault :: "path \<Rightarrow> string option"
  write_fault :: "path \<Rightarrow> bytes \<Rightarrow> (string \<times> bytes option) option"
  rename_fault :: "path \<Rightarrow> path \<Rightarrow> string option"
  mkdir_fault :: "path \<Rightarrow> string option"
  chmod_fault :: "path \<Rightarrow> string option"

type_synonym 'a ioact = "(disk, io_error, 'a) act"
type_synonym 'a fsact = "(disk, cli_error, 'a) act"

text \<open>The mode of a file \<open>std::fs::write\<close> creates, under the usual umask.\<close>

definition DEFAULT_MODE :: nat where "DEFAULT_MODE = 420"
definition OWNER_ONLY :: nat where "OWNER_ONLY = 384"

definition join :: "path \<Rightarrow> string \<Rightarrow> path" where
  "join dir name = dir @ [name]"

definition path_exists :: "path \<Rightarrow> disk \<Rightarrow> bool" where
  "path_exists p d \<longleftrightarrow> files d p \<noteq> None \<or> p \<in> directories d"

definition fs_read :: "faults \<Rightarrow> path \<Rightarrow> bytes ioact" where
  "fs_read F p d =
     (case read_fault F p of
        Some e \<Rightarrow> (Err (IoOther e), d)
      | None \<Rightarrow>
          (case files d p of
             Some f \<Rightarrow> (Ok (content f), d)
           | None \<Rightarrow>
               (if p \<in> directories d then (Err (IoOther ''Is a directory''), d) else (Err NotFound, d))))"

definition stored :: "path \<Rightarrow> bytes \<Rightarrow> disk \<Rightarrow> disk" where
  "stored p bs d =
     d\<lparr>files := (files d)(p \<mapsto>
       \<lparr>content = bs, mode = (case files d p of Some f \<Rightarrow> mode f | None \<Rightarrow> DEFAULT_MODE)\<rparr>)\<rparr>"

definition fs_write :: "faults \<Rightarrow> path \<Rightarrow> bytes \<Rightarrow> unit ioact" where
  "fs_write F p bs d =
     (if butlast p \<notin> directories d then (Err NotFound, d)
      else if p \<in> directories d then (Err (IoOther ''Is a directory''), d)
      else case write_fault F p bs of
        Some (e, left) \<Rightarrow>
          (Err (IoOther e), (case left of None \<Rightarrow> d | Some part \<Rightarrow> stored p part d))
      | None \<Rightarrow> (Ok (), stored p bs d))"

definition fs_rename :: "faults \<Rightarrow> path \<Rightarrow> path \<Rightarrow> unit ioact" where
  "fs_rename F p q d =
     (case rename_fault F p q of
        Some e \<Rightarrow> (Err (IoOther e), d)
      | None \<Rightarrow>
          (case files d p of
             None \<Rightarrow> (Err NotFound, d)
           | Some f \<Rightarrow>
               (if q \<in> directories d then (Err (IoOther ''Is a directory''), d)
                else (Ok (), d\<lparr>files := ((files d)(p := None))(q \<mapsto> f)\<rparr>))))"

definition fs_create_dir_all :: "faults \<Rightarrow> path \<Rightarrow> unit ioact" where
  "fs_create_dir_all F p d =
     (case mkdir_fault F p of
        Some e \<Rightarrow> (Err (IoOther e), d)
      | None \<Rightarrow> (Ok (), d\<lparr>directories := directories d \<union> set (map (\<lambda>k. take k p) [0..<Suc (length p)])\<rparr>))"

definition fs_set_permissions :: "faults \<Rightarrow> path \<Rightarrow> nat \<Rightarrow> unit ioact" where
  "fs_set_permissions F p m d =
     (case chmod_fault F p of
        Some e \<Rightarrow> (Err (IoOther e), d)
      | None \<Rightarrow>
          (case files d p of
             None \<Rightarrow> (Err NotFound, d)
           | Some f \<Rightarrow> (Ok (), d\<lparr>files := (files d)(p \<mapsto> f\<lparr>mode := m\<rparr>)\<rparr>)))"

definition no_faults :: faults where
  "no_faults =
     \<lparr>read_fault = \<lambda>p. None, write_fault = \<lambda>p bs. None, rename_fault = \<lambda>p q. None,
      mkdir_fault = \<lambda>p. None, chmod_fault = \<lambda>p. None\<rparr>"

lemma no_faults_simps [simp]:
  "read_fault no_faults p = None" "write_fault no_faults p bs = None"
  "rename_fault no_faults p q = None" "mkdir_fault no_faults p = None" "chmod_fault no_faults p = None"
  by (simp_all add: no_faults_def)

lemma join_simps [simp]:
  "join dir a = join dir b \<longleftrightarrow> a = b" "join dir a \<noteq> []" "butlast (join dir a) = dir" "last (join dir a) = a"
  by (simp_all add: join_def)

text \<open>The content of a file, when it exists.\<close>

definition file_bytes :: "disk \<Rightarrow> path \<Rightarrow> bytes option" where
  "file_bytes d p = map_option content (files d p)"

lemma fs_read_plain:
  "read_fault F p = None \<Longrightarrow> file_bytes d p = Some bs \<Longrightarrow> fs_read F p d = (Ok bs, d)"
  by (auto simp: fs_read_def file_bytes_def)

lemma fs_read_same: "stays (=) (fs_read F p)"
  by (auto simp: stays_def fs_read_def split: option.splits)

lemma file_bytes_stored [simp]: "file_bytes (stored p bs d) q = (if q = p then Some bs else file_bytes d q)"
  by (simp add: file_bytes_def stored_def)

lemma directories_stored [simp]: "directories (stored p bs d) = directories d"
  by (simp add: stored_def)

end
