(* ===== verification/Keystore.thy ===== *)
theory Keystore
  imports Cli_Disk
begin

text \<open>
  \<open>naboscale-cli/src/keystore.rs\<close>: the encrypted key files, and the two files of one node opened
  together.  Argon2id, HKDF-SHA256 and XChaCha20-Poly1305 are the parameters \<open>key_libs\<close>; the
  random salt and nonce of a new envelope are arguments; error texts that quote a path or an
  inner error are shortened.  \<open>debug_assert\<close> is off, as in a release build.
\<close>

record key_libs =
  argon2_params_error :: "nat \<Rightarrow> nat \<Rightarrow> nat \<Rightarrow> nat \<Rightarrow> string option"
  argon2id :: "nat \<Rightarrow> nat \<Rightarrow> nat \<Rightarrow> bytes \<Rightarrow> bytes \<Rightarrow> string + bytes"
  hkdf_sha256 :: "bytes \<Rightarrow> bytes \<Rightarrow> bytes \<Rightarrow> string + bytes"
  aead_encrypt :: "bytes \<Rightarrow> bytes \<Rightarrow> bytes \<Rightarrow> string + bytes"
  aead_decrypt :: "bytes \<Rightarrow> bytes \<Rightarrow> bytes \<Rightarrow> bytes option"

definition MAGIC :: bytes where "MAGIC = str_bytes ''NAB1''"
definition VERSION :: u8 where "VERSION = 2"
definition SALT_LEN :: nat where "SALT_LEN = 16"
definition NONCE_LEN :: nat where "NONCE_LEN = 24"
definition HEADER_LEN :: nat where "HEADER_LEN = 4 + 1 + 3 + SALT_LEN + NONCE_LEN"
definition KEY_LEN :: nat where "KEY_LEN = 32"
definition FILE_LEN :: nat where "FILE_LEN = HEADER_LEN + KEY_LEN + 16"

lemmas keystore_sizes =
  SALT_LEN_def NONCE_LEN_def HEADER_LEN_def KEY_LEN_def FILE_LEN_def

datatype key_kind = IdentityKey | WgKey

fun file_name :: "key_kind \<Rightarrow> string" where
  "file_name IdentityKey = ''identity.key''"
| "file_name WgKey = ''wg.key''"

section \<open>Where the passphrase comes from\<close>

datatype passphrase_source = PassBytes bytes | PassEnv | PassRequired

text \<open>\<open>var\<close> is the environment variable, when it is set to text.\<close>

fun resolve :: "string option \<Rightarrow> passphrase_source \<Rightarrow> (cli_error, bytes option) outcome" where
  "resolve var (PassBytes b) = Ok (Some b)"
| "resolve var PassEnv = (case var of Some s \<Rightarrow> Ok (Some (str_bytes s)) | None \<Rightarrow> Ok None)"
| "resolve var PassRequired =
     (case var of
        Some s \<Rightarrow> Ok (Some (str_bytes s))
      | None \<Rightarrow> Err (BadConfig ''passphrase required: set NABOSCALE_PASSPHRASE env var or use --passphrase-file''))"

text \<open>What \<open>String\<close> accepts: the byte ranges that may follow the first byte of a character.\<close>

definition utf8_follow :: "u8 \<Rightarrow> (u8 \<times> u8) list option" where
  "utf8_follow b =
     (let c = (0x80, 0xBF) in
      if b < 0x80 then Some []
      else if 0xC2 \<le> b \<and> b \<le> 0xDF then Some [c]
      else if b = 0xE0 then Some [(0xA0, 0xBF), c]
      else if b = 0xED then Some [(0x80, 0x9F), c]
      else if 0xE1 \<le> b \<and> b \<le> 0xEF then Some [c, c]
      else if b = 0xF0 then Some [(0x90, 0xBF), c, c]
      else if 0xF1 \<le> b \<and> b \<le> 0xF3 then Some [c, c, c]
      else if b = 0xF4 then Some [(0x80, 0x8F), c, c]
      else None)"

fun utf8_valid :: "(u8 \<times> u8) list \<Rightarrow> bytes \<Rightarrow> bool" where
  "utf8_valid due [] = (due = [])"
| "utf8_valid [] (b # bs) = (case utf8_follow b of None \<Rightarrow> False | Some due \<Rightarrow> utf8_valid due bs)"
| "utf8_valid ((lo, hi) # due) (b # bs) = (lo \<le> b \<and> b \<le> hi \<and> utf8_valid due bs)"

definition bytes_str :: "bytes \<Rightarrow> string" where
  "bytes_str bs = map (\<lambda>b. char_of (unat b)) bs"

definition fs_read_to_string :: "faults \<Rightarrow> path \<Rightarrow> string ioact" where
  "fs_read_to_string F p =
     andthen (fs_read F p) (\<lambda>bs d.
       if utf8_valid [] bs then (Ok (bytes_str bs), d)
       else (Err (IoOther ''stream did not contain valid UTF-8''), d))"

definition trim_end_matches :: "char \<Rightarrow> string \<Rightarrow> string" where
  "trim_end_matches c s = rev (dropWhile (\<lambda>x. x = c) (rev s))"

definition read_passphrase_file :: "faults \<Rightarrow> path \<Rightarrow> bytes fsact" where
  "read_passphrase_file F p =
     andthen (map_err (\<lambda>e. BadConfig ''reading passphrase file'') (fs_read_to_string F p))
       (\<lambda>text. ret (str_bytes (trim_end_matches (CHR 0x0D) (trim_end_matches (CHR 0x0A) text))))"

section \<open>The envelope\<close>

definition derive_key :: "key_libs \<Rightarrow> bytes \<Rightarrow> bytes \<Rightarrow> (cli_error, bytes) outcome" where
  "derive_key K passphrase salt =
     (case argon2_params_error K (64 * 1024) 3 1 32 of
        Some e \<Rightarrow> Err (BadConfig ''argon2 params invalid'')
      | None \<Rightarrow>
          (case argon2id K (64 * 1024) 3 1 passphrase salt of
             Inl e \<Rightarrow> Err (BadConfig ''argon2 KDF failed'')
           | Inr out \<Rightarrow>
               (case hkdf_sha256 K salt out (str_bytes ''naboscale/v2/aead'') of
                  Inl e \<Rightarrow> Err (BadConfig ''hkdf expand failed'')
                | Inr okm \<Rightarrow> Ok okm)))"

definition encrypt_key ::
  "key_libs \<Rightarrow> bytes \<Rightarrow> bytes \<Rightarrow> bytes \<Rightarrow> bytes \<Rightarrow> (cli_error, bytes) outcome" where
  "encrypt_key K salt nonce plaintext passphrase =
     try_ok (derive_key K passphrase salt) (\<lambda>key.
       case aead_encrypt K key nonce plaintext of
         Inl e \<Rightarrow> Err (BadConfig ''encryption failed'')
       | Inr ct \<Rightarrow> Ok (MAGIC @ [VERSION] @ zeros 3 @ salt @ nonce @ ct))"

definition decrypt_key :: "key_libs \<Rightarrow> bytes \<Rightarrow> bytes \<Rightarrow> (cli_error, bytes) outcome" where
  "decrypt_key K envelope passphrase =
     (if length envelope \<noteq> FILE_LEN then Err (BadConfig ''envelope length'')
      else if take 4 envelope \<noteq> MAGIC then Err (BadConfig ''bad magic'')
      else if envelope ! 4 \<noteq> VERSION then Err (BadConfig ''unsupported keystore version'')
      else
        let salt = seg envelope 8 (8 + SALT_LEN);
            nonce = seg envelope (8 + SALT_LEN) HEADER_LEN;
            ct = drop HEADER_LEN envelope
        in try_ok (derive_key K passphrase salt) (\<lambda>key.
             case aead_decrypt K key nonce ct of
               None \<Rightarrow> Err (BadConfig ''decryption failed (wrong passphrase or tampered file)'')
             | Some plaintext \<Rightarrow> Ok plaintext))"

section \<open>The files\<close>

definition is_v2 :: "faults \<Rightarrow> path \<Rightarrow> bool fsact" where
  "is_v2 F p d =
     (case fs_read F p d of
        (Ok bs, d1) \<Rightarrow> (if length bs < 4 then (Ok False, d1) else (Ok (take 4 bs = MAGIC), d1))
      | (Err NotFound, d1) \<Rightarrow> (Ok False, d1)
      | (Err e, d1) \<Rightarrow> (Err (CliIo e), d1)
      | (Panic msg, d1) \<Rightarrow> (Panic msg, d1))"

definition temp_name :: "string \<Rightarrow> string" where
  "temp_name n = ''.'' @ n @ ''.tmp''"

definition write_atomic :: "faults \<Rightarrow> path \<Rightarrow> bytes \<Rightarrow> unit fsact" where
  "write_atomic F p bs d =
     (if p = [] then (Err (BadConfig ''path has no parent''), d)
      else
        let dir = butlast p; tmp = join dir (temp_name (last p)) in
        andthen (map_err CliIo (fs_create_dir_all F dir)) (\<lambda>_.
        andthen (map_err CliIo (fs_write F tmp bs)) (\<lambda>_.
        andthen (map_err CliIo (fs_rename F tmp p)) (\<lambda>_.
          map_err CliIo (fs_set_permissions F p OWNER_ONLY)))) d)"

definition save_v2 ::
  "key_libs \<Rightarrow> faults \<Rightarrow> bytes \<times> bytes \<Rightarrow> path \<Rightarrow> key_kind \<Rightarrow> bytes \<Rightarrow> bytes \<Rightarrow> unit fsact" where
  "save_v2 K F rnd dir kind plaintext passphrase d =
     (case encrypt_key K (fst rnd) (snd rnd) plaintext passphrase of
        Err e \<Rightarrow> (Err e, d)
      | Panic msg \<Rightarrow> (Panic msg, d)
      | Ok bs \<Rightarrow> write_atomic F (join dir (file_name kind)) bs d)"

definition read_v2 :: "key_libs \<Rightarrow> faults \<Rightarrow> path \<Rightarrow> key_kind \<Rightarrow> bytes \<Rightarrow> bytes fsact" where
  "read_v2 K F dir kind passphrase =
     andthen (map_err CliIo (fs_read F (join dir (file_name kind))))
       (\<lambda>bs d. (decrypt_key K bs passphrase, d))"

definition read_v1 :: "faults \<Rightarrow> path \<Rightarrow> key_kind \<Rightarrow> bytes fsact" where
  "read_v1 F dir kind =
     andthen (map_err CliIo (fs_read F (join dir (file_name kind))))
       (\<lambda>bs d. if length bs \<noteq> KEY_LEN then (Err (BadConfig ''wrong length''), d) else (Ok bs, d))"

definition save_key ::
  "key_libs \<Rightarrow> faults \<Rightarrow> bytes \<times> bytes \<Rightarrow> path \<Rightarrow> key_kind \<Rightarrow> bytes \<Rightarrow> bytes \<Rightarrow> unit fsact" where
  "save_key K F rnd dir kind plaintext passphrase d =
     (if length plaintext \<noteq> KEY_LEN then (Err (BadConfig ''key has wrong length''), d)
      else save_v2 K F rnd dir kind plaintext passphrase d)"

definition load_key ::
  "key_libs \<Rightarrow> faults \<Rightarrow> path \<Rightarrow> key_kind \<Rightarrow> bytes option \<Rightarrow> bytes fsact" where
  "load_key K F dir kind passphrase d =
     (if \<not> path_exists (join dir (file_name kind)) d then (Err (NotInitialized dir), d)
      else
        andthen (is_v2 F (join dir (file_name kind))) (\<lambda>v2.
          if v2 then
            (case passphrase of
               None \<Rightarrow> (\<lambda>d1. (Err (BadConfig ''is encrypted; set NABOSCALE_PASSPHRASE or pass --passphrase-file''), d1))
             | Some pp \<Rightarrow> read_v2 K F dir kind pp)
          else read_v1 F dir kind) d)"

record opened_keys =
  ok_identity :: identity
  ok_wg :: keypair

text \<open>\<open>copy_from_slice\<close> into 32 bytes.\<close>

definition key_of_slice :: "bytes \<Rightarrow> (cli_error, bytes) outcome" where
  "key_of_slice bs =
     (if length bs = KEY_LEN then Ok bs
      else Panic ''copy_from_slice: source slice length does not match destination slice length'')"

definition opened_keys_open ::
  "('hs, 'ts) crypto \<Rightarrow> key_libs \<Rightarrow> faults \<Rightarrow> path \<Rightarrow> bytes option \<Rightarrow> opened_keys fsact" where
  "opened_keys_open C K F dir passphrase =
     andthen (load_key K F dir IdentityKey passphrase) (\<lambda>id_bytes.
     andthen (load_key K F dir WgKey passphrase) (\<lambda>wg_bytes.
     andthen (pure_act (key_of_slice id_bytes)) (\<lambda>id_arr.
     andthen (pure_act (key_of_slice wg_bytes)) (\<lambda>wg_arr.
       ret \<lparr>ok_identity = identity_from_bytes C id_arr, ok_wg = keypair_from_bytes C wg_arr\<rparr>))))"

end
