(* ===== verification/Coord_Invariant.thy ===== *)
theory Coord_Invariant
  imports Coord_Routes
begin

text \<open>
  The handlers of the coordination server as checks followed by a commit, and the invariant that
  relates the database and the address allocator over every sequence of requests.
\<close>

section \<open>The checks in front of a handler\<close>

definition same_data :: "coord \<Rightarrow> coord \<Rightarrow> bool" where
  "same_data s t \<longleftrightarrow> cdb t = cdb s \<and> ip_alloc t = ip_alloc s \<and> token_ttl_secs t = token_ttl_secs s"

interpretation sd: frame same_data
  by unfold_locales (simp_all add: same_data_def)

lemma checks_same_data [simp]:
  "stays same_data (check_rate_limit E b)" "stays same_data (pure_act r)" "stays same_data (caller_of E tok)"
  by (auto simp: stays_def same_data_def check_rate_limit_def check_def pure_act_def caller_of_def Let_def
      split: option.splits)

lemma pure_act_Ok [simp]: "pure_act r s = (Ok x, s') \<longleftrightarrow> r = Ok x \<and> s' = s"
  by (auto simp: pure_act_def)

lemma with_db_Ok [simp]: "with_db f s = (Ok x, s') \<longleftrightarrow> (\<exists>d. f (cdb s) = (Ok x, d) \<and> s' = s\<lparr>cdb := d\<rparr>)"
  by (auto simp: with_db_def split: prod.splits)

lemma with_ips_Ok [simp]:
  "with_ips f s = (Ok x, s') \<longleftrightarrow> (\<exists>u. f (ip_alloc s) = (Ok x, u) \<and> s' = s\<lparr>ip_alloc := u\<rparr>)"
  by (auto simp: with_ips_def split: prod.splits)

definition register_checks ::
  "('hs, 'ts) crypto \<Rightarrow> coord_libs \<Rightarrow> coord_env \<Rightarrow> register_request \<Rightarrow> (bytes \<times> bytes) cact" where
  "register_checks C X E req =
     andthen (check_rate_limit E Register) (\<lambda>_.
     andthen (pure_act (decode_pubkey X (rq_identity_pubkey req))) (\<lambda>identity_pubkey.
     andthen (pure_act (decode_pubkey X (rq_wg_pubkey req))) (\<lambda>wg_pubkey.
     andthen (pure_act (decode_signature X (rq_signature req))) (\<lambda>signature.
     andthen (pure_act (validate_timestamp (rq_timestamp req) (clock E))) (\<lambda>_.
     andthen (pure_act (verify_register_signature C identity_pubkey wg_pubkey (rq_timestamp req) signature))
       (\<lambda>_. ret (identity_pubkey, wg_pubkey)))))))"

definition new_node :: "coord_env \<Rightarrow> bytes \<Rightarrow> bytes \<Rightarrow> bytes \<Rightarrow> node_record" where
  "new_node E i w ip =
     \<lparr>n_node_id = uuid E, n_identity = i, n_wg = w, n_ip = show_ipv4 ip, n_last_endpoint = None,
      n_via_relay = None, n_last_seen = None, n_created_at = clock E\<rparr>"

definition register_commit ::
  "coord_libs \<Rightarrow> coord_env \<Rightarrow> bytes \<times> bytes \<Rightarrow> register_response cact" where
  "register_commit X E keys =
     andthen (with_ips allocate) (\<lambda>ip s.
       andthen (with_db (insert_node (fk_enforced X) (new_node E (fst keys) (snd keys) ip)
                  (generate_token X E) (token_ttl_secs s)))
         (\<lambda>_. ret \<lparr>rs_node_id = uuid E, rs_ip = show_ipv4 ip, rs_auth_token = generate_token X E,
                   rs_auth_token_expires_at = clock E + token_ttl_secs s, rs_derp_url = ''''\<rparr>) s)"

lemma register_eq: "register C X E req = andthen (register_checks C X E req) (register_commit X E)"
  by (simp add: register_def register_checks_def register_commit_def andthen_assoc andthen_ret
      new_node_def Let_def)

lemma register_checks_same: "stays same_data (register_checks C X E req)"
  unfolding register_checks_def by (intro sd.stays_andthen sd.stays_ret checks_same_data)

lemma decode_lengths:
  "decode_pubkey X t = Ok bs \<Longrightarrow> length bs = 32" "decode_signature X t = Ok bs \<Longrightarrow> length bs = 64"
  by (auto simp: decode_pubkey_def decode_signature_def split: sum.splits if_splits)

lemma register_checks_OkD:
  assumes "register_checks C X E req s = (Ok (i, w), s')"
  shows "length i = 32" "length w = 32" "same_data s s'"
    "validate_timestamp (rq_timestamp req) (clock E) = Ok ()"
    "\<exists>sig. decode_signature X (rq_signature req) = Ok sig \<and>
       identity_verify C i (build_register_message (rq_timestamp req) i w) sig"
    "decode_pubkey X (rq_identity_pubkey req) = Ok i" "decode_pubkey X (rq_wg_pubkey req) = Ok w"
proof -
  show "same_data s s'" by (rule stays_result [OF register_checks_same assms])
  show "length i = 32" "length w = 32" "validate_timestamp (rq_timestamp req) (clock E) = Ok ()"
    "\<exists>sig. decode_signature X (rq_signature req) = Ok sig \<and>
       identity_verify C i (build_register_message (rq_timestamp req) i w) sig"
    "decode_pubkey X (rq_identity_pubkey req) = Ok i" "decode_pubkey X (rq_wg_pubkey req) = Ok w"
    using assms
    by (auto simp: register_checks_def andthen_Ok_iff ret_def verify_register_signature_def Let_def
        decode_lengths split: if_splits)
qed

lemma signed_caller_same: "stays same_data (signed_caller C X E headers req msg)"
  unfolding signed_caller_def by (intro sd.stays_andthen checks_same_data) (simp add: sd.stays_ret)

lemma caller_of_Ok [simp]:
  "caller_of E tok s = (Ok n, s') \<longleftrightarrow> get_node_by_token (cdb s) tok (clock E) = Some n \<and> s' = s"
  by (auto simp: caller_of_def split: option.splits)

lemma check_rate_limit_OkD: "check_rate_limit E b s = (Ok u, s') \<Longrightarrow> same_data s s'"
  by (rule stays_result [OF checks_same_data(1)])

lemma signed_caller_OkD:
  assumes "signed_caller C X E headers req msg s = (Ok n, s')"
  obtains tok sig where "same_data s s'" "extract_bearer headers = Ok tok"
    "get_node_by_token (cdb s) tok (clock E) = Some n"
    "decode_signature X (sg_signature req) = Ok sig"
    "validate_timestamp (sg_timestamp req) (clock E) = Ok ()"
    "identity_verify C (n_identity n) (msg (sg_timestamp req)) sig"
proof -
  have same: "same_data s s'" by (rule stays_result [OF signed_caller_same assms])
  from assms show ?thesis
    using that same
    by (auto simp: signed_caller_def andthen_Ok_iff ret_def key_array_def split: if_splits
        dest!: check_rate_limit_OkD simp: same_data_def)
qed

definition heartbeat_checks ::
  "('hs, 'ts) crypto \<Rightarrow> coord_libs \<Rightarrow> coord_env \<Rightarrow> string option \<Rightarrow> heartbeat_request \<Rightarrow> node_record cact" where
  "heartbeat_checks C X E headers req =
     andthen (check_rate_limit E Heartbeat) (\<lambda>_.
     andthen (pure_act (extract_bearer headers)) (\<lambda>token.
     andthen (caller_of E token) (\<lambda>caller.
     andthen (pure_act (decode_signature X (hb_signature req))) (\<lambda>signature.
     andthen (pure_act (validate_timestamp (hb_timestamp req) (clock E))) (\<lambda>_.
     andthen (pure_act (key_array (n_identity caller))) (\<lambda>identity_pubkey.
     andthen (pure_act (verify_heartbeat_signature C identity_pubkey (hb_endpoint req)
                          (hb_via_relay req) (hb_timestamp req) signature)) (\<lambda>_.
     andthen (pure_act (valid_relay (hb_via_relay req))) (\<lambda>_. ret caller))))))))"

definition heartbeat_commit :: "coord_env \<Rightarrow> heartbeat_request \<Rightarrow> node_record \<Rightarrow> nat cact" where
  "heartbeat_commit E req caller s =
     (Ok 200, s\<lparr>cdb := update_heartbeat (n_node_id caller) (hb_endpoint req) (hb_via_relay req)
                         (clock E) (cdb s)\<rparr>)"

lemma heartbeat_eq:
  "heartbeat C X E headers req = andthen (heartbeat_checks C X E headers req) (heartbeat_commit E req)"
  by (simp add: heartbeat_def heartbeat_checks_def andthen_assoc andthen_ret)
    (simp add: heartbeat_commit_def [abs_def])

lemma heartbeat_checks_same: "stays same_data (heartbeat_checks C X E headers req)"
  unfolding heartbeat_checks_def by (intro sd.stays_andthen sd.stays_ret checks_same_data)

lemma heartbeat_checks_OkD:
  assumes "heartbeat_checks C X E headers req s = (Ok n, s')"
  obtains tok sig where "same_data s s'" "extract_bearer headers = Ok tok"
    "get_node_by_token (cdb s) tok (clock E) = Some n"
    "decode_signature X (hb_signature req) = Ok sig"
    "validate_timestamp (hb_timestamp req) (clock E) = Ok ()"
    "identity_verify C (n_identity n)
       (build_heartbeat_message (hb_timestamp req) (hb_endpoint req) (hb_via_relay req)) sig"
    "\<And>r. hb_via_relay req = Some r \<Longrightarrow> parse_socket_addr r \<noteq> None"
proof -
  have same: "same_data s s'" by (rule stays_result [OF heartbeat_checks_same assms])
  from assms obtain tok sig s1 where s1: "same_data s s1" "extract_bearer headers = Ok tok"
    "get_node_by_token (cdb s1) tok (clock E) = Some n"
    "decode_signature X (hb_signature req) = Ok sig"
    "validate_timestamp (hb_timestamp req) (clock E) = Ok ()"
    "verify_heartbeat_signature C (n_identity n) (hb_endpoint req) (hb_via_relay req) (hb_timestamp req) sig = Ok ()"
    "valid_relay (hb_via_relay req) = Ok ()"
    by (auto simp: heartbeat_checks_def andthen_Ok_iff ret_def key_array_def split: if_splits
        dest!: check_rate_limit_OkD)
  show ?thesis
    using s1 same that
    by (auto simp: same_data_def verify_heartbeat_signature_def Let_def valid_relay_def
        split: if_splits option.splits)
qed

section \<open>The invariant of the server\<close>

definition node_ok :: "used_ips \<Rightarrow> node_record \<Rightarrow> bool" where
  "node_ok used n \<longleftrightarrow>
     length (n_identity n) = 32 \<and> (\<exists>a \<in> pool \<inter> used. n_ip n = show_ipv4 (u32_to_be a))"

definition coord_ok :: "coord \<Rightarrow> bool" where
  "coord_ok s \<longleftrightarrow> db_ok (cdb s) \<and> (\<forall>n \<in> set (db_nodes (cdb s)). node_ok (ip_alloc s) n)"

lemma coord_ok_same: "same_data s t \<Longrightarrow> coord_ok s \<Longrightarrow> coord_ok t"
  by (simp add: same_data_def coord_ok_def)

lemma coord_ok_in_memory: "coord_ok (app_state_in_memory ttl)"
  by (simp add: coord_ok_def app_state_in_memory_def) (simp add: open_in_memory_def)

lemma insert_node_nodes:
  "set (db_nodes (snd (insert_node fk n token ttl d))) \<subseteq>
     insert (n\<lparr>n_last_endpoint := None, n_last_seen := None\<rparr>) (set (db_nodes d))"
  by (auto simp: insert_node_def andthen_def insert_node_row_def insert_token_row_def)

lemma register_commit_ok:
  assumes ok: "coord_ok s" and len: "length (fst keys) = 32"
  shows "coord_ok (snd (register_commit X E keys s))"
proof -
  obtain r used' where al: "allocate (ip_alloc s) = (r, used')" by (cases "allocate (ip_alloc s)")
  show ?thesis
  proof (cases "is_ok r")
    case True
    then obtain ip where r: "r = Ok ip" by (cases r) auto
    obtain a where a: "ip = u32_to_be a" "a \<in> pool" "used' = insert a (ip_alloc s)"
      by (rule allocate_Ok [OF al [unfolded r]])
    let ?s1 = "s\<lparr>ip_alloc := used'\<rparr>"
    let ?n = "new_node E (fst keys) (snd keys) ip"
    obtain q d where ins: "insert_node (fk_enforced X) ?n (generate_token X E) (token_ttl_secs s) (cdb s) = (q, d)"
      by (cases "insert_node (fk_enforced X) ?n (generate_token X E) (token_ttl_secs s) (cdb s)")
    have db: "db_ok d" "set (db_nodes d) \<subseteq> insert (?n\<lparr>n_last_endpoint := None, n_last_seen := None\<rparr>) (set (db_nodes (cdb s)))"
      using insert_node_ok [of "cdb s" "fk_enforced X" ?n] insert_node_nodes [of "fk_enforced X" ?n] ok ins
      by (metis coord_ok_def snd_conv)+
    have new: "node_ok used' (?n\<lparr>n_last_endpoint := None, n_last_seen := None\<rparr>)"
      using a len by (auto simp: node_ok_def new_node_def)
    have old: "node_ok used' n" if "n \<in> set (db_nodes (cdb s))" for n
      using ok that a(3) by (auto simp: coord_ok_def node_ok_def)
    have "coord_ok (?s1\<lparr>cdb := d\<rparr>)" using db new old by (auto simp: coord_ok_def)
    moreover have "snd (register_commit X E keys s) = ?s1\<lparr>cdb := d\<rparr>"
      using al r ins by (cases q) (simp_all add: register_commit_def with_ips_def with_db_def andthen_def ret_def)
    ultimately show ?thesis by simp
  next
    case False
    then have "\<not> is_ok (fst (allocate (ip_alloc s)))" using al by simp
    from allocate_unchanged [OF this] have "snd (register_commit X E keys s) = s"
      by (simp add: register_commit_def with_ips_def andthen_def)
    with ok show ?thesis by simp
  qed
qed

text \<open>An operation behind checks keeps what holds after the checks succeed.\<close>

lemma checked_keeps:
  assumes same: "stays same_data checks" and ok: "coord_ok s"
    and commit: "\<And>x s'. checks s = (Ok x, s') \<Longrightarrow> same_data s s' \<Longrightarrow> coord_ok s' \<Longrightarrow> coord_ok (snd (commit x s'))"
  shows "coord_ok (snd (andthen checks commit s))"
proof -
  obtain r s' where c: "checks s = (r, s')" by (cases "checks s")
  have "same_data s s'" by (rule stays_result [OF same c])
  with c ok commit coord_ok_same show ?thesis by (cases r) (auto simp: andthen_def)
qed

lemma update_nodes_coord_ok:
  assumes "coord_ok s" and "\<And>r. n_node_id (f r) = n_node_id r \<and> n_identity (f r) = n_identity r \<and>
    n_wg (f r) = n_wg r \<and> n_ip (f r) = n_ip r"
  shows "coord_ok (s\<lparr>cdb := update_nodes i f (cdb s)\<rparr>)"
proof -
  have "db_ok (update_nodes i f (cdb s))"
    using assms update_nodes_ok by (simp add: coord_ok_def)
  moreover have "node_ok (ip_alloc s) (f r) = node_ok (ip_alloc s) r" for r
    using assms(2) by (simp add: node_ok_def)
  ultimately show ?thesis using assms(1) by (auto simp: coord_ok_def update_nodes_def)
qed

lemma token_write_coord_ok:
  assumes "coord_ok s" and "db_ok d" and "db_nodes d = db_nodes (cdb s)"
  shows "coord_ok (s\<lparr>cdb := d\<rparr>)"
  using assms by (simp add: coord_ok_def)

lemma first_row_key:
  assumes "distinct (map f xs)" and "x \<in> set xs"
  shows "first_row (filter (\<lambda>y. f y = f x) xs) = Some x"
  using assms by (induction xs) (auto simp: rev_image_eqI)

lemma node_ip_parses:
  assumes "coord_ok s" and "n \<in> set (db_nodes (cdb s))"
  obtains a where "a \<in> pool" "a \<in> ip_alloc s" "n_ip n = show_ipv4 (u32_to_be a)"
    "parse_ipv4 (n_ip n) = Some a"
  using assms parse_ipv4_show by (auto simp: coord_ok_def node_ok_def)

lemma delete_commit:
  assumes ok: "coord_ok s" and n: "n \<in> set (db_nodes (cdb s))"
  obtains a where "a \<in> pool" "n_ip n = show_ipv4 (u32_to_be a)"
    "fst (db_delete_node (n_node_id n) (cdb s)) = Some (n_ip n)" "parse_ipv4 (n_ip n) = Some a"
    "coord_ok (s\<lparr>cdb := snd (db_delete_node (n_node_id n) (cdb s)), ip_alloc := ip_alloc s - {a}\<rparr>)"
proof -
  obtain a where a: "a \<in> pool" "a \<in> ip_alloc s" "n_ip n = show_ipv4 (u32_to_be a)" "parse_ipv4 (n_ip n) = Some a"
    by (rule node_ip_parses [OF ok n])
  have d: "db_ok (cdb s)" using ok by (simp add: coord_ok_def)
  then have ids: "distinct (map n_node_id (db_nodes (cdb s)))" "distinct (map n_ip (db_nodes (cdb s)))"
    by (simp_all add: db_ok_def)
  have ip: "fst (db_delete_node (n_node_id n) (cdb s)) = Some (n_ip n)"
    using first_row_key [OF ids(1) n] by (simp add: db_delete_node_def Let_def)
  let ?d = "snd (db_delete_node (n_node_id n) (cdb s))"
  have nodes: "db_nodes ?d = filter (\<lambda>m. n_node_id m \<noteq> n_node_id n) (db_nodes (cdb s))"
    by (simp add: db_delete_node_def Let_def)
  have "node_ok (ip_alloc s - {a}) m" if "m \<in> set (db_nodes ?d)" for m
  proof -
    have m: "m \<in> set (db_nodes (cdb s))" "n_node_id m \<noteq> n_node_id n" using that nodes by auto
    then have "n_ip m \<noteq> n_ip n" using distinct_key [OF ids(2) _ n] by blast
    with m ok a(3) show ?thesis by (auto simp: coord_ok_def node_ok_def)
  qed
  with db_delete_node_ok [OF d, of "n_node_id n"]
  have "coord_ok (s\<lparr>cdb := ?d, ip_alloc := ip_alloc s - {a}\<rparr>)" by (simp add: coord_ok_def)
  with a ip show ?thesis using that by blast
qed

lemma caller_in_nodes:
  "coord_ok s \<Longrightarrow> get_node_by_token (cdb s) tok now = Some n \<Longrightarrow> n \<in> set (db_nodes (cdb s))"
  by (auto elim: get_node_by_token_SomeD)

definition serve_request ::
  "('hs, 'ts) crypto \<Rightarrow> coord_libs \<Rightarrow> coord_env \<times> http_request \<Rightarrow> coord \<Rightarrow> coord" where
  "serve_request C X r s = snd (handle_request C X (fst r) (snd r) s)"

lemma respond_snd [simp]: "snd (respond f r) = snd r"
  by (simp add: respond_def)

lemma register_keeps: "coord_ok s \<Longrightarrow> coord_ok (snd (register C X E req s))"
  unfolding register_eq
  by (rule checked_keeps [OF register_checks_same])
    (auto intro!: register_commit_ok dest: register_checks_OkD(1))

lemma heartbeat_keeps: "coord_ok s \<Longrightarrow> coord_ok (snd (heartbeat C X E headers req s))"
  unfolding heartbeat_eq
  by (rule checked_keeps [OF heartbeat_checks_same])
    (auto simp: heartbeat_commit_def update_heartbeat_def intro!: update_nodes_coord_ok)

lemma peers_route_same: "stays same_data (peers_route X E headers)"
  unfolding peers_route_def
  by (intro sd.stays_andthen checks_same_data) (simp add: stays_def sd.frame_refl)

lemma refresh_keeps: "coord_ok s \<Longrightarrow> coord_ok (snd (refresh_token C X E headers req s))"
  unfolding refresh_token_def
proof (rule checked_keeps [OF signed_caller_same], assumption)
  fix n s'
  assume c: "signed_caller C X E headers req build_refresh_message s = (Ok n, s')"
    and same: "same_data s s'" and ok: "coord_ok s'"
  from c obtain tok where "get_node_by_token (cdb s) tok (clock E) = Some n"
    by (rule signed_caller_OkD)
  then have n: "n \<in> set (db_nodes (cdb s'))"
    using same caller_in_nodes [OF ok] by (simp add: same_data_def)
  let ?d = "snd (revoke_all_tokens_for_node (n_node_id n) (cdb s'))"
  have d: "db_ok ?d" "db_nodes ?d = db_nodes (cdb s')"
    using ok revoke_ok by (auto simp: coord_ok_def revoke_all_tokens_for_node_def Let_def)
  let ?t = "\<lparr>t_token = generate_token X E, t_node_id = n_node_id n, t_created_at = clock E,
      t_expires_at = clock E + token_ttl_secs s', t_revoked = False\<rparr>"
  obtain r d' where ins: "insert_token_row (fk_enforced X) ?t ?d = (r, d')"
    by (cases "insert_token_row (fk_enforced X) ?t ?d")
  have "db_ok d'" using insert_token_row_ok [of ?t ?d] d n ins by (metis imageI snd_conv token_record.select_convs(2))
  moreover have "db_nodes d' = db_nodes (cdb s')"
    using ins d(2) by (auto simp: insert_token_row_def split: if_splits)
  ultimately have "coord_ok (s'\<lparr>cdb := d'\<rparr>)" using ok by (simp add: coord_ok_def)
  with ins show "coord_ok (snd (let s1 = s'\<lparr>cdb := ?d\<rparr>; new_token = generate_token X E;
      ttl = token_ttl_secs s'
    in andthen (with_db (create_token (fk_enforced X) (n_node_id n) new_token (clock E) ttl))
         (\<lambda>_. ret \<lparr>rf_auth_token = new_token, rf_auth_token_expires_at = clock E + ttl,
                   rf_old_token_expires_at = clock E + ttl\<rparr>) s1))"
    by (cases r) (simp_all add: create_token_def with_db_def andthen_def ret_def Let_def)
qed

lemma delete_keeps: "coord_ok s \<Longrightarrow> coord_ok (snd (delete_node C X E headers req s))"
  unfolding delete_node_def
proof (rule checked_keeps [OF signed_caller_same], assumption)
  fix n s'
  assume c: "signed_caller C X E headers req build_delete_node_message s = (Ok n, s')"
    and same: "same_data s s'" and ok: "coord_ok s'"
  from c obtain tok where "get_node_by_token (cdb s) tok (clock E) = Some n"
    by (rule signed_caller_OkD)
  then have n: "n \<in> set (db_nodes (cdb s'))"
    using same caller_in_nodes [OF ok] by (simp add: same_data_def)
  obtain a where a: "fst (db_delete_node (n_node_id n) (cdb s')) = Some (n_ip n)" "parse_ipv4 (n_ip n) = Some a"
    "coord_ok (s'\<lparr>cdb := snd (db_delete_node (n_node_id n) (cdb s')), ip_alloc := ip_alloc s' - {a}\<rparr>)"
    by (rule delete_commit [OF ok n])
  then show "coord_ok (snd (let (ip, d) = db_delete_node (n_node_id n) (cdb s'); s1 = s'\<lparr>cdb := d\<rparr>
      in (Ok 204, (case Option.bind ip parse_ipv4 of
              Some addr \<Rightarrow> s1\<lparr>ip_alloc := release (v4_octets addr) (ip_alloc s1)\<rparr> | None \<Rightarrow> s1))))"
    by (cases "db_delete_node (n_node_id n) (cdb s')") (simp add: release_def v4_octets_def)
qed

lemma serve_request_ok: "coord_ok s \<Longrightarrow> coord_ok (serve_request C X r s)"
proof -
  assume ok: "coord_ok s"
  obtain E q where r: "r = (E, q)" by (cases r)
  show ?thesis
  proof (cases q)
    case (GetPeers headers)
    have "same_data s (snd (peers_route X E headers s))" by (rule staysD [OF peers_route_same])
    with GetPeers ok r show ?thesis by (simp add: serve_request_def coord_ok_same)
  qed (use ok r in \<open>simp_all add: serve_request_def register_keeps heartbeat_keeps refresh_keeps
        delete_keeps health_def ret_def\<close>)
qed

interpretation coord: step_invariant "serve_request C X" coord_ok for C X
  by unfold_locales (rule serve_request_ok)

text \<open>C9: The server's data stay consistent.  After any sequence of requests, valid or not, to a new
  server: node ids, identity keys, WireGuard keys, addresses and tokens are each unique, every
  token belongs to a stored node, every node has a 32-byte identity key, and every node's
  address is one of the pool that the allocator has marked used, so no two nodes ever share an
  address.\<close>

theorem coord_invariant: "coord_ok (fold (serve_request C X) rs (app_state_in_memory ttl))"
  by (rule coord.run_keeps [OF coord_ok_in_memory])

end
