(* ===== verification/Coord_Demo.thy ===== *)
theory Coord_Demo
  imports Coord_Invariant
begin

text \<open>
  A concrete coordination server: one enrolled node with one live token, the codec \<open>plain_libs\<close>
  (a string of the same bytes) and the instance \<open>plain\<close> of the cryptography.  Requests of the node
  pass all checks; the theorems of the server are applied here to concrete requests.
\<close>

definition plain_libs :: coord_libs where
  "plain_libs =
     \<lparr>b64_encode = map (\<lambda>b. char_of (unat b)), b64_decode = (\<lambda>s. Inr (str_bytes s)), fk_enforced = True\<rparr>"

lemma str_bytes_char_of: "str_bytes (map (\<lambda>b. char_of (unat b)) bs) = bs"
proof -
  have "(of_char (char_of (unat b)) :: u8) = b" for b :: u8
  proof -
    have "(of_char (char_of (unat b)) :: u8) = of_nat (of_char (char_of (unat b)))"
      by (rule of_nat_of_char [symmetric])
    also have "\<dots> = of_nat (unat b)"
      using unsigned_less [where 'a = nat, of b] by simp
    finally show ?thesis by simp
  qed
  then show ?thesis by (simp add: str_bytes_def comp_def)
qed

lemma plain_libs_roundtrip [simp]: "b64_decode plain_libs (b64_encode plain_libs bs) = Inr bs"
  by (simp add: plain_libs_def str_bytes_char_of)

definition demo_key :: bytes where "demo_key = replicate 32 1"

definition demo_sign :: "bytes \<Rightarrow> string" where
  "demo_sign msg = b64_encode plain_libs (ed25519_sign plain demo_key msg)"

lemma demo_signature [simp]:
  "decode_signature plain_libs (demo_sign msg) = Ok (ed25519_sign plain demo_key msg)"
  "identity_verify plain demo_key msg (ed25519_sign plain demo_key msg)"
  by (simp_all add: decode_signature_def demo_sign_def)
    (simp_all add: plain_def identity_verify_def demo_key_def pad_to_same)

definition demo_request :: coord_env where
  "demo_request =
     \<lparr>peer = SocketV4 7 7, mono = 0, clock = 500, uuid = ''b'', token_random = replicate 32 9\<rparr>"

definition demo_node :: node_record where
  "demo_node =
     \<lparr>n_node_id = ''a'', n_identity = demo_key, n_wg = replicate 32 2,
      n_ip = show_ipv4 (u32_to_be IP_POOL_FIRST_HOST), n_last_endpoint = None, n_via_relay = None,
      n_last_seen = None, n_created_at = 0\<rparr>"

definition demo_token :: token_record where
  "demo_token =
     \<lparr>t_token = ''tok'', t_node_id = ''a'', t_created_at = 0, t_expires_at = 1000, t_revoked = False\<rparr>"

definition demo_coord :: coord where
  "demo_coord =
     \<lparr>cdb = \<lparr>db_nodes = [demo_node], db_tokens = [demo_token]\<rparr>, ip_alloc = {IP_POOL_FIRST_HOST},
      token_ttl_secs = 1000, rate_limiter = limiter_new\<rparr>"

definition demo_bearer :: "string option" where
  "demo_bearer = Some ''Bearer tok''"

lemma demo_bearer_token [simp]: "extract_bearer demo_bearer = Ok ''tok''"
  by (simp add: extract_bearer_def demo_bearer_def)

lemma demo_coord_ok: "coord_ok demo_coord"
  by (simp add: coord_ok_def demo_coord_def db_ok_def node_ok_def demo_node_def demo_token_def demo_key_def)
    (auto simp: pool_def first_host IP_POOL_HOST_COUNT_def)

lemma demo_lookup [simp]:
  "get_node_by_token (cdb demo_coord) ''tok'' t = (if sint t < 1000 then Some demo_node else None)"
  by (simp add: get_node_by_token_def demo_coord_def demo_token_def demo_node_def token_live_def)

definition demo_admitted :: "bucket \<Rightarrow> coord" where
  "demo_admitted b = demo_coord\<lparr>rate_limiter := limiter_new((V4 7, bucket_name b) \<mapsto> [0])\<rparr>"

lemma demo_check [simp]: "check_rate_limit demo_request b demo_coord = (Ok (), demo_admitted b)"
  by (cases b)
    (simp_all add: check_rate_limit_def demo_request_def demo_coord_def demo_admitted_def check_def
      Let_def split: if_splits)

lemma demo_admitted_data [simp]:
  "cdb (demo_admitted b) = cdb demo_coord" "ip_alloc (demo_admitted b) = ip_alloc demo_coord"
  "token_ttl_secs (demo_admitted b) = token_ttl_secs demo_coord"
  by (simp_all add: demo_admitted_def)

lemma demo_clock [simp]: "validate_timestamp 500 500 = Ok ()" "clock demo_request = 500"
  by (simp_all add: validate_timestamp_def demo_request_def i64_abs_def i64_gt_def TIMESTAMP_WINDOW_SECONDS_def)

lemma demo_caller [simp]:
  "caller_of demo_request ''tok'' (demo_admitted b) = (Ok demo_node, demo_admitted b)"
  by (simp add: caller_of_def)

lemma demo_key_array [simp]: "key_array (n_identity demo_node) = Ok demo_key"
  by (simp add: key_array_def demo_node_def demo_key_def)

definition demo_signed :: "(i64 \<Rightarrow> bytes) \<Rightarrow> signed_request" where
  "demo_signed msg = \<lparr>sg_timestamp = 500, sg_signature = demo_sign (msg 500)\<rparr>"

lemma demo_signed_caller [simp]:
  "signed_caller plain plain_libs demo_request demo_bearer (demo_signed msg) msg demo_coord =
     (Ok demo_node, demo_admitted Token)"
  by (simp add: signed_caller_def andthen_def pure_act_def demo_signed_def ret_def)

definition demo_heartbeat :: heartbeat_request where
  "demo_heartbeat =
     \<lparr>hb_endpoint = ''1.2.3.4:5'', hb_via_relay = None, hb_timestamp = 500,
      hb_signature = demo_sign (build_heartbeat_message 500 ''1.2.3.4:5'' None)\<rparr>"

lemma demo_heartbeat_checks [simp]:
  "heartbeat_checks plain plain_libs demo_request demo_bearer demo_heartbeat demo_coord =
     (Ok demo_node, demo_admitted Heartbeat)"
  by (simp add: heartbeat_checks_def andthen_def pure_act_def demo_heartbeat_def ret_def
      verify_heartbeat_signature_def valid_relay_def)

definition demo_register :: "bytes \<Rightarrow> register_request" where
  "demo_register wg =
     \<lparr>rq_identity_pubkey = b64_encode plain_libs demo_key, rq_wg_pubkey = b64_encode plain_libs wg,
      rq_timestamp = 500, rq_signature = demo_sign (build_register_message 500 demo_key wg)\<rparr>"

lemma decode_pubkey_encoded [simp]:
  "length bs = 32 \<Longrightarrow> decode_pubkey plain_libs (b64_encode plain_libs bs) = Ok bs"
  by (simp add: decode_pubkey_def)

lemma demo_register_checks:
  assumes "check_rate_limit demo_request Register s = (Ok (), s')" and "length wg = 32"
  shows "register_checks plain plain_libs demo_request (demo_register wg) s = (Ok (demo_key, wg), s')"
proof -
  have "length demo_key = 32" by (simp add: demo_key_def)
  with assms show ?thesis
    by (simp add: register_checks_def andthen_def pure_act_def demo_register_def
        verify_register_signature_def ret_def)
qed

text \<open>A new server, and its first registration.\<close>

definition demo_empty :: coord where
  "demo_empty = app_state_in_memory 1000"

lemma demo_first_allocation: "allocate {} = (Ok (u32_to_be IP_POOL_FIRST_HOST), {IP_POOL_FIRST_HOST})"
proof -
  have "find_free (Suc 65533) IP_POOL_FIRST_HOST {} = Some IP_POOL_FIRST_HOST"
    unfolding find_free.simps by simp
  moreover have "unat IP_POOL_HOST_COUNT = Suc 65533" by (simp add: unat_host_count)
  ultimately show ?thesis by (simp only: allocate_def) simp
qed

lemma demo_first_check:
  "check_rate_limit demo_request Register demo_empty =
     (Ok (), demo_empty\<lparr>rate_limiter := limiter_new((V4 7, bucket_name Register) \<mapsto> [0])\<rparr>)"
  by (simp add: check_rate_limit_def demo_request_def demo_empty_def app_state_in_memory_def check_def Let_def)

definition demo_registered :: coord where
  "demo_registered = demo_empty\<lparr>rate_limiter := limiter_new((V4 7, bucket_name Register) \<mapsto> [0])\<rparr>"

lemma demo_empty_data [simp]:
  "cdb demo_registered = open_in_memory" "ip_alloc demo_registered = {}" "token_ttl_secs demo_registered = 1000"
  by (simp_all add: demo_registered_def demo_empty_def app_state_in_memory_def ip_allocator_new_def list_peers_def)
    (simp add: open_in_memory_def)

lemma demo_insert:
  "\<exists>d. insert_node fk n token ttl open_in_memory = (Ok (), d)"
  by (simp add: insert_node_def insert_node_row_def insert_token_row_def andthen_def open_in_memory_def)

lemma demo_registration:
  obtains resp s' where "register plain plain_libs demo_request (demo_register (replicate 32 2)) demo_empty = (Ok resp, s')"
    "rs_ip resp = show_ipv4 (u32_to_be IP_POOL_FIRST_HOST)" "rs_node_id resp = ''b''"
proof -
  let ?ip = "u32_to_be IP_POOL_FIRST_HOST"
  have checks: "register_checks plain plain_libs demo_request (demo_register (replicate 32 2)) demo_empty =
      (Ok (demo_key, replicate 32 2), demo_registered)"
    by (rule demo_register_checks [OF demo_first_check [folded demo_registered_def]]) simp
  obtain d where d: "insert_node (fk_enforced plain_libs) (new_node demo_request demo_key (replicate 32 2) ?ip)
      (generate_token plain_libs demo_request) 1000 open_in_memory = (Ok (), d)"
    using demo_insert by blast
  have "register_commit plain_libs demo_request (demo_key, replicate 32 2) demo_registered =
      (Ok \<lparr>rs_node_id = uuid demo_request, rs_ip = show_ipv4 ?ip, rs_auth_token = generate_token plain_libs demo_request,
           rs_auth_token_expires_at = clock demo_request + 1000, rs_derp_url = ''''\<rparr>,
       demo_registered\<lparr>ip_alloc := {IP_POOL_FIRST_HOST}, cdb := d\<rparr>)"
    using d by (simp add: register_commit_def with_ips_def with_db_def andthen_def demo_first_allocation ret_def)
  with checks show ?thesis
    using that by (simp add: register_eq andthen_def) (simp add: demo_request_def)
qed

end
