(* ===== verification/Keystore_Props.thy ===== *)
theory Keystore_Props
  imports Keystore Coord_Demo
begin

text \<open>
  Properties of the key files: which envelopes decrypt, what a save leaves on disk whatever the
  operating system refuses, what a load returns, and that opening a key store never panics.
\<close>

section \<open>Documented behaviour of the libraries\<close>

text \<open>XChaCha20-Poly1305: the ciphertext is 16 bytes longer than the message, and a ciphertext is
  accepted exactly when it is the encryption of the message it decrypts to (the tag is checked).\<close>

definition aead_works :: "key_libs \<Rightarrow> bool" where
  "aead_works K \<longleftrightarrow>
     (\<forall>key nonce m. length key = 32 \<longrightarrow> length nonce = 24 \<longrightarrow>
        (\<exists>ct. aead_encrypt K key nonce m = Inr ct \<and> length ct = length m + 16) \<and>
        (\<forall>ct. aead_decrypt K key nonce ct = Some m \<longleftrightarrow> aead_encrypt K key nonce m = Inr ct))"

definition kdf_works :: "key_libs \<Rightarrow> bool" where
  "kdf_works K \<longleftrightarrow>
     argon2_params_error K (64 * 1024) 3 1 32 = None \<and>
     (\<forall>pw salt. length salt = 16 \<longrightarrow>
        (\<exists>out okm. argon2id K (64 * 1024) 3 1 pw salt = Inr out \<and>
           hkdf_sha256 K salt out (str_bytes ''naboscale/v2/aead'') = Inr okm \<and> length okm = 32))"

lemma derive_key_works:
  assumes "kdf_works K" and "length salt = 16"
  obtains key where "derive_key K pw salt = Ok key" "length key = 32"
proof -
  from assms obtain out okm where "argon2id K (64 * 1024) 3 1 pw salt = Inr out"
    "hkdf_sha256 K salt out (str_bytes ''naboscale/v2/aead'') = Inr okm" "length okm = 32"
    unfolding kdf_works_def by blast
  moreover have "argon2_params_error K (64 * 1024) 3 1 32 = None" using assms(1) by (simp add: kdf_works_def)
  ultimately show ?thesis using that by (simp add: derive_key_def)
qed

lemma aead_worksD:
  assumes "aead_works K" and "length key = 32" "length nonce = 24"
  obtains ct where "aead_encrypt K key nonce m = Inr ct" "length ct = length m + 16"
    "aead_decrypt K key nonce ct = Some m"
  using assms by (metis aead_works_def)

text \<open>An instance that satisfies both: the key is folded from the passphrase and the salt, and the tag
  is the key's first byte repeated.\<close>

definition plain_keys :: key_libs where
  "plain_keys =
     \<lparr>argon2_params_error = (\<lambda>m t p n. None),
      argon2id = (\<lambda>m t p pw salt. Inr (pad_to 32 (pw @ salt))),
      hkdf_sha256 = (\<lambda>salt ikm info. Inr (pad_to 32 ikm)),
      aead_encrypt = (\<lambda>key nonce m. Inr (m @ pad_to 16 key)),
      aead_decrypt = (\<lambda>key nonce ct.
        if 16 \<le> length ct \<and> drop (length ct - 16) ct = pad_to 16 key
        then Some (take (length ct - 16) ct) else None)\<rparr>"

lemma plain_keys_works: "aead_works plain_keys" "kdf_works plain_keys"
proof -
  have "(if 16 \<le> length ct \<and> drop (length ct - 16) ct = pad_to 16 key
      then Some (take (length ct - 16) ct) else None) = Some m \<longleftrightarrow> m @ pad_to 16 key = ct" for ct key m :: bytes
    by (auto; metis append_take_drop_id)
  then show "aead_works plain_keys" unfolding aead_works_def by (simp add: plain_keys_def)
  show "kdf_works plain_keys" by (simp add: kdf_works_def plain_keys_def)
qed

section \<open>Envelopes\<close>

lemma magic_length [simp]: "length MAGIC = 4"
  by (simp add: MAGIC_def)

lemma encrypt_key_Ok:
  assumes "aead_works K" "kdf_works K" and "length salt = 16" "length nonce = 24"
  obtains env where "encrypt_key K salt nonce m pw = Ok env" "length env = 64 + length m"
    "take 4 env = MAGIC"
proof -
  obtain key where key: "derive_key K pw salt = Ok key" "length key = 32"
    by (rule derive_key_works [OF assms(2,3)])
  obtain ct where "aead_encrypt K key nonce m = Inr ct" "length ct = length m + 16"
    by (rule aead_worksD [OF assms(1) key(2) assms(4)])
  with key assms(3,4) show ?thesis using that by (simp add: encrypt_key_def)
qed

lemma envelope_segments:
  assumes "length r = 3" "length salt = 16" "length nonce = 24"
  shows "take 4 (MAGIC @ [v] @ r @ salt @ nonce @ ct) = MAGIC"
    "(MAGIC @ [v] @ r @ salt @ nonce @ ct) ! 4 = v"
    "seg (MAGIC @ [v] @ r @ salt @ nonce @ ct) 8 24 = salt"
    "seg (MAGIC @ [v] @ r @ salt @ nonce @ ct) 24 48 = nonce"
    "drop 48 (MAGIC @ [v] @ r @ salt @ nonce @ ct) = ct"
  using assms by (simp_all add: seg_def nth_append)

lemma envelope_split:
  assumes "length e = FILE_LEN" and "take 4 e = MAGIC" and "e ! 4 = VERSION"
  shows "e = MAGIC @ [VERSION] @ seg e 5 8 @ seg e 8 24 @ seg e 24 48 @ drop 48 e"
proof -
  have four: "seg e 4 5 = [e ! 4]" using assms(1) by (simp add: seg_def keystore_sizes take_Suc hd_drop_conv_nth)
  have "e = seg e 0 48 @ drop 48 e" by (simp add: seg_def)
  also have "seg e 0 48 = seg e 0 24 @ seg e 24 48" by (rule seg_concat [symmetric]) simp_all
  also have "seg e 0 24 = seg e 0 8 @ seg e 8 24" by (rule seg_concat [symmetric]) simp_all
  also have "seg e 0 8 = seg e 0 5 @ seg e 5 8" by (rule seg_concat [symmetric]) simp_all
  also have "seg e 0 5 = seg e 0 4 @ seg e 4 5" by (rule seg_concat [symmetric]) simp_all
  finally show ?thesis using assms(2,3) four by (simp add: seg_def)
qed

lemma decrypt_key_iff:
  assumes "aead_works K" and "kdf_works K"
  shows "decrypt_key K e pw = Ok m \<longleftrightarrow>
    (\<exists>r salt nonce key ct. length r = 3 \<and> length salt = 16 \<and> length nonce = 24 \<and> length m = KEY_LEN \<and>
       derive_key K pw salt = Ok key \<and> aead_encrypt K key nonce m = Inr ct \<and>
       e = MAGIC @ [VERSION] @ r @ salt @ nonce @ ct)"
    (is "_ \<longleftrightarrow> ?made")
proof
  assume ok: "decrypt_key K e pw = Ok m"
  let ?salt = "seg e 8 24" and ?nonce = "seg e 24 48" and ?ct = "drop 48 e"
  have e: "length e = FILE_LEN" "take 4 e = MAGIC" "e ! 4 = VERSION"
    using ok by (auto simp: decrypt_key_def split: if_splits)
  have l: "length ?salt = 16" "length ?nonce = 24" "length (seg e 5 8) = 3" "length ?ct = 48"
    using e(1) by (simp_all add: keystore_sizes)
  obtain key where key: "derive_key K pw ?salt = Ok key" "length key = 32"
    by (rule derive_key_works [OF assms(2) l(1)])
  have "aead_decrypt K key ?nonce ?ct = Some m"
    using ok e key(1) by (auto simp: decrypt_key_def keystore_sizes split: option.splits)
  then have enc: "aead_encrypt K key ?nonce m = Inr ?ct"
    using assms(1) key(2) l(2) by (simp add: aead_works_def)
  obtain ct' where "aead_encrypt K key ?nonce m = Inr ct'" "length ct' = length m + 16"
    by (rule aead_worksD [OF assms(1) key(2) l(2)])
  with enc l(4) have "length m = KEY_LEN" by (simp add: KEY_LEN_def)
  with l key enc envelope_split [OF e] show ?made by blast
next
  assume ?made
  then obtain r salt nonce key ct where made: "length r = 3" "length salt = 16" "length nonce = 24"
    "length m = 32" "derive_key K pw salt = Ok key" "aead_encrypt K key nonce m = Inr ct"
    "e = MAGIC @ [VERSION] @ r @ salt @ nonce @ ct" by (auto simp: KEY_LEN_def)
  obtain key' where "derive_key K pw salt = Ok key'" "length key' = 32"
    by (rule derive_key_works [OF assms(2) made(2)])
  then have key: "length key = 32" using made(5) by simp
  obtain ct' where "aead_encrypt K key nonce m = Inr ct'" "length ct' = length m + 16"
    "aead_decrypt K key nonce ct' = Some m" by (rule aead_worksD [OF assms(1) key made(3)])
  then have ct: "length ct = 48" "aead_decrypt K key nonce ct = Some m" using made(4,6) by simp_all
  have len: "length e = FILE_LEN" using made(1-3,7) ct(1) by (simp add: keystore_sizes)
  note fields = envelope_segments [OF made(1-3), of VERSION ct, folded made(7)]
  show "decrypt_key K e pw = Ok m"
    using len fields made(5) ct(2) by (simp add: decrypt_key_def keystore_sizes)
qed

text \<open>Exactly the envelopes that an encryption makes are opened.  A file decrypts to \<open>m\<close> under a
  passphrase if and only if it is the magic, the version, any three reserved bytes, a salt, a
  nonce and the authenticated encryption of the 32 bytes \<open>m\<close> under the key derived from this
  passphrase and this salt.  A change of any byte but the reserved ones therefore never yields
  the same key, and the reserved bytes are not checked.\<close>

lemma envelope_exact:
  assumes "aead_works K" and "kdf_works K"
  shows "decrypt_key K e pw = Ok m \<longleftrightarrow>
    (\<exists>r salt nonce key ct. length r = 3 \<and> length salt = 16 \<and> length nonce = 24 \<and> length m = KEY_LEN \<and>
       derive_key K pw salt = Ok key \<and> aead_encrypt K key nonce m = Inr ct \<and>
       e = MAGIC @ [VERSION] @ r @ salt @ nonce @ ct)"
    (is "_ \<longleftrightarrow> ?made")
  by (rule decrypt_key_iff [OF assms])

theorem envelope_exact_witness:
  "decrypt_key plain_keys
     (MAGIC @ [VERSION] @ [7, 7, 7] @ zeros 16 @ zeros 24 @ replicate 32 5 @ pad_to 16 [1]) [1] = Ok (replicate 32 5)"
proof -
  have "derive_key plain_keys [1] (zeros 16) = Ok (pad_to 32 ([1] @ zeros 16))"
    by (simp add: derive_key_def plain_keys_def pad_to_same)
  moreover have "pad_to 16 (pad_to 32 ([1] @ zeros 16)) = pad_to 16 [1]"
    by (simp add: pad_to_def zeros_def numeral_eq_Suc)
  ultimately have "\<exists>r salt nonce key ct. length r = 3 \<and> length salt = 16 \<and> length nonce = 24 \<and>
      length (replicate 32 (5 :: u8)) = KEY_LEN \<and> derive_key plain_keys [1] salt = Ok key \<and>
      aead_encrypt plain_keys key nonce (replicate 32 5) = Inr ct \<and>
      MAGIC @ [VERSION] @ [7, 7, 7] @ zeros 16 @ zeros 24 @ replicate 32 5 @ pad_to 16 [1] =
      MAGIC @ [VERSION] @ r @ salt @ nonce @ ct"
    by (intro exI [of _ "[7, 7, 7]"] exI [of _ "zeros 16"] exI [of _ "zeros 24"]
        exI [of _ "pad_to 32 ([1] @ zeros 16)"] exI [of _ "replicate 32 5 @ pad_to 16 [1]"])
      (simp add: plain_keys_def KEY_LEN_def)
  then show ?thesis by (simp only: envelope_exact [OF plain_keys_works])
qed

section \<open>Saving\<close>

lemma temp_name_differs [simp]: "temp_name n \<noteq> n" "n \<noteq> temp_name n"
proof -
  have "length (temp_name n) \<noteq> length n" by (simp add: temp_name_def)
  then show "temp_name n \<noteq> n" "n \<noteq> temp_name n" by metis+
qed

lemma file_name_inj [simp]: "file_name a = file_name b \<longleftrightarrow> a = b"
  by (cases a; cases b) simp_all

lemma temp_not_file [simp]: "temp_name (file_name a) \<noteq> file_name b"
  by (cases a; cases b) (simp_all add: temp_name_def)

text \<open>A result of replacing \<open>p\<close> by way of \<open>tmp\<close>: an error with the old content, or the new content;
  nothing else is touched.\<close>

definition old_or_new ::
  "path \<Rightarrow> path \<Rightarrow> bytes \<Rightarrow> disk \<Rightarrow> (cli_error, unit) outcome \<times> disk \<Rightarrow> bool" where
  "old_or_new p tmp bs d x \<longleftrightarrow>
     \<not> is_panic (fst x) \<and>
     (\<not> is_ok (fst x) \<and> file_bytes (snd x) p = file_bytes d p \<or> file_bytes (snd x) p = Some bs) \<and>
     (is_ok (fst x) \<longrightarrow> map_option mode (files (snd x) p) = Some OWNER_ONLY) \<and>
     (\<forall>q. q \<noteq> p \<longrightarrow> q \<noteq> tmp \<longrightarrow> file_bytes (snd x) q = file_bytes d q)"

lemma replace_file:
  assumes "file_bytes d1 tmp = Some bs" and "p \<noteq> tmp"
    and "\<And>q. q \<noteq> tmp \<Longrightarrow> file_bytes d1 q = file_bytes d q"
  shows "old_or_new p tmp bs d
    (andthen (map_err CliIo (fs_rename F tmp p)) (\<lambda>_. map_err CliIo (fs_set_permissions F p OWNER_ONLY)) d1)"
  using assms
  by (auto simp: old_or_new_def andthen_def map_err_def fs_rename_def fs_set_permissions_def file_bytes_def
      split: option.splits)

lemma write_atomic_cases:
  "old_or_new (join dir n) (join dir (temp_name n)) bs d (write_atomic F (join dir n) bs d)"
proof -
  let ?tmp = "join dir (temp_name n)" and ?p = "join dir n"
  let ?tail = "andthen (map_err CliIo (fs_rename F ?tmp ?p)) (\<lambda>_. map_err CliIo (fs_set_permissions F ?p OWNER_ONLY))"
  have unchanged: "old_or_new ?p ?tmp bs d (Err e, d1)"
    if "\<And>q. q \<noteq> ?tmp \<Longrightarrow> file_bytes d1 q = file_bytes d q" for e d1
    using that by (simp add: old_or_new_def)
  have mid: "old_or_new ?p ?tmp bs d (andthen (map_err CliIo (fs_write F ?tmp bs)) (\<lambda>_. ?tail) d1)"
    if same: "files d1 = files d" for d1
  proof -
    have same': "file_bytes d1 q = file_bytes d q" for q using same by (simp add: file_bytes_def)
    then have "old_or_new ?p ?tmp bs d (?tail (stored ?tmp bs d1))"
      by (intro replace_file) simp_all
    with same' show ?thesis
      by (auto simp: andthen_def map_err_def fs_write_def intro!: unchanged split: option.splits if_splits)
  qed
  have "old_or_new ?p ?tmp bs d
      (andthen (map_err CliIo (fs_create_dir_all F dir)) (\<lambda>_. andthen (map_err CliIo (fs_write F ?tmp bs)) (\<lambda>_. ?tail)) d)"
  proof (cases "mkdir_fault F dir")
    case None
    then have "map_err CliIo (fs_create_dir_all F dir) d =
        (Ok (), d\<lparr>directories := directories d \<union> set (map (\<lambda>k. take k dir) [0..<Suc (length dir)])\<rparr>)"
      by (simp add: fs_create_dir_all_def)
    then show ?thesis using mid by (simp only: andthen_simps(1)) simp
  next
    case (Some e)
    then show ?thesis by (simp add: andthen_def map_err_def fs_create_dir_all_def unchanged)
  qed
  then show ?thesis by (simp add: write_atomic_def Let_def)
qed

text \<open>C24: Saving a key is all or nothing.  Whatever the operating system refuses, and whatever a
  refused write leaves in the temporary file, after \<open>save_key\<close> the key file holds its old content
  (and an error was returned) or the complete new envelope; on success it holds the envelope
  with mode 0600; no file but the key file and its temporary file is touched; nothing panics.\<close>

theorem save_key_atomic:
  assumes "aead_works K" and "kdf_works K" and "length salt = 16" "length nonce = 24"
    and "save_key K F (salt, nonce) dir kind secret pw d = (r, d')"
  shows "\<exists>env. encrypt_key K salt nonce secret pw = Ok env \<and> \<not> is_panic r \<and>
    (\<not> is_ok r \<and> file_bytes d' (join dir (file_name kind)) = file_bytes d (join dir (file_name kind)) \<or>
     file_bytes d' (join dir (file_name kind)) = Some env) \<and>
    (is_ok r \<longrightarrow> map_option mode (files d' (join dir (file_name kind))) = Some OWNER_ONLY) \<and>
    (\<forall>q. q \<noteq> join dir (file_name kind) \<longrightarrow> q \<noteq> join dir (temp_name (file_name kind)) \<longrightarrow>
       file_bytes d' q = file_bytes d q)"
proof -
  obtain env where env: "encrypt_key K salt nonce secret pw = Ok env"
    by (rule encrypt_key_Ok [OF assms(1-4)])
  show ?thesis
  proof (cases "length secret = KEY_LEN")
    case True
    then have "write_atomic F (join dir (file_name kind)) env d = (r, d')"
      using assms(5) env by (simp add: save_key_def save_v2_def)
    with write_atomic_cases [of dir "file_name kind" env d F] env show ?thesis
      by (auto simp: old_or_new_def)
  qed (use assms(5) env in \<open>auto simp: save_key_def\<close>)
qed

section \<open>Loading\<close>

lemma magic_prefix: "take 4 bs = MAGIC \<Longrightarrow> 4 \<le> length bs"
  by (metis length_take magic_length min.cobounded1)

lemma file_exists: "file_bytes d p = Some bs \<Longrightarrow> path_exists p d"
  by (auto simp: path_exists_def file_bytes_def)

lemma is_v2_plain:
  "read_fault F p = None \<Longrightarrow> file_bytes d p = Some bs \<Longrightarrow> is_v2 F p d = (Ok (take 4 bs = MAGIC), d)"
  using magic_prefix [of bs] by (auto simp: is_v2_def fs_read_plain)

lemma load_key_plain:
  assumes "read_fault F (join dir (file_name kind)) = None"
    and "file_bytes d (join dir (file_name kind)) = Some bs"
  shows "load_key K F dir kind passphrase d =
    ((if take 4 bs = MAGIC then
        (case passphrase of
           None \<Rightarrow> Err (BadConfig ''is encrypted; set NABOSCALE_PASSPHRASE or pass --passphrase-file'')
         | Some pw \<Rightarrow> decrypt_key K bs pw)
      else if length bs = KEY_LEN then Ok bs else Err (BadConfig ''wrong length'')), d)"
  using assms file_exists is_v2_plain [OF assms] fs_read_plain [OF assms]
  by (simp add: load_key_def andthen_def read_v2_def read_v1_def map_err_def split: option.split)

lemma load_key_missing: "\<not> path_exists (join dir (file_name kind)) d \<Longrightarrow>
  load_key K F dir kind passphrase d = (Err (NotInitialized dir), d)"
  by (simp add: load_key_def)

lemma derive_key_no_panic: "derive_key K pw salt \<noteq> Panic msg"
  by (simp add: derive_key_def split: option.split sum.split)

lemma decrypt_key_no_panic: "decrypt_key K e pw \<noteq> Panic msg"
  using derive_key_no_panic [of K pw "seg e 8 (8 + SALT_LEN)" msg]
  by (cases "derive_key K pw (seg e 8 (8 + SALT_LEN))")
    (simp_all add: decrypt_key_def Let_def split: option.split)

lemma fs_read_no_panic: "fs_read F p d = (r, d') \<Longrightarrow> d' = d \<and> r \<noteq> Panic msg"
  by (auto simp: fs_read_def split: option.splits if_splits)

lemma load_key_result:
  assumes "aead_works K" and "kdf_works K" and "load_key K F dir kind passphrase d = (r, d')"
  shows "d' = d" "r \<noteq> Panic msg" "r = Ok bs \<Longrightarrow> length bs = KEY_LEN"
proof -
  let ?p = "join dir (file_name kind)"
  have dec: "decrypt_key K x pw = Ok m \<Longrightarrow> length m = KEY_LEN" for x pw m
    using decrypt_key_iff [OF assms(1,2), of x pw m] by blast
  obtain q d1 where read: "fs_read F ?p d = (q, d1)" by (cases "fs_read F ?p d")
  then have d1: "d1 = d" and np: "q \<noteq> Panic msg'" for msg' using fs_read_no_panic by blast+
  have "d' = d \<and> r \<noteq> Panic msg \<and> (r = Ok bs \<longrightarrow> length bs = KEY_LEN)"
  proof (cases q)
    case (Ok x)
    with read d1 assms(3) show ?thesis
      using dec decrypt_key_no_panic
      by (auto simp: load_key_def andthen_def is_v2_def read_v2_def read_v1_def map_err_def
          split: if_splits option.splits)
  next
    case (Err e)
    with read d1 assms(3) show ?thesis
      by (cases e) (auto simp: load_key_def andthen_def is_v2_def read_v1_def map_err_def split: if_splits)
  qed (use np in simp)
  then show "d' = d" "r \<noteq> Panic msg" "r = Ok bs \<Longrightarrow> length bs = KEY_LEN" by blast+
qed

lemma keystore_opens:
  assumes lib: "aead_works K" "kdf_works K"
    and len: "length s1 = 16" "length n1 = 24" "length s2 = 16" "length n2 = 24"
    and saved: "save_key K F (s1, n1) dir IdentityKey idk pw d = (Ok (), d1)"
      "save_key K F (s2, n2) dir WgKey wgk pw d1 = (Ok (), d2)"
    and readable: "\<And>p. read_fault F p = None"
  shows "opened_keys_open C K F dir (Some pw) d2 =
      (Ok \<lparr>ok_identity = identity_from_bytes C idk, ok_wg = keypair_from_bytes C wgk\<rparr>, d2) \<and>
    \<not> is_ok (fst (opened_keys_open C K F dir None d2)) \<and>
    \<not> is_panic (fst (opened_keys_open C K F' dir' passphrase d')) \<and>
    snd (opened_keys_open C K F' dir' passphrase d') = d'"
proof -
  have fits: "length idk = KEY_LEN" "length wgk = KEY_LEN"
    using saved by (auto simp: save_key_def split: if_splits)
  obtain e1 where e1: "encrypt_key K s1 n1 idk pw = Ok e1" "length e1 = 64 + length idk" "take 4 e1 = MAGIC"
    by (rule encrypt_key_Ok [OF lib len(1,2)])
  obtain e2 where e2: "encrypt_key K s2 n2 wgk pw = Ok e2" "length e2 = 64 + length wgk" "take 4 e2 = MAGIC"
    by (rule encrypt_key_Ok [OF lib len(3,4)])
  have w1: "write_atomic F (join dir ''identity.key'') e1 d = (Ok (), d1)"
    and w2: "write_atomic F (join dir ''wg.key'') e2 d1 = (Ok (), d2)"
    using saved fits e1 e2 by (simp_all add: save_key_def save_v2_def)
  have "file_bytes d1 (join dir ''identity.key'') = Some e1"
    using write_atomic_cases [of dir "''identity.key''" e1 d F] w1 by (simp add: old_or_new_def)
  then have f1: "file_bytes d2 (join dir ''identity.key'') = Some e1"
    using write_atomic_cases [of dir "''wg.key''" e2 d1 F] w2 by (simp add: old_or_new_def temp_name_def)
  have f2: "file_bytes d2 (join dir ''wg.key'') = Some e2"
    using write_atomic_cases [of dir "''wg.key''" e2 d1 F] w2 by (simp add: old_or_new_def)
  have opens: "decrypt_key K e pw = Ok m"
    if enc: "encrypt_key K s n m pw = Ok e" and ls: "length s = 16" and ln: "length n = 24"
      and lm: "length m = KEY_LEN" for e s n m
  proof -
    obtain key where key: "derive_key K pw s = Ok key" "length key = 32"
      by (rule derive_key_works [OF lib(2) ls])
    obtain ct where ct: "aead_encrypt K key n m = Inr ct" by (rule aead_worksD [OF lib(1) key(2) ln])
    have "e = MAGIC @ [VERSION] @ zeros 3 @ s @ n @ ct" using enc key(1) ct by (simp add: encrypt_key_def)
    moreover have "length (zeros 3) = 3" by simp
    ultimately show ?thesis using key(1) ct ls ln lm unfolding decrypt_key_iff [OF lib] by blast
  qed
  note l1 = load_key_plain [where kind = IdentityKey, OF readable, simplified, OF f1]
    and l2 = load_key_plain [where kind = WgKey, OF readable, simplified, OF f2]
  have "opened_keys_open C K F dir (Some pw) d2 =
      (Ok \<lparr>ok_identity = identity_from_bytes C idk, ok_wg = keypair_from_bytes C wgk\<rparr>, d2)"
    using opens [OF e1(1) len(1,2) fits(1)] opens [OF e2(1) len(3,4) fits(2)] e1(3) e2(3) fits
    by (simp add: opened_keys_open_def andthen_def l1 l2 pure_act_def key_of_slice_def ret_def)
  moreover have "\<not> is_ok (fst (opened_keys_open C K F dir None d2))"
    using e1(3) by (simp add: opened_keys_open_def andthen_def l1)
  moreover have "\<not> is_panic (fst (opened_keys_open C K F' dir' passphrase d')) \<and>
      snd (opened_keys_open C K F' dir' passphrase d') = d'"
  proof -
    obtain r1 x1 where r1: "load_key K F' dir' IdentityKey passphrase d' = (r1, x1)"
      by (cases "load_key K F' dir' IdentityKey passphrase d'")
    obtain r2 x2 where r2: "load_key K F' dir' WgKey passphrase d' = (r2, x2)"
      by (cases "load_key K F' dir' WgKey passphrase d'")
    show ?thesis
      using r1 r2 load_key_result [OF lib r1] load_key_result [OF lib r2]
      by (cases r1; cases r2) (auto simp: opened_keys_open_def andthen_def pure_act_def key_of_slice_def ret_def)
  qed
  ultimately show ?thesis by simp
qed

text \<open>C23: A key store that was written is read back.  After both keys of a node were saved under a
  passphrase, in the order of \<open>init\<close>, opening the store with this passphrase gives exactly the
  identity and the WireGuard pair of these keys; without a passphrase it fails; and no content of
  the files, passphrase or refused read makes opening any store panic or change the disk.\<close>

theorem keystore_roundtrip:
  assumes lib: "aead_works K" "kdf_works K"
    and len: "length s1 = 16" "length n1 = 24" "length s2 = 16" "length n2 = 24"
    and saved: "save_key K F (s1, n1) dir IdentityKey idk pw d = (Ok (), d1)"
      "save_key K F (s2, n2) dir WgKey wgk pw d1 = (Ok (), d2)"
    and readable: "\<And>p. read_fault F p = None"
  shows "opened_keys_open C K F dir (Some pw) d2 =
      (Ok \<lparr>ok_identity = identity_from_bytes C idk, ok_wg = keypair_from_bytes C wgk\<rparr>, d2) \<and>
    \<not> is_ok (fst (opened_keys_open C K F dir None d2)) \<and>
    \<not> is_panic (fst (opened_keys_open C K F' dir' passphrase d')) \<and>
    snd (opened_keys_open C K F' dir' passphrase d') = d'"
  by (rule keystore_opens [OF assms])

section \<open>A store in one directory\<close>

definition demo_disk :: disk where
  "demo_disk = \<lparr>files = Map.empty, directories = {[], [''home'']}\<rparr>"

definition demo_dir :: path where "demo_dir = [''home'', ''naboscale'']"

lemma demo_save:
  assumes "length secret = KEY_LEN" and "length salt = 16" "length nonce = 24"
    and "join demo_dir (file_name kind) \<notin> directories d" "join demo_dir (temp_name (file_name kind)) \<notin> directories d"
  obtains d' where "save_key plain_keys no_faults (salt, nonce) demo_dir kind secret pw d = (Ok (), d')"
    "directories d' = directories d \<union> {[], [''home''], demo_dir}"
proof -
  let ?n = "file_name kind"
  obtain env where env: "encrypt_key plain_keys salt nonce secret pw = Ok env"
    by (rule encrypt_key_Ok [OF plain_keys_works assms(2,3)])
  let ?d1 = "d\<lparr>directories := directories d \<union> {[], [''home''], demo_dir}\<rparr>"
  have mk: "fs_create_dir_all no_faults demo_dir d = (Ok (), ?d1)"
    by (auto simp: fs_create_dir_all_def demo_dir_def numeral_2_eq_2 atLeastLessThanSuc)
  have nodir: "join demo_dir x \<notin> {[], [''home''], demo_dir}" for x by (simp add: demo_dir_def join_def)
  show ?thesis
    using that assms env mk nodir
    by (auto simp: save_key_def save_v2_def write_atomic_def Let_def andthen_def map_err_def fs_write_def
        fs_rename_def fs_set_permissions_def stored_def)
qed

lemma demo_saved:
  obtains d1 d2 where
    "save_key plain_keys no_faults (zeros 16, zeros 24) demo_dir IdentityKey (replicate 32 1) [7] demo_disk = (Ok (), d1)"
    "save_key plain_keys no_faults (zeros 16, zeros 24) demo_dir WgKey (replicate 32 2) [7] d1 = (Ok (), d2)"
proof -
  obtain d1 where d1: "save_key plain_keys no_faults (zeros 16, zeros 24) demo_dir IdentityKey (replicate 32 1) [7] demo_disk = (Ok (), d1)"
    "directories d1 = directories demo_disk \<union> {[], [''home''], demo_dir}"
    by (rule demo_save [of "replicate 32 1" "zeros 16" "zeros 24" IdentityKey demo_disk])
      (simp_all add: KEY_LEN_def demo_disk_def join_def demo_dir_def)
  obtain d2 where d2: "save_key plain_keys no_faults (zeros 16, zeros 24) demo_dir WgKey (replicate 32 2) [7] d1 = (Ok (), d2)"
    by (rule demo_save [of "replicate 32 2" "zeros 16" "zeros 24" WgKey d1])
      (simp_all add: d1(2) KEY_LEN_def demo_disk_def join_def demo_dir_def)
  show ?thesis by (rule that [OF d1(1) d2])
qed

theorem keystore_roundtrip_witness:
  "\<exists>d. opened_keys_open plain plain_keys no_faults demo_dir (Some [7]) d =
     (Ok \<lparr>ok_identity = identity_from_bytes plain (replicate 32 1),
          ok_wg = keypair_from_bytes plain (replicate 32 2)\<rparr>, d)"
proof -
  obtain d1 d2 where s: "save_key plain_keys no_faults (zeros 16, zeros 24) demo_dir IdentityKey (replicate 32 1) [7] demo_disk = (Ok (), d1)"
    "save_key plain_keys no_faults (zeros 16, zeros 24) demo_dir WgKey (replicate 32 2) [7] d1 = (Ok (), d2)"
    by (rule demo_saved)
  have "opened_keys_open plain plain_keys no_faults demo_dir (Some [7]) d2 =
      (Ok \<lparr>ok_identity = identity_from_bytes plain (replicate 32 1),
           ok_wg = keypair_from_bytes plain (replicate 32 2)\<rparr>, d2)"
    using keystore_roundtrip [OF plain_keys_works _ _ _ _ s, where C = plain and F' = no_faults and dir' = demo_dir
        and passphrase = None and d' = d2] by simp
  then show ?thesis by (rule exI)
qed

text \<open>The rename is refused: the old key stays.\<close>

theorem save_key_atomic_witness:
  "\<exists>e d1 d'. save_key plain_keys (no_faults\<lparr>rename_fault := \<lambda>p q. Some ''EIO''\<rparr>) (zeros 16, zeros 24) demo_dir
       IdentityKey (replicate 32 3) [7] d1 = (Err e, d') \<and>
     file_bytes d' (join demo_dir ''identity.key'') = file_bytes d1 (join demo_dir ''identity.key'')"
proof -
  let ?F = "no_faults\<lparr>rename_fault := \<lambda>p q. Some ''EIO''\<rparr>"
  obtain env where env: "encrypt_key plain_keys (zeros 16) (zeros 24) (replicate 32 3) [7] = Ok env" "length env = 64 + 32"
    by (rule encrypt_key_Ok [OF plain_keys_works, of "zeros 16" "zeros 24" "replicate 32 3" "[7]"]) simp_all
  obtain r d' where r: "save_key plain_keys ?F (zeros 16, zeros 24) demo_dir IdentityKey (replicate 32 3) [7] demo_disk = (r, d')"
    by (cases "save_key plain_keys ?F (zeros 16, zeros 24) demo_dir IdentityKey (replicate 32 3) [7] demo_disk")
  have "\<not> is_ok r"
    using r env(1)
    by (auto simp: save_key_def save_v2_def KEY_LEN_def write_atomic_def Let_def andthen_def map_err_def
        fs_create_dir_all_def fs_write_def fs_rename_def split: if_splits)
  moreover have "file_bytes d' (join demo_dir ''identity.key'') \<noteq> Some env"
    using r env(1)
    by (auto simp: save_key_def save_v2_def KEY_LEN_def write_atomic_def Let_def andthen_def map_err_def
        fs_create_dir_all_def fs_write_def fs_rename_def temp_name_def demo_disk_def file_bytes_def stored_def
        split: if_splits)
  ultimately show ?thesis
    using save_key_atomic [OF plain_keys_works _ _ r] env(1) r by (cases r) auto
qed

end
