(* ===== verification/Coord_Props.thy ===== *)
theory Coord_Props
  imports Coord_Demo
begin

text \<open>
  Properties of the coordination server: what each route does when it succeeds, who can change
  what, and where the routes do not do what they are meant to.
\<close>

section \<open>Registration\<close>

lemma insert_node_Ok:
  assumes "insert_node fk n token ttl d = (Ok u, d')"
  shows "db_nodes d' = db_nodes d @ [n\<lparr>n_last_endpoint := None, n_last_seen := None\<rparr>]"
    "db_tokens d' = db_tokens d @ [\<lparr>t_token = token, t_node_id = n_node_id n, t_created_at = n_created_at n,
       t_expires_at = n_created_at n + ttl, t_revoked = False\<rparr>]"
    "\<forall>r \<in> set (db_nodes d). n_node_id r \<noteq> n_node_id n \<and> n_identity r \<noteq> n_identity n \<and>
       n_wg r \<noteq> n_wg n \<and> n_ip r \<noteq> n_ip n"
  using assms
  by (auto simp: insert_node_def andthen_Ok_iff insert_node_row_def insert_token_row_def list_ex_iff
      split: if_splits)

lemma single_token_lookup:
  assumes d: "db_ok d" and t: "t \<in> set (db_tokens d)" and n: "n \<in> set (db_nodes d)"
    and live: "\<not> t_revoked t" "t_node_id t = n_node_id n"
  shows "get_node_by_token d (t_token t) now = (if sint now < sint (t_expires_at t) then Some n else None)"
proof (cases "sint now < sint (t_expires_at t)")
  case True
  then have "token_live now t" using live by (simp add: token_live_def)
  then have "get_node_by_token d (t_token t) now = Some n"
    unfolding get_node_by_token_iff [OF d] using t n live by blast
  with True show ?thesis by simp
next
  case False
  have toks: "distinct (map t_token (db_tokens d))" using d by (simp add: db_ok_def)
  have "\<not> token_live now u" if "u \<in> set (db_tokens d)" "t_token u = t_token t" for u
    using distinct_key [OF toks that(1) t that(2)] False by (simp add: token_live_def)
  then have "get_node_by_token d (t_token t) now = None"
    unfolding get_node_by_token_None by blast
  with False show ?thesis by simp
qed

lemma register_OkD:
  assumes "register C X E req s = (Ok resp, s')"
  obtains i w s1 ip used d where "register_checks C X E req s = (Ok (i, w), s1)" "same_data s s1"
    "allocate (ip_alloc s) = (Ok ip, used)"
    "insert_node (fk_enforced X) (new_node E i w ip) (generate_token X E) (token_ttl_secs s) (cdb s) = (Ok (), d)"
    "resp = \<lparr>rs_node_id = uuid E, rs_ip = show_ipv4 ip, rs_auth_token = generate_token X E,
             rs_auth_token_expires_at = clock E + token_ttl_secs s, rs_derp_url = ''''\<rparr>"
    "cdb s' = d" "ip_alloc s' = used" "token_ttl_secs s' = token_ttl_secs s"
proof -
  from assms obtain k s1 where c: "register_checks C X E req s = (Ok k, s1)"
    and rest: "register_commit X E k s1 = (Ok resp, s')"
    unfolding register_eq andthen_Ok_iff by blast
  obtain i w where k: "k = (i, w)" by (cases k)
  note same = stays_result [OF register_checks_same c]
  from rest same show ?thesis
    using that [OF c [unfolded k] same] k
    by (auto simp: register_commit_def andthen_Ok_iff ret_def same_data_def)
qed

lemma register_effect:
  assumes "coord_ok s" and "register C X E req s = (Ok resp, s')"
  shows "\<exists>n sig. db_nodes (cdb s') = db_nodes (cdb s) @ [n] \<and>
    n_node_id n = rs_node_id resp \<and> n_ip n = rs_ip resp \<and>
    validate_timestamp (rq_timestamp req) (clock E) = Ok () \<and>
    decode_pubkey X (rq_identity_pubkey req) = Ok (n_identity n) \<and> decode_pubkey X (rq_wg_pubkey req) = Ok (n_wg n) \<and>
    decode_signature X (rq_signature req) = Ok sig \<and>
    identity_verify C (n_identity n)
      (build_register_message (rq_timestamp req) (n_identity n) (n_wg n)) sig \<and>
    (\<forall>m \<in> set (db_nodes (cdb s)). n_node_id m \<noteq> n_node_id n \<and> n_identity m \<noteq> n_identity n \<and>
       n_wg m \<noteq> n_wg n \<and> n_ip m \<noteq> n_ip n) \<and>
    rs_auth_token_expires_at resp = clock E + token_ttl_secs s \<and>
    (\<forall>t. get_node_by_token (cdb s') (rs_auth_token resp) t =
       (if sint t < sint (rs_auth_token_expires_at resp) then Some n else None))"
proof -
  obtain i w s1 ip used d where c: "register_checks C X E req s = (Ok (i, w), s1)" "same_data s s1"
    and ins: "insert_node (fk_enforced X) (new_node E i w ip) (generate_token X E) (token_ttl_secs s) (cdb s) = (Ok (), d)"
    and resp: "resp = \<lparr>rs_node_id = uuid E, rs_ip = show_ipv4 ip, rs_auth_token = generate_token X E,
             rs_auth_token_expires_at = clock E + token_ttl_secs s, rs_derp_url = ''''\<rparr>"
    and s': "cdb s' = d" by (rule register_OkD [OF assms(2)])
  note I = insert_node_Ok [OF ins]
  let ?n = "(new_node E i w ip)\<lparr>n_last_endpoint := None, n_last_seen := None\<rparr>"
  have "coord_ok s'" using register_keeps [OF assms(1), of C X E req] assms(2) by simp
  then have db: "db_ok d" by (simp add: coord_ok_def s')
  have "get_node_by_token d (generate_token X E) t =
      (if sint t < sint (clock E + token_ttl_secs s) then Some ?n else None)" for t
    using single_token_lookup [OF db, of "\<lparr>t_token = generate_token X E, t_node_id = uuid E,
        t_created_at = clock E, t_expires_at = clock E + token_ttl_secs s, t_revoked = False\<rparr>" ?n t] I
    by (simp add: new_node_def)
  moreover obtain sig where "decode_signature X (rq_signature req) = Ok sig"
    "identity_verify C i (build_register_message (rq_timestamp req) i w) sig"
    using register_checks_OkD(5) [OF c(1)] by blast
  ultimately show ?thesis
    using I resp s' register_checks_OkD(4,6,7) [OF c(1)]
    by (intro exI [of _ ?n] exI [of _ sig]) (simp add: new_node_def)
qed

text \<open>C17: A registration that succeeds enrols exactly one new node.  The request carried a timestamp in
  the window, both keys, and a signature of the identity key over them; one node is added, with these
  keys and the
  answered id and address, whose id, keys and address no other node has; and the answered token
  finds this node at every time before its expiry (now plus the configured lifetime) and never
  after.\<close>

theorem register_success:
  assumes "coord_ok s" and "register C X E req s = (Ok resp, s')"
  shows "\<exists>n sig. db_nodes (cdb s') = db_nodes (cdb s) @ [n] \<and>
    n_node_id n = rs_node_id resp \<and> n_ip n = rs_ip resp \<and>
    validate_timestamp (rq_timestamp req) (clock E) = Ok () \<and>
    decode_pubkey X (rq_identity_pubkey req) = Ok (n_identity n) \<and> decode_pubkey X (rq_wg_pubkey req) = Ok (n_wg n) \<and>
    decode_signature X (rq_signature req) = Ok sig \<and>
    identity_verify C (n_identity n)
      (build_register_message (rq_timestamp req) (n_identity n) (n_wg n)) sig \<and>
    (\<forall>m \<in> set (db_nodes (cdb s)). n_node_id m \<noteq> n_node_id n \<and> n_identity m \<noteq> n_identity n \<and>
       n_wg m \<noteq> n_wg n \<and> n_ip m \<noteq> n_ip n) \<and>
    rs_auth_token_expires_at resp = clock E + token_ttl_secs s \<and>
    (\<forall>t. get_node_by_token (cdb s') (rs_auth_token resp) t =
       (if sint t < sint (rs_auth_token_expires_at resp) then Some n else None))"
  by (rule register_effect [OF assms])

theorem register_success_witness:
  "\<exists>resp s'. register plain plain_libs demo_request (demo_register (replicate 32 2)) demo_empty = (Ok resp, s') \<and>
     map n_node_id (db_nodes (cdb s')) = [''b''] \<and>
     map n_ip (db_nodes (cdb s')) = [show_ipv4 (u32_to_be IP_POOL_FIRST_HOST)] \<and>
     get_node_by_token (cdb s') (rs_auth_token resp) 1499 \<noteq> None \<and>
     get_node_by_token (cdb s') (rs_auth_token resp) 1500 = None"
proof -
  obtain resp s' where r: "register plain plain_libs demo_request (demo_register (replicate 32 2)) demo_empty = (Ok resp, s')"
    "rs_ip resp = show_ipv4 (u32_to_be IP_POOL_FIRST_HOST)" "rs_node_id resp = ''b''"
    by (rule demo_registration)
  have start: "coord_ok demo_empty" "db_nodes (cdb demo_empty) = []" "token_ttl_secs demo_empty = 1000"
    using coord_ok_in_memory by (simp_all add: demo_empty_def app_state_in_memory_def open_in_memory_def)
  from register_success [OF start(1) r(1)] start(2,3) r show ?thesis by auto
qed

text \<open>Registering a known identity again loses an address.  When all checks of a registration
  pass but the identity key is already stored, the request fails with a database error, the
  database is unchanged, and an address of the pool that was free is now marked used although no
  node has it: nothing releases it while the server runs.\<close>

lemma register_conflict_leaks_address:
  assumes "coord_ok s" and "register_checks C X E req s = (Ok (i, w), s1)"
    and "n \<in> set (db_nodes (cdb s))" and "n_identity n = i" and "\<not> pool \<subseteq> ip_alloc s"
  shows "\<exists>a msg s'. register C X E req s = (Err (Database msg), s') \<and> cdb s' = cdb s \<and>
    a \<in> pool \<and> a \<notin> ip_alloc s \<and> ip_alloc s' = insert a (ip_alloc s) \<and>
    (\<forall>m \<in> set (db_nodes (cdb s')). n_ip m \<noteq> show_ipv4 (u32_to_be a))"
proof -
  note same = stays_result [OF register_checks_same assms(2)]
  have "is_ok (fst (allocate (ip_alloc s)))" using assms(5) allocate_fails_iff by blast
  then obtain ip used where al: "allocate (ip_alloc s) = (Ok ip, used)"
    by (cases "allocate (ip_alloc s)") (auto simp: is_ok_iff)
  obtain a where a: "ip = u32_to_be a" "a \<in> pool" "a \<notin> ip_alloc s" "used = insert a (ip_alloc s)"
    by (rule allocate_Ok [OF al])
  have clash: "insert_node fk (new_node E i w ip) tok ttl (cdb s) =
      (Err (Database ''UNIQUE constraint failed: nodes''), cdb s)" for fk tok ttl
    using assms(3,4) by (auto simp: insert_node_def andthen_def insert_node_row_def list_ex_iff new_node_def)
  have free: "n_ip m \<noteq> show_ipv4 (u32_to_be a)" if "m \<in> set (db_nodes (cdb s))" for m
    using assms(1) that a(3) by (auto simp: coord_ok_def node_ok_def show_ipv4_inj)
  have "register C X E req s = (Err (Database ''UNIQUE constraint failed: nodes''), s1\<lparr>ip_alloc := used\<rparr>)"
    using same al clash assms(2)
    by (simp add: register_eq andthen_def register_commit_def with_ips_def with_db_def same_data_def)
  then show ?thesis using a same free by (auto simp: same_data_def)
qed

theorem register_conflict_leaks_address_witness:
  "\<exists>a msg s'. register plain plain_libs demo_request (demo_register (replicate 32 2)) demo_coord = (Err (Database msg), s') \<and>
     a \<noteq> IP_POOL_FIRST_HOST \<and> ip_alloc s' = {a, IP_POOL_FIRST_HOST} \<and> cdb s' = cdb demo_coord"
proof -
  have checks: "register_checks plain plain_libs demo_request (demo_register (replicate 32 2)) demo_coord =
      (Ok (demo_key, replicate 32 2), demo_admitted Register)"
    by (rule demo_register_checks) simp_all
  have used: "ip_alloc demo_coord = {IP_POOL_FIRST_HOST}" by (simp add: demo_coord_def)
  have "1684275202 \<in> pool" by (simp add: pool_def first_host IP_POOL_HOST_COUNT_def)
  then have "\<not> pool \<subseteq> ip_alloc demo_coord" by (auto simp: used first_host)
  with register_conflict_leaks_address [OF demo_coord_ok checks, of demo_node] used show ?thesis
    by (auto simp: demo_coord_def demo_node_def)
qed

section \<open>Who can change what\<close>

lemma extract_bearer_cases: "extract_bearer h = Err InvalidAuthToken \<or> (\<exists>tok. extract_bearer h = Ok tok)"
  by (simp add: extract_bearer_def split: option.split)

text \<open>A request without a live token stops at the token check, or earlier at the rate limit.\<close>

lemma check_rate_limit_cases:
  "(\<exists>t. check_rate_limit E b s = (Ok (), t) \<and> same_data s t) \<or>
   (\<exists>t k. check_rate_limit E b s = (Err (RateLimited k), t) \<and> same_data s t)"
  by (auto simp: check_rate_limit_def check_def Let_def same_data_def)

lemma no_token_stops:
  assumes "\<And>tok. extract_bearer headers = Ok tok \<Longrightarrow> get_node_by_token (cdb s) tok (clock E) = None"
  shows "\<exists>e t. andthen (check_rate_limit E b) (\<lambda>_. andthen (pure_act (extract_bearer headers)) (\<lambda>token.
      andthen (caller_of E token) k)) s = (Err e, t) \<and> same_data s t \<and> error_status e \<in> {401, 429}"
  using check_rate_limit_cases [of E b s] extract_bearer_cases [of headers] assms
  by (auto simp: andthen_def pure_act_def caller_of_def same_data_def)

lemma token_refused:
  assumes "\<And>tok. extract_bearer headers = Ok tok \<Longrightarrow> get_node_by_token (cdb s) tok (clock E) = None"
    and "req \<in> {GetPeers headers, PostHeartbeat headers hb, PostTokenRefresh headers sg, DeleteNode headers sg}"
  shows "\<exists>st ra t. handle_request C X E req s = (ErrorResponse st ra, t) \<and> st \<in> {401, 429} \<and>
    cdb t = cdb s \<and> ip_alloc t = ip_alloc s"
proof -
  note stop = no_token_stops [OF assms(1)]
  have peers: "\<exists>e t. peers_route X E headers s = (Err e, t) \<and> same_data s t \<and> error_status e \<in> {401, 429}"
    unfolding peers_route_def by (rule stop)
  have hb: "\<exists>e t. heartbeat C X E headers hb s = (Err e, t) \<and> same_data s t \<and> error_status e \<in> {401, 429}"
    unfolding heartbeat_def by (rule stop)
  have sg: "\<exists>e t. signed_caller C X E headers sg msg s = (Err e, t) \<and> same_data s t \<and> error_status e \<in> {401, 429}" for msg
    unfolding signed_caller_def by (rule stop)
  have after: "\<exists>e t. andthen (signed_caller C X E headers sg msg) k s = (Err e, t) \<and> same_data s t \<and>
      error_status e \<in> {401, 429}" for msg k
    using sg [of msg] by (auto simp: andthen_def)
  have refresh: "\<exists>e t. refresh_token C X E headers sg s = (Err e, t) \<and> same_data s t \<and> error_status e \<in> {401, 429}"
    unfolding refresh_token_def by (rule after)
  have delete: "\<exists>e t. delete_node C X E headers sg s = (Err e, t) \<and> same_data s t \<and> error_status e \<in> {401, 429}"
    unfolding delete_node_def by (rule after)
  from assms(2) show ?thesis
    using peers hb refresh delete by (auto simp: respond_def same_data_def)
qed

text \<open>Every route but registration and health needs a live token.  When the request carries no bearer
  token, or one that does not exist, is revoked or has expired, the answer is 401 (or 429 when
  the rate limit comes first) and neither the database nor the address allocator changes.\<close>

lemma token_required:
  assumes "\<And>tok. extract_bearer headers = Ok tok \<Longrightarrow> get_node_by_token (cdb s) tok (clock E) = None"
    and "req \<in> {GetPeers headers, PostHeartbeat headers hb, PostTokenRefresh headers sg, DeleteNode headers sg}"
  shows "\<exists>st ra t. handle_request C X E req s = (ErrorResponse st ra, t) \<and> st \<in> {401, 429} \<and>
    cdb t = cdb s \<and> ip_alloc t = ip_alloc s"
  by (rule token_refused [OF assms])

theorem token_required_witness:
  "\<exists>st ra t. handle_request plain plain_libs demo_request (DeleteNode (Some ''Bearer x'') (demo_signed build_delete_node_message)) demo_coord =
      (ErrorResponse st ra, t) \<and> st \<in> {401, 429} \<and> cdb t = cdb demo_coord \<and> ip_alloc t = ip_alloc demo_coord"
proof -
  have none: "get_node_by_token (cdb demo_coord) tok (clock demo_request) = None"
    if "extract_bearer (Some ''Bearer x'') = Ok tok" for tok
    using that by (auto simp: extract_bearer_def get_node_by_token_def demo_coord_def demo_token_def)
  show ?thesis
    by (rule token_required [where headers = "Some ''Bearer x''" and sg = "demo_signed build_delete_node_message"
          and hb = demo_heartbeat]) (use none in simp_all)
qed


lemma demo_heartbeat_done:
  "heartbeat plain plain_libs demo_request demo_bearer demo_heartbeat demo_coord =
     (Ok 200, (demo_admitted Heartbeat)\<lparr>cdb := update_heartbeat ''a'' ''1.2.3.4:5'' None 500 (cdb demo_coord)\<rparr>)"
  by (simp add: heartbeat_eq andthen_def heartbeat_commit_def) (simp add: demo_node_def demo_heartbeat_def)


section \<open>Refresh, removal, heartbeat, listing\<close>

lemma refresh_OkD:
  assumes "refresh_token C X E headers req s = (Ok resp, s')"
  obtains n tok sig d where "extract_bearer headers = Ok tok"
    "get_node_by_token (cdb s) tok (clock E) = Some n"
    "identity_verify C (n_identity n) (build_refresh_message (sg_timestamp req)) sig"
    "create_token (fk_enforced X) (n_node_id n) (generate_token X E) (clock E) (token_ttl_secs s)
       (snd (revoke_all_tokens_for_node (n_node_id n) (cdb s))) = (Ok (), d)"
    "resp = \<lparr>rf_auth_token = generate_token X E, rf_auth_token_expires_at = clock E + token_ttl_secs s,
             rf_old_token_expires_at = clock E + token_ttl_secs s\<rparr>"
    "cdb s' = d" "ip_alloc s' = ip_alloc s"
proof -
  from assms obtain n s1 where c: "signed_caller C X E headers req build_refresh_message s = (Ok n, s1)"
    and rest: "(let s2 = s1\<lparr>cdb := snd (revoke_all_tokens_for_node (n_node_id n) (cdb s1))\<rparr>;
           new_token = generate_token X E; ttl = token_ttl_secs s1
       in andthen (with_db (create_token (fk_enforced X) (n_node_id n) new_token (clock E) ttl))
            (\<lambda>_. ret \<lparr>rf_auth_token = new_token, rf_auth_token_expires_at = clock E + ttl,
                      rf_old_token_expires_at = clock E + ttl\<rparr>) s2) = (Ok resp, s')"
    unfolding refresh_token_def andthen_Ok_iff by blast
  obtain tok sig where same: "same_data s s1" and t: "extract_bearer headers = Ok tok"
    "get_node_by_token (cdb s) tok (clock E) = Some n"
    "identity_verify C (n_identity n) (build_refresh_message (sg_timestamp req)) sig"
    by (rule signed_caller_OkD [OF c])
  from rest same show ?thesis
    using that [OF t] by (auto simp: Let_def andthen_Ok_iff ret_def same_data_def)
qed

lemma refresh_effect:
  assumes "coord_ok s" and "refresh_token C X E headers req s = (Ok resp, s')"
  shows "\<exists>n tok. extract_bearer headers = Ok tok \<and>
    get_node_by_token (cdb s) tok (clock E) = Some n \<and> db_nodes (cdb s') = db_nodes (cdb s) \<and>
    (\<forall>t. get_node_by_token (cdb s') (rf_auth_token resp) t =
       (if sint t < sint (rf_auth_token_expires_at resp) then Some n else None)) \<and>
    (\<forall>tok' t. tok' \<noteq> rf_auth_token resp \<longrightarrow> get_node_by_token (cdb s') tok' t \<noteq> Some n) \<and>
    (\<forall>tok' t m. m \<noteq> n \<longrightarrow>
       get_node_by_token (cdb s') tok' t = Some m \<longleftrightarrow> get_node_by_token (cdb s) tok' t = Some m)"
proof -
  obtain n tok sig d where t: "extract_bearer headers = Ok tok" "get_node_by_token (cdb s) tok (clock E) = Some n"
    and ins: "create_token (fk_enforced X) (n_node_id n) (generate_token X E) (clock E) (token_ttl_secs s)
       (snd (revoke_all_tokens_for_node (n_node_id n) (cdb s))) = (Ok (), d)"
    and resp: "resp = \<lparr>rf_auth_token = generate_token X E, rf_auth_token_expires_at = clock E + token_ttl_secs s,
             rf_old_token_expires_at = clock E + token_ttl_secs s\<rparr>" and s': "cdb s' = d"
    by (rule refresh_OkD [OF assms(2)])
  have db: "db_ok (cdb s)" "db_ok d"
    using refresh_keeps [OF assms(1), of C X E headers req] assms s' by (simp_all add: coord_ok_def)
  have n: "n \<in> set (db_nodes (cdb s))" by (rule caller_in_nodes [OF assms(1) t(2)])
  let ?u = "\<lparr>t_token = generate_token X E, t_node_id = n_node_id n, t_created_at = clock E,
      t_expires_at = clock E + token_ttl_secs s, t_revoked = False\<rparr>"
  let ?rev = "\<lambda>u. if t_node_id u = n_node_id n \<and> \<not> t_revoked u then u\<lparr>t_revoked := True\<rparr> else u"
  have d: "db_nodes d = db_nodes (cdb s)" "db_tokens d = map ?rev (db_tokens (cdb s)) @ [?u]"
    using ins by (auto simp: create_token_def insert_token_row_def revoke_all_tokens_for_node_def Let_def
        split: if_splits)
  have new: "get_node_by_token d (generate_token X E) t' =
      (if sint t' < sint (clock E + token_ttl_secs s) then Some n else None)" for t'
    using single_token_lookup [OF db(2), of ?u n t'] d n by simp
  have ids: "distinct (map n_node_id (db_nodes (cdb s)))" using db(1) by (simp add: db_ok_def)
  have dead: "get_node_by_token d tok' t' \<noteq> Some n" if "tok' \<noteq> generate_token X E" for tok' t'
  proof
    assume "get_node_by_token d tok' t' = Some n"
    then obtain u where "u \<in> set (db_tokens d)" "t_token u = tok'" "t_node_id u = n_node_id n" "token_live t' u"
      by (rule get_node_by_token_SomeD)
    with that d(2) show False by (auto simp: token_live_def split: if_splits)
  qed
  have others: "get_node_by_token d tok' t' = Some m \<longleftrightarrow> get_node_by_token (cdb s) tok' t' = Some m"
    if m: "m \<noteq> n" for tok' t' m
  proof -
    have id: "n_node_id m \<noteq> n_node_id n" if "m \<in> set (db_nodes (cdb s))"
      using distinct_key [OF ids that n] m by blast
    have "(\<exists>u \<in> set (db_tokens d). t_token u = tok' \<and> t_node_id u = n_node_id m \<and> token_live t' u) \<longleftrightarrow>
        (\<exists>u \<in> set (db_tokens (cdb s)). t_token u = tok' \<and> t_node_id u = n_node_id m \<and> token_live t' u)"
      if "m \<in> set (db_nodes (cdb s))"
      using id [OF that] unfolding d(2) by (auto simp: token_live_def split: if_splits)
    then show ?thesis unfolding get_node_by_token_iff [OF db(1)] get_node_by_token_iff [OF db(2)] d(1) by blast
  qed
  show ?thesis
    using t new dead others d(1) resp s' by (intro exI [of _ n] exI [of _ tok]) simp
qed

text \<open>A refresh replaces all tokens of the caller by one.  After a successful refresh the new token
  finds the caller's node until its expiry, no other token finds this node at any time (the one
  used for the refresh included), every other node's tokens work as before, and no node changes.\<close>

lemma refresh_success:
  assumes "coord_ok s" and "refresh_token C X E headers req s = (Ok resp, s')"
  shows "\<exists>n tok. extract_bearer headers = Ok tok \<and>
    get_node_by_token (cdb s) tok (clock E) = Some n \<and> db_nodes (cdb s') = db_nodes (cdb s) \<and>
    (\<forall>t. get_node_by_token (cdb s') (rf_auth_token resp) t =
       (if sint t < sint (rf_auth_token_expires_at resp) then Some n else None)) \<and>
    (\<forall>tok' t. tok' \<noteq> rf_auth_token resp \<longrightarrow> get_node_by_token (cdb s') tok' t \<noteq> Some n) \<and>
    (\<forall>tok' t m. m \<noteq> n \<longrightarrow>
       get_node_by_token (cdb s') tok' t = Some m \<longleftrightarrow> get_node_by_token (cdb s) tok' t = Some m)"
  by (rule refresh_effect [OF assms])

theorem refresh_success_witness:
  "\<exists>resp s'. refresh_token plain plain_libs demo_request demo_bearer (demo_signed build_refresh_message) demo_coord = (Ok resp, s') \<and>
     get_node_by_token (cdb s') (rf_auth_token resp) 1499 = Some demo_node \<and>
     get_node_by_token (cdb s') ''tok'' 500 \<noteq> Some demo_node"
proof -
  have "length (generate_token plain_libs demo_request) = 32"
    by (simp add: generate_token_def plain_libs_def demo_request_def)
  then have other: "generate_token plain_libs demo_request \<noteq> ''tok''" by auto
  have "n_node_id demo_node = ''a''" by (simp add: demo_node_def)
  with other obtain d where "create_token (fk_enforced plain_libs) (n_node_id demo_node) (generate_token plain_libs demo_request) 500 1000
      (snd (revoke_all_tokens_for_node (n_node_id demo_node) (cdb demo_coord))) = (Ok (), d)"
    by (auto simp: create_token_def insert_token_row_def revoke_all_tokens_for_node_def demo_coord_def demo_token_def Let_def eq_commute)
  moreover have "token_ttl_secs demo_coord = 1000" by (simp add: demo_coord_def)
  ultimately obtain resp s' where r: "refresh_token plain plain_libs demo_request demo_bearer (demo_signed build_refresh_message) demo_coord = (Ok resp, s')"
    "rf_auth_token_expires_at resp = 1500" "rf_auth_token resp = generate_token plain_libs demo_request"
    by (simp add: refresh_token_def andthen_def with_db_def ret_def Let_def)
  from refresh_success [OF demo_coord_ok r(1)] r other show ?thesis by auto
qed

text \<open>An expired token cannot be refreshed.  For a stored token whose expiry has come, a refresh with
  it is refused with \<open>InvalidAuthToken\<close> (or by the rate limit) whatever the request's signature,
  and nothing changes: only a token that is still live can be exchanged.\<close>

lemma expired_token_not_refreshable:
  assumes "db_ok (cdb s)" and "t \<in> set (db_tokens (cdb s))" and "extract_bearer headers = Ok (t_token t)"
    and "sint (t_expires_at t) \<le> sint (clock E)"
  shows "\<exists>e t'. refresh_token C X E headers req s = (Err e, t') \<and>
    (e = InvalidAuthToken \<or> (\<exists>k. e = RateLimited k)) \<and> cdb t' = cdb s"
proof -
  have toks: "distinct (map t_token (db_tokens (cdb s)))" using assms(1) by (simp add: db_ok_def)
  have "\<not> token_live (clock E) u" if "u \<in> set (db_tokens (cdb s))" "t_token u = t_token t" for u
    using distinct_key [OF toks that(1) assms(2) that(2)] assms(4) by (simp add: token_live_def)
  then have none: "get_node_by_token (cdb s) (t_token t) (clock E) = None"
    unfolding get_node_by_token_None by blast
  show ?thesis
    using check_rate_limit_cases [of E Token s] none assms(3)
    by (auto simp: refresh_token_def signed_caller_def andthen_def pure_act_def caller_of_def same_data_def)
qed

theorem expired_token_not_refreshable_witness:
  "\<exists>e t'. refresh_token plain plain_libs (demo_request\<lparr>clock := 1000\<rparr>) demo_bearer (demo_signed build_refresh_message) demo_coord = (Err e, t') \<and>
     (e = InvalidAuthToken \<or> (\<exists>k. e = RateLimited k)) \<and> cdb t' = cdb demo_coord"
proof -
  have "db_ok (cdb demo_coord)" using demo_coord_ok by (simp add: coord_ok_def)
  moreover have "demo_token \<in> set (db_tokens (cdb demo_coord))" "extract_bearer demo_bearer = Ok (t_token demo_token)"
    "sint (t_expires_at demo_token) \<le> sint (clock (demo_request\<lparr>clock := 1000\<rparr>))"
    by (simp_all add: demo_coord_def) (simp_all add: demo_token_def)
  ultimately show ?thesis by (rule expired_token_not_refreshable)
qed

lemma delete_OkD:
  assumes "delete_node C X E headers req s = (Ok c, s')"
  obtains n tok sig s1 where "extract_bearer headers = Ok tok"
    "get_node_by_token (cdb s) tok (clock E) = Some n"
    "identity_verify C (n_identity n) (build_delete_node_message (sg_timestamp req)) sig" "same_data s s1"
    "s' = (let (ip, d) = db_delete_node (n_node_id n) (cdb s1); s2 = s1\<lparr>cdb := d\<rparr> in
       (case Option.bind ip parse_ipv4 of
          Some addr \<Rightarrow> s2\<lparr>ip_alloc := release (v4_octets addr) (ip_alloc s2)\<rparr> | None \<Rightarrow> s2))" "c = 204"
proof -
  from assms obtain n s1 where c: "signed_caller C X E headers req build_delete_node_message s = (Ok n, s1)"
    and rest: "(let (ip, d) = db_delete_node (n_node_id n) (cdb s1); s2 = s1\<lparr>cdb := d\<rparr> in
       (Ok 204, (case Option.bind ip parse_ipv4 of
          Some addr \<Rightarrow> s2\<lparr>ip_alloc := release (v4_octets addr) (ip_alloc s2)\<rparr> | None \<Rightarrow> s2)) :: (coord_error, nat) outcome \<times> coord)
       = (Ok c, s')"
    unfolding delete_node_def andthen_Ok_iff by blast
  obtain tok sig where same: "same_data s s1" and t: "extract_bearer headers = Ok tok"
    "get_node_by_token (cdb s) tok (clock E) = Some n"
    "identity_verify C (n_identity n) (build_delete_node_message (sg_timestamp req)) sig"
    by (rule signed_caller_OkD [OF c])
  from rest show ?thesis
    using that [OF t same] by (cases "db_delete_node (n_node_id n) (cdb s1)") (simp add: Let_def)
qed

text \<open>A node removes itself completely.  After a successful removal the caller's node and every token
  of it are gone, so no token finds it at any time; its address is free again in the allocator;
  every other node, its tokens and its address are untouched.\<close>

lemma delete_success:
  assumes "coord_ok s" and "delete_node C X E headers req s = (Ok c, s')"
  shows "\<exists>n tok a. extract_bearer headers = Ok tok \<and> get_node_by_token (cdb s) tok (clock E) = Some n \<and>
    n_ip n = show_ipv4 (u32_to_be a) \<and> ip_alloc s' = ip_alloc s - {a} \<and>
    db_nodes (cdb s') = filter (\<lambda>m. n_node_id m \<noteq> n_node_id n) (db_nodes (cdb s)) \<and>
    (\<forall>tok' t. get_node_by_token (cdb s') tok' t \<noteq> Some n) \<and>
    (\<forall>tok' t m. m \<noteq> n \<longrightarrow>
       get_node_by_token (cdb s') tok' t = Some m \<longleftrightarrow> get_node_by_token (cdb s) tok' t = Some m)"
proof -
  obtain n tok sig s1 where t: "extract_bearer headers = Ok tok" "get_node_by_token (cdb s) tok (clock E) = Some n"
    and same: "same_data s s1"
    and s': "s' = (let (ip, d) = db_delete_node (n_node_id n) (cdb s1); s2 = s1\<lparr>cdb := d\<rparr> in
       (case Option.bind ip parse_ipv4 of
          Some addr \<Rightarrow> s2\<lparr>ip_alloc := release (v4_octets addr) (ip_alloc s2)\<rparr> | None \<Rightarrow> s2))"
    by (rule delete_OkD [OF assms(2)])
  have n: "n \<in> set (db_nodes (cdb s))" by (rule caller_in_nodes [OF assms(1) t(2)])
  obtain a where a: "n_ip n = show_ipv4 (u32_to_be a)"
    "fst (db_delete_node (n_node_id n) (cdb s)) = Some (n_ip n)" "parse_ipv4 (n_ip n) = Some a"
    by (rule delete_commit [OF assms(1) n])
  let ?d = "snd (db_delete_node (n_node_id n) (cdb s))"
  obtain d where d0: "db_delete_node (n_node_id n) (cdb s) = (Some (n_ip n), d)"
    using a(2) by (cases "db_delete_node (n_node_id n) (cdb s)") simp
  have same': "cdb s1 = cdb s" "ip_alloc s1 = ip_alloc s" using same by (simp_all add: same_data_def)
  have "cdb s' = d" "ip_alloc s' = ip_alloc s - {a}"
    by (simp_all add: s' same' d0 a(3) Let_def release_def v4_octets_def)
  then have eq: "cdb s' = ?d" "ip_alloc s' = ip_alloc s - {a}" using d0 by simp_all
  have db: "db_ok (cdb s)" "db_ok ?d" using assms(1) db_delete_node_ok by (simp_all add: coord_ok_def)
  have d: "db_nodes ?d = filter (\<lambda>m. n_node_id m \<noteq> n_node_id n) (db_nodes (cdb s))"
    "db_tokens ?d = filter (\<lambda>t. t_node_id t \<noteq> n_node_id n) (db_tokens (cdb s))"
    by (simp_all add: db_delete_node_def Let_def)
  have gone: "get_node_by_token ?d tok' t' \<noteq> Some n" for tok' t'
    using get_node_by_token_iff [OF db(2)] d(1) by auto
  have ids: "distinct (map n_node_id (db_nodes (cdb s)))" using db(1) by (simp add: db_ok_def)
  have others: "get_node_by_token ?d tok' t' = Some m \<longleftrightarrow> get_node_by_token (cdb s) tok' t' = Some m"
    if m: "m \<noteq> n" for tok' t' m
  proof -
    have "n_node_id m \<noteq> n_node_id n" if "m \<in> set (db_nodes (cdb s))"
      using distinct_key [OF ids that n] m by blast
    then show ?thesis
      unfolding get_node_by_token_iff [OF db(1)] get_node_by_token_iff [OF db(2)] d by auto
  qed
  show ?thesis
    using t a(1) eq d(1) gone others
    by (intro exI [of _ n] exI [of _ tok] exI [of _ a]) simp
qed

theorem delete_success_witness:
  "\<exists>c s'. delete_node plain plain_libs demo_request demo_bearer (demo_signed build_delete_node_message) demo_coord = (Ok c, s') \<and>
     ip_alloc s' = {} \<and> db_nodes (cdb s') = [] \<and> get_node_by_token (cdb s') ''tok'' 500 \<noteq> Some demo_node"
proof -
  obtain c s' where r: "delete_node plain plain_libs demo_request demo_bearer (demo_signed build_delete_node_message) demo_coord = (Ok c, s')"
    by (cases "db_delete_node (n_node_id demo_node) (cdb demo_coord)") (simp add: delete_node_def andthen_def Let_def)
  have a: "n_ip demo_node = show_ipv4 (u32_to_be b) \<longleftrightarrow> IP_POOL_FIRST_HOST = b" for b
    by (simp add: demo_node_def show_ipv4_inj)
  have data: "ip_alloc demo_coord = {IP_POOL_FIRST_HOST}" "db_nodes (cdb demo_coord) = [demo_node]"
    by (simp_all add: demo_coord_def)
  from delete_success [OF demo_coord_ok r] r show ?thesis
    by (auto simp: a data)
qed

lemma heartbeat_effect:
  assumes "heartbeat C X E headers req s = (Ok c, s')"
  shows "c = 200 \<and> (\<exists>n tok sig. extract_bearer headers = Ok tok \<and>
    get_node_by_token (cdb s) tok (clock E) = Some n \<and>
    identity_verify C (n_identity n)
      (build_heartbeat_message (hb_timestamp req) (hb_endpoint req) (hb_via_relay req)) sig \<and>
    db_tokens (cdb s') = db_tokens (cdb s) \<and> ip_alloc s' = ip_alloc s \<and>
    db_nodes (cdb s') =
      map (\<lambda>m. if n_node_id m = n_node_id n
               then m\<lparr>n_last_endpoint := Some (hb_endpoint req), n_last_seen := Some (clock E),
                      n_via_relay := (case hb_via_relay req of Some r \<Rightarrow> Some r | None \<Rightarrow> n_via_relay m)\<rparr>
               else m) (db_nodes (cdb s))) \<and>
    (\<forall>r. hb_via_relay req = Some r \<longrightarrow> parse_socket_addr r \<noteq> None)"
proof -
  from assms obtain n s1 where c: "heartbeat_checks C X E headers req s = (Ok n, s1)"
    and rest: "heartbeat_commit E req n s1 = (Ok c, s')"
    unfolding heartbeat_eq andthen_Ok_iff by blast
  obtain tok sig where same: "same_data s s1" and t: "extract_bearer headers = Ok tok"
    "get_node_by_token (cdb s) tok (clock E) = Some n"
    "identity_verify C (n_identity n)
       (build_heartbeat_message (hb_timestamp req) (hb_endpoint req) (hb_via_relay req)) sig"
    and relay: "\<And>r. hb_via_relay req = Some r \<Longrightarrow> parse_socket_addr r \<noteq> None"
    by (rule heartbeat_checks_OkD [OF c]) blast
  from rest same t relay show ?thesis
    by (auto simp: heartbeat_commit_def same_data_def update_heartbeat_def update_nodes_def coalesce_def
        intro!: exI [of _ n])
qed

text \<open>What a heartbeat records.  A successful heartbeat was signed by the caller's identity key; it
  sets the caller's last endpoint and last-seen time, and its relay when one is given (which
  then parses as a socket address); without a relay the stored one stays, so a node can never
  clear it; every other node, all tokens and all addresses are untouched.\<close>

lemma heartbeat_success:
  assumes "heartbeat C X E headers req s = (Ok c, s')"
  shows "c = 200 \<and> (\<exists>n tok sig. extract_bearer headers = Ok tok \<and>
    get_node_by_token (cdb s) tok (clock E) = Some n \<and>
    identity_verify C (n_identity n)
      (build_heartbeat_message (hb_timestamp req) (hb_endpoint req) (hb_via_relay req)) sig \<and>
    db_tokens (cdb s') = db_tokens (cdb s) \<and> ip_alloc s' = ip_alloc s \<and>
    db_nodes (cdb s') =
      map (\<lambda>m. if n_node_id m = n_node_id n
               then m\<lparr>n_last_endpoint := Some (hb_endpoint req), n_last_seen := Some (clock E),
                      n_via_relay := (case hb_via_relay req of Some r \<Rightarrow> Some r | None \<Rightarrow> n_via_relay m)\<rparr>
               else m) (db_nodes (cdb s))) \<and>
    (\<forall>r. hb_via_relay req = Some r \<longrightarrow> parse_socket_addr r \<noteq> None)"
  by (rule heartbeat_effect [OF assms])

theorem heartbeat_success_witness:
  "\<exists>s'. heartbeat plain plain_libs demo_request demo_bearer demo_heartbeat demo_coord = (Ok 200, s') \<and>
     db_nodes (cdb s') = [demo_node\<lparr>n_last_endpoint := Some ''1.2.3.4:5'', n_last_seen := Some 500\<rparr>] \<and>
     ip_alloc s' = {IP_POOL_FIRST_HOST}"
proof -
  obtain s' where r: "heartbeat plain plain_libs demo_request demo_bearer demo_heartbeat demo_coord = (Ok 200, s')"
    by (simp add: demo_heartbeat_done)
  have "db_nodes (cdb demo_coord) = [demo_node]" "ip_alloc demo_coord = {IP_POOL_FIRST_HOST}"
    "n_via_relay demo_node = None" by (simp_all add: demo_coord_def demo_node_def)
  with heartbeat_success [OF r] r show ?thesis
    by (auto simp: demo_heartbeat_def)
qed

lemma peers_effect:
  assumes "coord_ok s" and "peers_route X E headers s = (Ok entries, s')"
  shows "\<exists>n tok. extract_bearer headers = Ok tok \<and> get_node_by_token (cdb s) tok (clock E) = Some n \<and>
    entries = map (peer_entry_of X) (filter (\<lambda>m. m \<noteq> n) (db_nodes (cdb s))) \<and> same_data s s'"
proof -
  obtain tok n s1 where t: "extract_bearer headers = Ok tok" "get_node_by_token (cdb s1) tok (clock E) = Some n"
    "same_data s s1" "entries = map (peer_entry_of X) (list_peers (cdb s1) (Some (n_node_id n)))" "s' = s1"
    using assms(2) by (auto simp: peers_route_def andthen_Ok_iff dest!: check_rate_limit_OkD)
  have n: "n \<in> set (db_nodes (cdb s))" using t(2,3) caller_in_nodes [OF assms(1)] by (simp add: same_data_def)
  have "distinct (map n_node_id (db_nodes (cdb s)))" using assms(1) by (simp add: coord_ok_def db_ok_def)
  then have "n_node_id m \<noteq> n_node_id n \<longleftrightarrow> m \<noteq> n" if "m \<in> set (db_nodes (cdb s))" for m
    using distinct_key that n by metis
  then have "filter (\<lambda>m. n_node_id m \<noteq> n_node_id n) (db_nodes (cdb s)) = filter (\<lambda>m. m \<noteq> n) (db_nodes (cdb s))"
    by (rule filter_cong [OF refl])
  with t show ?thesis by (auto simp: same_data_def list_peers_def)
qed

text \<open>What a peer list contains.  A successful listing answers every node but the caller's, each once
  and in the order of the table, with its WireGuard key in base64 and never its identity key or a
  token.\<close>

lemma peers_listing:
  assumes "coord_ok s" and "peers_route X E headers s = (Ok entries, s')"
  shows "\<exists>n tok. extract_bearer headers = Ok tok \<and> get_node_by_token (cdb s) tok (clock E) = Some n \<and>
    entries = map (peer_entry_of X) (filter (\<lambda>m. m \<noteq> n) (db_nodes (cdb s))) \<and> same_data s s'"
  by (rule peers_effect [OF assms])

theorem peers_listing_witness:
  "\<exists>s'. peers_route plain_libs demo_request demo_bearer demo_coord = (Ok [], s') \<and> same_data demo_coord s'"
proof -
  obtain entries s' where r: "peers_route plain_libs demo_request demo_bearer demo_coord = (Ok entries, s')"
    by (simp add: peers_route_def andthen_def pure_act_def)
  have "db_nodes (cdb demo_coord) = [demo_node]" by (simp add: demo_coord_def)
  with peers_listing [OF demo_coord_ok r] r show ?thesis by auto
qed

end
