(* ===== verification/Cli_Client.thy ===== *)
theory Cli_Client
  imports Keystore_Props Coord_Props
begin

text \<open>
  \<open>naboscale-cli/src/client.rs\<close>: the HTTP client of the coordination server.  A request is the typed
  JSON body with its route and Authorization header (\<open>http_request\<close> of the server's model);
  \<open>exchange\<close> stands for reqwest and the network: it takes the base URL and the request to a
  response of the server or to a transport error, and may change the state behind the network.
  A handler that panics closes the connection.
\<close>

type_synonym 'srv net = "string \<Rightarrow> http_request \<Rightarrow> ('srv, string, http_response) act"

record coord_client =
  base_url :: string

definition client_new :: "string \<Rightarrow> coord_client" where
  "client_new url = \<lparr>base_url = trim_end_matches (CHR ''/'') url\<rparr>"

definition bearer_auth :: "string \<Rightarrow> string option" where
  "bearer_auth token = Some (''Bearer '' @ token)"

definition is_success :: "nat \<Rightarrow> bool" where
  "is_success st \<longleftrightarrow> 200 \<le> st \<and> st < 300"

text \<open>\<open>on_success\<close>: a refused request is an error; \<open>decoded\<close> reads the body of an accepted one.\<close>

fun on_success ::
  "string \<Rightarrow> (http_response \<Rightarrow> (cli_error, 'a) outcome) \<Rightarrow> http_response \<Rightarrow> (cli_error, 'a) outcome" where
  "on_success what decoded (ErrorResponse st ra) = Err (ServerError what)"
| "on_success what decoded (HandlerPanic msg) = Err (HttpError msg)"
| "on_success what decoded (StatusResponse st) =
     (if is_success st then decoded (StatusResponse st) else Err (ServerError what))"
| "on_success what decoded resp = decoded resp"

definition send_request ::
  "'srv net \<Rightarrow> coord_client \<Rightarrow> http_request \<Rightarrow> string \<Rightarrow> (http_response \<Rightarrow> (cli_error, 'a) outcome) \<Rightarrow>
   ('srv, cli_error, 'a) act" where
  "send_request exchange c req what decoded =
     andthen (map_err HttpError (exchange (base_url c) req)) (\<lambda>resp. pure_act (on_success what decoded resp))"

text \<open>The health route answers text, and \<open>health\<close> does not look at the status; an error response has a
  JSON body, whose text is left open.\<close>

definition client_health :: "'srv net \<Rightarrow> coord_client \<Rightarrow> (http_response \<Rightarrow> string) \<Rightarrow> ('srv, cli_error, string) act" where
  "client_health exchange c body_text =
     andthen (map_err HttpError (exchange (base_url c) GetHealth))
       (\<lambda>resp. pure_act (case resp of
            HealthResponse t \<Rightarrow> Ok t
          | HandlerPanic msg \<Rightarrow> Err (HttpError msg)
          | other \<Rightarrow> Ok (body_text other)))"

definition client_register ::
  "('hs, 'ts) crypto \<Rightarrow> coord_libs \<Rightarrow> 'srv net \<Rightarrow> i64 \<Rightarrow> coord_client \<Rightarrow> identity \<Rightarrow> bytes \<Rightarrow>
   ('srv, cli_error, register_response) act" where
  "client_register C X exchange timestamp c i wg_pubkey =
     (let msg = str_bytes ''register'' @ u64_to_be timestamp @ identity_public i @ wg_pubkey;
          sig = identity_sign C i msg;
          body = \<lparr>rq_identity_pubkey = b64_encode X (identity_public i),
                  rq_wg_pubkey = b64_encode X wg_pubkey, rq_timestamp = timestamp,
                  rq_signature = b64_encode X sig\<rparr>
      in send_request exchange c (PostRegister body) ''register failed''
           (\<lambda>resp. case resp of
              RegisteredResponse r \<Rightarrow> Ok r
            | _ \<Rightarrow> Err (HttpError ''error decoding response body'')))"

definition client_peers :: "'srv net \<Rightarrow> coord_client \<Rightarrow> string \<Rightarrow> ('srv, cli_error, peer_entry list) act" where
  "client_peers exchange c auth_token =
     send_request exchange c (GetPeers (bearer_auth auth_token)) ''peers failed''
       (\<lambda>resp. case resp of
          PeersResponse es \<Rightarrow> Ok es
        | _ \<Rightarrow> Err (ServerError ''peers response missing peers field''))"

definition client_heartbeat ::
  "('hs, 'ts) crypto \<Rightarrow> coord_libs \<Rightarrow> 'srv net \<Rightarrow> i64 \<Rightarrow> coord_client \<Rightarrow> identity \<Rightarrow> string \<Rightarrow> string \<Rightarrow>
   string option \<Rightarrow> ('srv, cli_error, unit) act" where
  "client_heartbeat C X exchange timestamp c i auth_token endpoint relay =
     (let msg = str_bytes ''heartbeat'' @ u64_to_be timestamp @ str_bytes endpoint @
                (case relay of Some r \<Rightarrow> [0] @ str_bytes r | None \<Rightarrow> [1]);
          sig = identity_sign C i msg;
          body = \<lparr>hb_endpoint = endpoint, hb_via_relay = relay, hb_timestamp = timestamp,
                  hb_signature = b64_encode X sig\<rparr>
      in send_request exchange c (PostHeartbeat (bearer_auth auth_token) body) ''heartbeat failed''
           (\<lambda>resp. Ok ()))"

definition client_refresh_token ::
  "('hs, 'ts) crypto \<Rightarrow> coord_libs \<Rightarrow> 'srv net \<Rightarrow> i64 \<Rightarrow> coord_client \<Rightarrow> identity \<Rightarrow> string \<Rightarrow>
   ('srv, cli_error, refresh_response) act" where
  "client_refresh_token C X exchange timestamp c i auth_token =
     (let msg = str_bytes ''token_refresh'' @ u64_to_be timestamp;
          sig = identity_sign C i msg;
          body = \<lparr>sg_timestamp = timestamp, sg_signature = b64_encode X sig\<rparr>
      in send_request exchange c (PostTokenRefresh (bearer_auth auth_token) body) ''refresh_token failed''
           (\<lambda>resp. case resp of
              RefreshedResponse r \<Rightarrow> Ok r
            | _ \<Rightarrow> Err (HttpError ''error decoding response body'')))"

definition client_delete_node ::
  "('hs, 'ts) crypto \<Rightarrow> coord_libs \<Rightarrow> 'srv net \<Rightarrow> i64 \<Rightarrow> coord_client \<Rightarrow> identity \<Rightarrow> string \<Rightarrow>
   ('srv, cli_error, unit) act" where
  "client_delete_node C X exchange timestamp c i auth_token =
     (let msg = str_bytes ''delete_node'' @ u64_to_be timestamp;
          sig = identity_sign C i msg;
          body = \<lparr>sg_timestamp = timestamp, sg_signature = b64_encode X sig\<rparr>
      in send_request exchange c (DeleteNode (bearer_auth auth_token) body) ''delete_node failed''
           (\<lambda>resp. Ok ()))"

section \<open>The client's messages are the server's messages\<close>

lemma client_messages:
  "str_bytes ''register'' @ u64_to_be t @ i @ w = build_register_message t i w"
  "str_bytes ''heartbeat'' @ u64_to_be t @ str_bytes e @ (case r of Some x \<Rightarrow> [0] @ str_bytes x | None \<Rightarrow> [1]) =
     build_heartbeat_message t e r"
  "str_bytes ''token_refresh'' @ u64_to_be t = build_refresh_message t"
  "str_bytes ''delete_node'' @ u64_to_be t = build_delete_node_message t"
  by (simp_all add: build_register_message_def build_heartbeat_message_def build_refresh_message_def
      build_delete_node_message_def REGISTER_TAG_def HEARTBEAT_TAG_def REFRESH_TAG_def DELETE_NODE_TAG_def
      split: option.split)

lemma bearer_read_back [simp]: "extract_bearer (bearer_auth token) = Ok token"
  by (simp add: extract_bearer_def bearer_auth_def)

section \<open>The client on the server's model\<close>

text \<open>The network that delivers every request to one coordination server, with the environment that
  request sees there.\<close>

definition direct :: "('hs, 'ts) crypto \<Rightarrow> coord_libs \<Rightarrow> coord_env \<Rightarrow> coord net" where
  "direct C X E url req s = (case handle_request C X E req s of (resp, s') \<Rightarrow> (Ok resp, s'))"

text \<open>What the base64 engine promises.\<close>

definition base64_works :: "coord_libs \<Rightarrow> bool" where
  "base64_works X \<longleftrightarrow> (\<forall>bs. b64_decode X (b64_encode X bs) = Inr bs)"

lemma base64_decodes:
  "base64_works X \<Longrightarrow> length bs = 32 \<Longrightarrow> decode_pubkey X (b64_encode X bs) = Ok bs"
  "base64_works X \<Longrightarrow> length bs = 64 \<Longrightarrow> decode_signature X (b64_encode X bs) = Ok bs"
  by (simp_all add: base64_works_def decode_pubkey_def decode_signature_def)

text \<open>An identity made from a private key.\<close>

definition own_identity :: "('hs, 'ts) crypto \<Rightarrow> identity \<Rightarrow> bool" where
  "own_identity C i \<longleftrightarrow> length (signing_key i) = 32 \<and> i = identity_from_bytes C (signing_key i)"

lemma own_identity_from_bytes [simp]: "length sk = 32 \<Longrightarrow> own_identity C (identity_from_bytes C sk)"
  by (simp add: own_identity_def identity_from_bytes_def)

lemma own_identityD:
  assumes "signatures_verify C" and "own_identity C i"
  shows "identity_verify C (identity_public i) m (identity_sign C i m)"
    "length (identity_public i) = 32" "length (identity_sign C i m) = 64"
proof -
  from assms(2) obtain sk where sk: "length sk = 32" "i = identity_from_bytes C sk"
    unfolding own_identity_def by blast
  show "identity_verify C (identity_public i) m (identity_sign C i m)"
    using own_signature_verifies [OF assms(1) sk(1)] sk(2) by simp
  show "length (identity_public i) = 32" "length (identity_sign C i m) = 64"
    using assms(1) sk by (simp_all add: signatures_verify_def identity_public_def identity_sign_def identity_from_bytes_def)
qed

text \<open>A server that lets requests of this address through.\<close>

definition admits :: "coord_env \<Rightarrow> bucket \<Rightarrow> coord \<Rightarrow> bool" where
  "admits E b s \<longleftrightarrow> is_ok (fst (check_rate_limit E b s))"

lemma admitsE:
  assumes "admits E b s"
  obtains s1 where "check_rate_limit E b s = (Ok (), s1)" "same_data s s1"
  using assms check_rate_limit_cases [of E b s] by (auto simp: admits_def)

end
