(* ===== verification/Cli_Platform.thy ===== *)
theory Cli_Platform
  imports Cli_Disk
begin

text \<open>
  \<open>naboscale-cli/src/platform.rs\<close>: the system commands that configure the TUN interface and the
  route.  \<open>platform\<close> says which operating system the program was built for and how a command
  ends: it cannot be started, or it exits with success or failure.  The state of the operations
  is the list of the command lines run so far.
\<close>

datatype target_os = MacOs | Linux | OtherOs

record platform =
  target :: target_os
  exits :: "string list \<Rightarrow> io_error + bool"

type_synonym shell = "(string list list, cli_error, unit) act"

definition run_command :: "platform \<Rightarrow> string list \<Rightarrow> string \<Rightarrow> shell" where
  "run_command P argv failed cmds =
     (case exits P argv of
        Inl e \<Rightarrow> (Err (CliIo e), cmds)
      | Inr ok \<Rightarrow> ((if ok then Ok () else Err (ServerError failed)), cmds @ [argv]))"

definition configure_tun_macos :: "platform \<Rightarrow> string \<Rightarrow> string \<Rightarrow> string \<Rightarrow> shell" where
  "configure_tun_macos P name local_addr peer_addr =
     run_command P [''ifconfig'', name, local_addr, peer_addr]
       (''ifconfig '' @ name @ '' '' @ local_addr @ '' '' @ peer_addr @ '' failed'')"

definition configure_tun_linux :: "platform \<Rightarrow> string \<Rightarrow> string \<Rightarrow> shell" where
  "configure_tun_linux P name local_addr =
     andthen (run_command P [''ip'', ''addr'', ''add'', local_addr @ ''/32'', ''dev'', name]
                (''ip addr add failed for '' @ name)) (\<lambda>_.
       run_command P [''ip'', ''link'', ''set'', name, ''up'']
         (''ip link set up failed for '' @ name))"

definition configure_tun :: "platform \<Rightarrow> string \<Rightarrow> string \<Rightarrow> string \<Rightarrow> shell" where
  "configure_tun P name local_addr peer_addr =
     (case target P of
        MacOs \<Rightarrow> configure_tun_macos P name local_addr peer_addr
      | Linux \<Rightarrow> configure_tun_linux P name local_addr
      | OtherOs \<Rightarrow> pure_act (Err (ServerError ''TUN auto-configuration not implemented for this OS'')))"

definition add_route_macos :: "platform \<Rightarrow> string \<Rightarrow> string \<Rightarrow> shell" where
  "add_route_macos P dest tun_name =
     run_command P [''route'', ''-n'', ''add'', ''-net'', dest, ''-interface'', tun_name]
       (''route add -net '' @ dest @ '' -interface '' @ tun_name @ '' failed'')"

definition add_route_linux :: "platform \<Rightarrow> string \<Rightarrow> string \<Rightarrow> shell" where
  "add_route_linux P dest tun_name =
     run_command P [''ip'', ''route'', ''replace'', dest, ''dev'', tun_name]
       (''ip route replace '' @ dest @ '' dev '' @ tun_name @ '' failed'')"

definition add_route :: "platform \<Rightarrow> string \<Rightarrow> string \<Rightarrow> shell" where
  "add_route P dest tun_name =
     (case target P of
        MacOs \<Rightarrow> add_route_macos P dest tun_name
      | Linux \<Rightarrow> add_route_linux P dest tun_name
      | OtherOs \<Rightarrow> pure_act (Err (ServerError ''route management not implemented for this OS'')))"

definition platform_parse_ipv4 :: "string \<Rightarrow> (cli_error, u32) outcome" where
  "platform_parse_ipv4 s =
     (case parse_ipv4 s of Some a \<Rightarrow> Ok a | None \<Rightarrow> Err (ServerError (''invalid IPv4: '' @ s)))"

end
