(* ===== verification/Cli_Commands.thy ===== *)
theory Cli_Commands
  imports Cli_Client Cli_Platform
begin

text \<open>
  The commands of \<open>naboscale-cli/src/cli.rs\<close> apart from \<open>up\<close>, and the files they keep
  (\<open>state.rs\<close>, \<open>config.rs\<close>, \<open>identity.rs\<close>).

  A command works on a \<open>world\<close>: the disk, whatever is behind the network, and the system
  commands run so far.  Its surroundings
  are one record \<open>cli_ctx\<close>: the libraries, the JSON and TOML codecs, the network, the faults of
  the operating system, the passphrase variable and the system time, which is read once per
  command.  Output is left out, except where producing it can panic.
\<close>

section \<open>Surroundings\<close>

record peer_info =
  pi_node_id :: string
  pi_wg_pubkey_b64 :: string
  pi_ip :: string
  pi_last_endpoint :: "string option"
  pi_via_relay :: "string option"

record cli_state =
  st_node_id :: string
  st_ip :: string
  st_auth_token :: string
  st_auth_token_expires_at :: "i64 option"
  st_last_endpoint :: "string option"
  st_last_handshake_at :: "i64 option"
  st_known_peers :: "peer_info list"

record cli_config =
  server_url :: string

record codecs =
  state_to_json :: "cli_state \<Rightarrow> string + string"
  state_from_json :: "string \<Rightarrow> string + cli_state"
  config_to_toml :: "cli_config \<Rightarrow> string + string"
  config_from_toml :: "string \<Rightarrow> string + cli_config"

record ('hs, 'ts, 'srv) cli_ctx =
  x_crypto :: "('hs, 'ts) crypto"
  x_libs :: coord_libs
  x_keys :: key_libs
  x_codecs :: codecs
  x_net :: "'srv net"
  x_faults :: faults
  x_var :: "string option"
  x_now :: i64

record 'srv world =
  w_disk :: disk
  w_server :: 'srv
  w_commands :: "string list list"

type_synonym ('srv, 'a) wact = "('srv world, cli_error, 'a) act"

definition on_disk :: "'a fsact \<Rightarrow> ('srv, 'a) wact" where
  "on_disk f w = (case f (w_disk w) of (r, d) \<Rightarrow> (r, w\<lparr>w_disk := d\<rparr>))"

definition on_server :: "('srv, cli_error, 'a) act \<Rightarrow> ('srv, 'a) wact" where
  "on_server f w = (case f (w_server w) of (r, s) \<Rightarrow> (r, w\<lparr>w_server := s\<rparr>))"

definition on_shell :: "shell \<Rightarrow> ('srv, unit) wact" where
  "on_shell f w = (case f (w_commands w) of (r, cmds) \<Rightarrow> (r, w\<lparr>w_commands := cmds\<rparr>))"

section \<open>Files of a node\<close>

definition IDENTITY_FILE :: string where "IDENTITY_FILE = ''identity.key''"
definition WG_KEY_FILE :: string where "WG_KEY_FILE = ''wg.key''"
definition CONFIG_FILE :: string where "CONFIG_FILE = ''config.toml''"
definition STATE_FILE :: string where "STATE_FILE = ''state.json''"

definition identity_exists :: "path \<Rightarrow> disk \<Rightarrow> bool" where
  "identity_exists dir d \<longleftrightarrow> path_exists (join dir IDENTITY_FILE) d \<and> path_exists (join dir WG_KEY_FILE) d"

text \<open>The unencrypted key files of earlier versions.\<close>

definition load_identity :: "('hs, 'ts) crypto \<Rightarrow> faults \<Rightarrow> path \<Rightarrow> identity fsact" where
  "load_identity C F dir =
     andthen (map_err (\<lambda>e. NotInitialized dir) (fs_read F (join dir IDENTITY_FILE))) (\<lambda>bs.
       pure_act (if length bs \<noteq> 32 then Err (BadConfig ''identity.key has wrong length'')
                 else Ok (identity_from_bytes C bs)))"

definition save_identity :: "faults \<Rightarrow> path \<Rightarrow> identity \<Rightarrow> unit fsact" where
  "save_identity F dir i = map_err CliIo (fs_write F (join dir IDENTITY_FILE) (identity_private_bytes i))"

definition load_wg_key :: "('hs, 'ts) crypto \<Rightarrow> faults \<Rightarrow> path \<Rightarrow> keypair fsact" where
  "load_wg_key C F dir =
     andthen (map_err (\<lambda>e. NotInitialized dir) (fs_read F (join dir WG_KEY_FILE))) (\<lambda>bs.
       pure_act (if length bs \<noteq> 32 then Err (BadConfig ''wg.key has wrong length'')
                 else Ok (keypair_from_bytes C bs)))"

definition save_wg_key :: "faults \<Rightarrow> path \<Rightarrow> keypair \<Rightarrow> unit fsact" where
  "save_wg_key F dir kp = map_err CliIo (fs_write F (join dir WG_KEY_FILE) (kp_secret kp))"

definition ensure_dir :: "faults \<Rightarrow> path \<Rightarrow> unit fsact" where
  "ensure_dir F dir d =
     (if \<not> path_exists dir d then map_err CliIo (fs_create_dir_all F dir) d else (Ok (), d))"

definition state_load :: "codecs \<Rightarrow> faults \<Rightarrow> path \<Rightarrow> cli_state fsact" where
  "state_load J F dir =
     andthen (map_err CliIo (fs_read_to_string F (join dir STATE_FILE)))
       (\<lambda>text. pure_act (case state_from_json J text of Inl e \<Rightarrow> Err (CliJson e) | Inr s \<Rightarrow> Ok s))"

definition state_save :: "codecs \<Rightarrow> faults \<Rightarrow> path \<Rightarrow> cli_state \<Rightarrow> unit fsact" where
  "state_save J F dir s d =
     (case state_to_json J s of
        Inl e \<Rightarrow> (Err (CliJson e), d)
      | Inr text \<Rightarrow> map_err CliIo (fs_write F (join dir STATE_FILE) (str_bytes text)) d)"

definition state_exists :: "path \<Rightarrow> disk \<Rightarrow> bool" where
  "state_exists dir d = path_exists (join dir STATE_FILE) d"

definition config_load :: "codecs \<Rightarrow> faults \<Rightarrow> path \<Rightarrow> cli_config fsact" where
  "config_load J F dir =
     andthen (map_err (\<lambda>e. ConfigMissing) (fs_read_to_string F (join dir CONFIG_FILE)))
       (\<lambda>text. pure_act (case config_from_toml J text of Inl e \<Rightarrow> Err (TomlDe e) | Inr c \<Rightarrow> Ok c))"

definition config_save :: "codecs \<Rightarrow> faults \<Rightarrow> path \<Rightarrow> cli_config \<Rightarrow> unit fsact" where
  "config_save J F dir c d =
     (case config_to_toml J c of
        Inl e \<Rightarrow> (Err (TomlSer e), d)
      | Inr text \<Rightarrow> map_err CliIo (fs_write F (join dir CONFIG_FILE) (str_bytes text)) d)"

definition default_with_server :: "string \<Rightarrow> cli_config" where
  "default_with_server url = \<lparr>server_url = url\<rparr>"

section \<open>Where things come from\<close>

definition resolve_passphrase_source :: "faults \<Rightarrow> path option \<Rightarrow> disk \<Rightarrow> passphrase_source" where
  "resolve_passphrase_source F pfile d =
     (case pfile of
        Some p \<Rightarrow>
          (case fst (read_passphrase_file F p d) of Ok b \<Rightarrow> PassBytes b | _ \<Rightarrow> PassEnv)
      | None \<Rightarrow> PassEnv)"

definition resolve_config_dir :: "path option \<Rightarrow> path option \<Rightarrow> (cli_error, path) outcome" where
  "resolve_config_dir system_config_dir override_dir =
     (case override_dir of
        Some d \<Rightarrow> Ok d
      | None \<Rightarrow> (case system_config_dir of None \<Rightarrow> Err NoConfigDir | Some base \<Rightarrow> Ok (join base ''naboscale'')))"

definition open_store :: "('hs, 'ts, 'srv) cli_ctx \<Rightarrow> path \<Rightarrow> passphrase_source \<Rightarrow> ('srv, opened_keys) wact" where
  "open_store x dir pp =
     andthen (pure_act (resolve (x_var x) pp)) (\<lambda>passphrase.
       on_disk (opened_keys_open (x_crypto x) (x_keys x) (x_faults x) dir passphrase))"

definition is_token_expired :: "i64 \<Rightarrow> i64 option \<Rightarrow> bool" where
  "is_token_expired t expires_at =
     (case expires_at of None \<Rightarrow> True | Some e \<Rightarrow> sint e \<le> sint t)"

definition is_token_expired_soon :: "i64 \<Rightarrow> i64 option \<Rightarrow> i64 \<Rightarrow> bool" where
  "is_token_expired_soon t expires_at grace_secs =
     (case expires_at of None \<Rightarrow> True | Some e \<Rightarrow> sint e \<le> sint (t + grace_secs))"

section \<open>init\<close>

record init_random =
  r_identity :: bytes
  r_wg :: bytes
  r_identity_envelope :: "bytes \<times> bytes"
  r_wg_envelope :: "bytes \<times> bytes"

definition cmd_init ::
  "('hs, 'ts, 'srv) cli_ctx \<Rightarrow> init_random \<Rightarrow> path \<Rightarrow> string \<Rightarrow> bool \<Rightarrow> passphrase_source \<Rightarrow> unit fsact" where
  "cmd_init x rnd dir srv force pp =
     andthen (ensure_dir (x_faults x) dir) (\<lambda>_ d.
       if identity_exists dir d \<and> \<not> force
       then (Err (BadConfig ''identity already exists; use --force to overwrite''), d)
       else
         (case resolve (x_var x) pp of
            Err e \<Rightarrow> (Err e, d)
          | Panic msg \<Rightarrow> (Panic msg, d)
          | Ok None \<Rightarrow> (Err (BadConfig ''initializing an encrypted keystore requires a passphrase. set NABOSCALE_PASSPHRASE or pass --passphrase-file <path>''), d)
          | Ok (Some passphrase) \<Rightarrow>
              let i = identity_generate (x_crypto x) (r_identity rnd);
                  wg = keypair_generate (x_crypto x) (r_wg rnd)
              in andthen (save_key (x_keys x) (x_faults x) (r_identity_envelope rnd) dir IdentityKey
                            (identity_private_bytes i) passphrase) (\<lambda>_.
                 andthen (save_key (x_keys x) (x_faults x) (r_wg_envelope rnd) dir WgKey
                            (kp_secret wg) passphrase) (\<lambda>_.
                   config_save (x_codecs x) (x_faults x) dir (default_with_server srv))) d))"

section \<open>Commands that talk to the server\<close>

definition cmd_register :: "('hs, 'ts, 'srv) cli_ctx \<Rightarrow> path \<Rightarrow> passphrase_source \<Rightarrow> ('srv, cli_state) wact" where
  "cmd_register x dir pp =
     andthen (on_disk (ensure_dir (x_faults x) dir)) (\<lambda>_.
     andthen (open_store x dir pp) (\<lambda>ks.
     andthen (on_disk (config_load (x_codecs x) (x_faults x) dir)) (\<lambda>cfg.
     andthen (on_server (client_register (x_crypto x) (x_libs x) (x_net x) (x_now x)
                (client_new (server_url cfg)) (ok_identity ks) (kp_public (ok_wg ks)))) (\<lambda>resp.
       let s = \<lparr>st_node_id = rs_node_id resp, st_ip = rs_ip resp, st_auth_token = rs_auth_token resp,
                st_auth_token_expires_at = Some (rs_auth_token_expires_at resp),
                st_last_endpoint = None, st_last_handshake_at = None, st_known_peers = []\<rparr>
       in andthen (on_disk (state_save (x_codecs x) (x_faults x) dir s)) (\<lambda>_. ret s)))))"

definition peer_info_of :: "peer_entry \<Rightarrow> peer_info" where
  "peer_info_of p =
     \<lparr>pi_node_id = pe_node_id p, pi_wg_pubkey_b64 = pe_wg_pubkey p, pi_ip = pe_ip p,
      pi_last_endpoint = pe_last_endpoint p, pi_via_relay = pe_via_relay p\<rparr>"

text \<open>\<open>&s[..n]\<close> panics past the end and inside a character.\<close>

definition is_continuation :: "char \<Rightarrow> bool" where
  "is_continuation c \<longleftrightarrow> 0x80 \<le> (of_char c :: nat) \<and> (of_char c :: nat) < 0xC0"

definition str_prefix :: "nat \<Rightarrow> string \<Rightarrow> (cli_error, string) outcome" where
  "str_prefix n s =
     (if n = length s \<or> n < length s \<and> \<not> is_continuation (s ! n) then Ok (take n s)
      else Panic ''byte index is out of bounds or not a char boundary'')"

definition print_peers :: "peer_info list \<Rightarrow> ('srv, unit) wact" where
  "print_peers = for_each (\<lambda>p. andthen (pure_act (str_prefix 16 (pi_wg_pubkey_b64 p))) (\<lambda>_. ret ()))"

definition cmd_peers :: "('hs, 'ts, 'srv) cli_ctx \<Rightarrow> path \<Rightarrow> passphrase_source \<Rightarrow> ('srv, unit) wact" where
  "cmd_peers x dir pp =
     andthen (open_store x dir pp) (\<lambda>ks.
     andthen (on_disk (config_load (x_codecs x) (x_faults x) dir)) (\<lambda>cfg.
     andthen (on_disk (state_load (x_codecs x) (x_faults x) dir)) (\<lambda>s.
     andthen (on_server (client_peers (x_net x) (client_new (server_url cfg)) (st_auth_token s))) (\<lambda>peers.
       let updated = s\<lparr>st_known_peers := map peer_info_of peers\<rparr>
       in andthen (on_disk (state_save (x_codecs x) (x_faults x) dir updated))
            (\<lambda>_. print_peers (st_known_peers updated))))))"

datatype token_line = TokenRemaining i64 i64 | TokenIsExpired | TokenUnknown

definition token_status :: "i64 \<Rightarrow> i64 option \<Rightarrow> token_line" where
  "token_status t expires_at =
     (case expires_at of
        Some e \<Rightarrow> (if sint t < sint e then TokenRemaining e (e - t) else TokenIsExpired)
      | None \<Rightarrow> TokenUnknown)"

definition cmd_status :: "('hs, 'ts, 'srv) cli_ctx \<Rightarrow> path \<Rightarrow> (cli_config \<times> cli_state \<times> token_line) fsact" where
  "cmd_status x dir d =
     (if \<not> state_exists dir d then (Err (NotInitialized dir), d)
      else
        andthen (state_load (x_codecs x) (x_faults x) dir) (\<lambda>s.
        andthen (config_load (x_codecs x) (x_faults x) dir) (\<lambda>cfg.
          ret (cfg, s, token_status (x_now x) (st_auth_token_expires_at s)))) d)"

definition with_new_token :: "refresh_response \<Rightarrow> cli_state \<Rightarrow> cli_state" where
  "with_new_token r s =
     s\<lparr>st_auth_token := rf_auth_token r, st_auth_token_expires_at := Some (rf_auth_token_expires_at r)\<rparr>"

definition cmd_heartbeat ::
  "('hs, 'ts, 'srv) cli_ctx \<Rightarrow> path \<Rightarrow> string \<Rightarrow> string option \<Rightarrow> passphrase_source \<Rightarrow> ('srv, unit) wact" where
  "cmd_heartbeat x dir endpoint relay pp =
     andthen (open_store x dir pp) (\<lambda>ks.
     andthen (on_disk (config_load (x_codecs x) (x_faults x) dir)) (\<lambda>cfg.
     andthen (on_disk (state_load (x_codecs x) (x_faults x) dir)) (\<lambda>s0.
       let c = client_new (server_url cfg) in
       andthen
         (if is_token_expired (x_now x) (st_auth_token_expires_at s0)
          then andthen (on_server (client_refresh_token (x_crypto x) (x_libs x) (x_net x) (x_now x) c
                          (ok_identity ks) (st_auth_token s0)))
                 (\<lambda>refreshed. ret (with_new_token refreshed s0))
          else ret s0) (\<lambda>s.
       andthen (on_server (client_heartbeat (x_crypto x) (x_libs x) (x_net x) (x_now x) c
                  (ok_identity ks) (st_auth_token s) endpoint relay)) (\<lambda>_.
         on_disk (state_save (x_codecs x) (x_faults x) dir
           (s\<lparr>st_last_endpoint := Some endpoint, st_last_handshake_at := Some (x_now x)\<rparr>)))))))"

definition cmd_refresh_token :: "('hs, 'ts, 'srv) cli_ctx \<Rightarrow> path \<Rightarrow> passphrase_source \<Rightarrow> ('srv, unit) wact" where
  "cmd_refresh_token x dir pp =
     andthen (open_store x dir pp) (\<lambda>ks.
     andthen (on_disk (config_load (x_codecs x) (x_faults x) dir)) (\<lambda>cfg.
     andthen (on_disk (state_load (x_codecs x) (x_faults x) dir)) (\<lambda>s.
     andthen (on_server (client_refresh_token (x_crypto x) (x_libs x) (x_net x) (x_now x)
                (client_new (server_url cfg)) (ok_identity ks) (st_auth_token s))) (\<lambda>resp.
       on_disk (state_save (x_codecs x) (x_faults x) dir (with_new_token resp s))))))"

definition cmd_deregister :: "('hs, 'ts, 'srv) cli_ctx \<Rightarrow> path \<Rightarrow> passphrase_source \<Rightarrow> ('srv, unit) wact" where
  "cmd_deregister x dir pp =
     andthen (open_store x dir pp) (\<lambda>ks.
     andthen (on_disk (config_load (x_codecs x) (x_faults x) dir)) (\<lambda>cfg.
     andthen (on_disk (state_load (x_codecs x) (x_faults x) dir)) (\<lambda>s.
       on_server (client_delete_node (x_crypto x) (x_libs x) (x_net x) (x_now x)
         (client_new (server_url cfg)) (ok_identity ks) (st_auth_token s)))))"

end
