(* ===== verification/Cli_Up.thy ===== *)
theory Cli_Up
  imports Cli_Commands Manager_Step
begin

text \<open>
  \<open>naboscale up\<close> and \<open>naboscale down\<close> (\<open>naboscale-cli/src/cli.rs\<close>): the start-up of the daemon, the
  two periodic tasks (heartbeat, peer discovery) and the event loop around \<open>TunnelManager::step\<close>.

  The start-up takes, beside \<open>cli_ctx\<close>, a record \<open>up_env\<close> with what the system calls return: the
  name of the TUN device, the bound socket, an environment variable, and the manager's own
  environment (clock, randomness).  Logging is left out, and so are the quotes and escapes of
  \<open>{:?}\<close> in error messages.  The heartbeat task and the event loop run
  concurrently in the code; here every tick of either is one step.
\<close>

section \<open>Choosing the peers\<close>

definition starts_with :: "string \<Rightarrow> string \<Rightarrow> bool" where
  "starts_with p s \<longleftrightarrow> take (length p) s = p"

definition is_wildcard :: "string \<Rightarrow> bool" where
  "is_wildcard s \<longleftrightarrow> starts_with ''0.0.0.0:'' s \<or> starts_with ''[::]:'' s"

text \<open>\<open>"0.0.0.0:0".parse()\<close>.\<close>

definition wildcard_endpoint :: socket_addr where
  "wildcard_endpoint = SocketV4 0 0"

definition role :: "bytes \<Rightarrow> socket_addr option \<Rightarrow> socket_addr option \<Rightarrow> bytes \<Rightarrow> bool" where
  "role own_pub relay_endpoint peer_via_relay pub =
     (if relay_endpoint \<noteq> None then True
      else if peer_via_relay \<noteq> None then False
      else bytes_less pub own_pub)"

definition or_else :: "'a option \<Rightarrow> 'a option \<Rightarrow> 'a option" where
  "or_else a b = (case a of Some x \<Rightarrow> Some x | None \<Rightarrow> b)"

definition ok_or :: "'e \<Rightarrow> 'a option \<Rightarrow> ('e, 'a) outcome" where
  "ok_or e x = (case x of Some v \<Rightarrow> Ok v | None \<Rightarrow> Err e)"

definition peer_key :: "coord_libs \<Rightarrow> string \<Rightarrow> (cli_error, bytes) outcome" where
  "peer_key X s =
     (case b64_decode X s of
        Inl e \<Rightarrow> Err (CliBase64 e)
      | Inr bs \<Rightarrow> if length bs = 32 then Ok bs else Err (ServerError ''peer wg_pubkey is not 32 bytes''))"

definition peer_relay :: "peer_entry \<Rightarrow> (cli_error, socket_addr option) outcome" where
  "peer_relay p =
     (case pe_via_relay p of
        None \<Rightarrow> Ok None
      | Some s \<Rightarrow>
          (case parse_socket_addr s of
             Some a \<Rightarrow> Ok (Some a)
           | None \<Rightarrow> Err (ServerError (''peer '' @ pe_node_id p @ '' via_relay '' @ s @ '' is not a valid ip:port''))))"

text \<open>One turn of the loop over the listed peers: an error ends \<open>up\<close>, \<open>None\<close> is a skipped peer.\<close>

definition up_peer ::
  "coord_libs \<Rightarrow> bytes \<Rightarrow> socket_addr option \<Rightarrow> nat \<Rightarrow> peer_entry \<Rightarrow> (cli_error, peer_config option) outcome" where
  "up_peer X own_pub relay_endpoint i p =
     try_ok (peer_key X (pe_wg_pubkey p)) (\<lambda>pub.
     try_ok (peer_relay p) (\<lambda>peer_via_relay.
       case pe_last_endpoint p of
         None \<Rightarrow> Ok None
       | Some e \<Rightarrow>
           if is_wildcard e \<and> peer_via_relay = None then Ok None
           else
             try_ok (if is_wildcard e then Ok wildcard_endpoint
                     else ok_or (ServerError ''peer endpoint is not a valid socket address'') (parse_socket_addr e)) (\<lambda>endpoint.
             try_ok (ok_or (ServerError (''peer ip is not a valid IPv4: '' @ pe_ip p)) (parse_ipv4 (pe_ip p))) (\<lambda>ip.
               Ok (Some \<lparr>peer_pub = pub, psk = zeros 32, local_sender_id = of_nat i + 1,
                         is_initiator = role own_pub relay_endpoint peer_via_relay pub,
                         peer_endpoint = endpoint, peer_ip = ip,
                         via_relay = or_else peer_via_relay relay_endpoint\<rparr>)))))"

fun up_peers ::
  "coord_libs \<Rightarrow> bytes \<Rightarrow> socket_addr option \<Rightarrow> nat \<Rightarrow> peer_entry list \<Rightarrow> (cli_error, peer_config list) outcome" where
  "up_peers X own_pub relay_endpoint i [] = Ok []"
| "up_peers X own_pub relay_endpoint i (p # ps) =
     try_ok (up_peer X own_pub relay_endpoint i p) (\<lambda>c.
     try_ok (up_peers X own_pub relay_endpoint (Suc i) ps) (\<lambda>cs.
       Ok (case c of None \<Rightarrow> cs | Some cfg \<Rightarrow> cfg # cs)))"

section \<open>Start-up\<close>

record up_options =
  o_tun :: string
  o_bind_port :: u16
  o_relay :: "string option"
  o_advertise_endpoint :: "string option"

record up_env =
  u_tun_create :: "string \<Rightarrow> tunnel_error + string"
  u_bind :: "socket_addr \<Rightarrow> tunnel_error option"
  u_local_addr :: "socket_addr \<Rightarrow> tunnel_error + socket_addr"
  u_advertise_var :: "string option"
  u_platform :: platform
  u_manager :: env
  u_tai :: tai64n

record ('hs, 'ts) daemon =
  dm_dir :: path
  dm_url :: string
  dm_identity :: identity
  dm_token :: string
  dm_endpoint :: string
  dm_via_relay :: "string option"
  dm_relay_endpoint :: "socket_addr option"
  dm_own_pub :: bytes
  dm_known :: "bytes set"
  dm_manager :: "('hs, 'ts) manager"

definition of_sum :: "('a \<Rightarrow> cli_error) \<Rightarrow> 'a + 'b \<Rightarrow> (cli_error, 'b) outcome" where
  "of_sum f r = (case r of Inl e \<Rightarrow> Err (f e) | Inr x \<Rightarrow> Ok x)"

definition relay_option :: "string option \<Rightarrow> (cli_error, socket_addr option) outcome" where
  "relay_option r =
     (case r of
        None \<Rightarrow> Ok None
      | Some s \<Rightarrow>
          (case parse_socket_addr s of
             Some a \<Rightarrow> Ok (Some a)
           | None \<Rightarrow> Err (ServerError (''invalid --relay endpoint: '' @ s))))"

definition advertised_endpoint ::
  "string option \<Rightarrow> socket_addr option \<Rightarrow> string option \<Rightarrow> string \<Rightarrow> string" where
  "advertised_endpoint advertise relay_endpoint var bound =
     (case or_else (or_else advertise (map_option show_socket relay_endpoint)) var of
        Some e \<Rightarrow> e
      | None \<Rightarrow> bound)"

text \<open>A result that is dropped (\<open>let _ = \<dots>\<close>, \<open>if let Ok(\<dots>)\<close>).\<close>

definition attempt :: "('s, 'e, 'a) act \<Rightarrow> ('s, 'f, 'a option) act" where
  "attempt f s =
     (case f s of
        (Ok x, s') \<Rightarrow> (Ok (Some x), s')
      | (Err e, s') \<Rightarrow> (Ok None, s')
      | (Panic msg, s') \<Rightarrow> (Panic msg, s'))"

definition tun_setup :: "up_env \<Rightarrow> string \<Rightarrow> string \<Rightarrow> peer_config list \<Rightarrow> ('srv, unit) wact" where
  "tun_setup U tun_name my_ip cfgs =
     andthen (pure_act (of_sum CliTunnel (u_tun_create U tun_name))) (\<lambda>actual_name.
       let dummy_peer_ip = (case cfgs of c # cs \<Rightarrow> show_ipv4 (v4_octets (peer_ip c)) | [] \<Rightarrow> my_ip)
       in andthen (on_shell (configure_tun (u_platform U) actual_name my_ip dummy_peer_ip)) (\<lambda>_.
            on_shell (add_route (u_platform U) ''100.100.0.0/16'' actual_name)))"

definition bind_transport :: "up_env \<Rightarrow> u16 \<Rightarrow> (cli_error, socket_addr) outcome" where
  "bind_transport U port =
     (let a = SocketV4 (ipv4_new 0 0 0 0) port
      in case u_bind U a of
           Some e \<Rightarrow> Err (CliTunnel e)
         | None \<Rightarrow> of_sum CliTunnel (u_local_addr U a))"

definition announce ::
  "('hs, 'ts, 'srv) cli_ctx \<Rightarrow> tai64n \<Rightarrow> ('hs, 'ts) daemon \<Rightarrow> cli_state \<Rightarrow> ('srv, unit) wact" where
  "announce x t D s =
     andthen (attempt (on_server (client_heartbeat (x_crypto x) (x_libs x) (x_net x) (x_now x)
        (client_new (dm_url D)) (dm_identity D) (dm_token D) (dm_endpoint D) (dm_via_relay D)))) (\<lambda>_.
       on_disk (state_save (x_codecs x) (x_faults x) (dm_dir D)
         (s\<lparr>st_last_endpoint := Some (dm_endpoint D), st_last_handshake_at := Some (seconds t)\<rparr>)))"

text \<open>The last part of \<open>up\<close> before the loop: the manager, the heartbeat that announces the node, and the
  state file.\<close>

definition start_daemon ::
  "('hs, 'ts, 'srv) cli_ctx \<Rightarrow> up_env \<Rightarrow> path \<Rightarrow> opened_keys \<Rightarrow> cli_config \<Rightarrow> cli_state \<Rightarrow> socket_addr option \<Rightarrow>
   peer_config list \<Rightarrow> string \<Rightarrow> ('srv, ('hs, 'ts) daemon) wact" where
  "start_daemon x U dir ks cfg s relay_endpoint cfgs advertised =
     andthen (pure_act (ok_or (ServerError (''my own ip is not a valid IPv4: '' @ st_ip s)) (parse_ipv4 (st_ip s)))) (\<lambda>my_ip.
     andthen (pure_act (case manager_new (x_crypto x) (u_manager U)
                 \<lparr>local_keypair = ok_wg ks, local_ip = my_ip, timings = default_timings\<rparr> cfgs of
                Ok m \<Rightarrow> Ok m | Err e \<Rightarrow> Err (CliTunnel e) | Panic msg \<Rightarrow> Panic msg)) (\<lambda>m.
       let D = \<lparr>dm_dir = dir, dm_url = server_url cfg, dm_identity = ok_identity ks, dm_token = st_auth_token s,
                dm_endpoint = advertised, dm_via_relay = map_option show_socket relay_endpoint,
                dm_relay_endpoint = relay_endpoint, dm_own_pub = kp_public (ok_wg ks),
                dm_known = set (map peer_pub cfgs), dm_manager = m\<rparr>
       in andthen (announce x (u_tai U) D s) (\<lambda>_. ret D)))"

definition cmd_up ::
  "('hs, 'ts, 'srv) cli_ctx \<Rightarrow> up_env \<Rightarrow> path \<Rightarrow> up_options \<Rightarrow> passphrase_source \<Rightarrow>
   ('srv, ('hs, 'ts) daemon) wact" where
  "cmd_up x U dir opts pp =
     andthen (open_store x dir pp) (\<lambda>ks.
     andthen (on_disk (config_load (x_codecs x) (x_faults x) dir)) (\<lambda>cfg.
     andthen (on_disk (state_load (x_codecs x) (x_faults x) dir)) (\<lambda>s.
     andthen (on_server (client_peers (x_net x) (client_new (server_url cfg)) (st_auth_token s))) (\<lambda>entries.
     andthen (pure_act (relay_option (o_relay opts))) (\<lambda>relay_endpoint.
     andthen (pure_act (up_peers (x_libs x) (kp_public (ok_wg ks)) relay_endpoint 0 entries)) (\<lambda>cfgs.
     andthen (tun_setup U (o_tun opts) (st_ip s) cfgs) (\<lambda>_.
     andthen (pure_act (bind_transport U (o_bind_port opts))) (\<lambda>bound.
       let advertised = advertised_endpoint (o_advertise_endpoint opts) relay_endpoint (u_advertise_var U) (show_socket bound)
       in if parse_socket_addr advertised = None
          then pure_act (Err (ServerError (''advertise-endpoint '' @ advertised @ '' is not a valid ip:port'')))
          else
     start_daemon x U dir ks cfg s relay_endpoint cfgs advertised))))))))"

section \<open>The daemon\<close>

text \<open>\<open>if let Ok(mut s) = State::load(dir) { \<dots>; let _ = s.save(dir); }\<close>\<close>

definition update_state ::
  "('hs, 'ts, 'srv) cli_ctx \<Rightarrow> path \<Rightarrow> (cli_state \<Rightarrow> cli_state) \<Rightarrow> ('srv, unit) wact" where
  "update_state x dir f =
     andthen (attempt (on_disk (state_load (x_codecs x) (x_faults x) dir))) (\<lambda>r.
       case r of
         None \<Rightarrow> ret ()
       | Some s \<Rightarrow>
           andthen (attempt (on_disk (state_save (x_codecs x) (x_faults x) dir (f s)))) (\<lambda>_. ret ()))"

text \<open>The token the heartbeat task continues with.\<close>

definition daemon_refresh :: "('hs, 'ts, 'srv) cli_ctx \<Rightarrow> ('hs, 'ts) daemon \<Rightarrow> ('srv, string) wact" where
  "daemon_refresh x D =
     andthen (attempt (on_disk (state_load (x_codecs x) (x_faults x) (dm_dir D)))) (\<lambda>r.
       case r of
         None \<Rightarrow> ret (dm_token D)
       | Some s \<Rightarrow>
           if is_token_expired_soon (x_now x) (st_auth_token_expires_at s) 60
           then andthen (attempt (on_server (client_refresh_token (x_crypto x) (x_libs x) (x_net x) (x_now x)
                          (client_new (dm_url D)) (dm_identity D) (dm_token D)))) (\<lambda>resp.
                  case resp of
                    None \<Rightarrow> ret (dm_token D)
                  | Some rf \<Rightarrow>
                      andthen (update_state x (dm_dir D) (with_new_token rf)) (\<lambda>_. ret (rf_auth_token rf)))
           else ret (dm_token D))"

definition heartbeat_tick ::
  "('hs, 'ts, 'srv) cli_ctx \<Rightarrow> tai64n \<Rightarrow> ('hs, 'ts) daemon \<Rightarrow> ('srv, ('hs, 'ts) daemon) wact" where
  "heartbeat_tick x t D =
     andthen (daemon_refresh x D) (\<lambda>tok.
     andthen (attempt (on_server (client_heartbeat (x_crypto x) (x_libs x) (x_net x) (x_now x)
        (client_new (dm_url D)) (dm_identity D) tok (dm_endpoint D) (dm_via_relay D)))) (\<lambda>_.
     andthen (update_state x (dm_dir D)
        (\<lambda>s. s\<lparr>st_last_endpoint := Some (dm_endpoint D), st_last_handshake_at := Some (seconds t)\<rparr>)) (\<lambda>_.
       ret (D\<lparr>dm_token := tok\<rparr>))))"

text \<open>One listed peer at a discovery tick: the configuration the new peer would get.\<close>

definition discovered_config ::
  "coord_libs \<Rightarrow> bytes set \<Rightarrow> bytes \<Rightarrow> socket_addr option \<Rightarrow> nat \<Rightarrow> peer_entry \<Rightarrow> peer_config option" where
  "discovered_config X known own_pub relay_endpoint count p =
     (case b64_decode X (pe_wg_pubkey p) of
        Inl e \<Rightarrow> None
      | Inr pub \<Rightarrow>
          if length pub \<noteq> 32 then None
          else if pub \<in> known then None
          else case parse_ipv4 (pe_ip p) of
            None \<Rightarrow> None
          | Some ip \<Rightarrow>
              let peer_via_relay = Option.bind (pe_via_relay p) parse_socket_addr;
                  endpoint =
                    (case pe_last_endpoint p of
                       Some s \<Rightarrow>
                         if \<not> is_wildcard s
                         then Some (case parse_socket_addr s of Some a \<Rightarrow> a | None \<Rightarrow> wildcard_endpoint)
                         else if peer_via_relay \<noteq> None then Some wildcard_endpoint else None
                     | None \<Rightarrow> if peer_via_relay \<noteq> None then Some wildcard_endpoint else None)
              in map_option (\<lambda>e.
                   \<lparr>peer_pub = pub, psk = zeros 32, local_sender_id = of_nat count + 1,
                    is_initiator = role own_pub relay_endpoint peer_via_relay pub,
                    peer_endpoint = e, peer_ip = ip,
                    via_relay = or_else peer_via_relay relay_endpoint\<rparr>) endpoint)"

definition discover_peer ::
  "('hs, 'ts) crypto \<Rightarrow> coord_libs \<Rightarrow> env \<Rightarrow> peer_entry \<Rightarrow> (('hs, 'ts) daemon, cli_error, unit) act" where
  "discover_peer C X E p D =
     (case discovered_config X (dm_known D) (dm_own_pub D) (dm_relay_endpoint D) (peer_count (dm_manager D)) p of
        None \<Rightarrow> (Ok (), D)
      | Some cfg \<Rightarrow>
          case add_peer C E cfg (dm_manager D) of
            (Ok True, m) \<Rightarrow> (Ok (), D\<lparr>dm_manager := m, dm_known := insert (peer_pub cfg) (dm_known D)\<rparr>)
          | (Ok False, m) \<Rightarrow> (Ok (), D\<lparr>dm_manager := m\<rparr>)
          | (Err e, m) \<Rightarrow> (Ok (), D\<lparr>dm_manager := m\<rparr>)
          | (Panic msg, m) \<Rightarrow> (Panic msg, D\<lparr>dm_manager := m\<rparr>))"

definition discovery_tick ::
  "('hs, 'ts, 'srv) cli_ctx \<Rightarrow> env \<Rightarrow> ('hs, 'ts) daemon \<Rightarrow> ('srv, ('hs, 'ts) daemon) wact" where
  "discovery_tick x E D =
     andthen (attempt (on_disk (state_load (x_codecs x) (x_faults x) (dm_dir D)))) (\<lambda>r.
       case r of
         None \<Rightarrow> ret D
       | Some s \<Rightarrow>
           andthen (attempt (on_server (client_peers (x_net x) (client_new (dm_url D)) (st_auth_token s)))) (\<lambda>listed.
             case listed of
               None \<Rightarrow> ret D
             | Some entries \<Rightarrow>
                 (case for_each (discover_peer (x_crypto x) (x_libs x) E) entries D of
                    (Ok u, D') \<Rightarrow> ret D'
                  | (Err e, D') \<Rightarrow> pure_act (Err e)
                  | (Panic msg, D') \<Rightarrow> pure_act (Panic msg))))"

definition manager_tick ::
  "('hs, 'ts) crypto \<Rightarrow> arrival list \<times> env \<Rightarrow> ('hs, 'ts) daemon \<Rightarrow> ('srv, ('hs, 'ts) daemon) wact" where
  "manager_tick C input D =
     (case step C input (dm_manager D) of
        (Panic msg, m) \<Rightarrow> pure_act (Panic msg)
      | (r, m) \<Rightarrow> ret (D\<lparr>dm_manager := m\<rparr>))"

text \<open>What wakes the daemon.  Every event carries the surroundings of its moment.\<close>

datatype ('hs, 'ts, 'srv) daemon_event =
    ManagerTick "arrival list \<times> env"
  | DiscoveryTick "('hs, 'ts, 'srv) cli_ctx" env
  | HeartbeatTick "('hs, 'ts, 'srv) cli_ctx" tai64n

fun daemon_step ::
  "('hs, 'ts) crypto \<Rightarrow> ('hs, 'ts, 'srv) daemon_event \<Rightarrow> ('hs, 'ts) daemon \<Rightarrow> ('srv, ('hs, 'ts) daemon) wact" where
  "daemon_step C (ManagerTick input) D = manager_tick C input D"
| "daemon_step C (DiscoveryTick x E) D = discovery_tick x E D"
| "daemon_step C (HeartbeatTick x t) D = heartbeat_tick x t D"

text \<open>The run up to ctrl-c.\<close>

fun daemon_run ::
  "('hs, 'ts) crypto \<Rightarrow> ('hs, 'ts, 'srv) daemon_event list \<Rightarrow> ('hs, 'ts) daemon \<Rightarrow> ('srv, ('hs, 'ts) daemon) wact" where
  "daemon_run C [] D = ret D"
| "daemon_run C (e # es) D = andthen (daemon_step C e D) (daemon_run C es)"

section \<open>down\<close>

definition DAEMON_PID_FILE :: string where "DAEMON_PID_FILE = ''naboscale.pid''"

definition config_dir :: "path option \<Rightarrow> (cli_error, path) outcome" where
  "config_dir system_config_dir = try_ok (ok_or NoConfigDir system_config_dir) (\<lambda>base. Ok (join base ''naboscale''))"

definition ensure_config_dir :: "faults \<Rightarrow> path option \<Rightarrow> path fsact" where
  "ensure_config_dir F system_config_dir =
     andthen (pure_act (config_dir system_config_dir)) (\<lambda>dir d.
       if \<not> path_exists dir d then andthen (map_err CliIo (fs_create_dir_all F dir)) (\<lambda>_. ret dir) d
       else (Ok dir, d))"

text \<open>\<open>str::trim\<close>: the UTF-8 encodings of the white space of Unicode.\<close>

definition whitespace :: "string list" where
  "whitespace =
     map (map char_of)
       ([[9], [10], [11], [12], [13], [32], [0xC2, 0x85], [0xC2, 0xA0], [0xE1, 0x9A, 0x80]] @
        map (\<lambda>b. [0xE2, 0x80, b]) [0x80, 0x81, 0x82, 0x83, 0x84, 0x85, 0x86, 0x87, 0x88, 0x89, 0x8A, 0xA8, 0xA9, 0xAF] @
        [[0xE2, 0x81, 0x9F], [0xE3, 0x80, 0x80 :: nat]])"

text \<open>\<open>strip ws s\<close> removes encodings of \<open>ws\<close> from the front; the fuel is the length of the text.\<close>

fun strip :: "nat \<Rightarrow> string list \<Rightarrow> string \<Rightarrow> string" where
  "strip 0 ws s = s"
| "strip (Suc n) ws s =
     (case filter (\<lambda>w. starts_with w s) ws of [] \<Rightarrow> s | w # _ \<Rightarrow> strip n ws (drop (length w) s))"

definition trim :: "string \<Rightarrow> string" where
  "trim s =
     (let front = strip (length s) whitespace s
      in rev (strip (length front) (map rev whitespace) (rev front)))"

text \<open>\<open>parse::<i32>\<close>.\<close>

definition parse_i32 :: "string \<Rightarrow> int option" where
  "parse_i32 = parse_int 2147483647"

definition show_int :: "int \<Rightarrow> string" where
  "show_int i = (if i < 0 then CHR ''-'' # dec (nat (- i)) else dec (nat i))"

definition fs_remove_file :: "(path \<Rightarrow> string option) \<Rightarrow> path \<Rightarrow> unit ioact" where
  "fs_remove_file remove_fault p d =
     (case remove_fault p of
        Some e \<Rightarrow> (Err (IoOther e), d)
      | None \<Rightarrow>
          (case files d p of
             None \<Rightarrow> (Err NotFound, d)
           | Some f \<Rightarrow> (Ok (), d\<lparr>files := (files d)(p := None)\<rparr>)))"

definition cmd_down ::
  "faults \<Rightarrow> (path \<Rightarrow> string option) \<Rightarrow> platform \<Rightarrow> path option \<Rightarrow> path \<Rightarrow> ('srv, unit) wact" where
  "cmd_down F remove_fault P system_config_dir unused_dir =
     andthen (on_disk (ensure_config_dir F system_config_dir)) (\<lambda>_.
     andthen (on_disk (ensure_config_dir F system_config_dir)) (\<lambda>dir w.
       let pid_path = join dir DAEMON_PID_FILE in
       if \<not> path_exists pid_path (w_disk w) then (Ok (), w)
       else
         andthen (on_disk (map_err CliIo (fs_read_to_string F pid_path))) (\<lambda>text.
         andthen (pure_act (ok_or (BadConfig ''bad PID file'') (parse_i32 (trim text)))) (\<lambda>pid.
         andthen (on_shell (run_command P [''kill'', show_int pid] (''kill '' @ show_int pid @ '' failed''))) (\<lambda>_.
         andthen (attempt (on_disk (map_err CliIo (fs_remove_file remove_fault pid_path)))) (\<lambda>_. ret ())))) w))"

section \<open>The command line\<close>

datatype commands =
    CmdInit string bool
  | CmdRegister
  | CmdPeers
  | CmdStatus
  | CmdHeartbeat string "string option"
  | CmdRefreshToken
  | CmdDeregister
  | CmdUp up_options
  | CmdDown

record command_line =
  a_config_dir :: "path option"
  a_passphrase_file :: "path option"
  a_command :: commands

definition discard :: "('s, 'e, 'a) act \<Rightarrow> ('s, 'e, unit) act" where
  "discard f = andthen f (\<lambda>_. ret ())"

text \<open>\<open>events\<close> is what happens to a daemon until ctrl-c.\<close>

definition run_command_line ::
  "('hs, 'ts, 'srv) cli_ctx \<Rightarrow> up_env \<Rightarrow> init_random \<Rightarrow> (path \<Rightarrow> string option) \<Rightarrow> path option \<Rightarrow>
   ('hs, 'ts, 'srv) daemon_event list \<Rightarrow> command_line \<Rightarrow> ('srv, unit) wact" where
  "run_command_line x U rnd remove_fault system_config_dir events cli =
     andthen (pure_act (resolve_config_dir system_config_dir (a_config_dir cli))) (\<lambda>dir w.
       let pp = resolve_passphrase_source (x_faults x) (a_passphrase_file cli) (w_disk w) in
       (case a_command cli of
          CmdInit srv force \<Rightarrow> on_disk (cmd_init x rnd dir srv force pp)
        | CmdRegister \<Rightarrow> discard (cmd_register x dir pp)
        | CmdPeers \<Rightarrow> cmd_peers x dir pp
        | CmdStatus \<Rightarrow> discard (on_disk (cmd_status x dir))
        | CmdHeartbeat e r \<Rightarrow> cmd_heartbeat x dir e r pp
        | CmdRefreshToken \<Rightarrow> cmd_refresh_token x dir pp
        | CmdDeregister \<Rightarrow> cmd_deregister x dir pp
        | CmdUp opts \<Rightarrow> discard (andthen (cmd_up x U dir opts pp) (daemon_run (x_crypto x) events))
        | CmdDown \<Rightarrow> cmd_down (x_faults x) remove_fault (u_platform U) system_config_dir dir) w)"

section \<open>The process\<close>

text \<open>
  The exit status of the binary: 0, or 1 after the error has been printed; a panic of the main task
  unwinds through \<open>main\<close>, for which Rust's runtime exits with 101.
\<close>

definition cli_main ::
  "('hs, 'ts, 'srv) cli_ctx \<Rightarrow> up_env \<Rightarrow> init_random \<Rightarrow> (path \<Rightarrow> string option) \<Rightarrow> path option \<Rightarrow>
   ('hs, 'ts, 'srv) daemon_event list \<Rightarrow> command_line \<Rightarrow> 'srv world \<Rightarrow> nat \<times> 'srv world" where
  "cli_main x U rnd remove_fault system_config_dir events cli w =
     (case run_command_line x U rnd remove_fault system_config_dir events cli w of
        (Ok _, w') \<Rightarrow> (0, w')
      | (Err e, w') \<Rightarrow> (1, w')
      | (Panic msg, w') \<Rightarrow> (101, w'))"

lemma cli_main_status:
  assumes "cli_main x U rnd rf sys events cli w = (code, w')"
  shows "code = 0 \<longleftrightarrow> is_ok (fst (run_command_line x U rnd rf sys events cli w))"
    "code = 101 \<longleftrightarrow> is_panic (fst (run_command_line x U rnd rf sys events cli w))"
  using assms by (auto simp: cli_main_def is_ok_iff split: prod.splits outcome.splits)

lemma cli_main_no_config_dir:
  assumes "a_config_dir cli = None"
  shows "cli_main x U rnd rf None events cli w = (1, w)"
  using assms by (simp add: cli_main_def run_command_line_def resolve_config_dir_def andthen_def pure_act_def ok_or_def)

end
