(* ===== verification/Cli_Client_Props.thy ===== *)
theory Cli_Client_Props
  imports Cli_Client
begin

text \<open>
  The client and the coordination server together: when a call of the client succeeds.
\<close>

lemma send_request_direct:
  "send_request (direct C X E) c req what decoded s =
     (on_success what decoded (fst (handle_request C X E req s)), snd (handle_request C X E req s))"
  by (simp add: send_request_def direct_def andthen_def map_err_def pure_act_def split: prod.split)

lemma on_success_respond:
  "on_success what decoded (fst (respond f r)) =
     (case fst r of
        Ok x \<Rightarrow> on_success what decoded (f x)
      | Err e \<Rightarrow> Err (ServerError what)
      | Panic msg \<Rightarrow> Err (HttpError msg))"
  by (simp add: respond_def split: outcome.split)

section \<open>Registration\<close>

lemma client_register_direct:
  "client_register C X (direct C X E) t c i w s =
     (case register C X E
        \<lparr>rq_identity_pubkey = b64_encode X (identity_public i), rq_wg_pubkey = b64_encode X w,
         rq_timestamp = t, rq_signature = b64_encode X (identity_sign C i (build_register_message t (identity_public i) w))\<rparr> s of
        (Ok r, s') \<Rightarrow> (Ok r, s')
      | (Err e, s') \<Rightarrow> (Err (ServerError ''register failed''), s')
      | (Panic msg, s') \<Rightarrow> (Err (HttpError msg), s'))"
  by (simp add: client_register_def Let_def client_messages send_request_direct on_success_respond
      split: prod.split outcome.split)

lemma client_register_checks:
  assumes "signatures_verify C" "base64_works X" "own_identity C i" "length w = 32"
  shows "register_checks C X E
      \<lparr>rq_identity_pubkey = b64_encode X (identity_public i), rq_wg_pubkey = b64_encode X w,
       rq_timestamp = t, rq_signature = b64_encode X (identity_sign C i (build_register_message t (identity_public i) w))\<rparr> s =
    (case check_rate_limit E Register s of
       (Ok u, s1) \<Rightarrow>
         (case validate_timestamp t (clock E) of
            Ok v \<Rightarrow> (Ok (identity_public i, w), s1) | Err e \<Rightarrow> (Err e, s1) | Panic p \<Rightarrow> (Panic p, s1))
     | (Err e, s1) \<Rightarrow> (Err e, s1) | (Panic p, s1) \<Rightarrow> (Panic p, s1))"
  using own_identityD [OF assms(1,3)] assms(2,4)
  by (simp add: register_checks_def andthen_def pure_act_def base64_decodes verify_register_signature_def ret_def
      split: prod.split outcome.split)

lemma register_commit_ok_iff:
  assumes "coord_ok s" and "length i = 32"
  shows "is_ok (fst (register_commit X E (i, w) s)) \<longleftrightarrow>
    \<not> pool \<subseteq> ip_alloc s \<and>
    (\<forall>n \<in> set (db_nodes (cdb s)). n_node_id n \<noteq> uuid E \<and> n_identity n \<noteq> i \<and> n_wg n \<noteq> w) \<and>
    (\<forall>u \<in> set (db_tokens (cdb s)). t_token u \<noteq> generate_token X E)"
proof (cases "pool \<subseteq> ip_alloc s")
  case True
  then have fails: "\<not> is_ok (fst (allocate (ip_alloc s)))" using allocate_fails_iff by blast
  from allocate_unchanged [OF this] True show ?thesis
    by (simp add: register_commit_def with_ips_def andthen_def)
next
  case False
  then have "is_ok (fst (allocate (ip_alloc s)))" using allocate_fails_iff by blast
  then obtain ip used where al: "allocate (ip_alloc s) = (Ok ip, used)"
    by (cases "allocate (ip_alloc s)") (auto simp: is_ok_iff)
  obtain a where a: "ip = u32_to_be a" "a \<notin> ip_alloc s" by (rule allocate_Ok [OF al])
  have free: "n_ip m \<noteq> show_ipv4 ip" if "m \<in> set (db_nodes (cdb s))" for m
    using assms(1) that a by (auto simp: coord_ok_def node_ok_def show_ipv4_inj)
  let ?n = "new_node E i w ip"
  have row: "is_ok (fst (insert_node fk ?n tok ttl (cdb s))) \<longleftrightarrow>
      (\<forall>n \<in> set (db_nodes (cdb s)). n_node_id n \<noteq> uuid E \<and> n_identity n \<noteq> i \<and> n_wg n \<noteq> w) \<and>
      (\<forall>u \<in> set (db_tokens (cdb s)). t_token u \<noteq> tok)" for fk tok ttl
    using free
    by (auto simp: insert_node_def andthen_def insert_node_row_def insert_token_row_def list_ex_iff new_node_def)
  have "is_ok (fst (register_commit X E (i, w) s)) \<longleftrightarrow>
      is_ok (fst (insert_node (fk_enforced X) ?n (generate_token X E) (token_ttl_secs s) (cdb s)))"
    using al
    by (cases "insert_node (fk_enforced X) ?n (generate_token X E) (token_ttl_secs s) (cdb s)";
        cases "fst (insert_node (fk_enforced X) ?n (generate_token X E) (token_ttl_secs s) (cdb s))")
      (auto simp: register_commit_def with_ips_def with_db_def andthen_def ret_def)
  with False row show ?thesis by simp
qed

text \<open>C25: When a registration goes through.  A client that holds its own identity key registers
  successfully with the coordination server exactly when the rate limit admits it, the two
  clocks agree up to the window, an address is free, and the server knows neither key (and drew a
  fresh node id and token): the client's message, key and signature encodings are the ones the
  server checks.\<close>

theorem client_register_succeeds_iff:
  assumes "signatures_verify C" and "base64_works X" and "own_identity C i" and "length w = 32" and "coord_ok s"
  shows "is_ok (fst (client_register C X (direct C X E) t c i w s)) \<longleftrightarrow>
    admits E Register s \<and> (\<bar>sint (clock E - t)\<bar> \<le> 300 \<or> clock E - t = 2 ^ 63) \<and>
    \<not> pool \<subseteq> ip_alloc s \<and>
    (\<forall>n \<in> set (db_nodes (cdb s)). n_node_id n \<noteq> uuid E \<and> n_identity n \<noteq> identity_public i \<and> n_wg n \<noteq> w) \<and>
    (\<forall>u \<in> set (db_tokens (cdb s)). t_token u \<noteq> generate_token X E)"
proof -
  let ?req = "\<lparr>rq_identity_pubkey = b64_encode X (identity_public i), rq_wg_pubkey = b64_encode X w, rq_timestamp = t,
      rq_signature = b64_encode X (identity_sign C i (build_register_message t (identity_public i) w))\<rparr>"
  have "is_ok (fst (client_register C X (direct C X E) t c i w s)) \<longleftrightarrow> is_ok (fst (register C X E ?req s))"
    by (simp add: client_register_direct split: prod.split outcome.split)
  also have "\<dots> \<longleftrightarrow> admits E Register s \<and> validate_timestamp t (clock E) = Ok () \<and>
      is_ok (fst (register_commit X E (identity_public i, w) (snd (check_rate_limit E Register s))))"
  proof -
    obtain r s1 where r: "check_rate_limit E Register s = (r, s1)" by (cases "check_rate_limit E Register s")
    have ts: "validate_timestamp t (clock E) = Ok () \<longleftrightarrow> is_ok (validate_timestamp t (clock E))"
      by (cases "validate_timestamp t (clock E)") simp_all
    show ?thesis
      using r ts client_register_checks [OF assms(1-4), of E t s]
      by (cases r; cases "validate_timestamp t (clock E)") (simp_all add: register_eq andthen_def admits_def)
  qed
  also have "\<dots> \<longleftrightarrow> admits E Register s \<and> (\<bar>sint (clock E - t)\<bar> \<le> 300 \<or> clock E - t = 2 ^ 63) \<and>
      \<not> pool \<subseteq> ip_alloc s \<and>
      (\<forall>n \<in> set (db_nodes (cdb s)). n_node_id n \<noteq> uuid E \<and> n_identity n \<noteq> identity_public i \<and> n_wg n \<noteq> w) \<and>
      (\<forall>u \<in> set (db_tokens (cdb s)). t_token u \<noteq> generate_token X E)"
  proof -
    have same: "same_data s (snd (check_rate_limit E Register s))" by (rule staysD [OF checks_same_data(1)])
    have "coord_ok (snd (check_rate_limit E Register s))" by (rule coord_ok_same [OF same assms(5)])
    from register_commit_ok_iff [OF this own_identityD(2) [OF assms(1,3)], of X E w] same show ?thesis
      by (simp add: validate_timestamp_iff same_data_def)
  qed
  finally show ?thesis .
qed

section \<open>Calls with a token\<close>

lemma create_after_revoke:
  assumes "n \<in> set (db_nodes d)" and "\<forall>u \<in> set (db_tokens d). t_token u \<noteq> tok"
  obtains d' where "create_token fk (n_node_id n) tok created ttl (snd (revoke_all_tokens_for_node (n_node_id n) d)) = (Ok (), d')"
proof -
  let ?d = "snd (revoke_all_tokens_for_node (n_node_id n) d)"
  have "map t_token (db_tokens ?d) = map t_token (db_tokens d)"
    by (simp add: revoke_all_tokens_for_node_def Let_def)
  then have "t_token ` set (db_tokens ?d) = t_token ` set (db_tokens d)" by (metis list.set_map)
  moreover have "db_nodes ?d = db_nodes d" by (simp add: revoke_all_tokens_for_node_def Let_def)
  ultimately have "n \<in> set (db_nodes ?d)" "\<forall>u \<in> set (db_tokens ?d). t_token u \<noteq> tok"
    using assms by (simp, metis imageE imageI)
  then have "\<not> list_ex (\<lambda>r. t_token r = tok) (db_tokens ?d)" "list_ex (\<lambda>m. n_node_id m = n_node_id n) (db_nodes ?d)"
    by (auto simp: list_ex_iff)
  then show ?thesis using that by (simp add: create_token_def insert_token_row_def)
qed

lemma client_signed_caller:
  assumes "signatures_verify C" "base64_works X" "own_identity C i"
    and "admits E Token s" and "get_node_by_token (cdb s) tok (clock E) = Some n" and "n_identity n = identity_public i"
    and "validate_timestamp t (clock E) = Ok ()"
  obtains s1 where "same_data s s1"
    "signed_caller C X E (bearer_auth tok) \<lparr>sg_timestamp = t, sg_signature = b64_encode X (identity_sign C i (msg t))\<rparr> msg s = (Ok n, s1)"
proof -
  obtain s1 where s1: "check_rate_limit E Token s = (Ok (), s1)" "same_data s s1" by (rule admitsE [OF assms(4)])
  then have "get_node_by_token (cdb s1) tok (clock E) = Some n" using assms(5) by (simp add: same_data_def)
  with s1 own_identityD [OF assms(1,3)] assms(2,6,7) show ?thesis
    using that [of s1] by (simp add: signed_caller_def andthen_def pure_act_def base64_decodes key_array_def ret_def caller_of_def)
qed

lemma client_refresh_ok:
  assumes "signatures_verify C" "base64_works X" "own_identity C i"
    and "get_node_by_token (cdb s) tok (clock E) = Some n" and "n_identity n = identity_public i"
    and "validate_timestamp t (clock E) = Ok ()"
    and admitted: "admits E Token s" and ok: "coord_ok s"
    and fresh: "\<forall>u \<in> set (db_tokens (cdb s)). t_token u \<noteq> generate_token X E"
  shows "is_ok (fst (client_refresh_token C X (direct C X E) t c i tok s))"
proof -
  obtain s1 where s1: "same_data s s1" "signed_caller C X E (bearer_auth tok)
      \<lparr>sg_timestamp = t, sg_signature = b64_encode X (identity_sign C i (build_refresh_message t))\<rparr> build_refresh_message s = (Ok n, s1)"
    by (rule client_signed_caller [OF assms(1-3) admitted assms(4-6)])
  have "n \<in> set (db_nodes (cdb s1))" using caller_in_nodes [OF ok assms(4)] s1(1) by (simp add: same_data_def)
  moreover have "\<forall>u \<in> set (db_tokens (cdb s1)). t_token u \<noteq> generate_token X E"
    using fresh s1(1) by (simp add: same_data_def)
  ultimately obtain d where "create_token (fk_enforced X) (n_node_id n) (generate_token X E) (clock E) (token_ttl_secs s1)
      (snd (revoke_all_tokens_for_node (n_node_id n) (cdb s1))) = (Ok (), d)"
    by (rule create_after_revoke)
  with s1 show "is_ok (fst (client_refresh_token C X (direct C X E) t c i tok s))"
    by (simp add: client_refresh_token_def Let_def client_messages send_request_direct on_success_respond
        refresh_token_def andthen_def with_db_def ret_def)
qed

text \<open>A node with a live token is served.  For a client whose token is live and whose identity key the
  server stores for it, with clocks that agree up to the window: the peer list, a heartbeat (with
  no relay or a well-formed one), a token refresh and a removal all succeed as soon as the rate
  limit of their bucket admits them (a refresh also needs that the fresh random token is new).\<close>

lemma client_calls_succeed:
  assumes "signatures_verify C" and "base64_works X" and "own_identity C i"
    and "get_node_by_token (cdb s) tok (clock E) = Some n" and "n_identity n = identity_public i"
    and "validate_timestamp t (clock E) = Ok ()"
  shows "(admits E Default s \<longrightarrow> is_ok (fst (client_peers (direct C X E) c tok s))) \<and>
    (admits E Heartbeat s \<longrightarrow> (\<forall>r. relay = Some r \<longrightarrow> parse_socket_addr r \<noteq> None) \<longrightarrow>
       is_ok (fst (client_heartbeat C X (direct C X E) t c i tok endpoint relay s))) \<and>
    (admits E Token s \<longrightarrow> coord_ok s \<longrightarrow> (\<forall>u \<in> set (db_tokens (cdb s)). t_token u \<noteq> generate_token X E) \<longrightarrow>
       is_ok (fst (client_refresh_token C X (direct C X E) t c i tok s))) \<and>
    (admits E Token s \<longrightarrow> is_ok (fst (client_delete_node C X (direct C X E) t c i tok s)))"
proof (intro conjI impI)
  assume "admits E Default s"
  then obtain s1 where s1: "check_rate_limit E Default s = (Ok (), s1)" "same_data s s1" by (rule admitsE)
  then have "get_node_by_token (cdb s1) tok (clock E) = Some n" using assms(4) by (simp add: same_data_def)
  with s1 show "is_ok (fst (client_peers (direct C X E) c tok s))"
    by (simp add: client_peers_def send_request_direct on_success_respond peers_route_def andthen_def pure_act_def caller_of_def)
next
  assume "admits E Heartbeat s" and relay: "\<forall>r. relay = Some r \<longrightarrow> parse_socket_addr r \<noteq> None"
  then obtain s1 where s1: "check_rate_limit E Heartbeat s = (Ok (), s1)" "same_data s s1" by (auto elim: admitsE)
  then have "get_node_by_token (cdb s1) tok (clock E) = Some n" using assms(4) by (simp add: same_data_def)
  moreover have "valid_relay relay = Ok ()" using relay by (auto simp: valid_relay_def split: option.split)
  ultimately show "is_ok (fst (client_heartbeat C X (direct C X E) t c i tok endpoint relay s))"
    using s1 own_identityD [OF assms(1,3)] assms(2,5,6)
    by (simp add: client_heartbeat_def Let_def client_messages send_request_direct on_success_respond
        heartbeat_def andthen_def pure_act_def caller_of_def base64_decodes key_array_def verify_heartbeat_signature_def is_success_def)
next
  assume "admits E Token s" "coord_ok s" "\<forall>u \<in> set (db_tokens (cdb s)). t_token u \<noteq> generate_token X E"
  then show "is_ok (fst (client_refresh_token C X (direct C X E) t c i tok s))"
    by (rule client_refresh_ok [OF assms])
next
  assume "admits E Token s"
  then obtain s1 where "signed_caller C X E (bearer_auth tok)
      \<lparr>sg_timestamp = t, sg_signature = b64_encode X (identity_sign C i (build_delete_node_message t))\<rparr> build_delete_node_message s = (Ok n, s1)"
    using client_signed_caller [OF assms(1-3) _ assms(4-6)] by metis
  then show "is_ok (fst (client_delete_node C X (direct C X E) t c i tok s))"
    by (cases "db_delete_node (n_node_id n) (cdb s1)")
      (simp add: client_delete_node_def client_messages send_request_direct on_success_respond delete_node_def
        andthen_def is_success_def Let_def)
qed

section \<open>A concrete client\<close>

lemma plain_libs_work: "base64_works plain_libs"
  by (simp add: base64_works_def)

definition demo_identity :: identity where
  "demo_identity = identity_from_bytes plain demo_key"

lemma demo_identity [simp]: "own_identity plain demo_identity" "identity_public demo_identity = demo_key"
  by (simp_all add: demo_identity_def demo_key_def)
    (simp add: identity_public_def identity_from_bytes_def plain_def pad_to_same)

theorem client_register_succeeds_iff_witness:
  "is_ok (fst (client_register plain plain_libs (direct plain plain_libs demo_request) 600
     (client_new ''http://coord/'') demo_identity (replicate 32 2) demo_empty)) \<and>
   \<not> is_ok (fst (client_register plain plain_libs (direct plain plain_libs demo_request) 801
     (client_new ''http://coord/'') demo_identity (replicate 32 2) demo_empty))"
proof -
  have ok: "coord_ok demo_empty" "cdb demo_empty = open_in_memory" "ip_alloc demo_empty = {}"
    using coord_ok_in_memory by (simp_all add: demo_empty_def app_state_in_memory_def ip_allocator_new_def list_peers_def)
      (simp add: open_in_memory_def)
  have "1684275202 \<in> pool" by (simp add: pool_def first_host IP_POOL_HOST_COUNT_def)
  then have "\<not> pool \<subseteq> {}" by blast
  moreover have "admits demo_request Register demo_empty" by (simp add: admits_def demo_first_check)
  moreover have "\<bar>sint (500 - 600 :: i64)\<bar> \<le> 300" "\<not> \<bar>sint (500 - 801 :: i64)\<bar> \<le> 300" "(500 - 801 :: i64) \<noteq> 2 ^ 63"
    by simp_all
  moreover have "db_nodes open_in_memory = []" "db_tokens open_in_memory = []" by (simp_all add: open_in_memory_def)
  ultimately show ?thesis
    using client_register_succeeds_iff [OF plain_signatures_verify plain_libs_work demo_identity(1) _ ok(1)] ok
    by simp
qed

theorem client_calls_succeed_witness:
  "is_ok (fst (client_peers (direct plain plain_libs demo_request) (client_new ''http://coord'') ''tok'' demo_coord)) \<and>
   is_ok (fst (client_delete_node plain plain_libs (direct plain plain_libs demo_request) 500
     (client_new ''http://coord'') demo_identity ''tok'' demo_coord))"
proof -
  have "admits demo_request b demo_coord" for b by (simp add: admits_def)
  moreover have "n_identity demo_node = identity_public demo_identity" by (simp add: demo_node_def)
  moreover have "get_node_by_token (cdb demo_coord) ''tok'' (clock demo_request) = Some demo_node" by simp
  moreover have "validate_timestamp 500 (clock demo_request) = Ok ()" by simp
  ultimately show ?thesis
    using client_calls_succeed [OF plain_signatures_verify plain_libs_work demo_identity(1), of demo_coord "''tok''"
        demo_request demo_node 500 "client_new ''http://coord''" None "''1.2.3.4:5''"] by blast
qed

end
