(* ===== verification/Cli_World.thy ===== *)
theory Cli_World
  imports Cli_Up Cli_Client_Props
begin

text \<open>
  What the commands leave alone: reading the key store, the configuration and the state changes
  nothing; an operation on the disk does not touch the server, nor the reverse; and a request with
  a token the server no longer knows changes none of the server's data.
\<close>

section \<open>Reading changes nothing\<close>

interpretation same: frame "(=)"
  by unfold_locales simp_all

lemma same_andthen: "stays (=) m \<Longrightarrow> (\<And>x. stays (=) (f x)) \<Longrightarrow> stays (=) (andthen m f)"
  by (rule same.stays_andthen)

lemma stays_pure [simp]: "stays (=) (pure_act r)" "stays (=) (ret x)"
  by (simp_all add: stays_def pure_act_def ret_def)

lemma stays_eq: "stays (=) f \<longleftrightarrow> (\<forall>s. snd (f s) = s)"
  by (auto simp: stays_def)

lemma fs_read_snd [simp]: "snd (fs_read F p d) = d"
  using fs_read_same [of F p] by (simp add: stays_eq)

lemma fs_read_pair: "fs_read F p d = (r, d') \<Longrightarrow> d' = d"
  by (metis fs_read_snd snd_conv)

lemma fs_read_to_string_same [simp]: "stays (=) (fs_read_to_string F p)"
  by (auto simp: stays_eq fs_read_to_string_def andthen_def pure_act_def dest: fs_read_pair
      split: prod.split outcome.split)

lemma load_key_same [simp]: "stays (=) (load_key K F dir kind pp)"
proof -
  have "stays (=) (is_v2 F p)" for p
    by (auto simp: stays_eq is_v2_def dest: fs_read_pair split: prod.split outcome.split io_error.split)
  moreover have "stays (=) (read_v1 F dir kind)"
    unfolding read_v1_def by (intro same_andthen) (simp_all add: fs_read_same, simp add: stays_eq)
  moreover have "stays (=) (read_v2 K F dir kind pw)" for pw
    unfolding read_v2_def by (intro same_andthen) (simp_all add: fs_read_same, simp add: stays_eq)
  ultimately have "stays (=) (andthen (is_v2 F (join dir (file_name kind))) (\<lambda>v2.
          if v2 then
            (case pp of
               None \<Rightarrow> (\<lambda>d1. (Err (BadConfig ''is encrypted; set NABOSCALE_PASSPHRASE or pass --passphrase-file''), d1))
             | Some pw \<Rightarrow> read_v2 K F dir kind pw)
          else read_v1 F dir kind))"
    by (intro same_andthen) (auto simp: stays_def split: option.split)
  then show ?thesis by (simp add: stays_def load_key_def)
qed

lemma opened_keys_open_same [simp]: "stays (=) (opened_keys_open C K F dir pp)"
  unfolding opened_keys_open_def by (intro same_andthen) simp_all

lemma state_load_same [simp]: "stays (=) (state_load J F dir)"
  unfolding state_load_def by (intro same_andthen) simp_all

lemma config_load_same [simp]: "stays (=) (config_load J F dir)"
  unfolding config_load_def by (intro same_andthen) simp_all

lemma load_snd [simp]: "snd (state_load J F dir d) = d" "snd (config_load J F dir d) = d"
  using state_load_same [of J F dir] config_load_same [of J F dir] by (simp_all add: stays_eq)

lemma on_disk_apply: "on_disk f w = (fst (f (w_disk w)), w\<lparr>w_disk := snd (f (w_disk w))\<rparr>)"
  by (simp add: on_disk_def split: prod.split)

lemma on_server_apply: "on_server f w = (fst (f (w_server w)), w\<lparr>w_server := snd (f (w_server w))\<rparr>)"
  by (simp add: on_server_def split: prod.split)

lemma on_shell_apply: "on_shell f w = (fst (f (w_commands w)), w\<lparr>w_commands := snd (f (w_commands w))\<rparr>)"
  by (simp add: on_shell_def split: prod.split)

lemma on_disk_same: "stays (=) f \<Longrightarrow> on_disk f w = (fst (f (w_disk w)), w)"
  by (simp add: on_disk_apply stays_eq)

lemmas load_state [simp] = on_disk_same [OF state_load_same]
  and load_config [simp] = on_disk_same [OF config_load_same]

lemma open_store_same: "snd (open_store x dir pp w) = w"
  by (simp add: open_store_def andthen_def pure_act_def on_disk_same split: outcome.split)

lemma open_store_cong: "w_disk w = w_disk w' \<Longrightarrow> fst (open_store x dir pp w) = fst (open_store x dir pp w')"
  by (simp add: open_store_def andthen_def pure_act_def on_disk_same split: outcome.split)

lemma state_load_no_panic [simp]: "fst (state_load J F dir d) \<noteq> Panic msg"
proof -
  obtain r d' where r: "fs_read_to_string F (join dir STATE_FILE) d = (r, d')"
    by (cases "fs_read_to_string F (join dir STATE_FILE) d")
  then have "r \<noteq> Panic msg"
    by (auto simp: fs_read_to_string_def andthen_def pure_act_def fs_read_def split: option.splits if_splits)
  with r show ?thesis
    by (cases r) (auto simp: state_load_def andthen_def map_err_def pure_act_def split: sum.split)
qed

lemma state_save_no_panic [simp]: "fst (state_save J F dir s d) \<noteq> Panic msg"
  by (auto simp: state_save_def map_err_def fs_write_def split: sum.split option.split)

lemma attempt_eq:
  "attempt f s =
     ((case fst (f s) of Ok x \<Rightarrow> Ok (Some x) | Err e \<Rightarrow> Ok None | Panic msg \<Rightarrow> Panic msg), snd (f s))"
  by (simp add: attempt_def split: prod.split outcome.split)

lemma attempt_snd [simp]: "snd (attempt f s) = snd (f s)"
  by (simp add: attempt_def split: prod.split outcome.split)

section \<open>The server behind the disk\<close>

text \<open>The data of the server is the same after as before.\<close>

definition quiet :: "coord world \<Rightarrow> coord world \<Rightarrow> bool" where
  "quiet w w' \<longleftrightarrow> same_data (w_server w) (w_server w')"

interpretation q: frame quiet
  by unfold_locales (simp_all add: quiet_def same_data_def)

lemma quiet_disk [simp]: "stays quiet (on_disk f)" "stays quiet (on_shell g)"
  by (simp_all add: stays_def on_disk_apply on_shell_apply quiet_def same_data_def)

lemma quiet_server: "stays same_data f \<Longrightarrow> stays quiet (on_server f)"
  by (simp add: stays_def on_server_apply quiet_def)

lemma quiet_attempt [simp]: "stays quiet (attempt f) = stays quiet f"
  by (simp add: stays_def)

lemma attempt_save:
  "attempt (on_disk (state_save J F dir s)) w =
     (Ok (case fst (state_save J F dir s (w_disk w)) of Ok u \<Rightarrow> Some u | _ \<Rightarrow> None),
      w\<lparr>w_disk := snd (state_save J F dir s (w_disk w))\<rparr>)"
  using state_save_no_panic [of J F dir s "w_disk w"]
  by (simp add: attempt_eq on_disk_apply split: outcome.split)

lemma attempt_load:
  "attempt (on_disk (state_load J F dir)) w =
     (Ok (case fst (state_load J F dir (w_disk w)) of Ok s \<Rightarrow> Some s | _ \<Rightarrow> None), w)"
  using state_load_no_panic [of J F dir "w_disk w"] by (simp add: attempt_eq split: outcome.split)

lemma update_state_eq:
  "update_state x dir f w =
     (Ok (), (case fst (state_load (x_codecs x) (x_faults x) dir (w_disk w)) of
                Ok s \<Rightarrow> w\<lparr>w_disk := snd (state_save (x_codecs x) (x_faults x) dir (f s) (w_disk w))\<rparr>
              | _ \<Rightarrow> w))"
  by (simp add: update_state_def andthen_def attempt_load attempt_save ret_def split: outcome.split)

lemma update_state_total: "\<exists>w'. update_state x dir f w = (Ok (), w') \<and> w_server w' = w_server w \<and> w_commands w' = w_commands w"
  by (simp add: update_state_eq split: outcome.split)

section \<open>A token the server does not know\<close>

definition dead_token :: "coord \<Rightarrow> string \<Rightarrow> bool" where
  "dead_token s tok \<longleftrightarrow> (\<forall>t. get_node_by_token (cdb s) tok t = None)"

lemma dead_token_same: "same_data s s' \<Longrightarrow> dead_token s' tok = dead_token s tok"
  by (simp add: dead_token_def same_data_def)

definition same_db :: "coord \<Rightarrow> coord \<Rightarrow> bool" where
  "same_db s s' \<longleftrightarrow> cdb s' = cdb s \<and> ip_alloc s' = ip_alloc s"

lemma refused_request:
  assumes "get_node_by_token (cdb s) tok (clock E) = None"
    and "req \<in> {GetPeers (bearer_auth tok), PostHeartbeat (bearer_auth tok) hb,
           PostTokenRefresh (bearer_auth tok) sg, DeleteNode (bearer_auth tok) sg}"
  shows "\<exists>s'. send_request (direct C X E) c req what decoded s = (Err (ServerError what), s') \<and> same_db s s'"
proof -
  obtain st ra t where "handle_request C X E req s = (ErrorResponse st ra, t)" "cdb t = cdb s" "ip_alloc t = ip_alloc s"
    using token_refused [OF _ assms(2), of s E C X] assms(1) by auto
  then show ?thesis by (simp add: send_request_direct same_db_def)
qed

lemma refused_calls:
  assumes "get_node_by_token (cdb s) tok (clock E) = None"
  shows "\<exists>s'. client_refresh_token C X (direct C' X' E) t c i tok s = (Err (ServerError ''refresh_token failed''), s') \<and> same_db s s'"
    "\<exists>s'. client_heartbeat C X (direct C' X' E) t c i tok endpoint relay s = (Err (ServerError ''heartbeat failed''), s') \<and> same_db s s'"
    "\<exists>s'. client_peers (direct C' X' E) c tok s = (Err (ServerError ''peers failed''), s') \<and> same_db s s'"
  unfolding client_refresh_token_def client_heartbeat_def client_peers_def Let_def
  by (rule refused_request [OF assms], simp)+

lemma same_data_db: "same_data s s' \<Longrightarrow> same_db s s'"
  by (simp add: same_data_def same_db_def)

lemma same_db_trans: "same_db s t \<Longrightarrow> same_db t u \<Longrightarrow> same_db s u"
  by (simp add: same_db_def)

lemma same_db_refl [simp]: "same_db s s"
  by (simp add: same_db_def)

lemma dead_same_db: "same_db s s' \<Longrightarrow> dead_token s' tok = dead_token s tok"
  by (simp add: dead_token_def same_db_def)

lemma client_peers_same: "same_db s (snd (client_peers (direct C X E) c tok s))"
proof -
  have "same_data s (snd (peers_route X E (bearer_auth tok) s))" by (rule staysD [OF peers_route_same])
  then show ?thesis by (simp add: client_peers_def send_request_direct same_data_db)
qed

text \<open>A refresh through the client, and what it leaves of the old token.\<close>

lemma client_refresh_direct:
  "client_refresh_token C X (direct C X E) t c i tok s =
     (case refresh_token C X E (bearer_auth tok)
        \<lparr>sg_timestamp = t, sg_signature = b64_encode X (identity_sign C i (build_refresh_message t))\<rparr> s of
        (Ok r, s') \<Rightarrow> (Ok r, s')
      | (Err e, s') \<Rightarrow> (Err (ServerError ''refresh_token failed''), s')
      | (Panic msg, s') \<Rightarrow> (Err (HttpError msg), s'))"
  by (simp add: client_refresh_token_def Let_def client_messages send_request_direct on_success_respond
      split: prod.split outcome.split)

lemma token_one_node:
  assumes "db_ok d" and "get_node_by_token d tok t = Some n" and "get_node_by_token d tok t' = Some m"
  shows "m = n"
proof -
  obtain u where u: "n \<in> set (db_nodes d)" "u \<in> set (db_tokens d)" "t_token u = tok" "t_node_id u = n_node_id n"
    by (rule get_node_by_token_SomeD [OF assms(2)])
  obtain v where v: "m \<in> set (db_nodes d)" "v \<in> set (db_tokens d)" "t_token v = tok" "t_node_id v = n_node_id m"
    by (rule get_node_by_token_SomeD [OF assms(3)])
  have "v = u" using assms(1) u(2,3) v(2,3) by (metis db_ok_def distinct_key)
  then show ?thesis using assms(1) u v by (metis db_ok_def distinct_key)
qed

lemma refresh_kills_token:
  assumes "coord_ok s" and "refresh_token C X E (bearer_auth tok) req s = (Ok resp, s')"
  shows "dead_token s' tok" "db_nodes (cdb s') = db_nodes (cdb s)"
proof -
  obtain n d where n: "get_node_by_token (cdb s) tok (clock E) = Some n"
    and ins: "create_token (fk_enforced X) (n_node_id n) (generate_token X E) (clock E) (token_ttl_secs s)
       (snd (revoke_all_tokens_for_node (n_node_id n) (cdb s))) = (Ok (), d)"
    and resp: "rf_auth_token resp = generate_token X E"
    by (rule refresh_OkD [OF assms(2)]) auto
  obtain u where u: "u \<in> set (db_tokens (cdb s))" "t_token u = tok" by (rule get_node_by_token_SomeD [OF n])
  have "map t_token (db_tokens (snd (revoke_all_tokens_for_node (n_node_id n) (cdb s)))) = map t_token (db_tokens (cdb s))"
    by (simp add: revoke_all_tokens_for_node_def Let_def)
  moreover have "generate_token X E \<notin> t_token ` set (db_tokens (snd (revoke_all_tokens_for_node (n_node_id n) (cdb s))))"
    using ins by (auto simp: create_token_def insert_token_row_def list_ex_iff split: if_splits)
  ultimately have new: "tok \<noteq> rf_auth_token resp" using u resp by (metis imageI list.set_map)
  have db: "db_ok (cdb s)" using assms(1) by (simp add: coord_ok_def)
  have eff: "get_node_by_token (cdb s') tok t \<noteq> Some n"
    "m \<noteq> n \<Longrightarrow> get_node_by_token (cdb s') tok t = Some m \<longleftrightarrow> get_node_by_token (cdb s) tok t = Some m"
    "db_nodes (cdb s') = db_nodes (cdb s)" for t m
    using refresh_effect [OF assms] new n by auto
  then show "db_nodes (cdb s') = db_nodes (cdb s)" by blast
  have "get_node_by_token (cdb s') tok t \<noteq> Some m" for t m
    using eff(1) [of t] eff(2) [of m t] token_one_node [OF db n, of t m] by (cases "m = n") auto
  then show "dead_token s' tok" unfolding dead_token_def by (metis not_None_eq)
qed

end
