(* ===== verification/Cli_Files.thy ===== *)
theory Cli_Files
  imports Cli_World
begin

text \<open>
  The state and configuration files: what the commands rely on of serde's JSON and TOML (a value
  that was written is read back), what a save followed by a load gives, and a concrete codec that
  satisfies the law.
\<close>

section \<open>Text on disk\<close>

lemma unat_of_char [simp]: "unat (of_char c :: u8) = of_char c"
  using of_nat_of_char [where 'a = u8, of c, symmetric] nat_of_char_less_256 [of c]
  by (simp add: unat_of_nat_u8)

lemma bytes_str_bytes [simp]: "bytes_str (str_bytes s) = s"
proof -
  have "char_of (unat (of_char c :: u8)) = c" for c by simp
  then show ?thesis by (simp add: bytes_str_def str_bytes_def comp_def)
qed

lemma utf8_ascii: "\<forall>b \<in> set bs. b < 0x80 \<Longrightarrow> utf8_valid [] bs"
  by (induction bs) (auto simp: utf8_follow_def)

text \<open>The documented behaviour of the two formats.\<close>

definition codec_works :: "codecs \<Rightarrow> bool" where
  "codec_works J \<longleftrightarrow>
     (\<forall>s. \<exists>t. state_to_json J s = Inr t \<and> utf8_valid [] (str_bytes t) \<and> state_from_json J t = Inr s) \<and>
     (\<forall>c. \<exists>t. config_to_toml J c = Inr t \<and> utf8_valid [] (str_bytes t) \<and> config_from_toml J t = Inr c)"

text \<open>A directory a node can keep its files in.\<close>

definition usable_dir :: "path \<Rightarrow> disk \<Rightarrow> bool" where
  "usable_dir dir d \<longleftrightarrow> dir \<in> directories d \<and> join dir STATE_FILE \<notin> directories d \<and> join dir CONFIG_FILE \<notin> directories d"

lemma stored_simps [simp]:
  "directories (stored p bs d) = directories d" "file_bytes (stored p bs d) p = Some bs"
  "q \<noteq> p \<Longrightarrow> files (stored p bs d) q = files d q" "q \<noteq> p \<Longrightarrow> file_bytes (stored p bs d) q = file_bytes d q"
  by (simp_all add: stored_def file_bytes_def)

lemma read_text:
  "file_bytes d p = Some (str_bytes t) \<Longrightarrow> utf8_valid [] (str_bytes t) \<Longrightarrow>
   fs_read_to_string no_faults p d = (Ok t, d)"
  by (simp add: fs_read_to_string_def andthen_def fs_read_plain)

lemma state_saved:
  assumes "codec_works J" and "usable_dir dir d"
  obtains t where "state_to_json J s = Inr t"
    "state_save J no_faults dir s d = (Ok (), stored (join dir STATE_FILE) (str_bytes t) d)"
    "fst (state_load J no_faults dir (stored (join dir STATE_FILE) (str_bytes t) d)) = Ok s"
proof -
  obtain t where t: "state_to_json J s = Inr t" "utf8_valid [] (str_bytes t)" "state_from_json J t = Inr s"
    using assms(1) by (auto simp: codec_works_def)
  have "fst (state_load J no_faults dir (stored (join dir STATE_FILE) (str_bytes t) d)) = Ok s"
    using t read_text [of "stored (join dir STATE_FILE) (str_bytes t) d" "join dir STATE_FILE" t]
    by (simp add: state_load_def andthen_def map_err_def pure_act_def)
  with t assms(2) show ?thesis
    by (intro that [of t]) (simp_all add: state_save_def map_err_def fs_write_def usable_dir_def)
qed

lemma config_saved:
  assumes "codec_works J" and "usable_dir dir d"
  obtains t where "config_to_toml J c = Inr t"
    "config_save J no_faults dir c d = (Ok (), stored (join dir CONFIG_FILE) (str_bytes t) d)"
    "fst (config_load J no_faults dir (stored (join dir CONFIG_FILE) (str_bytes t) d)) = Ok c"
proof -
  obtain t where t: "config_to_toml J c = Inr t" "utf8_valid [] (str_bytes t)" "config_from_toml J t = Inr c"
    using assms(1) by (auto simp: codec_works_def)
  have "fst (config_load J no_faults dir (stored (join dir CONFIG_FILE) (str_bytes t) d)) = Ok c"
    using t read_text [of "stored (join dir CONFIG_FILE) (str_bytes t) d" "join dir CONFIG_FILE" t]
    by (simp add: config_load_def andthen_def map_err_def pure_act_def)
  with t assms(2) show ?thesis
    by (intro that [of t]) (simp_all add: config_save_def map_err_def fs_write_def usable_dir_def)
qed

lemma usable_dir_stored [simp]: "usable_dir dir (stored p bs d) = usable_dir dir d"
  by (simp add: usable_dir_def)

lemma update_state_saves:
  assumes "codec_works (x_codecs x)" and "x_faults x = no_faults" and "usable_dir dir (w_disk w)"
    and "fst (state_load (x_codecs x) no_faults dir (w_disk w)) = Ok s"
  obtains w' where "update_state x dir f w = (Ok (), w')" "usable_dir dir (w_disk w')"
    "fst (state_load (x_codecs x) no_faults dir (w_disk w')) = Ok (f s)"
    "w_server w' = w_server w" "w_commands w' = w_commands w"
proof -
  obtain t where t: "state_save (x_codecs x) no_faults dir (f s) (w_disk w) =
      (Ok (), stored (join dir STATE_FILE) (str_bytes t) (w_disk w))"
    "fst (state_load (x_codecs x) no_faults dir (stored (join dir STATE_FILE) (str_bytes t) (w_disk w))) = Ok (f s)"
    by (rule state_saved [OF assms(1,3)])
  show ?thesis
    by (rule that [of "w\<lparr>w_disk := stored (join dir STATE_FILE) (str_bytes t) (w_disk w)\<rparr>"])
      (use assms t in \<open>simp_all add: update_state_eq\<close>)
qed

section \<open>A concrete codec\<close>

text \<open>A state is a list of strings; a string is written as two letters per byte and an end mark.\<close>

definition nib :: "nat \<Rightarrow> char" where "nib n = char_of (97 + n mod 16)"

definition enc_word :: "string \<Rightarrow> string" where
  "enc_word s = concat (map (\<lambda>c. [nib (of_char c div 16), nib (of_char c)]) s)"

fun dec_word :: "string \<Rightarrow> string" where
  "dec_word (a # b # r) = char_of ((of_char a - 97) * 16 + (of_char b - 97) :: nat) # dec_word r"
| "dec_word _ = []"

definition enc_words :: "string list \<Rightarrow> string" where
  "enc_words ws = concat (map (\<lambda>w. enc_word w @ ''z'') ws)"

definition dec_words :: "string \<Rightarrow> string list" where
  "dec_words t = map dec_word (butlast (split_on CHR ''z'' t))"

lemma of_char_nib [simp]: "(of_char (nib n) :: nat) = 97 + n mod 16"
  by (simp add: nib_def)

lemma of_char_high [simp]: "(of_char c :: nat) div 16 < 16"
  by (simp add: div_less_iff_less_mult)

lemma dec_enc_word [simp]: "dec_word (enc_word s) = s"
proof (induction s)
  case (Cons c s)
  have "of_char c div 16 mod 16 * 16 + of_char c mod 16 = (of_char c :: nat)"
    using div_mult_mod_eq [of "of_char c :: nat" 16] by simp
  with Cons show ?case by (simp add: enc_word_def)
qed (simp add: enc_word_def)

lemma enc_word_letters: "x \<in> set (enc_word s) \<Longrightarrow> (of_char x :: nat) < 113"
  by (auto simp: enc_word_def)

lemma dec_enc_words [simp]: "dec_words (enc_words ws) = ws"
proof (induction ws)
  case Nil
  then show ?case by (simp add: dec_words_def enc_words_def)
next
  case (Cons w ws)
  have "CHR ''z'' \<notin> set (enc_word w)" using enc_word_letters [of "CHR ''z''" w] by auto
  moreover have "split_on c t \<noteq> []" for c t by (induction t) (auto split: list.split)
  ultimately show ?case using Cons by (simp add: dec_words_def enc_words_def split_on_append)
qed

lemma enc_words_ascii: "utf8_valid [] (str_bytes (enc_words ws))"
proof (rule utf8_ascii)
  have "(of_char c :: nat) < 128" if "c \<in> set (enc_words ws)" for c
    using that by (auto simp: enc_words_def dest!: enc_word_letters split: if_splits)
  then show "\<forall>b \<in> set (str_bytes (enc_words ws)). b < 0x80"
    by (auto simp: str_bytes_def word_less_nat_alt)
qed

definition opt_word :: "string option \<Rightarrow> string" where
  "opt_word x = (case x of None \<Rightarrow> [] | Some s \<Rightarrow> CHR ''s'' # s)"

definition word_opt :: "string \<Rightarrow> string option" where
  "word_opt s = (case s of [] \<Rightarrow> None | c # cs \<Rightarrow> Some cs)"

definition num_word :: "i64 \<Rightarrow> string" where "num_word n = bytes_str (u64_to_be n)"
definition word_num :: "string \<Rightarrow> i64" where "word_num s = u64_from_be (str_bytes s)"

lemma word_opt [simp]: "word_opt (opt_word x) = x"
  by (simp add: word_opt_def opt_word_def split: option.split)

lemma word_num [simp]: "word_num (num_word n) = n"
  using str_bytes_char_of [of "u64_to_be n"] by (simp add: word_num_def num_word_def bytes_str_def)

definition peer_words :: "peer_info \<Rightarrow> string list" where
  "peer_words p = [pi_node_id p, pi_wg_pubkey_b64 p, pi_ip p, opt_word (pi_last_endpoint p), opt_word (pi_via_relay p)]"

fun words_peers :: "string list \<Rightarrow> peer_info list" where
  "words_peers (a # b # c # d # e # r) =
     \<lparr>pi_node_id = a, pi_wg_pubkey_b64 = b, pi_ip = c, pi_last_endpoint = word_opt d, pi_via_relay = word_opt e\<rparr> # words_peers r"
| "words_peers _ = []"

lemma words_peers [simp]: "words_peers (concat (map peer_words ps)) = ps"
  by (induction ps) (simp_all add: peer_words_def)

definition state_words :: "cli_state \<Rightarrow> string list" where
  "state_words s =
     [st_node_id s, st_ip s, st_auth_token s, opt_word (map_option num_word (st_auth_token_expires_at s)),
      opt_word (st_last_endpoint s), opt_word (map_option num_word (st_last_handshake_at s))] @
     concat (map peer_words (st_known_peers s))"

fun words_state :: "string list \<Rightarrow> string + cli_state" where
  "words_state (a # b # c # d # e # f # r) =
     Inr \<lparr>st_node_id = a, st_ip = b, st_auth_token = c, st_auth_token_expires_at = map_option word_num (word_opt d),
          st_last_endpoint = word_opt e, st_last_handshake_at = map_option word_num (word_opt f),
          st_known_peers = words_peers r\<rparr>"
| "words_state _ = Inl ''missing field''"

definition plain_codecs :: codecs where
  "plain_codecs =
     \<lparr>state_to_json = (\<lambda>s. Inr (enc_words (state_words s))), state_from_json = (\<lambda>t. words_state (dec_words t)),
      config_to_toml = (\<lambda>c. Inr (enc_words [server_url c])),
      config_from_toml = (\<lambda>t. case dec_words t of [u] \<Rightarrow> Inr \<lparr>server_url = u\<rparr> | _ \<Rightarrow> Inl ''missing field'')\<rparr>"

lemma plain_codecs_work: "codec_works plain_codecs"
  by (simp add: codec_works_def plain_codecs_def enc_words_ascii state_words_def option.map_comp comp_def option.map_ident)

end
