(* ===== verification/Cli_Daemon_Props.thy ===== *)
theory Cli_Daemon_Props
  imports Cli_Files
begin

text \<open>
  The daemon and the server: as long as the token of the daemon is live at a heartbeat tick it stays
  live until well past the next one, and once another process has refreshed the token the daemon is
  cut off until it is restarted.
\<close>

section \<open>A daemon without a live token\<close>

text \<open>The network of an event is a coordination server with the state behind it.\<close>

fun served :: "('hs, 'ts, coord) daemon_event \<Rightarrow> bool" where
  "served (ManagerTick input) \<longleftrightarrow> True"
| "served (DiscoveryTick x E) \<longleftrightarrow> (\<exists>C X Ec. x_net x = direct (C :: ('hs, 'ts) crypto) X Ec)"
| "served (HeartbeatTick x t) \<longleftrightarrow> (\<exists>C X Ec. x_net x = direct (C :: ('hs, 'ts) crypto) X Ec)"

text \<open>The step left the server's data and the token alone.\<close>

definition cut_off ::
  "('hs, 'ts) daemon \<Rightarrow> coord world \<Rightarrow> (cli_error, ('hs, 'ts) daemon) outcome \<times> coord world \<Rightarrow> bool" where
  "cut_off D w x \<longleftrightarrow> same_db (w_server w) (w_server (snd x)) \<and> (\<forall>D'. fst x = Ok D' \<longrightarrow> dm_token D' = dm_token D)"

lemma daemon_refresh_dead:
  assumes "x_net x = direct C X E" and "dead_token (w_server w) (dm_token D)"
  shows "\<exists>w'. daemon_refresh x D w = (Ok (dm_token D), w') \<and> same_db (w_server w) (w_server w')"
proof -
  have "get_node_by_token (cdb (w_server w)) (dm_token D) (clock E) = None" using assms(2) by (simp add: dead_token_def)
  from refused_calls(1) [OF this, of "x_crypto x" "x_libs x" C X "x_now x"
        "client_new (dm_url D)" "dm_identity D"] obtain s' where s': "client_refresh_token (x_crypto x) (x_libs x) (direct C X E) (x_now x)
      (client_new (dm_url D)) (dm_identity D) (dm_token D) (w_server w) = (Err (ServerError ''refresh_token failed''), s')"
    "same_db (w_server w) s'" by (elim exE conjE)
  then show ?thesis
    by (auto simp: daemon_refresh_def andthen_def attempt_load attempt_eq on_server_apply assms(1) ret_def
        split: outcome.split)
qed

lemma heartbeat_tick_dead:
  assumes "x_net x = direct C X E" and "dead_token (w_server w) (dm_token D)"
  shows "cut_off D w (heartbeat_tick x t D w)"
proof -
  obtain w1 where w1: "daemon_refresh x D w = (Ok (dm_token D), w1)" "same_db (w_server w) (w_server w1)"
    using daemon_refresh_dead [OF assms] by blast
  have "get_node_by_token (cdb (w_server w1)) (dm_token D) (clock E) = None"
    using w1(2) assms(2) by (simp add: dead_token_def same_db_def)
  from refused_calls(2) [OF this, of "x_crypto x" "x_libs x" C X "x_now x"
        "client_new (dm_url D)" "dm_identity D" "dm_endpoint D" "dm_via_relay D"]
  obtain s' where s': "client_heartbeat (x_crypto x) (x_libs x) (direct C X E) (x_now x)
      (client_new (dm_url D)) (dm_identity D) (dm_token D) (dm_endpoint D) (dm_via_relay D) (w_server w1) =
        (Err (ServerError ''heartbeat failed''), s')" "same_db (w_server w1) s'" by (elim exE conjE)
  show ?thesis
    using w1 s' assms(1)
    by (auto simp: cut_off_def heartbeat_tick_def andthen_def attempt_eq on_server_apply update_state_eq ret_def
        intro: same_db_trans split: outcome.split)
qed

lemma discover_peer_token: "keeps (\<lambda>D. dm_token D = tok) (for_each (discover_peer C X E) ps)"
  by (rule for_each_keeps)
    (auto simp: keeps_def discover_peer_def split: option.split prod.split outcome.split bool.split)

lemma discovery_tick_dead:
  assumes "x_net x = direct C X Ec"
  shows "cut_off D w (discovery_tick x E D w)"
proof (cases "fst (state_load (x_codecs x) (x_faults x) (dm_dir D) (w_disk w))")
  case (Ok s)
  let ?ask = "client_peers (direct C X Ec) (client_new (dm_url D)) (st_auth_token s) (w_server w)"
  have same: "same_db (w_server w) (snd ?ask)" by (rule client_peers_same)
  have tok: "dm_token D' = dm_token D" if "for_each (discover_peer (x_crypto x) (x_libs x) E) es D = (r, D')" for es r D'
    using keepsD [OF discover_peer_token, where s = D] that by (metis snd_conv)
  show ?thesis
    using same tok Ok assms
    by (auto simp: cut_off_def discovery_tick_def andthen_def attempt_load attempt_eq on_server_apply ret_def pure_act_def
        split: outcome.split prod.split)
qed (auto simp: cut_off_def discovery_tick_def andthen_def attempt_load ret_def)

lemma daemon_step_dead:
  assumes "served e" and "dead_token (w_server w) (dm_token D)"
  shows "cut_off D w (daemon_step C e D w)"
proof (cases e)
  case (ManagerTick input)
  then show ?thesis by (auto simp: cut_off_def manager_tick_def pure_act_def ret_def split: prod.split outcome.split)
qed (use assms heartbeat_tick_dead discovery_tick_dead in auto)

lemma daemon_run_dead:
  "\<forall>e \<in> set es. served e \<Longrightarrow> dead_token (w_server w) (dm_token D) \<Longrightarrow> cut_off D w (daemon_run C es D w)"
proof (induction es arbitrary: D w)
  case Nil
  then show ?case by (simp add: cut_off_def ret_def)
next
  case (Cons e es)
  obtain r w1 where r: "daemon_step C e D w = (r, w1)" by (cases "daemon_step C e D w")
  have step: "cut_off D w (r, w1)" using daemon_step_dead [of e w D C] Cons.prems r by simp
  show ?case
  proof (cases r)
    case (Ok D1)
    then have "dead_token (w_server w1) (dm_token D1)"
      using step Cons.prems(2) dead_same_db by (auto simp: cut_off_def)
    then have "cut_off D1 w1 (daemon_run C es D1 w1)" using Cons.IH Cons.prems(1) by simp
    with step r Ok show ?thesis by (auto simp: cut_off_def andthen_def intro: same_db_trans)
  qed (use r step in \<open>auto simp: cut_off_def andthen_def\<close>)
qed

lemma cmd_refresh_token_OkD:
  assumes "cmd_refresh_token x dir pp w = (Ok (), w')"
    and "fst (state_load (x_codecs x) (x_faults x) dir (w_disk w)) = Ok s"
  obtains ks :: opened_keys and cfg :: cli_config and resp srv where "fst (open_store x dir pp w) = Ok ks"
    "client_refresh_token (x_crypto x) (x_libs x) (x_net x) (x_now x) (client_new (server_url cfg))
       (ok_identity ks) (st_auth_token s) (w_server w) = (Ok resp, srv)"
    "w_server w' = srv"
proof -
  obtain ks w1 cfg w2 s' w3 resp w4 where
    "open_store x dir pp w = (Ok ks, w1)"
    "on_disk (config_load (x_codecs x) (x_faults x) dir) w1 = (Ok cfg, w2)"
    "on_disk (state_load (x_codecs x) (x_faults x) dir) w2 = (Ok s', w3)"
    "on_server (client_refresh_token (x_crypto x) (x_libs x) (x_net x) (x_now x)
       (client_new (server_url cfg)) (ok_identity ks) (st_auth_token s')) w3 = (Ok resp, w4)"
    "on_disk (state_save (x_codecs x) (x_faults x) dir (with_new_token resp s')) w4 = (Ok (), w')"
    using assms(1) unfolding cmd_refresh_token_def andthen_Ok_iff by blast
  moreover from this have "w1 = w" using open_store_same by (metis snd_conv)
  ultimately show ?thesis
    using assms(2) that [of ks cfg resp "w_server w4"] by (auto simp: on_server_apply on_disk_apply prod_eq_iff)
qed

text \<open>C29: A token refreshed behind the daemon's back.  The daemon works with a copy of the token it read at
  start-up.  When \<open>naboscale refresh-token\<close> succeeds for the same node while it runs, every later
  refresh and heartbeat of the daemon is refused, whatever happens: its copy never changes again,
  and the server records no endpoint and no sign of life from it any more.\<close>

theorem external_refresh_cuts_daemon_off:
  assumes "coord_ok (w_server w)" and "x_net x = direct (x_crypto x) (x_libs x) E"
    and "fst (state_load (x_codecs x) (x_faults x) dir (w_disk w)) = Ok s" and "st_auth_token s = dm_token D"
    and "cmd_refresh_token x dir pp w = (Ok (), w1)"
    and "\<forall>e \<in> set es. served e" and "daemon_run C es D w1 = (r, w2)"
  shows "dead_token (w_server w2) (dm_token D) \<and> db_nodes (cdb (w_server w2)) = db_nodes (cdb (w_server w)) \<and>
    (\<forall>D'. r = Ok D' \<longrightarrow> dm_token D' = dm_token D)"
proof -
  obtain ks :: opened_keys and cfg :: cli_config and resp where "client_refresh_token (x_crypto x) (x_libs x) (x_net x) (x_now x) (client_new (server_url cfg))
       (ok_identity ks) (st_auth_token s) (w_server w) = (Ok resp, w_server w1)"
    by (rule cmd_refresh_token_OkD [OF assms(5,3)]) auto
  then obtain req where "refresh_token (x_crypto x) (x_libs x) E (bearer_auth (dm_token D)) req (w_server w) = (Ok resp, w_server w1)"
    by (auto simp: assms(2,4) client_refresh_direct split: prod.splits outcome.splits)
  note killed = refresh_kills_token [OF assms(1) this]
  with daemon_run_dead [OF assms(6), of w1 D C] assms(7) dead_same_db [of "w_server w1" "w_server w2"] show ?thesis
    by (auto simp: cut_off_def same_db_def)
qed

section \<open>A daemon with a live token\<close>

text \<open>A heartbeat, whatever its result, leaves all tokens and the key columns of all nodes.\<close>

lemma heartbeat_columns:
  "\<exists>f :: node_record \<Rightarrow> node_record. db_nodes (cdb (snd (heartbeat C X E h req s))) = map f (db_nodes (cdb s)) \<and>
     (\<forall>n. n_node_id (f n) = n_node_id n \<and> n_identity (f n) = n_identity n) \<and>
     db_tokens (cdb (snd (heartbeat C X E h req s))) = db_tokens (cdb s)"
proof -
  obtain r s1 where c: "heartbeat_checks C X E h req s = (r, s1)" by (cases "heartbeat_checks C X E h req s")
  have same: "cdb s1 = cdb s" using stays_result [OF heartbeat_checks_same c] by (simp add: same_data_def)
  show ?thesis
  proof (cases r)
    case (Ok n)
    let ?f = "\<lambda>m. if n_node_id m = n_node_id n
        then m\<lparr>n_last_endpoint := Some (hb_endpoint req), n_via_relay := coalesce (hb_via_relay req) (n_via_relay m),
               n_last_seen := Some (clock E)\<rparr> else m"
    show ?thesis
      by (rule exI [of _ ?f])
        (use c Ok same in \<open>simp_all add: heartbeat_eq heartbeat_commit_def andthen_def update_heartbeat_def update_nodes_def\<close>)
  qed (rule exI [of _ id], use c same in \<open>simp add: heartbeat_eq andthen_def\<close>)+
qed

lemma heartbeat_lookup:
  assumes "coord_ok s"
  shows "\<exists>f :: node_record \<Rightarrow> node_record. (\<forall>n. n_node_id (f n) = n_node_id n \<and> n_identity (f n) = n_identity n) \<and>
    (\<forall>tok t. get_node_by_token (cdb (snd (heartbeat C X E h req s))) tok t = map_option f (get_node_by_token (cdb s) tok t))"
proof -
  let ?s' = "snd (heartbeat C X E h req s)"
  obtain f :: "node_record \<Rightarrow> node_record" where f: "db_nodes (cdb ?s') = map f (db_nodes (cdb s))"
    "\<forall>n. n_node_id (f n) = n_node_id n \<and> n_identity (f n) = n_identity n" "db_tokens (cdb ?s') = db_tokens (cdb s)"
    using heartbeat_columns [of C X E h req s] by blast
  have db: "db_ok (cdb s)" "db_ok (cdb ?s')" using assms heartbeat_keeps [OF assms, of C X E h req] by (simp_all add: coord_ok_def)
  have "get_node_by_token (cdb ?s') tok t = map_option f (get_node_by_token (cdb s) tok t)" for tok t
  proof (cases "get_node_by_token (cdb s) tok t")
    case None
    with f have "get_node_by_token (cdb ?s') tok t = None" by (simp only: get_node_by_token_None) auto
    with None show ?thesis by simp
  next
    case (Some n)
    then have "get_node_by_token (cdb ?s') tok t = Some (f n)"
      unfolding get_node_by_token_iff [OF db(1)] get_node_by_token_iff [OF db(2)] f(1,3) using f(2) by auto
    with Some show ?thesis by simp
  qed
  with f(2) show ?thesis by blast
qed

text \<open>The daemon's copy of the token finds its node until \<open>e\<close>, which is the expiry in the state file.\<close>

definition has_access ::
  "codecs \<Rightarrow> ('hs, 'ts) daemon \<Rightarrow> coord world \<Rightarrow> node_record \<Rightarrow> i64 \<Rightarrow> bool" where
  "has_access J D w n e \<longleftrightarrow>
     coord_ok (w_server w) \<and> usable_dir (dm_dir D) (w_disk w) \<and>
     (\<exists>s. fst (state_load J no_faults (dm_dir D) (w_disk w)) = Ok s \<and> st_auth_token_expires_at s = Some e) \<and>
     (\<forall>t. get_node_by_token (cdb (w_server w)) (dm_token D) t = (if sint t < sint e then Some n else None))"

lemma sint_plus:
  fixes a :: i64
  assumes "0 \<le> sint b" and "sint a + sint b < 2 ^ 63"
  shows "sint (a + b) = sint a + sint b"
proof -
  have "- (2 ^ 63) \<le> sint a" using sint_u64_bounds by blast
  with assms show ?thesis by (simp add: sint_word_add signed_take_bit_int_eq_self)
qed

lemma daemon_refresh_access:
  assumes crypto: "signatures_verify (x_crypto x)" "base64_works (x_libs x)" "own_identity (x_crypto x) (dm_identity D)"
    and codec: "codec_works (x_codecs x)" "x_faults x = no_faults"
    and net: "x_net x = direct (x_crypto x) (x_libs x) E" "x_now x = clock E"
    and acc: "has_access (x_codecs x) D w n e" and live: "sint (clock E) < sint e"
    and node: "n_identity n = identity_public (dm_identity D)"
    and admitted: "admits E Token (w_server w)"
    and fresh: "\<forall>u \<in> set (db_tokens (cdb (w_server w))). t_token u \<noteq> generate_token (x_libs x) E"
    and ttl: "60 < sint (token_ttl_secs (w_server w))" "sint (clock E) + sint (token_ttl_secs (w_server w)) < 2 ^ 63"
  obtains tok w1 e1 where "daemon_refresh x D w = (Ok tok, w1)"
    "has_access (x_codecs x) (D\<lparr>dm_token := tok\<rparr>) w1 n e1" "sint (clock E) + 60 < sint e1"
proof -
  obtain s where s: "fst (state_load (x_codecs x) no_faults (dm_dir D) (w_disk w)) = Ok s" "st_auth_token_expires_at s = Some e"
    and ok: "coord_ok (w_server w)" "usable_dir (dm_dir D) (w_disk w)"
    and lookup: "\<And>t. get_node_by_token (cdb (w_server w)) (dm_token D) t = (if sint t < sint e then Some n else None)"
    using acc by (auto simp: has_access_def)
  have soon: "sint (clock E + 60) = sint (clock E) + 60" using ttl by (subst sint_plus) simp_all
  show ?thesis
  proof (cases "is_token_expired_soon (x_now x) (Some e) 60")
    case False
    then have "daemon_refresh x D w = (Ok (dm_token D), w)"
      using s codec(2) by (simp add: daemon_refresh_def andthen_def attempt_load ret_def)
    moreover have "sint (clock E) + 60 < sint e" using False soon net(2) by (simp add: is_token_expired_soon_def)
    ultimately show ?thesis using that [of "dm_token D" w e] acc by simp
  next
    case True
    let ?call = "client_refresh_token (x_crypto x) (x_libs x) (direct (x_crypto x) (x_libs x) E) (clock E)
        (client_new (dm_url D)) (dm_identity D) (dm_token D) (w_server w)"
    have "get_node_by_token (cdb (w_server w)) (dm_token D) (clock E) = Some n" using lookup live by simp
    moreover have "validate_timestamp (clock E) (clock E) = Ok ()" by (simp add: validate_timestamp_iff)
    ultimately have "is_ok (fst ?call)" by (intro client_refresh_ok [OF crypto _ node _ admitted ok(1) fresh])
    then obtain rf srv where call: "?call = (Ok rf, srv)" by (cases ?call) (auto simp: is_ok_iff)
    then obtain req where req: "refresh_token (x_crypto x) (x_libs x) E (bearer_auth (dm_token D)) req (w_server w) = (Ok rf, srv)"
      by (auto simp: client_refresh_direct split: prod.splits outcome.splits)
    have exp: "rf_auth_token_expires_at rf = clock E + token_ttl_secs (w_server w)" by (rule refresh_OkD [OF req]) simp
    obtain m where m: "get_node_by_token (cdb (w_server w)) (dm_token D) (clock E) = Some m"
      "\<And>t. get_node_by_token (cdb srv) (rf_auth_token rf) t = (if sint t < sint (rf_auth_token_expires_at rf) then Some m else None)"
      using refresh_effect [OF ok(1) req] by auto
    then have "m = n" using lookup live by simp
    have ok1: "coord_ok srv" using refresh_keeps [OF ok(1), of "x_crypto x" "x_libs x" E "bearer_auth (dm_token D)" req] req by simp
    obtain w1 where w1: "update_state x (dm_dir D) (with_new_token rf) (w\<lparr>w_server := srv\<rparr>) = (Ok (), w1)"
      "usable_dir (dm_dir D) (w_disk w1)"
      "fst (state_load (x_codecs x) no_faults (dm_dir D) (w_disk w1)) = Ok (with_new_token rf s)"
      "w_server w1 = srv"
      using update_state_saves [OF codec, of "dm_dir D" "w\<lparr>w_server := srv\<rparr>" s "with_new_token rf"] ok(2) s(1) by auto
    have "daemon_refresh x D w = (Ok (rf_auth_token rf), w1)"
      using s True codec(2) call net w1(1)
      by (simp add: daemon_refresh_def andthen_def attempt_load attempt_eq on_server_apply ret_def)
    moreover have "has_access (x_codecs x) (D\<lparr>dm_token := rf_auth_token rf\<rparr>) w1 n (rf_auth_token_expires_at rf)"
      using ok1 w1 m(2) \<open>m = n\<close> by (auto simp: has_access_def with_new_token_def)
    moreover have "sint (clock E) + 60 < sint (rf_auth_token_expires_at rf)"
      using ttl sint_plus [of "token_ttl_secs (w_server w)" "clock E"] by (simp add: exp)
    ultimately show ?thesis by (rule that)
  qed
qed

lemma client_heartbeat_direct:
  "\<exists>req r. client_heartbeat C X (direct C X E) t c i tok endpoint relay s =
     (r, snd (heartbeat C X E (bearer_auth tok) req s)) \<and> \<not> is_panic r"
proof -
  let ?req = "\<lparr>hb_endpoint = endpoint, hb_via_relay = relay, hb_timestamp = t,
      hb_signature = b64_encode X (identity_sign C i (build_heartbeat_message t endpoint relay))\<rparr>"
  show ?thesis
    by (rule exI [of _ ?req])
      (simp add: client_heartbeat_def Let_def client_messages send_request_direct on_success_respond split: outcome.split)
qed


end
