(* ===== verification/Cli_Commands_Props.thy ===== *)
theory Cli_Commands_Props
  imports Cli_Daemon_Props
begin

text \<open>
  The one-shot commands from end to end, on the models of the key store, the HTTP client and the
  coordination server: what \<open>init\<close> and \<open>register\<close> leave behind, and where \<open>heartbeat\<close> and \<open>peers\<close>
  fail.
\<close>

section \<open>init\<close>

lemma config_save_other:
  assumes "config_save J F dir c d = (r, d')" and "q \<noteq> join dir CONFIG_FILE"
  shows "file_bytes d' q = file_bytes d q"
  using assms
  by (auto simp: config_save_def map_err_def fs_write_def split: sum.splits if_splits option.splits)

lemma key_files [simp]: "IDENTITY_FILE = file_name IdentityKey" "WG_KEY_FILE = file_name WgKey"
  "CONFIG_FILE \<noteq> file_name kind" "STATE_FILE \<noteq> file_name kind" "CONFIG_FILE \<noteq> temp_name (file_name kind)"
  "STATE_FILE \<noteq> temp_name (file_name kind)" "CONFIG_FILE \<noteq> STATE_FILE"
  by (cases kind; simp add: IDENTITY_FILE_def WG_KEY_FILE_def CONFIG_FILE_def STATE_FILE_def temp_name_def)+

text \<open>Loading a key looks only at its own file.\<close>

lemma load_key_bytes:
  assumes "file_bytes d (join dir (file_name kind)) = Some bs" and "file_bytes d' (join dir (file_name kind)) = Some bs"
    and "\<And>p. read_fault F p = None"
  shows "fst (load_key K F dir kind pp d) = fst (load_key K F dir kind pp d')"
  using load_key_plain [OF assms(3) assms(1)] load_key_plain [OF assms(3) assms(2)] by simp

lemma load_key_pair: "load_key K F dir kind pp d = (fst (load_key K F dir kind pp d), d)"
  using load_key_same [of K F dir kind pp] by (simp add: stays_eq prod_eq_iff)

lemma opened_keys_open_eq:
  "opened_keys_open C K F dir pp d =
     (try_ok (fst (load_key K F dir IdentityKey pp d)) (\<lambda>i.
      try_ok (fst (load_key K F dir WgKey pp d)) (\<lambda>w.
      try_ok (key_of_slice i) (\<lambda>i'. try_ok (key_of_slice w) (\<lambda>w'.
        Ok \<lparr>ok_identity = identity_from_bytes C i', ok_wg = keypair_from_bytes C w'\<rparr>)))), d)"
proof -
  obtain r1 where r1: "load_key K F dir IdentityKey pp d = (r1, d)" using load_key_pair by blast
  obtain r2 where r2: "load_key K F dir WgKey pp d = (r2, d)" using load_key_pair by blast
  show ?thesis
    by (cases r1; cases r2) (simp_all add: opened_keys_open_def r1 r2 andthen_def pure_act_def ret_def key_of_slice_def)
qed

lemma opened_keys_bytes:
  assumes "\<And>kind. file_bytes d' (join dir (file_name kind)) = file_bytes d (join dir (file_name kind))"
    and "\<And>kind. file_bytes d (join dir (file_name kind)) \<noteq> None" and "\<And>p. read_fault F p = None"
  shows "fst (opened_keys_open C K F dir pp d') = fst (opened_keys_open C K F dir pp d)"
proof -
  have "fst (load_key K F dir kind pp d') = fst (load_key K F dir kind pp d)" for kind
    using load_key_bytes [of d' dir kind _ d F K pp] assms by (metis not_None_eq)
  then show ?thesis by (simp add: opened_keys_open_eq)
qed

lemma saved_key_exists:
  assumes "save_key K F rnd dir kind m pw d = (Ok (), d')"
  shows "file_bytes d' (join dir (file_name kind)) \<noteq> None"
    "\<And>q. q \<noteq> join dir (file_name kind) \<Longrightarrow> q \<noteq> join dir (temp_name (file_name kind)) \<Longrightarrow> file_bytes d' q = file_bytes d q"
proof -
  obtain env where "write_atomic F (join dir (file_name kind)) env d = (Ok (), d')"
    using assms by (auto simp: save_key_def save_v2_def split: if_splits outcome.splits)
  with write_atomic_cases [of dir "file_name kind" env d F]
  have *: "old_or_new (join dir (file_name kind)) (join dir (temp_name (file_name kind))) env d (Ok (), d')" by simp
  then show "file_bytes d' (join dir (file_name kind)) \<noteq> None" by (simp add: old_or_new_def)
  show "\<And>q. q \<noteq> join dir (file_name kind) \<Longrightarrow> q \<noteq> join dir (temp_name (file_name kind)) \<Longrightarrow> file_bytes d' q = file_bytes d q"
    using * by (simp add: old_or_new_def)
qed

lemma config_save_loads:
  assumes "codec_works J" and "\<And>p. read_fault F p = None" and "config_save J F dir c d = (Ok (), d')"
  shows "fst (config_load J F dir d') = Ok c"
proof -
  obtain t where t: "config_to_toml J c = Inr t" "utf8_valid [] (str_bytes t)" "config_from_toml J t = Inr c"
    using assms(1) by (auto simp: codec_works_def)
  have "d' = stored (join dir CONFIG_FILE) (str_bytes t) d"
    using assms(3) t(1)
    by (auto simp: config_save_def map_err_def fs_write_def split: if_splits option.splits)
  then have "fs_read F (join dir CONFIG_FILE) d' = (Ok (str_bytes t), d')"
    by (intro fs_read_plain assms(2)) simp
  with t show ?thesis by (simp add: config_load_def fs_read_to_string_def andthen_def map_err_def pure_act_def)
qed

lemma cmd_init_OkD:
  assumes "cmd_init x rnd dir srv force pp d = (Ok (), d')"
  obtains pw d0 d1 d2 where "resolve (x_var x) pp = Ok (Some pw)" "identity_exists dir d0 \<longrightarrow> force"
    "ensure_dir (x_faults x) dir d = (Ok (), d0)"
    "save_key (x_keys x) (x_faults x) (r_identity_envelope rnd) dir IdentityKey
       (identity_private_bytes (identity_generate (x_crypto x) (r_identity rnd))) pw d0 = (Ok (), d1)"
    "save_key (x_keys x) (x_faults x) (r_wg_envelope rnd) dir WgKey (kp_secret (keypair_generate (x_crypto x) (r_wg rnd))) pw d1 = (Ok (), d2)"
    "config_save (x_codecs x) (x_faults x) dir (default_with_server srv) d2 = (Ok (), d')"
  using assms unfolding cmd_init_def andthen_Ok_iff
  by (auto simp: Let_def andthen_Ok_iff split: if_splits outcome.splits option.splits)

text \<open>What \<open>init\<close> leaves behind.  When \<open>init\<close> succeeds, the key store opens with the same passphrase
  and gives the generated identity and WireGuard pair, the configuration names the server, and no
  earlier identity was overwritten unless \<open>--force\<close> was given.\<close>

lemma init_leaves_a_node:
  assumes lib: "aead_works (x_keys x)" "kdf_works (x_keys x)" "codec_works (x_codecs x)"
    and len: "length (fst (r_identity_envelope rnd)) = 16" "length (snd (r_identity_envelope rnd)) = 24"
      "length (fst (r_wg_envelope rnd)) = 16" "length (snd (r_wg_envelope rnd)) = 24"
    and readable: "\<And>p. read_fault (x_faults x) p = None"
    and init: "cmd_init x rnd dir srv force pp d = (Ok (), d')"
  shows "\<exists>pw. resolve (x_var x) pp = Ok (Some pw) \<and>
    opened_keys_open (x_crypto x) (x_keys x) (x_faults x) dir (Some pw) d' =
      (Ok \<lparr>ok_identity = identity_generate (x_crypto x) (r_identity rnd), ok_wg = keypair_generate (x_crypto x) (r_wg rnd)\<rparr>, d') \<and>
    fst (config_load (x_codecs x) (x_faults x) dir d') = Ok (default_with_server srv) \<and>
    (path_exists dir d \<longrightarrow> identity_exists dir d \<longrightarrow> force)"
proof -
  obtain pw d0 d1 d2 where s: "resolve (x_var x) pp = Ok (Some pw)" "identity_exists dir d0 \<longrightarrow> force"
    "ensure_dir (x_faults x) dir d = (Ok (), d0)"
    "save_key (x_keys x) (x_faults x) (r_identity_envelope rnd) dir IdentityKey
       (identity_private_bytes (identity_generate (x_crypto x) (r_identity rnd))) pw d0 = (Ok (), d1)"
    "save_key (x_keys x) (x_faults x) (r_wg_envelope rnd) dir WgKey (kp_secret (keypair_generate (x_crypto x) (r_wg rnd))) pw d1 = (Ok (), d2)"
    "config_save (x_codecs x) (x_faults x) dir (default_with_server srv) d2 = (Ok (), d')"
    by (rule cmd_init_OkD [OF init])
  have gen: "identity_from_bytes C (identity_private_bytes (identity_generate C r)) = identity_generate C r"
    "keypair_from_bytes C (kp_secret (keypair_generate C r)) = keypair_generate C r" for C :: "('a, 'b) crypto" and r
    by (simp_all add: identity_from_bytes_def identity_private_bytes_def identity_generate_def keypair_from_bytes_def keypair_generate_def)
  have "fst (opened_keys_open (x_crypto x) (x_keys x) (x_faults x) dir (Some pw) d2) =
      Ok \<lparr>ok_identity = identity_generate (x_crypto x) (r_identity rnd), ok_wg = keypair_generate (x_crypto x) (r_wg rnd)\<rparr>"
  proof -
    obtain s1 n1 s2 n2 where env: "r_identity_envelope rnd = (s1, n1)" "r_wg_envelope rnd = (s2, n2)"
      by (metis prod.exhaust)
    from keystore_opens [OF lib(1,2) _ _ _ _ s(4,5) [unfolded env] readable, where C = "x_crypto x"] len gen env
    show ?thesis by simp
  qed
  moreover have "fst (opened_keys_open (x_crypto x) (x_keys x) (x_faults x) dir (Some pw) d') =
      fst (opened_keys_open (x_crypto x) (x_keys x) (x_faults x) dir (Some pw) d2)"
  proof (rule opened_keys_bytes [OF _ _ readable])
    fix kind
    show "file_bytes d' (join dir (file_name kind)) = file_bytes d2 (join dir (file_name kind))"
      by (rule config_save_other [OF s(6)]) (metis join_simps(1) key_files(3))
    show "file_bytes d2 (join dir (file_name kind)) \<noteq> None"
      using saved_key_exists [OF s(4)] saved_key_exists [OF s(5)] by (cases kind) (simp_all add: temp_name_def)
  qed
  moreover have "identity_exists dir d \<longrightarrow> force" if "path_exists dir d"
    using s(2,3) that by (simp add: ensure_dir_def)
  moreover have "snd (opened_keys_open (x_crypto x) (x_keys x) (x_faults x) dir (Some pw) d') = d'"
    by (simp add: opened_keys_open_eq)
  ultimately show ?thesis
    using s(1) config_save_loads [OF lib(3) readable s(6)] by (simp add: prod_eq_iff)
qed

section \<open>register\<close>

lemma decode_pubkey_own:
  assumes "base64_works X" and "decode_pubkey X (b64_encode X k) = Ok k'"
  shows "k' = k"
  using assms by (auto simp: base64_works_def decode_pubkey_def split: if_splits)

lemma after_open: "andthen (open_store x dir pp) f w =
    (case fst (open_store x dir pp w) of Ok ks \<Rightarrow> f ks w | Err e \<Rightarrow> (Err e, w) | Panic msg \<Rightarrow> (Panic msg, w))"
  using open_store_same [of x dir pp w]
  by (cases "open_store x dir pp w"; cases "fst (open_store x dir pp w)") (auto simp: andthen_def)

lemma open_store_Ok: "open_store x dir pp w = (Ok ks, w1) \<Longrightarrow> fst (open_store x dir pp w) = Ok ks \<and> w1 = w"
  using open_store_same [of x dir pp w] by simp

lemma open_store_pair: "fst (open_store x dir pp w) = Ok ks \<Longrightarrow> open_store x dir pp w = (Ok ks, w)"
  using open_store_same [of x dir pp w] by (simp add: prod_eq_iff)

lemma ensure_dir_exists: "path_exists dir d \<Longrightarrow> ensure_dir F dir d = (Ok (), d)"
  by (simp add: ensure_dir_def)

lemma usable_after_save: "state_save J F dir s d = (Ok (), d') \<Longrightarrow> dir \<in> directories d' \<and> join dir STATE_FILE \<notin> directories d'"
  by (auto simp: state_save_def map_err_def fs_write_def split: sum.splits if_splits option.splits)

lemma state_save_loads:
  assumes "codec_works J" and "\<And>p. read_fault F p = None" and "state_save J F dir s d = (Ok (), d')"
  shows "fst (state_load J F dir d') = Ok s"
proof -
  obtain t where t: "state_to_json J s = Inr t" "utf8_valid [] (str_bytes t)" "state_from_json J t = Inr s"
    using assms(1) by (auto simp: codec_works_def)
  have "d' = stored (join dir STATE_FILE) (str_bytes t) d"
    using assms(3) t(1)
    by (auto simp: state_save_def map_err_def fs_write_def split: if_splits option.splits)
  then have "fs_read F (join dir STATE_FILE) d' = (Ok (str_bytes t), d')"
    by (intro fs_read_plain assms(2)) simp
  with t show ?thesis by (simp add: state_load_def fs_read_to_string_def andthen_def map_err_def pure_act_def)
qed

text \<open>C22: What \<open>register\<close> leaves behind.  When \<open>register\<close> succeeds against the coordination server, the
  server has exactly one new node, with the two public keys of the key store; the state file on
  disk is the returned state, with this node's id and address; and the token in it finds this
  node until the expiry in it, never after: a daemon started from this directory has access.\<close>

theorem register_leaves_a_node:
  assumes lib: "base64_works (x_libs x)" "codec_works (x_codecs x)"
    and net: "x_net x = direct (x_crypto x) (x_libs x) E" and readable: "\<And>p. read_fault (x_faults x) p = None"
    and ok: "coord_ok (w_server w)" and dir: "path_exists dir (w_disk w)"
    and register: "cmd_register x dir pp w = (Ok s, w')"
  shows "\<exists>ks n e. fst (open_store x dir pp w) = Ok ks \<and>
    db_nodes (cdb (w_server w')) = db_nodes (cdb (w_server w)) @ [n] \<and>
    n_identity n = identity_public (ok_identity ks) \<and> n_wg n = kp_public (ok_wg ks) \<and>
    st_node_id s = n_node_id n \<and> st_ip s = n_ip n \<and> st_auth_token_expires_at s = Some e \<and>
    fst (state_load (x_codecs x) (x_faults x) dir (w_disk w')) = Ok s \<and>
    (\<forall>t. get_node_by_token (cdb (w_server w')) (st_auth_token s) t = (if sint t < sint e then Some n else None))"
proof -
  obtain ks cfg resp w1 where r: "fst (open_store x dir pp w) = Ok ks"
    "on_server (client_register (x_crypto x) (x_libs x) (direct (x_crypto x) (x_libs x) E) (x_now x)
       (client_new (server_url (cfg :: cli_config))) (ok_identity ks) (kp_public (ok_wg ks))) w = (Ok resp, w1)"
    and s: "s = \<lparr>st_node_id = rs_node_id resp, st_ip = rs_ip resp, st_auth_token = rs_auth_token resp,
        st_auth_token_expires_at = Some (rs_auth_token_expires_at resp),
        st_last_endpoint = None, st_last_handshake_at = None, st_known_peers = []\<rparr>"
    and saved: "on_disk (state_save (x_codecs x) (x_faults x) dir s) w1 = (Ok (), w')"
    using register dir
    by (auto simp: cmd_register_def andthen_Ok_iff on_disk_apply ensure_dir_exists open_store_same net Let_def ret_def
        dest!: open_store_Ok)
  obtain srv where srv: "w1 = w\<lparr>w_server := srv\<rparr>" "client_register (x_crypto x) (x_libs x) (direct (x_crypto x) (x_libs x) E) (x_now x)
       (client_new (server_url cfg)) (ok_identity ks) (kp_public (ok_wg ks)) (w_server w) = (Ok resp, srv)"
    using r(2) by (auto simp: on_server_apply prod_eq_iff)
  let ?i = "identity_public (ok_identity ks)" and ?k = "kp_public (ok_wg ks)"
  let ?req = "\<lparr>rq_identity_pubkey = b64_encode (x_libs x) ?i, rq_wg_pubkey = b64_encode (x_libs x) ?k,
      rq_timestamp = x_now x, rq_signature = b64_encode (x_libs x)
        (identity_sign (x_crypto x) (ok_identity ks) (build_register_message (x_now x) ?i ?k))\<rparr>"
  have reg: "register (x_crypto x) (x_libs x) E ?req (w_server w) = (Ok resp, srv)"
    using srv(2) by (auto simp: client_register_direct split: prod.splits outcome.splits)
  obtain n where n: "db_nodes (cdb srv) = db_nodes (cdb (w_server w)) @ [n]" "n_node_id n = rs_node_id resp" "n_ip n = rs_ip resp"
    "decode_pubkey (x_libs x) (rq_identity_pubkey ?req) = Ok (n_identity n)"
    "decode_pubkey (x_libs x) (rq_wg_pubkey ?req) = Ok (n_wg n)"
    "\<forall>t. get_node_by_token (cdb srv) (rs_auth_token resp) t = (if sint t < sint (rs_auth_token_expires_at resp) then Some n else None)"
    using register_effect [OF ok reg] by blast
  have "n_identity n = ?i" "n_wg n = ?k"
    using n(4,5) decode_pubkey_own [OF lib(1)] by simp_all
  moreover have "w_server w' = srv" "fst (state_load (x_codecs x) (x_faults x) dir (w_disk w')) = Ok s"
    using saved srv(1) state_save_loads [OF lib(2) readable, of dir s "w_disk w"]
    by (auto simp: on_disk_apply prod_eq_iff)
  ultimately show ?thesis using r(1) n(1,2,3,6) s by (intro exI [of _ ks] exI [of _ n]) simp
qed

section \<open>A node whose token has lapsed\<close>

lemma register_known_refused:
  assumes "base64_works X" and "n \<in> set (db_nodes (cdb s))" and "n_identity n = identity_public i"
  shows "\<not> is_ok (fst (client_register C X (direct C X E) t c i k s)) \<and>
    cdb (snd (client_register C X (direct C X E) t c i k s)) = cdb s"
proof -
  let ?req = "\<lparr>rq_identity_pubkey = b64_encode X (identity_public i), rq_wg_pubkey = b64_encode X k, rq_timestamp = t,
      rq_signature = b64_encode X (identity_sign C i (build_register_message t (identity_public i) k))\<rparr>"
  obtain r s1 where c: "register_checks C X E ?req s = (r, s1)" by (cases "register_checks C X E ?req s")
  have same: "cdb s1 = cdb s" using stays_result [OF register_checks_same c] by (simp add: same_data_def)
  have "\<not> is_ok (fst (register C X E ?req s)) \<and> cdb (snd (register C X E ?req s)) = cdb s"
  proof (cases r)
    case (Ok ik)
    then obtain k' where ik: "ik = (identity_public i, k')"
      using register_checks_OkD(6) [of C X E ?req s "fst ik" "snd ik" s1] c decode_pubkey_own [OF assms(1)]
      by (cases ik) simp
    have clash: "insert_node fk (new_node E (identity_public i) k' ip) tok ttl (cdb s1) =
        (Err (Database ''UNIQUE constraint failed: nodes''), cdb s1)" for fk ip tok ttl
      using assms(2,3) same by (auto simp: insert_node_def andthen_def insert_node_row_def list_ex_iff new_node_def)
    show ?thesis
      using clash same by (simp add: register_eq andthen_def c Ok ik register_commit_def with_ips_def with_db_def split: prod.split outcome.split)
  qed (use c same in \<open>simp_all add: register_eq andthen_def\<close>)
  then show ?thesis
    by (cases "register C X E ?req s"; cases "fst (register C X E ?req s)") (simp_all add: client_register_direct)
qed

lemma refused_delete:
  assumes "get_node_by_token (cdb s) tok (clock E) = None"
  shows "\<exists>s'. client_delete_node C X (direct C' X' E) t c i tok s = (Err (ServerError ''delete_node failed''), s') \<and> same_db s s'"
  unfolding client_delete_node_def Let_def by (rule refused_request [OF assms], simp)

text \<open>C35: A lapsed node is locked out.  Once the token in the state file is not live at the server (it
  has expired, or was revoked) while the server still stores the node's identity key, no command
  brings the node back: \<open>heartbeat\<close> (whose transparent refresh needs the live token), \<open>refresh-token\<close>,
  \<open>peers\<close>, \<open>deregister\<close> and even \<open>register\<close> all fail, and the server's database stays as it is.\<close>

theorem lapsed_node_locked_out:
  assumes "base64_works (x_libs x)" and "x_net x = direct (x_crypto x) (x_libs x) E"
    and "fst (state_load (x_codecs x) (x_faults x) dir (w_disk w)) = Ok s"
    and "get_node_by_token (cdb (w_server w)) (st_auth_token s) (clock E) = None"
    and "fst (open_store x dir pp w) = Ok ks" and "n \<in> set (db_nodes (cdb (w_server w)))"
    and "n_identity n = identity_public (ok_identity ks)" and "path_exists dir (w_disk w)"
    and "cmd \<in> {cmd_heartbeat x dir endpoint relay pp, cmd_refresh_token x dir pp, cmd_peers x dir pp,
           cmd_deregister x dir pp, discard (cmd_register x dir pp)}"
  shows "\<not> is_ok (fst (cmd w)) \<and> cdb (w_server (snd (cmd w))) = cdb (w_server w)"
proof (cases "fst (config_load (x_codecs x) (x_faults x) dir (w_disk w))")
  case (Ok cfg)
  let ?C = "x_crypto x" and ?X = "x_libs x" and ?t = "x_now x" and ?c = "client_new (server_url cfg)" and ?i = "ok_identity ks"
    and ?tok = "st_auth_token s" and ?srv = "w_server w"
  obtain s1 where s1: "client_refresh_token ?C ?X (direct ?C ?X E) ?t ?c ?i ?tok ?srv = (Err (ServerError ''refresh_token failed''), s1)"
    "same_db ?srv s1" using refused_calls(1) [OF assms(4), of ?C ?X ?C ?X ?t ?c ?i] by (elim exE conjE)
  obtain s2 where s2: "client_heartbeat ?C ?X (direct ?C ?X E) ?t ?c ?i ?tok endpoint relay ?srv = (Err (ServerError ''heartbeat failed''), s2)"
    "same_db ?srv s2" using refused_calls(2) [OF assms(4), of ?C ?X ?C ?X ?t ?c ?i endpoint relay] by (elim exE conjE)
  obtain s3 where s3: "client_peers (direct ?C ?X E) ?c ?tok ?srv = (Err (ServerError ''peers failed''), s3)"
    "same_db ?srv s3" using refused_calls(3) [OF assms(4), of ?C ?X ?c] by (elim exE conjE)
  obtain s4 where s4: "client_delete_node ?C ?X (direct ?C ?X E) ?t ?c ?i ?tok ?srv = (Err (ServerError ''delete_node failed''), s4)"
    "same_db ?srv s4" using refused_delete [OF assms(4), of ?C ?X ?C ?X ?t ?c ?i] by (elim exE conjE)
  have s5: "\<not> is_ok (fst (client_register ?C ?X (direct ?C ?X E) ?t ?c ?i (kp_public (ok_wg ks)) ?srv))"
    "cdb (snd (client_register ?C ?X (direct ?C ?X E) ?t ?c ?i (kp_public (ok_wg ks)) ?srv)) = cdb ?srv"
    using register_known_refused [OF assms(1,6,7), of ?C E ?t ?c] by blast+
  obtain r6 s6 where s6: "client_register ?C ?X (direct ?C ?X E) ?t ?c ?i (kp_public (ok_wg ks)) ?srv = (r6, s6)"
    by (cases "client_register ?C ?X (direct ?C ?X E) ?t ?c ?i (kp_public (ok_wg ks)) ?srv")
  note go = open_store_pair [OF assms(5)] assms(2,3) Ok andthen_def on_server_apply ret_def Let_def
  have "\<not> is_ok (fst (cmd_heartbeat x dir endpoint relay pp w)) \<and> cdb (w_server (snd (cmd_heartbeat x dir endpoint relay pp w))) = cdb ?srv"
    using s1 s2 by (simp add: cmd_heartbeat_def go same_db_def)
  moreover have "\<not> is_ok (fst (cmd_refresh_token x dir pp w)) \<and> cdb (w_server (snd (cmd_refresh_token x dir pp w))) = cdb ?srv"
    using s1 by (simp add: cmd_refresh_token_def go same_db_def)
  moreover have "\<not> is_ok (fst (cmd_peers x dir pp w)) \<and> cdb (w_server (snd (cmd_peers x dir pp w))) = cdb ?srv"
    using s3 by (simp add: cmd_peers_def go same_db_def)
  moreover have "\<not> is_ok (fst (cmd_deregister x dir pp w)) \<and> cdb (w_server (snd (cmd_deregister x dir pp w))) = cdb ?srv"
    using s4 by (simp add: cmd_deregister_def go same_db_def)
  moreover have "\<not> is_ok (fst (discard (cmd_register x dir pp) w)) \<and> cdb (w_server (snd (discard (cmd_register x dir pp) w))) = cdb ?srv"
    using s5 s6 assms(8)
    by (cases r6) (simp_all add: discard_def cmd_register_def go on_disk_apply ensure_dir_exists)
  ultimately show ?thesis using assms(9) by blast
next
  case (Err e)
  then show ?thesis
    using assms(9) assms(8)
    by (auto simp: cmd_heartbeat_def cmd_refresh_token_def cmd_peers_def cmd_deregister_def cmd_register_def discard_def
        open_store_pair [OF assms(5)] andthen_def on_disk_apply ensure_dir_exists)
next
  case (Panic msg)
  then show ?thesis
    using assms(9) assms(8)
    by (auto simp: cmd_heartbeat_def cmd_refresh_token_def cmd_peers_def cmd_deregister_def cmd_register_def discard_def
        open_store_pair [OF assms(5)] andthen_def on_disk_apply ensure_dir_exists)
qed

section \<open>peers\<close>

lemma print_peers_eq:
  "print_peers ps w =
     ((if \<forall>p \<in> set ps. is_ok (str_prefix 16 (pi_wg_pubkey_b64 p)) then Ok ()
       else Panic ''byte index is out of bounds or not a char boundary''), w)"
  by (induction ps) (auto simp: print_peers_def andthen_def pure_act_def ret_def str_prefix_def)

lemma str_prefix_ok: "is_ok (str_prefix n s) \<longleftrightarrow> \<not> (length s < n \<or> n < length s \<and> is_continuation (s ! n))"
  by (auto simp: str_prefix_def)


end
