(* ===== verification/Cli_Up_Props.thy ===== *)
theory Cli_Up_Props
  imports Cli_Up Cli_Client_Props
begin

text \<open>
  Which peers \<open>naboscale up\<close> takes on and as what: the two loops that turn the server's list into
  configurations (start-up and discovery), the roles the two ends of a pair choose, and the
  sender ids.
\<close>

section \<open>The loop over the listed peers\<close>

lemma try_ok_Ok [simp]: "try_ok r f = Ok y \<longleftrightarrow> (\<exists>x. r = Ok x \<and> f x = Ok y)"
  by (cases r) simp_all

lemma ok_or_Ok [simp]: "ok_or e x = Ok v \<longleftrightarrow> x = Some v"
  by (simp add: ok_or_def split: option.split)

lemma or_else_simps [simp]: "or_else (Some x) b = Some x" "or_else None b = b"
  by (simp_all add: or_else_def)

lemma peer_key_Ok [simp]: "peer_key X s = Ok pub \<longleftrightarrow> b64_decode X s = Inr pub \<and> length pub = 32"
  by (auto simp: peer_key_def split: sum.split)

lemma peer_relay_Ok [simp]:
  "peer_relay p = Ok r \<longleftrightarrow>
     (case pe_via_relay p of None \<Rightarrow> r = None | Some s \<Rightarrow> (\<exists>a. parse_socket_addr s = Some a \<and> r = Some a))"
  by (auto simp: peer_relay_def split: option.split)

text \<open>A listed peer that is taken on.\<close>

lemma up_peer_Some:
  "up_peer X own rel i p = Ok (Some c) \<longleftrightarrow>
     (\<exists>pub r e a ip. b64_decode X (pe_wg_pubkey p) = Inr pub \<and> length pub = 32 \<and> peer_relay p = Ok r \<and>
        pe_last_endpoint p = Some e \<and> \<not> (is_wildcard e \<and> r = None) \<and>
        (if is_wildcard e then a = wildcard_endpoint else parse_socket_addr e = Some a) \<and>
        parse_ipv4 (pe_ip p) = Some ip \<and>
        c = \<lparr>peer_pub = pub, psk = zeros 32, local_sender_id = of_nat i + 1, is_initiator = role own rel r pub,
             peer_endpoint = a, peer_ip = ip, via_relay = or_else r rel\<rparr>)"
  by (cases "b64_decode X (pe_wg_pubkey p)"; cases "peer_relay p"; cases "pe_last_endpoint p")
    (auto simp: up_peer_def simp del: peer_relay_Ok split: if_splits)

lemma up_peer_None:
  "up_peer X own rel i p = Ok None \<longleftrightarrow>
     (\<exists>pub r. b64_decode X (pe_wg_pubkey p) = Inr pub \<and> length pub = 32 \<and> peer_relay p = Ok r \<and>
        (case pe_last_endpoint p of None \<Rightarrow> True | Some e \<Rightarrow> is_wildcard e \<and> r = None))"
  by (cases "b64_decode X (pe_wg_pubkey p)"; cases "peer_relay p"; cases "pe_last_endpoint p")
    (auto simp: up_peer_def simp del: peer_relay_Ok split: if_splits)

lemma up_peer_relay_none: "peer_relay p = Ok r \<Longrightarrow> r = None \<longleftrightarrow> pe_via_relay p = None"
  by (auto split: option.splits)

lemma up_peers_Cons:
  "up_peers X own rel k (p # ps) = Ok cfgs \<longleftrightarrow>
     (\<exists>r cs. up_peer X own rel k p = Ok r \<and> up_peers X own rel (Suc k) ps = Ok cs \<and>
        cfgs = (case r of None \<Rightarrow> cs | Some c \<Rightarrow> c # cs))"
  by auto

declare up_peers.simps(2) [simp del]

lemma ex_less_Cons: "(\<exists>i < length (p # ps). P i) \<longleftrightarrow> P 0 \<or> (\<exists>i < length ps. P (Suc i))"
  by (simp add: Ex_less_Suc2)

lemma up_peers_members:
  "up_peers X own rel k ps = Ok cfgs \<Longrightarrow>
   c \<in> set cfgs \<longleftrightarrow> (\<exists>i < length ps. up_peer X own rel (k + i) (ps ! i) = Ok (Some c))"
proof (induction ps arbitrary: k cfgs)
  case (Cons p ps)
  then obtain r cs where r: "up_peer X own rel k p = Ok r" "up_peers X own rel (Suc k) ps = Ok cs"
    "cfgs = (case r of None \<Rightarrow> cs | Some c \<Rightarrow> c # cs)" by (auto simp: up_peers_Cons)
  have "(\<exists>i < length (p # ps). up_peer X own rel (k + i) ((p # ps) ! i) = Ok (Some c)) \<longleftrightarrow>
      r = Some c \<or> (\<exists>i < length ps. up_peer X own rel (Suc k + i) (ps ! i) = Ok (Some c))"
    using r(1) by (subst ex_less_Cons) simp
  with Cons.IH [OF r(2)] r(3) show ?case by (auto split: option.splits)
qed simp

lemma up_peers_all_ok:
  "up_peers X own rel k ps = Ok cfgs \<Longrightarrow> i < length ps \<Longrightarrow> \<exists>r. up_peer X own rel (k + i) (ps ! i) = Ok r"
proof (induction ps arbitrary: k cfgs i)
  case (Cons p ps)
  then obtain r cs where r: "up_peer X own rel k p = Ok r" "up_peers X own rel (Suc k) ps = Ok cs"
    by (auto simp: up_peers_Cons)
  with Cons.IH [OF r(2)] Cons.prems(2) show ?case by (cases i) auto
qed simp

lemma up_peers_length: "up_peers X own rel k ps = Ok cfgs \<Longrightarrow> length cfgs \<le> length ps"
  by (induction ps arbitrary: k cfgs) (fastforce simp: up_peers_Cons le_SucI split: option.splits)+

lemma up_peers_sender_ids:
  "up_peers X own rel k ps = Ok cfgs \<Longrightarrow> k + length ps < 2 ^ 32 \<Longrightarrow>
   sorted_wrt (<) (map (\<lambda>c. unat (local_sender_id c)) cfgs) \<and>
   (\<forall>c \<in> set cfgs. k < unat (local_sender_id c))"
proof (induction ps arbitrary: k cfgs)
  case (Cons p ps)
  then obtain r cs where r: "up_peer X own rel k p = Ok r" "up_peers X own rel (Suc k) ps = Ok cs"
    "cfgs = (case r of None \<Rightarrow> cs | Some c \<Rightarrow> c # cs)" by (auto simp: up_peers_Cons)
  have IH: "sorted_wrt (<) (map (\<lambda>c. unat (local_sender_id c)) cs)" "\<forall>c \<in> set cs. Suc k < unat (local_sender_id c)"
    using Cons.IH [OF r(2)] Cons.prems(2) by auto
  have "unat (local_sender_id c) = Suc k" if "r = Some c" for c
  proof -
    have "local_sender_id c = of_nat (Suc k)" using r(1) that by (auto simp: up_peer_Some)
    with Cons.prems(2) show ?thesis by (simp add: unat_of_nat del: of_nat_Suc)
  qed
  with IH r(3) show ?case by (auto split: option.splits)
qed simp

text \<open>Sender ids.  The configurations of the start-up loop have distinct sender ids, and a peer
  found later gets an id of an earlier peer exactly when the listed peer at position \<open>length cfgs\<close>
  was taken on: an id counts the listed peers at start-up, skipped ones included, and the sessions
  afterwards.\<close>

lemma sender_ids:
  assumes "up_peers X own rel 0 ps = Ok cfgs" and "length ps < 2 ^ 32 - 1"
    and "discovered_config X known own rel (length cfgs) p = Some c"
  shows "distinct (map local_sender_id cfgs) \<and>
    (local_sender_id c \<in> set (map local_sender_id cfgs) \<longleftrightarrow>
       length cfgs < length ps \<and> up_peer X own rel (length cfgs) (ps ! length cfgs) \<noteq> Ok None)"
proof
  from up_peers_sender_ids [OF assms(1)] assms(2)
  have sorted: "sorted_wrt (<) (map unat (map local_sender_id cfgs))" by (simp add: comp_def)
  then have "distinct (map unat (map local_sender_id cfgs))" using strict_sorted_iff by blast
  then show "distinct (map local_sender_id cfgs)" by (rule distinct_map [THEN iffD1, THEN conjunct1])
  have c: "local_sender_id c = of_nat (length cfgs) + 1"
    using assms(3) by (auto simp: discovered_config_def Let_def split: sum.splits option.splits if_splits)
  have same: "(of_nat i + 1 :: u32) = of_nat (length cfgs) + 1 \<longleftrightarrow> i = length cfgs" if "i < length ps" for i
  proof -
    have "unat (of_nat i :: u32) = i" "unat (of_nat (length cfgs) :: u32) = length cfgs"
      using that assms(2) up_peers_length [OF assms(1)] by (simp_all add: unat_of_nat)
    then show ?thesis by (metis add_right_cancel)
  qed
  have id: "local_sender_id d = of_nat i + 1" if "up_peer X own rel i q = Ok (Some d)" for d i q
    using that by (auto simp: up_peer_Some simp del: peer_relay_Ok)
  have "local_sender_id c \<in> set (map local_sender_id cfgs) \<longleftrightarrow> (\<exists>d \<in> set cfgs. local_sender_id d = of_nat (length cfgs) + 1)"
    using c by force
  also have "\<dots> \<longleftrightarrow> (\<exists>d i. i < length ps \<and> up_peer X own rel i (ps ! i) = Ok (Some d) \<and> i = length cfgs)"
    using up_peers_members [OF assms(1)] id same by (metis add_0)
  also have "\<dots> \<longleftrightarrow> length cfgs < length ps \<and> up_peer X own rel (length cfgs) (ps ! length cfgs) \<noteq> Ok None"
    using up_peers_all_ok [OF assms(1)] by (metis add_0 not_None_eq outcome.inject(1))
  finally show "local_sender_id c \<in> set (map local_sender_id cfgs) \<longleftrightarrow>
      length cfgs < length ps \<and> up_peer X own rel (length cfgs) (ps ! length cfgs) \<noteq> Ok None" .
qed

section \<open>Start-up and discovery\<close>

text \<open>The two ways to take on a peer agree.  A peer that the start-up loop accepts gets the same
  configuration from a discovery tick, up to the sender id; a peer that start-up skips is skipped
  by discovery too, unless it is reachable through a relay but has no endpoint: that one is added
  by the first discovery tick although start-up leaves it out.\<close>

lemma discovery_agrees_with_startup:
  assumes "up_peer X own rel i p = Ok r" and "\<And>c. r = Some c \<Longrightarrow> peer_pub c \<notin> known"
  shows "case r of
      Some c \<Rightarrow> discovered_config X known own rel count p = Some (c\<lparr>local_sender_id := of_nat count + 1\<rparr>)
    | None \<Rightarrow> discovered_config X known own rel count p = None \<or>
              (pe_last_endpoint p = None \<and> pe_via_relay p \<noteq> None)"
proof (cases r)
  case None
  then obtain pub rl where *: "b64_decode X (pe_wg_pubkey p) = Inr pub" "peer_relay p = Ok rl"
    "case pe_last_endpoint p of None \<Rightarrow> True | Some e \<Rightarrow> is_wildcard e \<and> rl = None"
    using assms(1) by (auto simp: up_peer_None simp del: peer_relay_Ok)
  then have "pe_last_endpoint p = None \<and> pe_via_relay p \<noteq> None \<or>
      (pe_via_relay p = None \<and> (case pe_last_endpoint p of None \<Rightarrow> True | Some e \<Rightarrow> is_wildcard e))"
    using up_peer_relay_none [OF *(2)] by (auto split: option.splits)
  with None * show ?thesis
    by (auto simp: discovered_config_def Let_def simp del: peer_relay_Ok split: option.splits)
next
  case (Some c)
  obtain pub rl e a ip where *: "b64_decode X (pe_wg_pubkey p) = Inr pub" "length pub = 32" "peer_relay p = Ok rl"
    "pe_last_endpoint p = Some e" "\<not> (is_wildcard e \<and> rl = None)"
    "if is_wildcard e then a = wildcard_endpoint else parse_socket_addr e = Some a" "parse_ipv4 (pe_ip p) = Some ip"
    and c: "c = \<lparr>peer_pub = pub, psk = zeros 32, local_sender_id = of_nat i + 1, is_initiator = role own rel rl pub,
        peer_endpoint = a, peer_ip = ip, via_relay = or_else rl rel\<rparr>"
    using assms(1) Some by (auto simp: up_peer_Some simp del: peer_relay_Ok)
  have relay: "Option.bind (pe_via_relay p) parse_socket_addr = rl" using *(3) by (auto split: option.splits)
  have "pub \<notin> known" using assms(2) [OF Some] c by simp
  with Some * c relay show ?thesis
    by (simp add: discovered_config_def Let_def del: peer_relay_Ok split: if_splits)
qed

section \<open>Roles\<close>

lemma up_peer_role:
  assumes "up_peer X own rel i p = Ok (Some c)"
  shows "is_initiator c \<longleftrightarrow> rel \<noteq> None \<or> (pe_via_relay p = None \<and> bytes_less (peer_pub c) own)"
  using assms by (auto simp: up_peer_Some role_def dest: up_peer_relay_none simp del: peer_relay_Ok)

text \<open>The two ends of a pair choose complementary roles.  Let A and B each take the other on from
  the server's list, with the keys and the relay use the other really has.  Then exactly one of
  them initiates, unless both are behind relays: then both initiate, whatever their keys.\<close>

lemma roles_complementary:
  assumes "up_peer X pub_a rel_a i entry_b = Ok (Some c_b)" and "up_peer X pub_b rel_b j entry_a = Ok (Some c_a)"
    and "peer_pub c_b = pub_b" and "peer_pub c_a = pub_a" and "pub_a \<noteq> pub_b"
    and "pe_via_relay entry_a \<noteq> None \<longleftrightarrow> rel_a \<noteq> None" and "pe_via_relay entry_b \<noteq> None \<longleftrightarrow> rel_b \<noteq> None"
  shows "(is_initiator c_a \<noteq> is_initiator c_b) = (rel_a = None \<or> rel_b = None) \<and>
    (rel_a \<noteq> None \<and> rel_b \<noteq> None \<longrightarrow> is_initiator c_a \<and> is_initiator c_b)"
  using assms(3-7) up_peer_role [OF assms(1)] up_peer_role [OF assms(2)]
    bytes_less_total [of pub_a pub_b] bytes_less_asym [of pub_a pub_b] by auto

text \<open>C36: A relay that is gone.  The server never forgets the relay of a node: a heartbeat without one
  keeps the old one.  So when A restarts without \<open>--relay\<close> and sends its heartbeat, B still sees A
  behind a relay and waits; A waits too whenever its key is the smaller one.  Neither end
  initiates, although both took the other on.\<close>

theorem forgotten_relay_deadlock:
  assumes "coord_ok s" and "heartbeat C X E headers req s = (Ok code, s')" and "hb_via_relay req = None"
    and "extract_bearer headers = Ok tok" and "get_node_by_token (cdb s) tok (clock E) = Some a"
    and "n_via_relay a \<noteq> None"
    and "m \<in> set (db_nodes (cdb s'))" and "n_node_id m = n_node_id a"
    and "up_peer X pub_b None i (peer_entry_of X m) = Ok (Some c_a)"
    and "up_peer X (n_wg a) None j entry_b = Ok (Some c_b)" and "bytes_less (n_wg a) (peer_pub c_b)"
  shows "\<not> is_initiator c_a \<and> \<not> is_initiator c_b"
proof -
  obtain n where n: "get_node_by_token (cdb s) tok (clock E) = Some n" and
    nodes: "db_nodes (cdb s') =
      map (\<lambda>m. if n_node_id m = n_node_id n
               then m\<lparr>n_last_endpoint := Some (hb_endpoint req), n_last_seen := Some (clock E), n_via_relay := n_via_relay m\<rparr>
               else m) (db_nodes (cdb s))"
    using heartbeat_effect [OF assms(2)] assms(3,4) by auto
  then have n: "n = a" using assms(5) by simp
  obtain k where k: "k \<in> set (db_nodes (cdb s))" "n_node_id k = n_node_id a" "n_via_relay m = n_via_relay k"
    using assms(7,8) nodes n by auto
  have "a \<in> set (db_nodes (cdb s))" by (rule caller_in_nodes [OF assms(1,5)])
  moreover have "distinct (map n_node_id (db_nodes (cdb s)))" using assms(1) by (simp add: coord_ok_def db_ok_def)
  ultimately have "k = a" using k(1,2) by (metis distinct_key)
  then have "pe_via_relay (peer_entry_of X m) \<noteq> None" using k(3) assms(6) by (simp add: peer_entry_of_def)
  then show ?thesis
    using up_peer_role [OF assms(9)] up_peer_role [OF assms(10)] bytes_less_asym [OF assms(11)] by simp
qed

section \<open>Concrete lists\<close>

definition demo_entry :: "nat \<Rightarrow> string option \<Rightarrow> string option \<Rightarrow> peer_entry" where
  "demo_entry k endpoint relay =
     \<lparr>pe_node_id = ''n'', pe_wg_pubkey = b64_encode plain_libs (replicate 32 (of_nat k)), pe_ip = ''100.100.0.9'',
      pe_last_endpoint = endpoint, pe_via_relay = relay, pe_last_seen = None\<rparr>"

definition demo_listed :: "nat \<Rightarrow> peer_entry" where
  "demo_listed k = demo_entry k (Some ''1.2.3.4:5'') None"

lemmas parser_simps = parse_ipv4_def parse_socket_addr_def parse_with_def read_ipv4_addr_def
  read_socket_addr_def read_socket_addr_v4_def read_port_def read_then_def read_ipv4_group_def
  read_separator_def read_given_char_def read_number_def to_digit_def ipv4_new_def u32_from_be_def

lemma demo_parses [simp]:
  "parse_ipv4 ''100.100.0.9'' = Some 1684275209" "parse_socket_addr ''1.2.3.4:5'' = Some (SocketV4 16909060 5)"
  by (simp_all add: parser_simps)

lemma demo_not_wildcard [simp]: "\<not> is_wildcard ''1.2.3.4:5''"
  by (simp add: is_wildcard_def starts_with_def)

lemma demo_up_peer:
  "up_peer plain_libs own rel i (demo_listed k) =
     Ok (Some \<lparr>peer_pub = replicate 32 (of_nat k), psk = zeros 32, local_sender_id = of_nat i + 1,
       is_initiator = role own rel None (replicate 32 (of_nat k)), peer_endpoint = SocketV4 16909060 5,
       peer_ip = 1684275209, via_relay = rel\<rparr>)"
  "up_peer plain_libs own rel i (demo_entry k (Some ''1.2.3.4:5'') (Some ''1.2.3.4:5'')) =
     Ok (Some \<lparr>peer_pub = replicate 32 (of_nat k), psk = zeros 32, local_sender_id = of_nat i + 1,
       is_initiator = role own rel (Some (SocketV4 16909060 5)) (replicate 32 (of_nat k)), peer_endpoint = SocketV4 16909060 5,
       peer_ip = 1684275209, via_relay = Some (SocketV4 16909060 5)\<rparr>)"
  "up_peer plain_libs own rel i (demo_entry k None None) = Ok None"
  by (simp_all add: up_peer_def peer_key_def peer_relay_def demo_listed_def demo_entry_def ok_or_def or_else_def)

lemma demo_discovered:
  "replicate 32 (of_nat k) \<notin> known \<Longrightarrow> discovered_config plain_libs known own rel count (demo_listed k) =
     Some \<lparr>peer_pub = replicate 32 (of_nat k), psk = zeros 32, local_sender_id = of_nat count + 1,
       is_initiator = role own rel None (replicate 32 (of_nat k)), peer_endpoint = SocketV4 16909060 5,
       peer_ip = 1684275209, via_relay = rel\<rparr>"
  by (simp add: discovered_config_def demo_listed_def demo_entry_def or_else_def)

theorem sender_ids_witness:
  "\<exists>cfgs c. up_peers plain_libs demo_key None 0 [demo_entry 3 None None, demo_listed 4] = Ok cfgs \<and>
     discovered_config plain_libs {} demo_key None (length cfgs) (demo_listed 5) = Some c \<and>
     distinct (map local_sender_id cfgs) \<and> local_sender_id c \<in> set (map local_sender_id cfgs)"
proof -
  obtain cfgs where cfgs: "up_peers plain_libs demo_key None 0 [demo_entry 3 None None, demo_listed 4] = Ok cfgs" "length cfgs = 1"
    by (simp add: up_peers.simps(2) demo_up_peer)
  obtain c where c: "discovered_config plain_libs {} demo_key None (length cfgs) (demo_listed 5) = Some c"
    using demo_discovered [of 5 "{}" demo_key None "length cfgs"] by simp
  from sender_ids [OF cfgs(1) _ c] cfgs c show ?thesis by (simp add: demo_up_peer)
qed

theorem discovery_agrees_with_startup_witness:
  "\<exists>c. up_peer plain_libs demo_key None 0 (demo_listed 4) = Ok (Some c) \<and>
     discovered_config plain_libs {} demo_key None 6 (demo_listed 4) = Some (c\<lparr>local_sender_id := 7\<rparr>)"
proof -
  obtain c where c: "up_peer plain_libs demo_key None 0 (demo_listed 4) = Ok (Some c)" using demo_up_peer(1) by blast
  from discovery_agrees_with_startup [OF c, of "{}" 6] c show ?thesis by simp
qed

theorem roles_complementary_witness:
  "\<exists>c_a c_b. up_peer plain_libs (replicate 32 1) None 0 (demo_listed 2) = Ok (Some c_b) \<and>
     up_peer plain_libs (replicate 32 2) None 0 (demo_listed 1) = Ok (Some c_a) \<and> is_initiator c_a \<noteq> is_initiator c_b"
proof -
  obtain c_a c_b where c: "up_peer plain_libs (replicate 32 1) None 0 (demo_listed 2) = Ok (Some c_b)"
    "up_peer plain_libs (replicate 32 2) None 0 (demo_listed 1) = Ok (Some c_a)"
    "peer_pub c_b = replicate 32 2" "peer_pub c_a = replicate 32 1"
    by (simp add: demo_up_peer)
  have "pe_via_relay (demo_listed k) = None" for k by (simp add: demo_listed_def demo_entry_def)
  moreover have "(replicate 32 1 :: bytes) \<noteq> replicate 32 2" by (simp add: numeral_eq_Suc)
  ultimately have "is_initiator c_a \<noteq> is_initiator c_b"
    using roles_complementary [OF c(1,2,3,4)] by simp
  with c(1,2) show ?thesis by blast
qed

text \<open>The node of the concrete server, with a smaller key, after it has used a relay.\<close>

definition demo_relayed :: coord where
  "demo_relayed = demo_coord\<lparr>cdb := (cdb demo_coord)\<lparr>db_nodes :=
     [demo_node\<lparr>n_wg := replicate 32 1, n_via_relay := Some ''1.2.3.4:5''\<rparr>]\<rparr>\<rparr>"

lemma demo_relayed_ok: "coord_ok demo_relayed"
  using demo_coord_ok by (simp add: coord_ok_def demo_relayed_def demo_coord_def db_ok_def node_ok_def)

lemma demo_relayed_lookup:
  "get_node_by_token (cdb demo_relayed) ''tok'' 500 = Some (demo_node\<lparr>n_wg := replicate 32 1, n_via_relay := Some ''1.2.3.4:5''\<rparr>)"
  by (simp add: get_node_by_token_def demo_relayed_def demo_coord_def demo_token_def demo_node_def token_live_def)

lemma demo_relayed_heartbeat:
  obtains s' where "heartbeat plain plain_libs demo_request demo_bearer demo_heartbeat demo_relayed = (Ok 200, s')"
    "db_nodes (cdb s') = [demo_node\<lparr>n_wg := replicate 32 1, n_via_relay := Some ''1.2.3.4:5'',
       n_last_endpoint := Some ''1.2.3.4:5'', n_last_seen := Some 500\<rparr>]"
proof -
  have "check_rate_limit demo_request Heartbeat demo_relayed =
      (Ok (), demo_relayed\<lparr>rate_limiter := limiter_new((V4 7, bucket_name Heartbeat) \<mapsto> [0])\<rparr>)"
    by (simp add: check_rate_limit_def demo_request_def demo_relayed_def demo_coord_def check_def Let_def split: if_splits)
  then have "heartbeat_checks plain plain_libs demo_request demo_bearer demo_heartbeat demo_relayed =
      (Ok (demo_node\<lparr>n_wg := replicate 32 1, n_via_relay := Some ''1.2.3.4:5''\<rparr>),
       demo_relayed\<lparr>rate_limiter := limiter_new((V4 7, bucket_name Heartbeat) \<mapsto> [0])\<rparr>)"
    using demo_relayed_lookup
    by (simp add: heartbeat_checks_def andthen_def pure_act_def demo_heartbeat_def ret_def caller_of_def
        verify_heartbeat_signature_def valid_relay_def)
  then show ?thesis
    using that
    by (simp add: heartbeat_eq heartbeat_commit_def andthen_def ret_def with_db_def update_heartbeat_def update_nodes_def
        demo_heartbeat_def demo_relayed_def demo_coord_def demo_node_def coalesce_def)
qed

theorem forgotten_relay_deadlock_witness:
  "\<exists>s' m c_a c_b. heartbeat plain plain_libs demo_request demo_bearer demo_heartbeat demo_relayed = (Ok 200, s') \<and>
     m \<in> set (db_nodes (cdb s')) \<and>
     up_peer plain_libs (replicate 32 2) None 0 (peer_entry_of plain_libs m) = Ok (Some c_a) \<and>
     up_peer plain_libs (replicate 32 1) None 0 (demo_listed 2) = Ok (Some c_b) \<and>
     \<not> is_initiator c_a \<and> \<not> is_initiator c_b"
proof -
  obtain s' where s': "heartbeat plain plain_libs demo_request demo_bearer demo_heartbeat demo_relayed = (Ok 200, s')"
    "db_nodes (cdb s') = [demo_node\<lparr>n_wg := replicate 32 1, n_via_relay := Some ''1.2.3.4:5'',
       n_last_endpoint := Some ''1.2.3.4:5'', n_last_seen := Some 500\<rparr>]" (is "_ = [?m]")
    by (rule demo_relayed_heartbeat)
  obtain c_b where c_b: "up_peer plain_libs (replicate 32 1) None 0 (demo_listed 2) = Ok (Some c_b)" "peer_pub c_b = replicate 32 2"
    by (simp add: demo_up_peer)
  have "parse_ipv4 (n_ip demo_node) = Some IP_POOL_FIRST_HOST"
    by (simp add: demo_node_def flip: v4_octets_def)
  then obtain c_a where c_a: "up_peer plain_libs (replicate 32 2) None 0 (peer_entry_of plain_libs ?m) = Ok (Some c_a)"
    by (simp add: up_peer_def peer_key_def peer_relay_def peer_entry_of_def ok_or_def)
  have "bytes_less (n_wg ?m) (peer_pub c_b)" using c_b(2) by (simp add: bytes_less_be_nat numeral_eq_Suc)
  with forgotten_relay_deadlock [OF demo_relayed_ok s'(1) _ demo_bearer_token _ _ _ _ c_a _] demo_relayed_lookup s' c_a c_b
  show ?thesis by (simp add: demo_heartbeat_def)
qed

end
