(* ===== verification/Cli_Up_Run.thy ===== *)
theory Cli_Up_Run
  imports Cli_Commands_Props Cli_Up_Props Manager_Safety
begin

text \<open>
  \<open>naboscale up\<close> as a whole: what a successful start-up has established, and which files the start-up
  and the daemon write, for every sequence of events, with the consequence for \<open>naboscale down\<close>.
\<close>

section \<open>Results of operations\<close>

definition yields :: "('a \<Rightarrow> bool) \<Rightarrow> ('s, 'e, 'a) act \<Rightarrow> bool" where
  "yields P m \<longleftrightarrow> (\<forall>s x s'. m s = (Ok x, s') \<longrightarrow> P x)"

lemma yieldsD: "yields P m \<Longrightarrow> m s = (Ok x, s') \<Longrightarrow> P x"
  unfolding yields_def by blast

lemma yields_andthen [intro]: "(\<And>x. yields P (f x)) \<Longrightarrow> yields P (andthen m f)"
  by (auto simp: yields_def andthen_Ok_iff)

lemma yields_ret [simp]: "yields P (ret x) = P x"
  by (simp add: yields_def ret_def)

lemma yields_pure_Err [simp]: "yields P (pure_act (Err e))" "yields P (pure_act (Panic msg))"
  by (simp_all add: yields_def pure_act_def)

section \<open>The files the daemon writes\<close>

definition only_state :: "path \<Rightarrow> 'srv world \<Rightarrow> 'srv world \<Rightarrow> bool" where
  "only_state dir w w' \<longleftrightarrow>
     (\<forall>q. q \<noteq> join dir STATE_FILE \<longrightarrow> files (w_disk w') q = files (w_disk w) q) \<and>
     directories (w_disk w') = directories (w_disk w)"

interpretation os: frame "only_state dir" for dir
  by unfold_locales (auto simp: only_state_def)

lemma only_state_server [simp]: "stays (only_state dir) (on_server f)" "stays (only_state dir) (on_shell g)"
  by (simp_all add: stays_def on_server_apply on_shell_apply only_state_def)

lemma only_state_reads: "stays (=) f \<Longrightarrow> stays (only_state dir) (on_disk f)"
  by (simp add: stays_eq on_disk_apply only_state_def stays_def)

lemma only_state_save [simp]: "stays (only_state dir) (on_disk (state_save J F dir s))"
  by (auto simp: stays_def on_disk_apply only_state_def state_save_def map_err_def fs_write_def
      split: sum.split option.split)

lemma only_state_pure [simp]: "stays (only_state dir) (pure_act r)" "stays (only_state dir) (ret x)"
  by (simp_all add: stays_def pure_act_def ret_def only_state_def)

lemma stays_attempt [simp]: "stays R (attempt f) = stays R f"
  by (simp add: stays_def)

lemma only_state_open [simp]: "stays (only_state dir) (open_store x dir' pp)"
  by (simp add: stays_def open_store_same only_state_def)

lemma only_state_update [simp]: "stays (only_state dir) (update_state x dir f)"
  unfolding update_state_def
  by (intro os.stays_andthen) (auto intro!: os.stays_andthen only_state_reads split: option.split)

lemma only_state_refresh: "stays (only_state (dm_dir D)) (daemon_refresh x D)"
  unfolding daemon_refresh_def
  by (intro os.stays_andthen) (auto intro!: os.stays_andthen only_state_reads split: option.split)

lemma only_state_heartbeat: "stays (only_state (dm_dir D)) (heartbeat_tick x t D)"
  unfolding heartbeat_tick_def by (intro os.stays_andthen) (simp_all add: only_state_refresh)

lemma only_state_discovery: "stays (only_state (dm_dir D)) (discovery_tick x E D)"
  unfolding discovery_tick_def
  by (intro os.stays_andthen) (auto intro!: os.stays_andthen only_state_reads split: option.split prod.split outcome.split)

lemma only_state_step: "stays (only_state (dm_dir D)) (daemon_step C e D)"
proof (cases e)
  case (ManagerTick input)
  then show ?thesis
    by (auto simp: manager_tick_def stays_def only_state_def pure_act_def ret_def split: prod.split outcome.split)
qed (simp_all add: only_state_heartbeat only_state_discovery)

lemma discover_peer_dir: "keeps (\<lambda>D. dm_dir D = dir) (for_each (discover_peer C X E) ps)"
  by (rule for_each_keeps)
    (auto simp: keeps_def discover_peer_def split: option.split prod.split outcome.split bool.split)

lemma daemon_step_dir: "yields (\<lambda>D'. dm_dir D' = dm_dir D) (daemon_step C e D)"
proof (cases e)
  case (ManagerTick input)
  then show ?thesis
    by (auto simp: yields_def manager_tick_def pure_act_def ret_def split: prod.splits outcome.splits)
next
  case (DiscoveryTick x E)
  have "dm_dir D' = dm_dir D" if "for_each (discover_peer (x_crypto x) (x_libs x) E) es D = (r, D')" for es r D'
    using keepsD [OF discover_peer_dir, where s = D] that by (metis snd_conv)
  then have "yields (\<lambda>D'. dm_dir D' = dm_dir D) (discovery_tick x E D)"
    unfolding discovery_tick_def
    by (intro yields_andthen) (auto split: option.split prod.split outcome.split)
  with DiscoveryTick show ?thesis by simp
next
  case (HeartbeatTick x t)
  have "yields (\<lambda>D'. dm_dir D' = dm_dir D) (heartbeat_tick x t D)"
    unfolding heartbeat_tick_def by (intro yields_andthen) simp
  with HeartbeatTick show ?thesis by simp
qed

lemma only_state_run: "only_state (dm_dir D) w (snd (daemon_run C es D w))"
proof (induction es arbitrary: D w)
  case Nil
  then show ?case by (simp add: ret_def os.frame_refl)
next
  case (Cons e es)
  obtain r w1 where r: "daemon_step C e D w = (r, w1)" by (cases "daemon_step C e D w")
  have step: "only_state (dm_dir D) w w1" by (rule stays_result [OF only_state_step r])
  show ?case
  proof (cases r)
    case (Ok D1)
    with r have "dm_dir D1 = dm_dir D" by (auto dest: yieldsD [OF daemon_step_dir])
    with Cons.IH [of D1 w1] have "only_state (dm_dir D) w1 (snd (daemon_run C es D1 w1))" by simp
    from os.frame_trans [OF step this] r Ok show ?thesis by (simp add: andthen_def)
  qed (use r step in \<open>simp_all add: andthen_def\<close>)
qed

lemma only_state_up: "stays (only_state dir) (cmd_up x U dir opts pp)"
proof -
  have "stays (only_state dir) (tun_setup U name ip cfgs)" for name ip cfgs
    unfolding tun_setup_def Let_def by (intro os.stays_andthen) simp_all
  moreover have "stays (only_state dir) (announce x t D s)" if "dm_dir D = dir" for t D s
    unfolding announce_def using that by (intro os.stays_andthen) simp_all
  ultimately show ?thesis
    unfolding cmd_up_def start_daemon_def Let_def
    by (intro os.stays_andthen) (auto intro!: os.stays_andthen only_state_reads)
qed

lemma up_dir: "yields (\<lambda>D. dm_dir D = dir) (cmd_up x U dir opts pp)"
  unfolding cmd_up_def start_daemon_def Let_def by (intro yields_andthen) (auto intro!: yields_andthen)

lemma only_state_up_run: "only_state dir w (snd (andthen (cmd_up x U dir opts pp) (daemon_run C es) w))"
proof -
  obtain r w1 where r: "cmd_up x U dir opts pp w = (r, w1)" by (cases "cmd_up x U dir opts pp w")
  have step: "only_state dir w w1" by (rule stays_result [OF only_state_up r])
  show ?thesis
  proof (cases r)
    case (Ok D)
    with r have "dm_dir D = dir" by (auto dest: yieldsD [OF up_dir])
    with only_state_run [of D w1 C es] have "only_state dir w1 (snd (daemon_run C es D w1))" by simp
    from os.frame_trans [OF step this] r Ok show ?thesis by (simp add: andthen_def)
  qed (use r step in \<open>simp_all add: andthen_def\<close>)
qed

text \<open>Creating a directory creates nothing below it.\<close>

lemma mkdir_keeps:
  assumes "mkdir_fault F dir = None" and "\<not> path_exists p d" and "length dir < length p"
  obtains d' where "fs_create_dir_all F dir d = (Ok (), d')" "\<not> path_exists p d'"
proof -
  have "p \<notin> (\<lambda>k. take k dir) ` A" for A
  proof
    assume "p \<in> (\<lambda>k. take k dir) ` A"
    then obtain k where "p = take k dir" by blast
    then have "length p \<le> length dir" by simp
    with assms(3) show False by simp
  qed
  then have "p \<notin> set (map (\<lambda>k. take k dir) [0..<Suc (length dir)])" unfolding set_map .
  with assms(2) have "\<not> path_exists p (d\<lparr>directories := directories d \<union> set (map (\<lambda>k. take k dir) [0..<Suc (length dir)])\<rparr>)"
    unfolding path_exists_def by (simp del: upt_Suc set_map)
  with assms(1) show ?thesis by (intro that) (simp_all add: fs_create_dir_all_def del: upt_Suc set_map)
qed

text \<open>\<open>down\<close> never stops \<open>up\<close>.  Neither the start-up nor any run of the daemon touches a file other
  than the state file; in particular no PID file is ever written.  So \<open>down\<close>, which looks for one,
  reports success without running \<open>kill\<close>, whatever the daemon did.\<close>

lemma down_never_stops_up:
  assumes "andthen (cmd_up x U dir opts pp) (daemon_run C es) w = (r, w')"
    and "\<not> path_exists (join (join base ''naboscale'') DAEMON_PID_FILE) (w_disk w)"
    and "mkdir_fault F (join base ''naboscale'') = None"
  shows "(\<forall>q. q \<noteq> join dir STATE_FILE \<longrightarrow> files (w_disk w') q = files (w_disk w) q) \<and>
    (\<exists>w2. cmd_down F remove_fault P (Some base) dir' w' = (Ok (), w2) \<and> w_commands w2 = w_commands w' \<and>
       w_server w2 = w_server w')"
proof -
  let ?dir = "join base ''naboscale''"
  let ?pid = "join ?dir DAEMON_PID_FILE"
  have os: "only_state dir w w'" using only_state_up_run [of dir w x U opts pp C es] assms(1) by simp
  have "?pid \<noteq> join dir STATE_FILE" by (simp add: join_def DAEMON_PID_FILE_def STATE_FILE_def)
  then have no: "\<not> path_exists ?pid (w_disk w')" using os assms(2) by (simp add: only_state_def path_exists_def)
  have up: "\<exists>d. ensure_config_dir F (Some base) e = (Ok ?dir, d) \<and> \<not> path_exists ?pid d" if absent: "\<not> path_exists ?pid e" for e
  proof (cases "path_exists ?dir e")
    case False
    obtain d where "fs_create_dir_all F ?dir e = (Ok (), d)" "\<not> path_exists ?pid d"
      by (rule mkdir_keeps [OF assms(3) absent]) (simp add: join_def)
    with False show ?thesis
      by (simp add: ensure_config_dir_def config_dir_def ok_or_def andthen_def pure_act_def map_err_def ret_def)
  qed (use absent in \<open>simp add: ensure_config_dir_def config_dir_def ok_or_def andthen_def pure_act_def\<close>)
  obtain d1 where d1: "ensure_config_dir F (Some base) (w_disk w') = (Ok ?dir, d1)" "\<not> path_exists ?pid d1"
    using up [OF no] by blast
  obtain d2 where d2: "ensure_config_dir F (Some base) d1 = (Ok ?dir, d2)" "\<not> path_exists ?pid d2"
    using up [OF d1(2)] by blast
  have "cmd_down F remove_fault P (Some base) dir' w' = (Ok (), w'\<lparr>w_disk := d2\<rparr>)"
    using d1 d2 by (simp add: cmd_down_def andthen_def on_disk_apply)
  with os show ?thesis by (auto simp: only_state_def)
qed

section \<open>What a start-up has established\<close>

lemma session_new_config: "session_new C E kp i cfg = Ok s \<Longrightarrow> config s = cfg"
  by (auto simp: session_new_def)

lemma new_sessions_configs:
  "new_sessions C E i cfgs m = Ok m' \<Longrightarrow> map config (peers m') = map config (peers m) @ cfgs"
  by (induction C E i cfgs m rule: new_sessions.induct) (auto simp: session_new_config)

lemma new_sessions_mcfg: "new_sessions C E i cfgs m = Ok m' \<Longrightarrow> mcfg m' = mcfg m"
  by (induction C E i cfgs m rule: new_sessions.induct) auto

lemma manager_new_configs:
  "manager_new C E cfg cfgs = Ok m \<Longrightarrow> map config (peers m) = cfgs"
  "manager_new C E cfg cfgs = Ok m \<Longrightarrow> mcfg m = cfg"
  by (auto simp: manager_new_def dest: new_sessions_configs new_sessions_mcfg)

lemma on_server_Ok: "on_server f w = (Ok x, w1) \<longleftrightarrow> (\<exists>srv. f (w_server w) = (Ok x, srv) \<and> w1 = w\<lparr>w_server := srv\<rparr>)"
  by (auto simp: on_server_def split: prod.split)

lemma tunnel_result_Ok [simp]:
  "(case r of Ok m \<Rightarrow> Ok m | Err e \<Rightarrow> Err (f e) | Panic msg \<Rightarrow> Panic msg) = Ok m \<longleftrightarrow> r = Ok m"
  by (cases r) simp_all

lemma cmd_up_OkD:
  assumes "cmd_up x U dir opts pp w = (Ok D, w')"
  obtains ks :: opened_keys and cfg :: cli_config and s :: cli_state and entries srv rel cfgs bound my_ip m where
    "fst (open_store x dir pp w) = Ok ks"
    "fst (config_load (x_codecs x) (x_faults x) dir (w_disk w)) = Ok cfg"
    "fst (state_load (x_codecs x) (x_faults x) dir (w_disk w)) = Ok s"
    "client_peers (x_net x) (client_new (server_url cfg)) (st_auth_token s) (w_server w) = (Ok entries, srv)"
    "relay_option (o_relay opts) = Ok rel"
    "up_peers (x_libs x) (kp_public (ok_wg ks)) rel 0 entries = Ok cfgs"
    "bind_transport U (o_bind_port opts) = Ok bound"
    "parse_ipv4 (st_ip s) = Some my_ip"
    "manager_new (x_crypto x) (u_manager U) \<lparr>local_keypair = ok_wg ks, local_ip = my_ip, timings = default_timings\<rparr> cfgs = Ok m"
    "D = \<lparr>dm_dir = dir, dm_url = server_url cfg, dm_identity = ok_identity ks, dm_token = st_auth_token s,
       dm_endpoint = advertised_endpoint (o_advertise_endpoint opts) rel (u_advertise_var U) (show_socket bound),
       dm_via_relay = map_option show_socket rel, dm_relay_endpoint = rel, dm_own_pub = kp_public (ok_wg ks),
       dm_known = set (map peer_pub cfgs), dm_manager = m\<rparr>"
    "parse_socket_addr (dm_endpoint D) \<noteq> None"
proof -
  let ?up = "\<lambda>ks cfg s entries srv rel cfgs bound my_ip m.
    fst (open_store x dir pp w) = Ok ks \<and>
    fst (config_load (x_codecs x) (x_faults x) dir (w_disk w)) = Ok cfg \<and>
    fst (state_load (x_codecs x) (x_faults x) dir (w_disk w)) = Ok s \<and>
    client_peers (x_net x) (client_new (server_url cfg)) (st_auth_token s) (w_server w) = (Ok entries, srv) \<and>
    relay_option (o_relay opts) = Ok rel \<and>
    up_peers (x_libs x) (kp_public (ok_wg ks)) rel 0 entries = Ok cfgs \<and>
    bind_transport U (o_bind_port opts) = Ok bound \<and>
    parse_ipv4 (st_ip s) = Some my_ip \<and>
    manager_new (x_crypto x) (u_manager U) \<lparr>local_keypair = ok_wg ks, local_ip = my_ip, timings = default_timings\<rparr> cfgs = Ok m \<and>
    D = \<lparr>dm_dir = dir, dm_url = server_url cfg, dm_identity = ok_identity ks, dm_token = st_auth_token s,
       dm_endpoint = advertised_endpoint (o_advertise_endpoint opts) rel (u_advertise_var U) (show_socket bound),
       dm_via_relay = map_option show_socket rel, dm_relay_endpoint = rel, dm_own_pub = kp_public (ok_wg ks),
       dm_known = set (map peer_pub cfgs), dm_manager = m\<rparr> \<and>
    parse_socket_addr (dm_endpoint D) \<noteq> None"
  have "\<exists>ks cfg s entries srv rel cfgs bound my_ip m. ?up ks cfg s entries srv rel cfgs bound my_ip m"
    using assms
    by (auto simp: cmd_up_def start_daemon_def andthen_Ok_iff Let_def on_server_Ok ret_def
        split: if_splits dest!: open_store_Ok)
  then show ?thesis using that by blast
qed

text \<open>C26: What a successful start-up of \<open>up\<close> has established.  The manager has one session per peer taken on
  from the server's list, in order, with the node's own pair; their keys are the known ones; the
  advertised endpoint parses as a socket address, and is the one given on the command line when
  there is one; and the daemon works with the token of the state file.\<close>

theorem up_starts_manager:
  assumes "cmd_up x U dir opts pp w = (Ok D, w')"
  shows "\<exists>ks cfg s entries srv cfgs.
    fst (open_store x dir pp w) = Ok ks \<and>
    fst (config_load (x_codecs x) (x_faults x) dir (w_disk w)) = Ok cfg \<and>
    fst (state_load (x_codecs x) (x_faults x) dir (w_disk w)) = Ok s \<and>
    client_peers (x_net x) (client_new (server_url cfg)) (st_auth_token s) (w_server w) = (Ok entries, srv) \<and>
    up_peers (x_libs x) (kp_public (ok_wg ks)) (dm_relay_endpoint D) 0 entries = Ok cfgs \<and>
    map config (peers (dm_manager D)) = cfgs \<and> local_pub (dm_manager D) = kp_public (ok_wg ks) \<and>
    manager_ok (dm_manager D) \<and> dm_known D = set (map peer_pub cfgs) \<and> dm_token D = st_auth_token s \<and>
    parse_socket_addr (dm_endpoint D) \<noteq> None \<and> (\<forall>a. o_advertise_endpoint opts = Some a \<longrightarrow> dm_endpoint D = a) \<and>
    (\<forall>r. o_relay opts = Some r \<longrightarrow> dm_relay_endpoint D = parse_socket_addr r \<and> parse_socket_addr r \<noteq> None)"
proof -
  obtain ks and cfg :: cli_config and s entries srv rel cfgs bound my_ip m where
    up: "fst (open_store x dir pp w) = Ok ks"
      "fst (config_load (x_codecs x) (x_faults x) dir (w_disk w)) = Ok cfg"
      "fst (state_load (x_codecs x) (x_faults x) dir (w_disk w)) = Ok s"
      "client_peers (x_net x) (client_new (server_url cfg)) (st_auth_token s) (w_server w) = (Ok entries, srv)"
      "relay_option (o_relay opts) = Ok rel"
      "up_peers (x_libs x) (kp_public (ok_wg ks)) rel 0 entries = Ok cfgs"
      "manager_new (x_crypto x) (u_manager U) \<lparr>local_keypair = ok_wg ks, local_ip = my_ip, timings = default_timings\<rparr> cfgs = Ok m"
      "parse_socket_addr (dm_endpoint D) \<noteq> None"
    and D: "D = \<lparr>dm_dir = dir, dm_url = server_url cfg, dm_identity = ok_identity ks, dm_token = st_auth_token s,
       dm_endpoint = advertised_endpoint (o_advertise_endpoint opts) rel (u_advertise_var U) (show_socket bound),
       dm_via_relay = map_option show_socket rel, dm_relay_endpoint = rel, dm_own_pub = kp_public (ok_wg ks),
       dm_known = set (map peer_pub cfgs), dm_manager = m\<rparr>"
    by (rule cmd_up_OkD [OF assms]) blast
  have rel: "\<forall>r. o_relay opts = Some r \<longrightarrow> dm_relay_endpoint D = parse_socket_addr r \<and> parse_socket_addr r \<noteq> None"
    using up(5) D
    by (cases "o_relay opts"; cases "parse_socket_addr (the (o_relay opts))") (auto simp: relay_option_def)
  have "\<forall>a. o_advertise_endpoint opts = Some a \<longrightarrow> dm_endpoint D = a" using D by (simp add: advertised_endpoint_def)
  with rel up D manager_new_configs [OF up(7)] manager_new_ok [OF up(7)] show ?thesis
    by (intro exI [of _ ks] exI [of _ cfg] exI [of _ s] exI [of _ entries] exI [of _ srv] exI [of _ cfgs])
      (simp add: local_pub_def)
qed

end
