(* ===== verification/Cli_Demo.thy ===== *)
theory Cli_Demo
  imports Cli_Up_Run Manager_Props
begin

text \<open>
  A concrete node: a directory with the two keys, the configuration and the state of an enrolled
  node, in front of the concrete coordination server.  The theorems about the commands and the
  daemon are applied to it.
\<close>

section \<open>The node\<close>

definition demo_wg :: keypair where "demo_wg = keypair_from_bytes plain (replicate 32 2)"

definition demo_state :: cli_state where
  "demo_state =
     \<lparr>st_node_id = ''a'', st_ip = ''100.100.0.9'', st_auth_token = ''tok'', st_auth_token_expires_at = Some 1000,
      st_last_endpoint = None, st_last_handshake_at = None, st_known_peers = []\<rparr>"

definition demo_url :: cli_config where "demo_url = \<lparr>server_url = ''http://coord''\<rparr>"

definition demo_ctx :: "coord_env \<Rightarrow> (plain_hs, plain_ts, coord) cli_ctx" where
  "demo_ctx E =
     \<lparr>x_crypto = plain, x_libs = plain_libs, x_keys = plain_keys, x_codecs = plain_codecs,
      x_net = direct plain plain_libs E, x_faults = no_faults, x_var = None, x_now = clock E\<rparr>"

lemma demo_ctx_simps [simp]:
  "x_crypto (demo_ctx E) = plain" "x_libs (demo_ctx E) = plain_libs" "x_keys (demo_ctx E) = plain_keys"
  "x_codecs (demo_ctx E) = plain_codecs" "x_net (demo_ctx E) = direct plain plain_libs E"
  "x_faults (demo_ctx E) = no_faults" "x_var (demo_ctx E) = None" "x_now (demo_ctx E) = clock E"
  by (simp_all add: demo_ctx_def)

lemma demo_dir_names [simp]:
  "demo_dir \<noteq> []" "demo_dir \<noteq> [''home'']" "join demo_dir f \<noteq> []" "join demo_dir f \<noteq> [''home'']" "join demo_dir f \<noteq> demo_dir"
  by (simp_all add: demo_dir_def join_def)

definition demo_home :: disk where
  "demo_home = \<lparr>files = Map.empty, directories = {[], [''home''], demo_dir}\<rparr>"

definition demo_keys_opened :: opened_keys where
  "demo_keys_opened = \<lparr>ok_identity = demo_identity, ok_wg = demo_wg\<rparr>"

text \<open>Saving both keys next to whatever else the directory holds.\<close>

lemma disk_with_keys:
  assumes "directories d = {[], [''home''], demo_dir}" and "length idk = 32" and "length wgk = 32"
  obtains d' where "directories d' = {[], [''home''], demo_dir}"
    "fst (opened_keys_open plain plain_keys no_faults demo_dir (Some [7]) d') =
       Ok \<lparr>ok_identity = identity_from_bytes plain idk, ok_wg = keypair_from_bytes plain wgk\<rparr>"
    "file_bytes d' (join demo_dir STATE_FILE) = file_bytes d (join demo_dir STATE_FILE)"
    "file_bytes d' (join demo_dir CONFIG_FILE) = file_bytes d (join demo_dir CONFIG_FILE)"
proof -
  obtain d1 where d1: "save_key plain_keys no_faults (zeros 16, zeros 24) demo_dir IdentityKey idk [7] d = (Ok (), d1)"
    "directories d1 = {[], [''home''], demo_dir}"
    by (rule demo_save [of idk "zeros 16" "zeros 24" IdentityKey d]) (auto simp: assms KEY_LEN_def)
  obtain d2 where d2: "save_key plain_keys no_faults (zeros 16, zeros 24) demo_dir WgKey wgk [7] d1 = (Ok (), d2)"
    "directories d2 = {[], [''home''], demo_dir}"
    by (rule demo_save [of wgk "zeros 16" "zeros 24" WgKey d1]) (auto simp: d1(2) assms(3) KEY_LEN_def)
  have "opened_keys_open plain plain_keys no_faults demo_dir (Some [7]) d2 =
      (Ok \<lparr>ok_identity = identity_from_bytes plain idk, ok_wg = keypair_from_bytes plain wgk\<rparr>, d2)"
    using keystore_opens [OF plain_keys_works _ _ _ _ d1(1) d2(1), where C = plain and F' = no_faults
        and dir' = demo_dir and passphrase = None and d' = d2] by simp
  then show ?thesis
    using that [OF d2(2)] saved_key_exists(2) [OF d1(1)] saved_key_exists(2) [OF d2(1)]
    by (simp add: STATE_FILE_def CONFIG_FILE_def temp_name_def)
qed

lemma demo_with_keys:
  assumes "directories d = {[], [''home''], demo_dir}"
  obtains d' where "directories d' = {[], [''home''], demo_dir}"
    "fst (opened_keys_open plain plain_keys no_faults demo_dir (Some [7]) d') = Ok demo_keys_opened"
    "file_bytes d' (join demo_dir STATE_FILE) = file_bytes d (join demo_dir STATE_FILE)"
    "file_bytes d' (join demo_dir CONFIG_FILE) = file_bytes d (join demo_dir CONFIG_FILE)"
  by (rule disk_with_keys [OF assms, of demo_key "replicate 32 2"])
    (simp_all add: demo_key_def demo_keys_opened_def demo_identity_def demo_wg_def)

lemma enrolled_disk:
  fixes s :: cli_state
  assumes "length idk = 32" and "length wgk = 32"
  obtains d where "directories d = {[], [''home''], demo_dir}" "usable_dir demo_dir d"
    "fst (opened_keys_open plain plain_keys no_faults demo_dir (Some [7]) d) =
       Ok \<lparr>ok_identity = identity_from_bytes plain idk, ok_wg = keypair_from_bytes plain wgk\<rparr>"
    "fst (config_load plain_codecs no_faults demo_dir d) = Ok demo_url"
    "fst (state_load plain_codecs no_faults demo_dir d) = Ok s"
proof -
  obtain t where t: "state_to_json plain_codecs s = Inr t" "utf8_valid [] (str_bytes t)"
    "state_from_json plain_codecs t = Inr s"
    using plain_codecs_work by (auto simp: codec_works_def)
  obtain u where u: "config_to_toml plain_codecs demo_url = Inr u" "utf8_valid [] (str_bytes u)"
    "config_from_toml plain_codecs u = Inr demo_url"
    using plain_codecs_work by (auto simp: codec_works_def)
  let ?d = "stored (join demo_dir CONFIG_FILE) (str_bytes u) (stored (join demo_dir STATE_FILE) (str_bytes t) demo_home)"
  have names: "CONFIG_FILE \<noteq> STATE_FILE" by simp
  have "directories ?d = {[], [''home''], demo_dir}" by (simp add: demo_home_def)
  then obtain d where d: "directories d = {[], [''home''], demo_dir}"
    "fst (opened_keys_open plain plain_keys no_faults demo_dir (Some [7]) d) =
       Ok \<lparr>ok_identity = identity_from_bytes plain idk, ok_wg = keypair_from_bytes plain wgk\<rparr>"
    "file_bytes d (join demo_dir STATE_FILE) = file_bytes ?d (join demo_dir STATE_FILE)"
    "file_bytes d (join demo_dir CONFIG_FILE) = file_bytes ?d (join demo_dir CONFIG_FILE)"
    by (rule disk_with_keys [OF _ assms])
  have "file_bytes d (join demo_dir STATE_FILE) = Some (str_bytes t)" "file_bytes d (join demo_dir CONFIG_FILE) = Some (str_bytes u)"
    using d(3,4) names by (simp_all add: not_sym [OF names])
  then have "fst (state_load plain_codecs no_faults demo_dir d) = Ok s"
    "fst (config_load plain_codecs no_faults demo_dir d) = Ok demo_url"
    using t u by (simp_all add: state_load_def config_load_def andthen_def map_err_def pure_act_def read_text)
  with d(1,2) show ?thesis by (intro that) (simp_all add: usable_dir_def)
qed

lemma demo_enrolled:
  obtains d where "directories d = {[], [''home''], demo_dir}" "usable_dir demo_dir d"
    "fst (opened_keys_open plain plain_keys no_faults demo_dir (Some [7]) d) = Ok demo_keys_opened"
    "fst (config_load plain_codecs no_faults demo_dir d) = Ok demo_url"
    "fst (state_load plain_codecs no_faults demo_dir d) = Ok demo_state"
  by (rule enrolled_disk [of demo_key "replicate 32 2" demo_state])
    (simp_all add: demo_key_def demo_keys_opened_def demo_identity_def demo_wg_def)

lemma demo_open_store:
  "fst (open_store (demo_ctx E) demo_dir (PassBytes [7]) w) =
     fst (opened_keys_open plain plain_keys no_faults demo_dir (Some [7]) (w_disk w))"
  by (simp add: open_store_def andthen_def pure_act_def on_disk_same)

definition demo_world :: "disk \<Rightarrow> coord \<Rightarrow> coord world" where
  "demo_world d s = \<lparr>w_disk = d, w_server = s, w_commands = []\<rparr>"

lemma demo_world_simps [simp]:
  "w_disk (demo_world d s) = d" "w_server (demo_world d s) = s" "w_commands (demo_world d s) = []"
  "demo_world d s\<lparr>w_disk := d'\<rparr> = demo_world d' s" "demo_world d s\<lparr>w_server := s'\<rparr> = demo_world d s'"
  by (simp_all add: demo_world_def)

section \<open>Enrolling\<close>

definition demo_random :: init_random where
  "demo_random = \<lparr>r_identity = demo_key, r_wg = replicate 32 2, r_identity_envelope = (zeros 16, zeros 24),
     r_wg_envelope = (zeros 16, zeros 24)\<rparr>"

theorem init_leaves_a_node_witness:
  "\<exists>d'. cmd_init (demo_ctx demo_request) demo_random demo_dir ''http://coord'' False (PassBytes [7]) demo_home = (Ok (), d') \<and>
     opened_keys_open plain plain_keys no_faults demo_dir (Some [7]) d' = (Ok demo_keys_opened, d')"
proof -
  have d0: "directories demo_home = {[], [''home''], demo_dir}" by (simp add: demo_home_def)
  obtain d1 where d1: "save_key plain_keys no_faults (zeros 16, zeros 24) demo_dir IdentityKey demo_key [7] demo_home = (Ok (), d1)"
    "directories d1 = {[], [''home''], demo_dir}"
    by (rule demo_save [of demo_key "zeros 16" "zeros 24" IdentityKey demo_home]) (auto simp: d0 KEY_LEN_def demo_key_def)
  obtain d2 where d2: "save_key plain_keys no_faults (zeros 16, zeros 24) demo_dir WgKey (replicate 32 2) [7] d1 = (Ok (), d2)"
    "directories d2 = {[], [''home''], demo_dir}"
    by (rule demo_save [of "replicate 32 2" "zeros 16" "zeros 24" WgKey d1]) (auto simp: d1(2) KEY_LEN_def)
  obtain t where "config_save plain_codecs no_faults demo_dir (default_with_server ''http://coord'') d2 =
      (Ok (), stored (join demo_dir CONFIG_FILE) (str_bytes t) d2)"
    by (rule config_saved [OF plain_codecs_work]) (auto simp: usable_dir_def d2(2))
  then have init: "cmd_init (demo_ctx demo_request) demo_random demo_dir ''http://coord'' False (PassBytes [7]) demo_home =
      (Ok (), stored (join demo_dir CONFIG_FILE) (str_bytes t) d2)"
    using d1(1) d2(1) d0
    by (simp add: cmd_init_def andthen_def ensure_dir_def path_exists_def identity_exists_def demo_random_def
        identity_private_bytes_def identity_generate_def keypair_generate_def Let_def)
      (simp add: demo_home_def)
  let ?d = "stored (join demo_dir CONFIG_FILE) (str_bytes t) d2"
  from init_leaves_a_node [OF _ _ _ _ _ _ _ _ init] plain_keys_works plain_codecs_work
  have "opened_keys_open plain plain_keys no_faults demo_dir (Some [7]) ?d = (Ok demo_keys_opened, ?d)"
    by (simp add: demo_random_def demo_keys_opened_def demo_identity_def demo_wg_def identity_from_bytes_def
        identity_generate_def keypair_from_bytes_def keypair_generate_def)
  with init show ?thesis by blast
qed

theorem register_leaves_a_node_witness:
  "\<exists>d s w' n. cmd_register (demo_ctx demo_request) demo_dir (PassBytes [7]) (demo_world d demo_empty) = (Ok s, w') \<and>
     db_nodes (cdb (w_server w')) = [n] \<and> n_identity n = demo_key \<and> st_node_id s = n_node_id n \<and>
     get_node_by_token (cdb (w_server w')) (st_auth_token s) 600 = Some n"
proof -
  obtain d where d: "directories d = {[], [''home''], demo_dir}" "usable_dir demo_dir d"
    "fst (opened_keys_open plain plain_keys no_faults demo_dir (Some [7]) d) = Ok demo_keys_opened"
    "fst (config_load plain_codecs no_faults demo_dir d) = Ok demo_url"
    "fst (state_load plain_codecs no_faults demo_dir d) = Ok demo_state"
    by (rule demo_enrolled)
  obtain resp srv where reg: "register plain plain_libs demo_request (demo_register (replicate 32 2)) demo_empty = (Ok resp, srv)"
    by (rule demo_registration)
  have keys: "identity_public (ok_identity demo_keys_opened) = demo_key" "kp_public (ok_wg demo_keys_opened) = replicate 32 2"
    by (simp_all add: demo_keys_opened_def demo_wg_def keypair_from_bytes_def) (simp add: plain_def pad_to_same)
  have sign: "identity_sign plain demo_identity m = ed25519_sign plain demo_key m" for m
    by (simp add: identity_sign_def demo_identity_def identity_from_bytes_def)
  have call: "client_register plain plain_libs (direct plain plain_libs demo_request) 500 (client_new ''http://coord'')
      (ok_identity demo_keys_opened) (kp_public (ok_wg demo_keys_opened)) demo_empty = (Ok resp, srv)"
    using reg keys
    by (simp add: client_register_direct demo_register_def demo_sign_def sign demo_keys_opened_def)
  let ?s = "\<lparr>st_node_id = rs_node_id resp, st_ip = rs_ip resp, st_auth_token = rs_auth_token resp,
      st_auth_token_expires_at = Some (rs_auth_token_expires_at resp),
      st_last_endpoint = None, st_last_handshake_at = None, st_known_peers = []\<rparr>"
  obtain t where "state_save plain_codecs no_faults demo_dir ?s d = (Ok (), stored (join demo_dir STATE_FILE) (str_bytes t) d)"
    by (rule state_saved [OF plain_codecs_work d(2)])
  moreover have exists: "path_exists demo_dir d" using d(1) by (simp add: path_exists_def)
  ultimately obtain w' where w': "cmd_register (demo_ctx demo_request) demo_dir (PassBytes [7]) (demo_world d demo_empty) = (Ok ?s, w')"
    using call d(4) open_store_pair [of "demo_ctx demo_request" demo_dir "PassBytes [7]" "demo_world d demo_empty", unfolded demo_open_store, simplified, OF d(3)]
    by (simp add: cmd_register_def andthen_def on_disk_apply on_server_apply ensure_dir_exists demo_url_def ret_def Let_def)
  have "coord_ok demo_empty" "db_nodes (cdb demo_empty) = []" "token_ttl_secs demo_empty = 1000"
    using coord_ok_in_memory by (simp_all add: demo_empty_def app_state_in_memory_def open_in_memory_def)
  moreover have "rs_auth_token_expires_at resp = 1500"
    using register_effect [OF calculation(1) reg] calculation(3) by auto
  ultimately obtain n where "db_nodes (cdb (w_server w')) = [n]" "n_identity n = demo_key" "rs_node_id resp = n_node_id n"
    "get_node_by_token (cdb (w_server w')) (rs_auth_token resp) 600 = Some n"
    using register_leaves_a_node [OF _ _ _ _ _ _ w', of demo_request] exists plain_libs_work plain_codecs_work keys d(3)
    by (auto simp: demo_open_store)
  with w' show ?thesis by (intro exI [of _ d] exI [of _ ?s] exI [of _ w'] exI [of _ n]) simp
qed

section \<open>Failing commands\<close>

lemma demo_open_enrolled:
  assumes "fst (opened_keys_open plain plain_keys no_faults demo_dir (Some [7]) d) = Ok ks"
  shows "fst (open_store (demo_ctx E) demo_dir (PassBytes [7]) (demo_world d s)) = Ok ks"
    "open_store (demo_ctx E) demo_dir (PassBytes [7]) (demo_world d s) = (Ok ks, demo_world d s)"
proof -
  show 1: "fst (open_store (demo_ctx E) demo_dir (PassBytes [7]) (demo_world d s)) = Ok ks"
    using assms by (simp add: demo_open_store)
  show "open_store (demo_ctx E) demo_dir (PassBytes [7]) (demo_world d s) = (Ok ks, demo_world d s)"
    by (rule open_store_pair [OF 1])
qed

theorem lapsed_node_locked_out_witness:
  "\<exists>d. \<not> is_ok (fst (cmd_heartbeat (demo_ctx (demo_request\<lparr>clock := 1000\<rparr>)) demo_dir ''1.2.3.4:5'' None (PassBytes [7])
     (demo_world d demo_coord)))"
proof -
  obtain d where d: "directories d = {[], [''home''], demo_dir}" "usable_dir demo_dir d"
    "fst (opened_keys_open plain plain_keys no_faults demo_dir (Some [7]) d) = Ok demo_keys_opened"
    "fst (config_load plain_codecs no_faults demo_dir d) = Ok demo_url"
    "fst (state_load plain_codecs no_faults demo_dir d) = Ok demo_state"
    by (rule demo_enrolled)
  let ?x = "demo_ctx (demo_request\<lparr>clock := 1000\<rparr>)" and ?w = "demo_world d demo_coord"
  have "path_exists demo_dir d" using d(1) by (simp add: path_exists_def)
  moreover have "demo_node \<in> set (db_nodes (cdb demo_coord))" "n_identity demo_node = demo_key"
    by (simp_all add: demo_coord_def demo_node_def)
  ultimately have "\<not> is_ok (fst (cmd_heartbeat ?x demo_dir ''1.2.3.4:5'' None (PassBytes [7]) ?w))"
    using lapsed_node_locked_out [of ?x "demo_request\<lparr>clock := 1000\<rparr>" demo_dir ?w demo_state "PassBytes [7]" demo_keys_opened
        demo_node "cmd_heartbeat ?x demo_dir ''1.2.3.4:5'' None (PassBytes [7])" "''1.2.3.4:5''" None]
      plain_libs_work d(5) demo_open_enrolled(1) [OF d(3)]
    by (simp add: demo_state_def demo_keys_opened_def)
  then show ?thesis by (rule exI)
qed


section \<open>A running daemon\<close>

definition demo_daemon :: "(plain_hs, plain_ts) daemon" where
  "demo_daemon =
     \<lparr>dm_dir = demo_dir, dm_url = ''http://coord'', dm_identity = demo_identity, dm_token = ''tok'',
      dm_endpoint = ''1.2.3.4:5'', dm_via_relay = None, dm_relay_endpoint = None, dm_own_pub = kp_public demo_wg,
      dm_known = {}, dm_manager = demo_manager Init\<rparr>"

lemma demo_daemon_simps [simp]:
  "dm_dir demo_daemon = demo_dir" "dm_token demo_daemon = ''tok''" "dm_identity demo_daemon = demo_identity"
  by (simp_all add: demo_daemon_def)

lemma demo_fresh: "\<forall>u \<in> set (db_tokens (cdb demo_coord)). t_token u \<noteq> generate_token plain_libs (demo_request\<lparr>clock := t\<rparr>)"
proof -
  have "length (generate_token plain_libs (demo_request\<lparr>clock := t\<rparr>)) = 32"
    by (simp add: generate_token_def plain_libs_def demo_request_def)
  then have "generate_token plain_libs (demo_request\<lparr>clock := t\<rparr>) \<noteq> ''tok''" by auto
  then show ?thesis by (auto simp: demo_coord_def demo_token_def)
qed

lemma demo_admits: "admits (demo_request\<lparr>clock := t\<rparr>) b demo_coord"
  using demo_check [of b] by (simp add: admits_def check_rate_limit_def demo_request_def)


theorem external_refresh_cuts_daemon_off_witness:
  "\<exists>d w1 r w2. cmd_refresh_token (demo_ctx demo_request) demo_dir (PassBytes [7]) (demo_world d demo_coord) = (Ok (), w1) \<and>
     daemon_run plain [HeartbeatTick (demo_ctx demo_request) (Tai64N 537 0)] demo_daemon w1 = (r, w2) \<and>
     dead_token (w_server w2) ''tok'' \<and> db_nodes (cdb (w_server w2)) = [demo_node]"
proof -
  obtain d where d: "directories d = {[], [''home''], demo_dir}" "usable_dir demo_dir d"
    "fst (opened_keys_open plain plain_keys no_faults demo_dir (Some [7]) d) = Ok demo_keys_opened"
    "fst (config_load plain_codecs no_faults demo_dir d) = Ok demo_url"
    "fst (state_load plain_codecs no_faults demo_dir d) = Ok demo_state"
    by (rule demo_enrolled)
  let ?x = "demo_ctx demo_request" and ?w = "demo_world d demo_coord"
  let ?call = "client_refresh_token plain plain_libs (direct plain plain_libs demo_request) 500
      (client_new ''http://coord'') demo_identity ''tok'' demo_coord"
  have same: "demo_request\<lparr>clock := 500\<rparr> = demo_request" by (simp add: demo_request_def)
  have "is_ok (fst ?call)"
    by (rule client_refresh_ok [where n = demo_node])
      (use plain_signatures_verify plain_libs_work demo_coord_ok demo_fresh [of 500] demo_admits [of 500 Token] in
        \<open>simp_all add: same, simp_all add: demo_node_def\<close>)
  then obtain rf srv where call: "?call = (Ok rf, srv)" by (cases ?call) (auto simp: is_ok_iff)
  obtain t where t: "state_save plain_codecs no_faults demo_dir (with_new_token rf demo_state) d =
      (Ok (), stored (join demo_dir STATE_FILE) (str_bytes t) d)"
    by (rule state_saved [OF plain_codecs_work d(2)])
  have tok: "st_auth_token demo_state = ''tok''" "server_url demo_url = ''http://coord''" "ok_identity demo_keys_opened = demo_identity"
    by (simp_all add: demo_state_def demo_url_def demo_keys_opened_def)
  obtain w1 where w1: "cmd_refresh_token ?x demo_dir (PassBytes [7]) ?w = (Ok (), w1)"
    using demo_open_enrolled(2) [OF d(3), of demo_request demo_coord] d(4,5) call t tok
    by (simp add: cmd_refresh_token_def andthen_def on_disk_apply on_server_apply)
  let ?es = "[HeartbeatTick ?x (Tai64N 537 0)]"
  obtain r w2 where r: "daemon_run plain ?es demo_daemon w1 = (r, w2)" by (cases "daemon_run plain ?es demo_daemon w1")
  have "served (HeartbeatTick ?x (Tai64N 537 0))" by auto
  moreover have "db_nodes (cdb demo_coord) = [demo_node]" by (simp add: demo_coord_def)
  ultimately have "dead_token (w_server w2) ''tok'' \<and> db_nodes (cdb (w_server w2)) = [demo_node]"
    using external_refresh_cuts_daemon_off [OF _ _ _ _ w1 _ r, of demo_request demo_state] demo_coord_ok d(5) tok by simp
  with w1 r show ?thesis by blast
qed

section \<open>Starting up\<close>

definition demo_up_env :: up_env where
  "demo_up_env =
     \<lparr>u_tun_create = Inr, u_bind = (\<lambda>a. None), u_local_addr = Inr, u_advertise_var = None,
      u_platform = \<lparr>target = Linux, exits = (\<lambda>argv. Inr True)\<rparr>, u_manager = demo_env, u_tai = Tai64N 537 0\<rparr>"

definition demo_options :: up_options where
  "demo_options =
     \<lparr>o_tun = ''utun99'', o_bind_port = 51820, o_relay = None, o_advertise_endpoint = Some ''1.2.3.4:5''\<rparr>"

lemma demo_peers_call:
  obtains srv where "client_peers (direct plain plain_libs demo_request) c ''tok'' demo_coord = (Ok [], srv)"
proof -
  have "peers_route plain_libs demo_request (bearer_auth ''tok'') demo_coord =
      (Ok (map (peer_entry_of plain_libs) (filter (\<lambda>m. n_node_id m \<noteq> n_node_id demo_node) (db_nodes (cdb demo_coord)))),
       demo_admitted Default)"
    by (simp add: peers_route_def andthen_def pure_act_def ret_def list_peers_def)
  moreover have "db_nodes (cdb demo_coord) = [demo_node]" by (simp add: demo_coord_def)
  ultimately show ?thesis using that by (simp add: client_peers_def send_request_direct on_success_respond)
qed

lemma up_succeeds:
  fixes st :: cli_state
  assumes usable: "usable_dir demo_dir d"
    and d: "fst (opened_keys_open plain plain_keys no_faults demo_dir (Some [7]) d) = Ok ks"
      "fst (config_load plain_codecs no_faults demo_dir d) = Ok demo_url"
      "fst (state_load plain_codecs no_faults demo_dir d) = Ok st" "parse_ipv4 (st_ip st) = Some my_ip"
    and call: "client_peers (direct plain plain_libs E) (client_new (server_url demo_url)) (st_auth_token st) s0 = (Ok entries, srv)"
    and cfgs: "up_peers plain_libs (kp_public (ok_wg ks)) None 0 entries = Ok cfgs"
    and m: "manager_new plain (u_manager demo_up_env) \<lparr>local_keypair = ok_wg ks, local_ip = my_ip, timings = default_timings\<rparr> cfgs = Ok m"
  obtains D w' where
    "cmd_up (demo_ctx E) demo_up_env demo_dir demo_options (PassBytes [7]) (demo_world d s0) = (Ok D, w')"
    "dm_manager D = m"
proof -
  let ?x = "demo_ctx E" and ?w = "demo_world d s0"
  have beat: "\<exists>q srv'. client_heartbeat plain plain_libs (direct plain plain_libs E) (clock E) c i tk e r s = (q, srv') \<and> \<not> is_panic q"
    for c i tk e r s
    using client_heartbeat_direct [of plain plain_libs E "clock E" c i tk e r s] by blast
  have saved: "\<exists>d'. state_save plain_codecs no_faults demo_dir s d = (Ok (), d')" for s
    by (rule state_saved [OF plain_codecs_work usable, of s]) blast
  have announced: "\<exists>w'. announce ?x t D s (demo_world d s2\<lparr>w_commands := cs\<rparr>) = (Ok (), w')"
    if dirs: "dm_dir D = demo_dir" for t D s s2 cs
  proof -
    obtain q srv' where q: "client_heartbeat plain plain_libs (direct plain plain_libs E) (clock E)
        (client_new (dm_url D)) (dm_identity D) (dm_token D) (dm_endpoint D) (dm_via_relay D) s2 = (q, srv')" "\<not> is_panic q"
      using beat by blast
    obtain d' where "state_save plain_codecs no_faults demo_dir
        (s\<lparr>st_last_endpoint := Some (dm_endpoint D), st_last_handshake_at := Some (seconds t)\<rparr>) d = (Ok (), d')"
      using saved by blast
    with q dirs show ?thesis
      by (cases q) (simp_all add: announce_def andthen_def attempt_eq on_server_apply on_disk_apply)
  qed
  have tun: "tun_setup demo_up_env ''utun99'' ip cfgs w =
      (Ok (), w\<lparr>w_commands := w_commands w @ [[''ip'', ''addr'', ''add'', ip @ ''/32'', ''dev'', ''utun99''],
        [''ip'', ''link'', ''set'', ''utun99'', ''up''],
        [''ip'', ''route'', ''replace'', ''100.100.0.0/16'', ''dev'', ''utun99'']]\<rparr>)" for ip and w :: "coord world"
    by (simp add: tun_setup_def demo_up_env_def of_sum_def andthen_def pure_act_def on_shell_apply configure_tun_def
        configure_tun_linux_def add_route_def add_route_linux_def run_command_def)
  obtain bound where bound: "bind_transport demo_up_env 51820 = Ok bound"
    by (simp add: bind_transport_def demo_up_env_def of_sum_def)
  have opts: "o_tun demo_options = ''utun99''" "o_bind_port demo_options = 51820" "o_relay demo_options = None"
    "o_advertise_endpoint demo_options = Some ''1.2.3.4:5''" by (simp_all add: demo_options_def)
  have adv: "advertised_endpoint (Some ''1.2.3.4:5'') r v b = ''1.2.3.4:5''" for r v b
    by (simp add: advertised_endpoint_def)
  let ?D = "\<lparr>dm_dir = demo_dir, dm_url = server_url demo_url, dm_identity = ok_identity ks, dm_token = st_auth_token st,
     dm_endpoint = ''1.2.3.4:5'', dm_via_relay = None, dm_relay_endpoint = None,
     dm_own_pub = kp_public (ok_wg ks), dm_known = peer_pub ` set cfgs, dm_manager = m\<rparr>"
  let ?w1 = "demo_world d srv\<lparr>w_commands := [[''ip'', ''addr'', ''add'', st_ip st @ ''/32'', ''dev'', ''utun99''],
      [''ip'', ''link'', ''set'', ''utun99'', ''up''],
      [''ip'', ''route'', ''replace'', ''100.100.0.0/16'', ''dev'', ''utun99'']]\<rparr>"
  obtain w' where w': "announce ?x (u_tai demo_up_env) ?D st ?w1 = (Ok (), w')"
    using announced [of ?D] by fastforce
  have "cmd_up ?x demo_up_env demo_dir demo_options (PassBytes [7]) ?w = (Ok ?D, w')"
    unfolding cmd_up_def start_daemon_def opts
    by (simp add: andthen_def demo_open_enrolled(2) [OF d(1)] d(2-4) call cfgs on_server_apply relay_option_def pure_act_def
        tun bound adv m ok_or_def Let_def w' ret_def)
  then show ?thesis by (rule that) simp
qed

lemma demo_started:
  obtains d D w' srv where
    "fst (opened_keys_open plain plain_keys no_faults demo_dir (Some [7]) d) = Ok demo_keys_opened"
    "fst (config_load plain_codecs no_faults demo_dir d) = Ok demo_url"
    "fst (state_load plain_codecs no_faults demo_dir d) = Ok demo_state"
    "client_peers (direct plain plain_libs demo_request) (client_new (server_url demo_url)) ''tok'' demo_coord = (Ok [], srv)"
    "cmd_up (demo_ctx demo_request) demo_up_env demo_dir demo_options (PassBytes [7]) (demo_world d demo_coord) = (Ok D, w')"
    "peers (dm_manager D) = []"
proof -
  obtain d where d: "usable_dir demo_dir d"
    "fst (opened_keys_open plain plain_keys no_faults demo_dir (Some [7]) d) = Ok demo_keys_opened"
    "fst (config_load plain_codecs no_faults demo_dir d) = Ok demo_url"
    "fst (state_load plain_codecs no_faults demo_dir d) = Ok demo_state"
    by (rule demo_enrolled)
  have st: "st_auth_token demo_state = ''tok''" "parse_ipv4 (st_ip demo_state) = Some 1684275209" by (simp_all add: demo_state_def)
  obtain srv where call: "client_peers (direct plain plain_libs demo_request) (client_new (server_url demo_url)) ''tok'' demo_coord = (Ok [], srv)"
    by (rule demo_peers_call)
  obtain m where m: "manager_new plain (u_manager demo_up_env)
      \<lparr>local_keypair = ok_wg demo_keys_opened, local_ip = 1684275209, timings = default_timings\<rparr> [] = Ok m" "peers m = []"
    by (simp add: manager_new_def)
  obtain D w' where up: "cmd_up (demo_ctx demo_request) demo_up_env demo_dir demo_options (PassBytes [7]) (demo_world d demo_coord) = (Ok D, w')"
    and D: "dm_manager D = m"
    by (rule up_succeeds [OF d st(2) call [folded st(1)] _ m(1)]) simp
  have "peers (dm_manager D) = []" by (simp only: D m(2))
  then show ?thesis by (rule that [OF d(2-4) call up])
qed

theorem up_starts_manager_witness:
  "\<exists>d D w'. cmd_up (demo_ctx demo_request) demo_up_env demo_dir demo_options (PassBytes [7]) (demo_world d demo_coord) = (Ok D, w') \<and>
     peers (dm_manager D) = [] \<and> dm_endpoint D = ''1.2.3.4:5'' \<and> dm_token D = ''tok'' \<and> manager_ok (dm_manager D)"
proof -
  obtain d D w' srv where d: "fst (opened_keys_open plain plain_keys no_faults demo_dir (Some [7]) d) = Ok demo_keys_opened"
    "fst (config_load plain_codecs no_faults demo_dir d) = Ok demo_url"
    "fst (state_load plain_codecs no_faults demo_dir d) = Ok demo_state"
    and call: "client_peers (direct plain plain_libs demo_request) (client_new (server_url demo_url)) ''tok'' demo_coord = (Ok [], srv)"
    and up: "cmd_up (demo_ctx demo_request) demo_up_env demo_dir demo_options (PassBytes [7]) (demo_world d demo_coord) = (Ok D, w')"
    by (rule demo_started)
  let ?x = "demo_ctx demo_request" and ?w = "demo_world d demo_coord"
  have tok: "st_auth_token demo_state = ''tok''" by (simp add: demo_state_def)
  have opts: "o_relay demo_options = None" "o_advertise_endpoint demo_options = Some ''1.2.3.4:5''" by (simp_all add: demo_options_def)
  from up_starts_manager [OF up] obtain cfgs where
    "fst (open_store ?x demo_dir (PassBytes [7]) ?w) = Ok demo_keys_opened" "dm_token D = ''tok''" "manager_ok (dm_manager D)"
    "dm_endpoint D = ''1.2.3.4:5''" "map config (peers (dm_manager D)) = []"
    using demo_open_enrolled(1) [OF d(1), of demo_request demo_coord] d(2,3) tok call opts by auto
  with up show ?thesis by blast
qed

text \<open>A start-up that ends in an error, and \<open>down\<close> afterwards.\<close>

theorem down_never_stops_up_witness:
  "\<exists>r w' w2. andthen (cmd_up (demo_ctx demo_request) demo_up_env demo_dir demo_options (PassBytes [7]))
     (daemon_run plain [HeartbeatTick (demo_ctx demo_request) (Tai64N 537 0)]) (demo_world demo_home demo_coord) = (r, w') \<and>
   cmd_down no_faults (\<lambda>p. None) (u_platform demo_up_env) (Some [''etc'']) demo_dir w' = (Ok (), w2) \<and>
   w_commands w2 = w_commands w'"
proof -
  let ?run = "andthen (cmd_up (demo_ctx demo_request) demo_up_env demo_dir demo_options (PassBytes [7]))
     (daemon_run plain [HeartbeatTick (demo_ctx demo_request) (Tai64N 537 0)]) (demo_world demo_home demo_coord)"
  obtain r w' where r: "?run = (r, w')" by (cases ?run)
  have "\<not> path_exists (join (join [''etc''] ''naboscale'') DAEMON_PID_FILE) demo_home"
    by (simp add: path_exists_def demo_home_def join_def demo_dir_def)
  then obtain w2 where "cmd_down no_faults (\<lambda>p. None) (u_platform demo_up_env) (Some [''etc'']) demo_dir w' = (Ok (), w2)"
    "w_commands w2 = w_commands w'"
    using down_never_stops_up [OF r, of "[''etc'']" no_faults "\<lambda>p. None" "u_platform demo_up_env" demo_dir] by auto
  with r show ?thesis by blast
qed

end
