(* ===== verification/Cli_Daemon_Run.thy ===== *)
theory Cli_Daemon_Run
  imports Cli_Demo
begin

text \<open>
  The daemon of \<open>naboscale up\<close> over a whole run: its list of known keys and its manager agree, and
  discovery only ever adds sessions, whatever the network, the disk and the server do.
\<close>

section \<open>How a daemon changes\<close>

definition session_keys :: "('hs, 'ts) manager \<Rightarrow> bytes list" where
  "session_keys m = map (\<lambda>p. peer_pub (config p)) (peers m)"

definition daemon_ok :: "('hs, 'ts) daemon \<Rightarrow> bool" where
  "daemon_ok D \<longleftrightarrow>
     manager_ok (dm_manager D) \<and> dm_known D = set (session_keys (dm_manager D)) \<and>
     local_pub (dm_manager D) = dm_own_pub D"

text \<open>Same node, same sessions at the same places, perhaps more of them, none for a key that has one.\<close>

definition grown :: "('hs, 'ts) daemon \<Rightarrow> ('hs, 'ts) daemon \<Rightarrow> bool" where
  "grown D D' \<longleftrightarrow>
     dm_dir D' = dm_dir D \<and> dm_url D' = dm_url D \<and> dm_identity D' = dm_identity D \<and>
     dm_endpoint D' = dm_endpoint D \<and> dm_via_relay D' = dm_via_relay D \<and>
     dm_relay_endpoint D' = dm_relay_endpoint D \<and> dm_own_pub D' = dm_own_pub D \<and>
     evolution (dm_manager D) (dm_manager D') \<and>
     (daemon_ok D \<longrightarrow> daemon_ok D' \<and>
        (distinct (session_keys (dm_manager D)) \<longrightarrow> distinct (session_keys (dm_manager D'))))"

interpretation grow: frame grown
  by unfold_locales (auto simp: grown_def intro: ev.frame_refl ev.frame_trans)

lemma evolution_keys:
  assumes "evolution m n" and "length (peers n) = length (peers m)"
  shows "session_keys n = session_keys m" "local_pub n = local_pub m"
proof -
  have "peer_pub (config (peers n ! i)) = peer_pub (config (peers m ! i))" if "i < length (peers m)" for i
  proof -
    have "config (peers n ! i) = (config (peers m ! i))\<lparr>peer_endpoint := peer_endpoint (config (peers n ! i))\<rparr>"
      using assms(1) that by (simp add: evolution_def)
    then show ?thesis by (metis peer_config.select_convs(1) peer_config.surjective peer_config.update_convs(5))
  qed
  then show "session_keys n = session_keys m"
    using assms(2) by (auto simp: session_keys_def intro: nth_equalityI)
  show "local_pub n = local_pub m" using assms(1) by (simp add: evolution_def local_pub_def)
qed

lemma manager_step_grown: "grown D (D\<lparr>dm_manager := snd (step C input (dm_manager D))\<rparr>)"
proof -
  let ?m = "snd (step C input (dm_manager D))"
  have "evolution (dm_manager D) ?m" by (rule staysD [OF step_evolution])
  note k = this evolution_keys [OF this step_same_length]
  have "manager_ok (dm_manager D) \<Longrightarrow> manager_ok ?m"
    using apply_op_ok [of "dm_manager D" C "Step input"] by simp
  with k show ?thesis by (simp add: grown_def daemon_ok_def)
qed

lemma pushed_grown:
  assumes "pubkey_to_peer (dm_manager D) (peer_pub c) = None"
    and s: "session_new C E (local_keypair (mcfg (dm_manager D))) i c = Ok s"
  shows "grown D (D\<lparr>dm_manager := push_session c s (dm_manager D), dm_known := insert (peer_pub c) (dm_known D)\<rparr>)"
proof -
  have keys: "session_keys (push_session c s (dm_manager D)) = session_keys (dm_manager D) @ [peer_pub c]"
    using session_new_OkD(1) [OF s] by (simp add: session_keys_def push_session_def)
  have pub: "local_pub (push_session c s (dm_manager D)) = local_pub (dm_manager D)"
    by (simp add: local_pub_def push_session_def)
  have new: "peer_pub c \<notin> set (session_keys (dm_manager D))" if "manager_ok (dm_manager D)"
  proof
    assume "peer_pub c \<in> set (session_keys (dm_manager D))"
    then obtain i where i: "i < length (peers (dm_manager D))" "peer_pub c = peer_pub (config (peers (dm_manager D) ! i))"
      by (auto simp: session_keys_def in_set_conv_nth)
    with that have "pubkey_to_peer (dm_manager D) (peer_pub c) \<noteq> None" unfolding manager_ok_def maps_ok_def by metis
    with assms(1) show False by simp
  qed
  show ?thesis
    using keys pub new push_session_ok [OF _ s] push_session_evolution [of "dm_manager D" c s]
    by (auto simp: grown_def daemon_ok_def)
qed

lemma discover_peer_grown: "stays grown (discover_peer C X E p)"
  unfolding stays_def
proof
  fix D :: "('a, 'b) daemon"
  show "grown D (snd (discover_peer C X E p D))"
  proof (cases "discovered_config X (dm_known D) (dm_own_pub D) (dm_relay_endpoint D) (peer_count (dm_manager D)) p")
    case None
    then show ?thesis by (simp add: discover_peer_def grow.frame_refl)
  next
    case (Some c)
    then show ?thesis
      by (cases rule: add_peer_cases [of "dm_manager D" c C E])
        (auto simp: discover_peer_def grow.frame_refl pushed_grown split: outcome.splits bool.splits)
  qed
qed

section \<open>A whole run\<close>

lemma daemon_step_grown: "yields (grown D) (daemon_step C e D)"
proof (cases e)
  case (ManagerTick input)
  then show ?thesis
    using manager_step_grown [of D C input]
    by (auto simp: yields_def manager_tick_def pure_act_def ret_def split: prod.splits outcome.splits)
next
  case (DiscoveryTick x E)
  have each: "grown D (snd (for_each (discover_peer (x_crypto x) (x_libs x) E) es D))" for es
    by (rule staysD [OF grow.stays_for_each [OF discover_peer_grown]])
  have found: "grown D D'" if "for_each (discover_peer (x_crypto x) (x_libs x) E) es D = (r, D')" for es r D'
    using each [of es] that by simp
  have "yields (grown D) (discovery_tick x E D)"
    unfolding discovery_tick_def
    by (intro yields_andthen) (auto simp: grow.frame_refl found split: option.split prod.split outcome.split)
  with DiscoveryTick show ?thesis by simp
next
  case (HeartbeatTick x t)
  have token: "grown D (D\<lparr>dm_token := tok\<rparr>)" for tok by (simp add: grown_def daemon_ok_def ev.frame_refl)
  have "yields (grown D) (heartbeat_tick x t D)"
    unfolding heartbeat_tick_def by (intro yields_andthen) (simp add: token)
  with HeartbeatTick show ?thesis by simp
qed

lemma daemon_run_grown: "daemon_run C es D w = (Ok D', w') \<Longrightarrow> grown D D'"
proof (induction es arbitrary: D w)
  case Nil
  then show ?case by (simp add: ret_def grow.frame_refl)
next
  case (Cons e es)
  then obtain D1 w1 where s: "daemon_step C e D w = (Ok D1, w1)" "daemon_run C es D1 w1 = (Ok D', w')"
    by (auto simp: andthen_Ok_iff)
  show ?case by (rule grow.frame_trans [OF yieldsD [OF daemon_step_grown s(1)] Cons.IH [OF s(2)]])
qed

lemma cmd_up_daemon_ok: "cmd_up x U dir opts pp w = (Ok D, w') \<Longrightarrow> daemon_ok D"
proof -
  assume up: "cmd_up x U dir opts pp w = (Ok D, w')"
  obtain ks :: opened_keys and cfg :: cli_config and s :: cli_state and rel cfgs bound my_ip m where
    m: "manager_new (x_crypto x) (u_manager U) \<lparr>local_keypair = ok_wg ks, local_ip = my_ip, timings = default_timings\<rparr> cfgs = Ok m"
    and D: "D = \<lparr>dm_dir = dir, dm_url = server_url cfg, dm_identity = ok_identity ks, dm_token = st_auth_token s,
       dm_endpoint = advertised_endpoint (o_advertise_endpoint opts) rel (u_advertise_var U) (show_socket bound),
       dm_via_relay = map_option show_socket rel, dm_relay_endpoint = rel, dm_own_pub = kp_public (ok_wg ks),
       dm_known = set (map peer_pub cfgs), dm_manager = m\<rparr>"
    by (rule cmd_up_OkD [OF up]) blast
  have "session_keys m = map peer_pub (map config (peers m))" by (simp add: session_keys_def)
  then show "daemon_ok D"
    using D manager_new_configs [OF m] manager_new_ok [OF m] by (simp add: daemon_ok_def local_pub_def)
qed

text \<open>C27: A running daemon keeps its peers.  Take a daemon that \<open>up\<close> has started and any run of it, over any
  network, disk and server and with any datagrams, in which heartbeats, discoveries and manager
  steps happen in any order.  Its manager keeps its invariant; the keys it skips in discovery are exactly
  those it has a session for, so a key never gets a second session; every session keeps its place and its
  configuration, the endpoint apart, and moves only forward; and the daemon stays the same node with
  the same advertised endpoint.\<close>

theorem daemon_keeps_peers:
  assumes "cmd_up x U dir opts pp w = (Ok D, w1)" and "daemon_run C es D w1 = (Ok D', w2)"
  shows "manager_ok (dm_manager D') \<and> dm_known D' = set (session_keys (dm_manager D')) \<and>
    (distinct (session_keys (dm_manager D)) \<longrightarrow> distinct (session_keys (dm_manager D'))) \<and>
    evolution (dm_manager D) (dm_manager D') \<and> local_pub (dm_manager D') = local_pub (dm_manager D) \<and>
    dm_identity D' = dm_identity D \<and> dm_endpoint D' = dm_endpoint D \<and> dm_relay_endpoint D' = dm_relay_endpoint D"
  using cmd_up_daemon_ok [OF assms(1)] daemon_run_grown [OF assms(2)] by (simp add: grown_def daemon_ok_def)

section \<open>Witness\<close>

lemma idle_step: "peers m = [] \<Longrightarrow> \<exists>m'. step C ([], E) m = (Ok (), m')"
  by (simp add: step_def andthen_def init_ticks_def read_device_def any_peer_ready_def maintenance_def plan_def
      rotate_cookie_secret_def Let_def ret_def)

text \<open>A daemon that \<open>up\<close> has started on the concrete node, and one step of its manager.\<close>

theorem daemon_keeps_peers_witness:
  "\<exists>d D w1 D' w2. cmd_up (demo_ctx demo_request) demo_up_env demo_dir demo_options (PassBytes [7]) (demo_world d demo_coord)
       = (Ok D, w1) \<and>
     daemon_run plain [ManagerTick ([], demo_env)] D w1 = (Ok D', w2) \<and>
     manager_ok (dm_manager D') \<and> dm_known D' = set (session_keys (dm_manager D')) \<and> dm_identity D' = dm_identity D"
proof -
  obtain d D w1 srv where
    "client_peers (direct plain plain_libs demo_request) (client_new (server_url demo_url)) ''tok'' demo_coord = (Ok [], srv)"
    and up: "cmd_up (demo_ctx demo_request) demo_up_env demo_dir demo_options (PassBytes [7]) (demo_world d demo_coord) = (Ok D, w1)"
    and none: "peers (dm_manager D) = []"
    by (rule demo_started)
  obtain m' where "step plain ([], demo_env) (dm_manager D) = (Ok (), m')" using idle_step [OF none] by blast
  then have run: "daemon_run plain [ManagerTick ([], demo_env)] D w1 = (Ok (D\<lparr>dm_manager := m'\<rparr>), w1)"
    by (simp add: manager_tick_def andthen_def ret_def)
  from daemon_keeps_peers [OF up run] up run show ?thesis by blast
qed

end
