(* ===== verification/Mesh.thy ===== *)
theory Mesh
  imports Manager_Rekey Cli_Daemon_Run
begin

text \<open>
  The parts together: two nodes that the coordination server lists, each with the manager that
  \<open>up\<close> builds from its own listing, come to a session and carry each other's traffic.
\<close>

section \<open>The sessions of a new manager\<close>

lemma new_sessions_made:
  "new_sessions C E k cfgs m = Ok m' \<Longrightarrow> length (peers m) = k \<Longrightarrow>
   length (peers m') = k + length cfgs \<and> sent m' = sent m \<and> written m' = written m \<and>
   (\<forall>i < k. peers m' ! i = peers m ! i) \<and>
   (\<forall>i < length cfgs. session_new C E (local_keypair (mcfg m)) (k + i) (cfgs ! i) = Ok (peers m' ! (k + i)))"
proof (induction cfgs arbitrary: k m)
  case (Cons c cs)
  then obtain s where s: "session_new C E (local_keypair (mcfg m)) k c = Ok s"
    "new_sessions C E (Suc k) cs (m\<lparr>endpoint_to_peer := (endpoint_to_peer m)(peer_endpoint c \<mapsto> k),
       pubkey_to_peer := (pubkey_to_peer m)(peer_pub c \<mapsto> k), peers := peers m @ [s]\<rparr>) = Ok m'"
    by auto
  note IH = Cons.IH [OF s(2)]
  have first: "peers m' ! k = s" using IH Cons.prems(2) by (auto simp: nth_append)
  have "session_new C E (local_keypair (mcfg m)) (k + i) ((c # cs) ! i) = Ok (peers m' ! (k + i))"
    if "i < length (c # cs)" for i
    using that s(1) first IH Cons.prems(2) by (cases i) auto
  moreover have "peers m' ! i = peers m ! i" if "i < k" for i
    using that IH Cons.prems(2) by (auto simp: nth_append)
  ultimately show ?case using IH Cons.prems(2) by auto
qed simp

lemma new_sessions_endpoints:
  "new_sessions C E k cfgs m = Ok m' \<Longrightarrow> distinct (map peer_endpoint cfgs) \<Longrightarrow>
   (\<forall>src. src \<notin> peer_endpoint ` set cfgs \<longrightarrow> endpoint_to_peer m' src = endpoint_to_peer m src) \<and>
   (\<forall>i < length cfgs. endpoint_to_peer m' (peer_endpoint (cfgs ! i)) = Some (k + i))"
proof (induction cfgs arbitrary: k m)
  case (Cons c cs)
  then obtain s where s: "new_sessions C E (Suc k) cs (m\<lparr>endpoint_to_peer := (endpoint_to_peer m)(peer_endpoint c \<mapsto> k),
       pubkey_to_peer := (pubkey_to_peer m)(peer_pub c \<mapsto> k), peers := peers m @ [s]\<rparr>) = Ok m'"
    by auto
  note IH = Cons.IH [OF s]
  have "endpoint_to_peer m' (peer_endpoint ((c # cs) ! i)) = Some (k + i)" if "i < length (c # cs)" for i
    using that IH Cons.prems(2) by (cases i) auto
  then show ?case using IH Cons.prems(2) by auto
qed simp

lemma manager_new_made:
  assumes "manager_new C E cfg cfgs = Ok m"
  shows "length (peers m) = length cfgs" "sent m = []" "written m = []" "mcfg m = cfg" "maps_ok m"
    and "i < length cfgs \<Longrightarrow> session_new C E (local_keypair cfg) i (cfgs ! i) = Ok (peers m ! i)"
    and "distinct (map peer_endpoint cfgs) \<Longrightarrow> i < length cfgs \<Longrightarrow>
      endpoint_to_peer m (peer_endpoint (cfgs ! i)) = Some i"
proof -
  show "mcfg m = cfg" by (rule manager_new_configs(2) [OF assms])
  show "maps_ok m" using manager_new_ok [OF assms] by (simp add: manager_ok_def)
  note new = assms [unfolded manager_new_def]
  from new_sessions_made [OF new] show "length (peers m) = length cfgs" "sent m = []" "written m = []"
    "i < length cfgs \<Longrightarrow> session_new C E (local_keypair cfg) i (cfgs ! i) = Ok (peers m ! i)"
    by simp_all
  from new_sessions_endpoints [OF new] show "distinct (map peer_endpoint cfgs) \<Longrightarrow> i < length cfgs \<Longrightarrow>
      endpoint_to_peer m (peer_endpoint (cfgs ! i)) = Some i" by simp
qed

section \<open>Addresses\<close>

lemma up_peers_addresses:
  "up_peers X own rel k ps = Ok cfgs \<Longrightarrow> distinct (map pe_ip ps) \<Longrightarrow>
   (\<And>p. p \<in> set ps \<Longrightarrow> \<exists>a. pe_ip p = show_ipv4 (v4_octets a)) \<Longrightarrow>
   distinct (map peer_ip cfgs) \<and> (\<forall>c \<in> set cfgs. show_ipv4 (v4_octets (peer_ip c)) \<in> pe_ip ` set ps)"
proof (induction ps arbitrary: k cfgs)
  case (Cons p ps)
  then obtain r cs where r: "up_peer X own rel k p = Ok r" "up_peers X own rel (Suc k) ps = Ok cs"
    "cfgs = (case r of None \<Rightarrow> cs | Some c \<Rightarrow> c # cs)" by (auto simp: up_peers_Cons)
  have IH: "distinct (map peer_ip cs)" "\<forall>c \<in> set cs. show_ipv4 (v4_octets (peer_ip c)) \<in> pe_ip ` set ps"
    using Cons.IH [OF r(2)] Cons.prems(2,3) by auto
  show ?case
  proof (cases r)
    case None
    then show ?thesis using IH r(3) by auto
  next
    case (Some c)
    obtain a where a: "pe_ip p = show_ipv4 (v4_octets a)" using Cons.prems(3) by auto
    then have eq: "show_ipv4 (v4_octets (peer_ip c)) = pe_ip p" using r(1) Some by (auto simp: up_peer_Some)
    have "peer_ip c \<notin> peer_ip ` set cs"
    proof
      assume "peer_ip c \<in> peer_ip ` set cs"
      then obtain d where "d \<in> set cs" "peer_ip d = peer_ip c" by force
      with IH(2) eq have "pe_ip p \<in> pe_ip ` set ps" by metis
      with Cons.prems(2) show False by simp
    qed
    then show ?thesis using IH r(3) Some eq by auto
  qed
qed simp

text \<open>An IPv4 packet for an address.\<close>

definition addressed :: "u32 \<Rightarrow> bytes \<Rightarrow> bool" where
  "addressed ip pkt \<longleftrightarrow>
     20 \<le> length pkt \<and> drop_bit 4 (pkt ! 0) = 4 \<and>
     ipv4_new (pkt ! 16) (pkt ! 17) (pkt ! 18) (pkt ! 19) = ip"

lemma find_index_unique:
  "distinct (map f xs) \<Longrightarrow> i < length xs \<Longrightarrow> find_index k (\<lambda>x. f x = f (xs ! i)) xs = Some (k + i)"
proof (induction xs arbitrary: k i)
  case (Cons x xs)
  then show ?case by (cases i) auto
qed simp

lemma addressed_lookup:
  assumes "distinct (map peer_ip cfgs)" and "map config (peers m) = cfgs" and "i < length cfgs"
    and "addressed (peer_ip (cfgs ! i)) pkt"
  shows "lookup_peer_by_dest_ip m pkt = Some i"
proof -
  have len: "length (peers m) = length cfgs" using assms(2) by (metis length_map)
  have "distinct (map (\<lambda>p. peer_ip (config p)) (peers m))"
    using assms(1,2) by (metis (no_types, lifting) comp_apply map_map map_cong)
  then have "find_index 0 (\<lambda>p. peer_ip (config p) = peer_ip (config (peers m ! i))) (peers m) = Some i"
    using find_index_unique [of "\<lambda>p. peer_ip (config p)" "peers m" i 0] assms(3) len by simp
  moreover have "config (peers m ! i) = cfgs ! i" using assms(2,3) len by (metis nth_map)
  ultimately show ?thesis
    using assms(4) by (auto simp: addressed_def lookup_peer_by_dest_ip_def)
qed

section \<open>One side of a pair\<close>

text \<open>\<open>reachable X n addr\<close>: the server can tell others how to reach the node directly.\<close>

definition reachable :: "node_record \<Rightarrow> socket_addr \<Rightarrow> bool" where
  "reachable n addr \<longleftrightarrow>
     n_via_relay n = None \<and>
     (\<exists>e. n_last_endpoint n = Some e \<and> \<not> is_wildcard e \<and> parse_socket_addr e = Some addr)"

text \<open>The manager of a node without a relay, built from the server's listing for it, has a session for
  every reachable node of the listing.\<close>

lemma listed_session:
  assumes "coord_ok s" and "base64_works X" and "b \<in> set (db_nodes (cdb s))" and "a \<noteq> b"
    and "entries = map (peer_entry_of X) (filter (\<lambda>m. m \<noteq> a) (db_nodes (cdb s)))"
    and "up_peers X own None 0 entries = Ok cfgs" and "distinct (map peer_endpoint cfgs)"
    and "reachable b addr" and "length (n_wg b) = 32"
    and "manager_new C E mc cfgs = Ok m"
  obtains i c where "maps_ok m" "endpoint_to_peer m addr = Some i"
    "session_new C E (local_keypair mc) i c = Ok (peers m ! i)" "config (peers m ! i) = c"
    "peer_pub c = n_wg b" "psk c = zeros 32" "via_relay c = None" "is_initiator c = bytes_less (n_wg b) own"
    "parse_ipv4 (n_ip b) = Some (peer_ip c)"
    "\<And>pkt. addressed (peer_ip c) pkt \<Longrightarrow> lookup_peer_by_dest_ip m pkt = Some i"
    "sent m = []" "written m = []"
proof -
  let ?b = "peer_entry_of X b"
  have "?b \<in> set entries" using assms(3-5) by auto
  then obtain p where p: "p < length entries" "entries ! p = ?b" by (metis in_set_conv_nth)
  obtain r where r: "up_peer X own None (0 + p) (entries ! p) = Ok r"
    using up_peers_all_ok [OF assms(6) p(1)] by blast
  have "b64_decode X (b64_encode X (n_wg b)) = Inr (n_wg b)" using assms(2) by (simp add: base64_works_def)
  then obtain c where c: "r = Some c" "peer_pub c = n_wg b" "psk c = zeros 32" "via_relay c = None"
    "is_initiator c = bytes_less (n_wg b) own" "parse_ipv4 (n_ip b) = Some (peer_ip c)" "peer_endpoint c = addr"
    using r p(2) assms(8,9)
    by (cases r) (auto simp: up_peer_Some up_peer_None reachable_def peer_entry_of_def role_def)
  then have "c \<in> set cfgs" using up_peers_members [OF assms(6), of c] r p(1) by auto
  then obtain i where i: "i < length cfgs" "cfgs ! i = c" by (metis in_set_conv_nth)
  have nodes: "n_ip n \<in> (\<lambda>a. show_ipv4 (v4_octets a)) ` UNIV" if "n \<in> set (db_nodes (cdb s))" for n
    using assms(1) that by (auto simp: coord_ok_def node_ok_def v4_octets_def)
  have "distinct (map n_ip (filter (\<lambda>m. m \<noteq> a) (db_nodes (cdb s))))"
    using assms(1) by (simp add: coord_ok_def db_ok_def distinct_map_filter)
  then have "distinct (map pe_ip entries)" using assms(5) by (simp add: peer_entry_of_def comp_def)
  then have ips: "distinct (map peer_ip cfgs)"
    using up_peers_addresses [OF assms(6)] nodes assms(5) by (fastforce simp: peer_entry_of_def)
  note made = manager_new_made [OF assms(10)]
  have configs: "map config (peers m) = cfgs" by (rule manager_new_configs(1) [OF assms(10)])
  have "config (peers m ! i) = c" using configs i made(1) by (metis nth_map)
  then show ?thesis
    using that [of i c] made(2,3,5) made(6,7) [of i] c i assms(7) addressed_lookup [OF ips configs i(1)] by simp
qed

section \<open>Two nodes of one server\<close>

lemma session_new_initiator:
  assumes "session_new C E kp i c = Ok s" and "is_initiator c"
  obtains ini where "initiator_new C kp (peer_pub c) (psk c) (local_sender_id c) (tai E) (seed E i) = Ok ini"
    "state s = HandshakingAsInitiator ini" "next_init_at s = Some (now E)" "cached_init s = None"
    "received_cookie s = None" "stale s = False"
proof -
  from assms obtain ini where
    "initiator_new C kp (peer_pub c) (psk c) (local_sender_id c) (tai E) (seed E i) = Ok ini"
    by (auto simp: session_new_def split: outcome.splits)
  with assms that show ?thesis by (auto simp: session_new_def)
qed

lemma session_new_responder:
  assumes "session_new C E kp i c = Ok s" and "\<not> is_initiator c"
  obtains rsp where "responder_new C kp (psk c) (local_sender_id c) (tai E) (seed E i) = Ok rsp"
    "state s = HandshakingAsResponder rsp" "cookie_required s = False" "init_rx_count s = 0" "stale s = False"
proof -
  from assms obtain rsp where
    "responder_new C kp (psk c) (local_sender_id c) (tai E) (seed E i) = Ok rsp"
    by (auto simp: session_new_def split: outcome.splits)
  with assms that show ?thesis by (auto simp: session_new_def)
qed

lemma first_init_counted: "init_rx_count s = 0 \<Longrightarrow> init_rx_count (count_init E s) \<le> COOKIE_INIT_RATE_LIMIT"
  by (simp add: count_init_def Let_def COOKIE_INIT_RATE_LIMIT_def)

lemma count_init_stale [simp]: "stale (count_init E p) = stale p"
  by (simp add: count_init_def Let_def)

text \<open>From two matching sessions of new managers to the two ends of one session.\<close>

lemma new_managers_linked:
  assumes works: "noise_handshake_works C PROTOCOL_NAME (fresh_pair skey snum rkey rnum)" and sizes: "digest_sizes C"
    and keys: "length skA = 32" "length skB = 32"
    and A: "maps_ok A" "endpoint_to_peer A addrB = Some i"
      "session_new C SA (keypair_from_bytes C skA) i cB = Ok (peers A ! i)" "config (peers A ! i) = cB"
      "peer_pub cB = kp_public (keypair_from_bytes C skB)" "psk cB = zeros 32" "via_relay cB = None" "is_initiator cB"
    and B: "maps_ok B" "endpoint_to_peer B addrA = Some j"
      "session_new C SB (keypair_from_bytes C skB) j cA = Ok (peers B ! j)" "config (peers B ! j) = cA"
      "psk cA = zeros 32" "via_relay cA = None" "\<not> is_initiator cA"
    and clocks: "\<not> outside_replay_window (tai EB) (tai SA)" "now SA \<le> now EA"
    and io: "\<And>a b. send_error EA a b = None" "\<And>a b. send_error EB a b = None"
  obtains init response A1 A2 B1 where "init_tick C EA i A = (Ok (), A1)" "sent A1 = sent A @ [(addrB, init)]"
    "handle_incoming C EB addrA init B = (Ok (), B1)" "sent B1 = sent B @ [(addrA, response)]"
    "handle_incoming C EA addrB response A1 = (Ok (), A2)"
    "linked skey snum rkey rnum addrA addrB i j 0 0 (A2, B1)"
    "mesh_addresses A2 = mesh_addresses A" "mesh_addresses B1 = mesh_addresses B"
    "written A2 = written A" "written B1 = written B"
proof -
  from A(3) A(8) obtain ini where a: "initiator_new C (keypair_from_bytes C skA) (peer_pub cB) (psk cB) (local_sender_id cB)
      (tai SA) (seed SA i) = Ok ini" "state (peers A ! i) = HandshakingAsInitiator ini"
      "next_init_at (peers A ! i) = Some (now SA)" "cached_init (peers A ! i) = None"
      "received_cookie (peers A ! i) = None" "stale (peers A ! i) = False"
    by (rule session_new_initiator)
  from B(3,7) obtain rsp where b: "responder_new C (keypair_from_bytes C skB) (psk cA) (local_sender_id cA)
      (tai SB) (seed SB j) = Ok rsp" "state (peers B ! j) = HandshakingAsResponder rsp"
      "cookie_required (peers B ! j) = False" "init_rx_count (peers B ! j) = 0" "stale (peers B ! j) = False"
    by (rule session_new_responder)
  have z: "length (zeros 32) = 32" by simp
  have due: "init_due EA (peers A ! i)" using a(3) clocks(2) by (simp add: init_due_def)
  have via: "via_relay (config (peers A ! i)) = None" using A(4,7) by simp
  have quiet: "\<not> cookie_required (peers B ! j)" using b(3) by simp
  obtain init response i1 ti tr where h:
    "init_tick C EA i A = (Ok (), upd_peer i (\<lambda>p. p\<lparr>state := HandshakingAsInitiator i1, cached_init := Some init,
       next_init_at := Some (now EA + INIT_RETRY_INTERVAL)\<rparr>) (A\<lparr>sent := sent A @ [(addrB, init)]\<rparr>))"
    "handle_incoming C EB addrA init B = (Ok (), upd_peer j
       (\<lambda>p. (count_init EB p)\<lparr>state := Ready (transport_new tr (local_sender_id cA)) (local_sender_id cB) None,
              last_handshake_at := Some (now EB), last_rx_at := Some (now EB)\<rparr>)
       (B\<lparr>sent := sent B @ [(addrA, response)]\<rparr>))"
    "handle_incoming C EA addrB response (upd_peer i (\<lambda>p. p\<lparr>state := HandshakingAsInitiator i1,
        cached_init := Some init, next_init_at := Some (now EA + INIT_RETRY_INTERVAL)\<rparr>)
        (A\<lparr>sent := sent A @ [(addrB, init)]\<rparr>)) =
     (Ok (), upd_peer i (\<lambda>p. p\<lparr>cached_init := Some init, next_init_at := Some (now EA + INIT_RETRY_INTERVAL),
        last_rx_at := Some (now EA), state := Ready (transport_new ti (local_sender_id cB)) (local_sender_id cA) None,
        last_handshake_at := Some (now EA)\<rparr>) (A\<lparr>sent := sent A @ [(addrB, init)]\<rparr>))"
    "fresh_pair skey snum rkey rnum ti tr"
    by (rule managers_handshake [OF works sizes keys z a(1) [unfolded A(5,6)] b(1) [unfolded B(5)] clocks(1) A(1,2)
        a(2) due a(4,5) via B(1,2) b(2) quiet first_init_counted [OF b(4)] io, of EA])
  let ?f = "\<lambda>p. p\<lparr>cached_init := Some init, next_init_at := Some (now EA + INIT_RETRY_INTERVAL),
      last_rx_at := Some (now EA), state := Ready (transport_new ti (local_sender_id cB)) (local_sender_id cA) None,
      last_handshake_at := Some (now EA)\<rparr>"
  let ?g = "\<lambda>p. (count_init EB p)\<lparr>state := Ready (transport_new tr (local_sender_id cA)) (local_sender_id cB) None,
      last_handshake_at := Some (now EB), last_rx_at := Some (now EB)\<rparr>"
  let ?A2 = "upd_peer i ?f (A\<lparr>sent := sent A @ [(addrB, init)]\<rparr>)"
  let ?B1 = "upd_peer j ?g (B\<lparr>sent := sent B @ [(addrA, response)]\<rparr>)"
  have sA: "direct_session addrB i (transport_new ti (local_sender_id cB)) ?A2"
    by (rule direct_session_upd(2) [OF A(1,2) via]) (simp_all add: a(6))
  have sB: "direct_session addrA j (transport_new tr (local_sender_id cA)) ?B1"
    by (rule direct_session_upd(2) [OF B(1,2)]) (simp_all add: b(5) B(4,6))
  have "linked skey snum rkey rnum addrA addrB i j 0 0 (?A2, ?B1)"
    by (rule linkedI [OF sA sB]) (use h(4) in \<open>simp_all add: fresh_pair_def transport_new_def\<close>)
  moreover have "mesh_addresses ?A2 = mesh_addresses A" "mesh_addresses ?B1 = mesh_addresses B"
    using upd_peer_addresses [of ?f i "A\<lparr>sent := sent A @ [(addrB, init)]\<rparr>"]
      upd_peer_addresses [of ?g j "B\<lparr>sent := sent B @ [(addrA, response)]\<rparr>"]
    by (simp_all add: mesh_addresses_def)
  ultimately show ?thesis
    by (intro that [OF h(1) _ h(2) _ h(3)]) simp_all
qed

text \<open>What the new pair carries, in both directions.\<close>

lemma linked_traffic:
  assumes seq: "sequential_transport C seal skey snum rkey rnum"
    and link: "linked skey snum rkey rnum addrA addrB i j 0 0 (A, B)"
    and look: "\<And>p. addressed ipB p \<Longrightarrow> lookup_peer_by_dest_ip A p = Some i"
      "\<And>p. addressed ipA p \<Longrightarrow> lookup_peer_by_dest_ip B p = Some j"
    and empty: "written A = []" "written B = []"
    and io: "\<And>x y. send_error EA x y = None" "\<And>x y. send_error EB x y = None"
      "\<And>x. device_error EA x = None" "\<And>x. device_error EB x = None"
  shows "\<forall>fs. (\<forall>p \<in> set (forth fs). addressed ipB p \<and> length p \<le> 1500) \<longrightarrow>
       (\<forall>p \<in> set (backs fs). addressed ipA p \<and> length p \<le> 1500) \<longrightarrow>
       length (forth fs) < 2 ^ 64 \<longrightarrow> length (backs fs) < 2 ^ 64 \<longrightarrow>
       (\<exists>A' B'. fold (exchange C EA EB addrA addrB) fs (A, B) = (A', B') \<and>
          written B' = forth fs \<and> written A' = backs fs)"
proof (intro allI impI)
  fix fs
  assume f: "\<forall>p \<in> set (forth fs). addressed ipB p \<and> length p \<le> 1500"
    "\<forall>p \<in> set (backs fs). addressed ipA p \<and> length p \<le> 1500"
    and few: "length (forth fs) < 2 ^ 64" "length (backs fs) < 2 ^ 64"
  have fits: "lookup_peer_by_dest_ip A p = Some i \<and> length p \<le> 1500" if "p \<in> set (forth fs)" for p
    using f(1) that look(1) by simp
  have fits': "lookup_peer_by_dest_ip B p = Some j \<and> length p \<le> 1500" if "p \<in> set (backs fs)" for p
    using f(2) that look(2) by simp
  have few': "0 + length (forth fs) < 2 ^ 64" "0 + length (backs fs) < 2 ^ 64" using few by (simp_all del: power_numeral)
  show "\<exists>A' B'. fold (exchange C EA EB addrA addrB) fs (A, B) = (A', B') \<and>
      written B' = forth fs \<and> written A' = backs fs"
    using flows_linked [OF seq io link fits fits' few'] empty by auto
qed

section \<open>Two runs of up\<close>

lemma client_lists:
  assumes "client_peers (direct C X E) c tok s = (Ok entries, s')" and "coord_ok s"
    and "get_node_by_token (cdb s) tok (clock E) = Some n"
  shows "entries = map (peer_entry_of X) (filter (\<lambda>m. m \<noteq> n) (db_nodes (cdb s)))"
proof -
  have "\<exists>s1. peers_route X E (bearer_auth tok) s = (Ok entries, s1)"
    using assms(1)
    by (cases "peers_route X E (bearer_auth tok) s"; cases "fst (peers_route X E (bearer_auth tok) s)")
      (auto simp: client_peers_def send_request_direct on_success_respond)
  then obtain s1 where "peers_route X E (bearer_auth tok) s = (Ok entries, s1)" by blast
  from peers_effect [OF assms(2) this] assms(3) show ?thesis by auto
qed

text \<open>One side: what \<open>up\<close> makes of a reachable node of the server it asks.\<close>

lemma up_listed:
  assumes up: "cmd_up x U dir opts pp w = (Ok D, w')"
    and x: "x_crypto x = C" "x_libs x = X" "x_net x = direct C X Q" "o_relay opts = None"
    and st: "fst (state_load (x_codecs x) (x_faults x) dir (w_disk w)) = Ok st"
    and srv: "coord_ok (w_server w)" "get_node_by_token (cdb (w_server w)) (st_auth_token st) (clock Q) = Some a"
    and b: "b \<in> set (db_nodes (cdb (w_server w)))" "a \<noteq> b" "reachable b addr" "length (n_wg b) = 32"
    and b64: "base64_works X" and eps: "distinct (map (\<lambda>p. peer_endpoint (config p)) (peers (dm_manager D)))"
  obtains i c where "maps_ok (dm_manager D)" "endpoint_to_peer (dm_manager D) addr = Some i"
    "session_new C (u_manager U) (local_keypair (mcfg (dm_manager D))) i c = Ok (peers (dm_manager D) ! i)"
    "config (peers (dm_manager D) ! i) = c"
    "peer_pub c = n_wg b" "psk c = zeros 32" "via_relay c = None" "is_initiator c = bytes_less (n_wg b) (dm_own_pub D)"
    "parse_ipv4 (n_ip b) = Some (peer_ip c)"
    "\<And>pkt. addressed (peer_ip c) pkt \<Longrightarrow> lookup_peer_by_dest_ip (dm_manager D) pkt = Some i"
    "sent (dm_manager D) = []" "written (dm_manager D) = []"
proof -
  obtain ks :: opened_keys and cfg :: cli_config and s :: cli_state and entries srv' rel cfgs bound my_ip m where
    u: "fst (state_load (x_codecs x) (x_faults x) dir (w_disk w)) = Ok s"
      "client_peers (x_net x) (client_new (server_url cfg)) (st_auth_token s) (w_server w) = (Ok entries, srv')"
      "relay_option (o_relay opts) = Ok rel"
      "up_peers (x_libs x) (kp_public (ok_wg ks)) rel 0 entries = Ok cfgs"
      "manager_new (x_crypto x) (u_manager U) \<lparr>local_keypair = ok_wg ks, local_ip = my_ip, timings = default_timings\<rparr> cfgs = Ok m"
    and D: "D = \<lparr>dm_dir = dir, dm_url = server_url cfg, dm_identity = ok_identity ks, dm_token = st_auth_token s,
       dm_endpoint = advertised_endpoint (o_advertise_endpoint opts) rel (u_advertise_var U) (show_socket bound),
       dm_via_relay = map_option show_socket rel, dm_relay_endpoint = rel, dm_own_pub = kp_public (ok_wg ks),
       dm_known = set (map peer_pub cfgs), dm_manager = m\<rparr>"
    by (rule cmd_up_OkD [OF up]) blast
  have rel: "rel = None" and s: "s = st" using u(1,3) x(4) st by (simp_all add: relay_option_def)
  have entries: "entries = map (peer_entry_of X) (filter (\<lambda>m. m \<noteq> a) (db_nodes (cdb (w_server w))))"
    using client_lists [OF u(2) [unfolded x(3)] srv(1)] srv(2) s by simp
  have "map config (peers m) = cfgs" "mcfg m = \<lparr>local_keypair = ok_wg ks, local_ip = my_ip, timings = default_timings\<rparr>"
    by (rule manager_new_configs [OF u(5)])+
  then have m: "distinct (map peer_endpoint cfgs)" "local_keypair (mcfg m) = ok_wg ks"
    using eps D by (auto simp: comp_def)
  have taken: "up_peers X (kp_public (ok_wg ks)) None 0 entries = Ok cfgs" using u(4) x(2) rel by simp
  show ?thesis
    by (rule listed_session [OF srv(1) b64 b(1,2) entries taken m(1) b(3,4) u(5) [unfolded x(1)]])
      (use that m(2) D in simp)
qed

text \<open>C1: Two machines that run \<open>naboscale up\<close> reach each other.  Each start-up succeeds without a relay, against
  a consistent server that knows the machine by the token of its state file and lists the other
  machine as reachable, with the key it really has; no two peers of a machine share an endpoint,
  and the clocks agree to within the replay window.  The one with the larger WireGuard key initiates: its first INIT, answered by the other and accepted, leaves both Ready.  From then on,
  on a network that loses nothing, any packets of at most 1500 bytes that either TUN device reads
  for the other's address are written to the other's device, all of them, unchanged and in order,
  in both directions at once.\<close>

theorem two_ups_connect:
  assumes works: "noise_handshake_works C PROTOCOL_NAME (fresh_pair skey snum rkey rnum)"
    and seq: "sequential_transport C seal skey snum rkey rnum" and sizes: "digest_sizes C" and b64: "base64_works X"
    and keys: "length skA = 32" "length skB = 32"
    and upA: "cmd_up xA UA dirA optsA ppA wA = (Ok DA, wA')"
    and atA: "x_crypto xA = C" "x_libs xA = X" "x_net xA = direct C X QA" "o_relay optsA = None"
    and stA: "fst (state_load (x_codecs xA) (x_faults xA) dirA (w_disk wA)) = Ok sA"
    and srvA: "coord_ok (w_server wA)" "get_node_by_token (cdb (w_server wA)) (st_auth_token sA) (clock QA) = Some a"
      "b' \<in> set (db_nodes (cdb (w_server wA)))" "reachable b' addrB"
    and nodeA: "local_keypair (mcfg (dm_manager DA)) = keypair_from_bytes C skA"
      "n_wg a = kp_public (keypair_from_bytes C skA)" "n_wg b' = kp_public (keypair_from_bytes C skB)"
      "distinct (map (\<lambda>p. peer_endpoint (config p)) (peers (dm_manager DA)))"
    and upB: "cmd_up xB UB dirB optsB ppB wB = (Ok DB, wB')"
    and atB: "x_crypto xB = C" "x_libs xB = X" "x_net xB = direct C X QB" "o_relay optsB = None"
    and stB: "fst (state_load (x_codecs xB) (x_faults xB) dirB (w_disk wB)) = Ok sB"
    and srvB: "coord_ok (w_server wB)" "get_node_by_token (cdb (w_server wB)) (st_auth_token sB) (clock QB) = Some b"
      "a' \<in> set (db_nodes (cdb (w_server wB)))" "reachable a' addrA"
    and nodeB: "local_keypair (mcfg (dm_manager DB)) = keypair_from_bytes C skB"
      "n_wg b = kp_public (keypair_from_bytes C skB)" "n_wg a' = kp_public (keypair_from_bytes C skA)"
      "distinct (map (\<lambda>p. peer_endpoint (config p)) (peers (dm_manager DB)))"
    and larger: "bytes_less (kp_public (keypair_from_bytes C skB)) (kp_public (keypair_from_bytes C skA))"
    and clocks: "\<not> outside_replay_window (tai EB) (tai (u_manager UA))" "now (u_manager UA) \<le> now EA"
    and io: "\<And>x y. send_error EA x y = None" "\<And>x y. send_error EB x y = None"
      "\<And>x. device_error EA x = None" "\<And>x. device_error EB x = None"
  shows "\<exists>i j ipA ipB init response A1 A2 B1.
    parse_ipv4 (n_ip a') = Some ipA \<and> parse_ipv4 (n_ip b') = Some ipB \<and>
    init_tick C EA i (dm_manager DA) = (Ok (), A1) \<and> sent A1 = [(addrB, init)] \<and>
    handle_incoming C EB addrA init (dm_manager DB) = (Ok (), B1) \<and> sent B1 = [(addrA, response)] \<and>
    handle_incoming C EA addrB response A1 = (Ok (), A2) \<and>
    is_ready_state (state (peers A2 ! i)) \<and> is_ready_state (state (peers B1 ! j)) \<and>
    (\<forall>fs. (\<forall>p \<in> set (forth fs). addressed ipB p \<and> length p \<le> 1500) \<longrightarrow>
       (\<forall>p \<in> set (backs fs). addressed ipA p \<and> length p \<le> 1500) \<longrightarrow>
       length (forth fs) < 2 ^ 64 \<longrightarrow> length (backs fs) < 2 ^ 64 \<longrightarrow>
       (\<exists>A' B'. fold (exchange C EA EB addrA addrB) fs (A2, B1) = (A', B') \<and>
          written B' = forth fs \<and> written A' = backs fs))"
proof -
  let ?pA = "kp_public (keypair_from_bytes C skA)" and ?pB = "kp_public (keypair_from_bytes C skB)"
  let ?A = "dm_manager DA" and ?B = "dm_manager DB"
  have "length ?pA = 32" "length ?pB = 32"
    using handshake_key_length [OF works keys(1)] handshake_key_length [OF works keys(2)]
    by (simp_all add: keypair_from_bytes_def)
  then have wg: "length (n_wg b') = 32" "length (n_wg a') = 32" using nodeA(3) nodeB(3) by simp_all
  have "?pA \<noteq> ?pB" using larger bytes_less_asym [OF larger] by metis
  then have neq: "a \<noteq> b'" "b \<noteq> a'" using nodeA(2,3) nodeB(2,3) by auto
  have own: "dm_own_pub DA = ?pA" "dm_own_pub DB = ?pB"
    using cmd_up_daemon_ok [OF upA] cmd_up_daemon_ok [OF upB] nodeA(1) nodeB(1)
    by (simp_all add: daemon_ok_def local_pub_def)
  obtain i cB where A: "maps_ok ?A" "endpoint_to_peer ?A addrB = Some i"
    "session_new C (u_manager UA) (local_keypair (mcfg ?A)) i cB = Ok (peers ?A ! i)" "config (peers ?A ! i) = cB"
    "peer_pub cB = n_wg b'" "psk cB = zeros 32" "via_relay cB = None" "is_initiator cB = bytes_less (n_wg b') (dm_own_pub DA)"
    "parse_ipv4 (n_ip b') = Some (peer_ip cB)"
    "\<And>pkt. addressed (peer_ip cB) pkt \<Longrightarrow> lookup_peer_by_dest_ip ?A pkt = Some i"
    "sent ?A = []" "written ?A = []"
    by (rule up_listed [OF upA atA stA srvA(1-3) neq(1) srvA(4) wg(1) b64 nodeA(4)]) blast
  obtain j cA where B: "maps_ok ?B" "endpoint_to_peer ?B addrA = Some j"
    "session_new C (u_manager UB) (local_keypair (mcfg ?B)) j cA = Ok (peers ?B ! j)" "config (peers ?B ! j) = cA"
    "peer_pub cA = n_wg a'" "psk cA = zeros 32" "via_relay cA = None" "is_initiator cA = bytes_less (n_wg a') (dm_own_pub DB)"
    "parse_ipv4 (n_ip a') = Some (peer_ip cA)"
    "\<And>pkt. addressed (peer_ip cA) pkt \<Longrightarrow> lookup_peer_by_dest_ip ?B pkt = Some j"
    "sent ?B = []" "written ?B = []"
    by (rule up_listed [OF upB atB stB srvB(1-3) neq(2) srvB(4) wg(2) b64 nodeB(4)]) blast
  have roles: "is_initiator cB" "\<not> is_initiator cA"
    using A(8) B(8) own nodeA(3) nodeB(3) larger bytes_less_asym by auto
  obtain init response A1 A2 B1 where h: "init_tick C EA i ?A = (Ok (), A1)" "sent A1 = sent ?A @ [(addrB, init)]"
    "handle_incoming C EB addrA init ?B = (Ok (), B1)" "sent B1 = sent ?B @ [(addrA, response)]"
    "handle_incoming C EA addrB response A1 = (Ok (), A2)"
    "linked skey snum rkey rnum addrA addrB i j 0 0 (A2, B1)"
    "mesh_addresses A2 = mesh_addresses ?A" "mesh_addresses B1 = mesh_addresses ?B"
    "written A2 = written ?A" "written B1 = written ?B"
    by (rule new_managers_linked [OF works sizes keys A(1,2) A(3) [unfolded nodeA(1)] A(4) A(5) [unfolded nodeA(3)]
        A(6,7) roles(1) B(1,2) B(3) [unfolded nodeB(1)] B(4,6,7) roles(2) clocks io(1,2)]) blast
  have ready: "is_ready_state (state (peers A2 ! i))" "is_ready_state (state (peers B1 ! j))"
    using h(6) by (auto simp: linked_def direct_session_def)
  have look: "lookup_peer_by_dest_ip A2 = lookup_peer_by_dest_ip ?A" "lookup_peer_by_dest_ip B1 = lookup_peer_by_dest_ip ?B"
    by (rule lookup_by_addresses [OF h(7)], rule lookup_by_addresses [OF h(8)])
  have start: "written A2 = []" "written B1 = []" using h(9,10) A(12) B(12) by simp_all
  have outs: "sent A1 = [(addrB, init)]" "sent B1 = [(addrA, response)]" using h(2,4) A(11) B(11) by simp_all
  show ?thesis
    by (intro exI conjI, rule B(9), rule A(9), rule h(1), rule outs(1), rule h(3), rule outs(2), rule h(5),
        rule ready(1), rule ready(2), rule linked_traffic [OF seq h(6) _ _ start io])
      (simp_all only: look A(10) B(10))
qed

section \<open>A concrete pair\<close>

definition mesh_a :: node_record where
  "mesh_a = demo_node\<lparr>n_wg := replicate 32 6, n_last_endpoint := Some ''1.2.3.4:5''\<rparr>"

definition mesh_b :: node_record where
  "mesh_b =
     \<lparr>n_node_id = ''b'', n_identity = replicate 32 7, n_wg = replicate 32 5,
      n_ip = show_ipv4 (u32_to_be (IP_POOL_FIRST_HOST + 1)), n_last_endpoint = Some ''1.2.3.4:6'',
      n_via_relay = None, n_last_seen = None, n_created_at = 0\<rparr>"

definition mesh_coord :: coord where
  "mesh_coord = demo_coord
     \<lparr>cdb := \<lparr>db_nodes = [mesh_a, mesh_b], db_tokens = [demo_token, demo_token\<lparr>t_token := ''tob'', t_node_id := ''b''\<rparr>]\<rparr>,
      ip_alloc := {IP_POOL_FIRST_HOST, IP_POOL_FIRST_HOST + 1}\<rparr>"

definition mesh_packet :: "u32 \<Rightarrow> bytes" where
  "mesh_packet ip = [0x45, 0, 0, 20, 0, 0, 0, 0, 64, 17, 0, 0, 0, 0, 0, 200] @ v4_octets ip"

lemma mesh_packet_addressed: "addressed ip (mesh_packet ip)" "length (mesh_packet ip) = 20"
  using v4_octets_nth [of ip] by (simp_all add: addressed_def mesh_packet_def nth_append v4_octets_def)

lemma mesh_coord_ok: "coord_ok mesh_coord"
proof -
  have "show_ipv4 (u32_to_be IP_POOL_FIRST_HOST) \<noteq> show_ipv4 (u32_to_be (IP_POOL_FIRST_HOST + 1))"
    using parse_ipv4_show [of IP_POOL_FIRST_HOST] parse_ipv4_show [of "IP_POOL_FIRST_HOST + 1"] by auto
  moreover have "(replicate 32 1 :: bytes) \<noteq> replicate 32 7" "(replicate 32 6 :: bytes) \<noteq> replicate 32 5"
    by (simp_all add: replicate_eq_replicate)
  moreover have "{IP_POOL_FIRST_HOST, IP_POOL_FIRST_HOST + 1} \<subseteq> pool"
    by (simp add: pool_def first_host IP_POOL_HOST_COUNT_def)
  ultimately show ?thesis
    by (auto simp: coord_ok_def mesh_coord_def demo_coord_def db_ok_def node_ok_def mesh_a_def mesh_b_def
        demo_node_def demo_token_def demo_key_def)
qed

lemma mesh_lookup:
  "get_node_by_token (cdb mesh_coord) ''tok'' (clock demo_request) = Some mesh_a"
  "get_node_by_token (cdb mesh_coord) ''tob'' (clock demo_request) = Some mesh_b"
  by (simp_all add: get_node_by_token_def mesh_coord_def demo_token_def mesh_a_def mesh_b_def demo_node_def
      token_live_def)

lemma mesh_listing:
  assumes "get_node_by_token (cdb s) tok (clock E) = Some n" and "extract_bearer headers = Ok tok"
    and "check_rate_limit E Default s = (Ok (), s')" and "cdb s' = cdb s"
  shows "peers_route X E headers s = (Ok (map (peer_entry_of X) (list_peers (cdb s) (Some (n_node_id n)))), s')"
  using assms by (simp add: peers_route_def andthen_def pure_act_def caller_of_def)

lemma plain_manager_new: "\<exists>m. manager_new plain E mc cfgs = Ok m"
proof -
  have "\<exists>m'. new_sessions plain E k cfgs m = Ok m'" for k m
    by (induction cfgs arbitrary: k m)
      (auto simp: session_new_def initiator_new_def responder_new_def plain_def)
  then show ?thesis by (simp add: manager_new_def)
qed

lemma mesh_reachable: "reachable mesh_a (SocketV4 16909060 5)" "reachable mesh_b (SocketV4 16909060 6)"
  by (simp_all add: reachable_def mesh_a_def mesh_b_def demo_node_def is_wildcard_def starts_with_def)
    (simp add: parser_simps)

lemma mesh_taken:
  "\<exists>c. up_peers plain_libs own None 0 [peer_entry_of plain_libs mesh_a] = Ok [c]"
  "\<exists>c. up_peers plain_libs own None 0 [peer_entry_of plain_libs mesh_b] = Ok [c]"
proof -
  have a: "n_ip mesh_a = show_ipv4 (v4_octets IP_POOL_FIRST_HOST)" "n_via_relay mesh_a = None" "length (n_wg mesh_a) = 32"
    "n_last_endpoint mesh_a = Some ''1.2.3.4:5''" "parse_socket_addr ''1.2.3.4:5'' = Some (SocketV4 16909060 5)"
    "\<not> is_wildcard ''1.2.3.4:5''"
    by (simp_all add: mesh_a_def demo_node_def v4_octets_def)
  have b: "n_ip mesh_b = show_ipv4 (v4_octets (IP_POOL_FIRST_HOST + 1))" "n_via_relay mesh_b = None" "length (n_wg mesh_b) = 32"
    "n_last_endpoint mesh_b = Some ''1.2.3.4:6''" "parse_socket_addr ''1.2.3.4:6'' = Some (SocketV4 16909060 6)"
    "\<not> is_wildcard ''1.2.3.4:6''"
    using mesh_reachable(2) by (auto simp: reachable_def mesh_b_def v4_octets_def)
  show "\<exists>c. up_peers plain_libs own None 0 [peer_entry_of plain_libs mesh_a] = Ok [c]"
    using a by (simp add: up_peers.simps(2) up_peer_def peer_key_def peer_relay_def peer_entry_of_def ok_or_def)
  show "\<exists>c. up_peers plain_libs own None 0 [peer_entry_of plain_libs mesh_b] = Ok [c]"
    using b by (simp add: up_peers.simps(2) up_peer_def peer_key_def peer_relay_def peer_entry_of_def ok_or_def)
qed

lemma mesh_served:
  assumes n: "get_node_by_token (cdb mesh_coord) tok (clock demo_request) = Some n"
    and l: "list_peers (cdb mesh_coord) (Some (n_node_id n)) = [p]"
  obtains s where "client_peers (direct plain plain_libs demo_request) c tok mesh_coord = (Ok [peer_entry_of plain_libs p], s)"
proof -
  have "check_rate_limit demo_request Default mesh_coord =
      (Ok (), mesh_coord\<lparr>rate_limiter := limiter_new((V4 7, bucket_name Default) \<mapsto> [0])\<rparr>)"
    by (simp add: check_rate_limit_def demo_request_def mesh_coord_def demo_coord_def check_def Let_def
        limiter_new_def timestamps_def duration_since_def from_secs_def split: if_splits)
  from mesh_listing [OF n bearer_read_back this, of plain_libs] l that show ?thesis
    by (simp add: client_peers_def send_request_direct on_success_respond)
qed

definition mesh_state :: "string \<Rightarrow> node_record \<Rightarrow> cli_state" where
  "mesh_state tok n = demo_state\<lparr>st_node_id := n_node_id n, st_ip := n_ip n, st_auth_token := tok\<rparr>"

text \<open>One of the two machines starts: its store holds the secret, its state file the token.\<close>

lemma mesh_up:
  assumes n: "get_node_by_token (cdb mesh_coord) tok (clock demo_request) = Some n" "parse_ipv4 (n_ip n) = Some ip"
    and l: "list_peers (cdb mesh_coord) (Some (n_node_id n)) = [p]" and sk: "length sk = 32"
    and cfg: "up_peers plain_libs (kp_public (keypair_from_bytes plain sk)) None 0 [peer_entry_of plain_libs p] = Ok [cfg]"
  obtains d D w' where
    "cmd_up (demo_ctx demo_request) demo_up_env demo_dir demo_options (PassBytes [7]) (demo_world d mesh_coord) = (Ok D, w')"
    "fst (state_load plain_codecs no_faults demo_dir d) = Ok (mesh_state tok n)"
    "local_keypair (mcfg (dm_manager D)) = keypair_from_bytes plain sk"
    "distinct (map (\<lambda>p. peer_endpoint (config p)) (peers (dm_manager D)))"
proof -
  have "length (replicate 32 (1 :: u8)) = 32" by simp
  from enrolled_disk [OF this sk, of "mesh_state tok n"] obtain d where d: "usable_dir demo_dir d"
    "fst (opened_keys_open plain plain_keys no_faults demo_dir (Some [7]) d) =
       Ok \<lparr>ok_identity = identity_from_bytes plain (replicate 32 1), ok_wg = keypair_from_bytes plain sk\<rparr>"
    "fst (config_load plain_codecs no_faults demo_dir d) = Ok demo_url"
    "fst (state_load plain_codecs no_faults demo_dir d) = Ok (mesh_state tok n)" by metis
  have st: "parse_ipv4 (st_ip (mesh_state tok n)) = Some ip" "st_auth_token (mesh_state tok n) = tok"
    using n(2) by (simp_all add: mesh_state_def)
  obtain s where s: "client_peers (direct plain plain_libs demo_request) (client_new (server_url demo_url))
      (st_auth_token (mesh_state tok n)) mesh_coord = (Ok [peer_entry_of plain_libs p], s)"
    unfolding st(2) by (rule mesh_served [OF n(1) l])
  let ?mc = "\<lparr>local_keypair = keypair_from_bytes plain sk, local_ip = ip, timings = default_timings\<rparr>"
  obtain m where m: "manager_new plain (u_manager demo_up_env) ?mc [cfg] = Ok m" using plain_manager_new by blast
  obtain D w' where up: "cmd_up (demo_ctx demo_request) demo_up_env demo_dir demo_options (PassBytes [7])
      (demo_world d mesh_coord) = (Ok D, w')" and D: "dm_manager D = m"
    by (rule up_succeeds [OF d st(1) s]) (use cfg m in simp_all)
  have "map config (peers m) = [cfg]" "mcfg m = ?mc" by (rule manager_new_configs [OF m])+
  then have "local_keypair (mcfg (dm_manager D)) = keypair_from_bytes plain sk"
    "distinct (map (\<lambda>p. peer_endpoint (config p)) (peers (dm_manager D)))"
    unfolding D by (simp, cases "peers m", simp_all)
  then show ?thesis by (rule that [OF up d(4)])
qed

lemma mesh_keys:
  "n_wg mesh_a = kp_public (keypair_from_bytes plain (replicate 32 6))"
  "n_wg mesh_b = kp_public (keypair_from_bytes plain (replicate 32 5))"
  "bytes_less (kp_public (keypair_from_bytes plain (replicate 32 5))) (kp_public (keypair_from_bytes plain (replicate 32 6)))"
proof -
  show nodes: "n_wg mesh_a = kp_public (keypair_from_bytes plain (replicate 32 6))"
    "n_wg mesh_b = kp_public (keypair_from_bytes plain (replicate 32 5))"
    by (simp_all add: mesh_a_def mesh_b_def flip: demo_keys_def demo_peer_keys_def)
  have "bytes_less (replicate (Suc k) 5) (replicate (Suc k) 6)" for k by simp
  from this [of 31] have "bytes_less (n_wg mesh_b) (n_wg mesh_a)" by (simp add: mesh_a_def mesh_b_def)
  then show "bytes_less (kp_public (keypair_from_bytes plain (replicate 32 5))) (kp_public (keypair_from_bytes plain (replicate 32 6)))"
    by (simp only: nodes)
qed

lemma mesh_started:
  obtains dA DA wA' dB DB wB' where
    "cmd_up (demo_ctx demo_request) demo_up_env demo_dir demo_options (PassBytes [7]) (demo_world dA mesh_coord) = (Ok DA, wA')"
    "fst (state_load plain_codecs no_faults demo_dir dA) = Ok (mesh_state ''tok'' mesh_a)"
    "local_keypair (mcfg (dm_manager DA)) = keypair_from_bytes plain (replicate 32 6)"
    "distinct (map (\<lambda>p. peer_endpoint (config p)) (peers (dm_manager DA)))"
    "cmd_up (demo_ctx demo_request) demo_up_env demo_dir demo_options (PassBytes [7]) (demo_world dB mesh_coord) = (Ok DB, wB')"
    "fst (state_load plain_codecs no_faults demo_dir dB) = Ok (mesh_state ''tob'' mesh_b)"
    "local_keypair (mcfg (dm_manager DB)) = keypair_from_bytes plain (replicate 32 5)"
    "distinct (map (\<lambda>p. peer_endpoint (config p)) (peers (dm_manager DB)))"
proof -
  have keys: "length (replicate 32 (6 :: u8)) = 32" "length (replicate 32 (5 :: u8)) = 32" by simp_all
  have lists: "list_peers (cdb mesh_coord) (Some (n_node_id mesh_a)) = [mesh_b]"
    "list_peers (cdb mesh_coord) (Some (n_node_id mesh_b)) = [mesh_a]"
    by (simp_all add: list_peers_def mesh_coord_def mesh_a_def mesh_b_def demo_node_def)
  have ips: "parse_ipv4 (n_ip mesh_a) = Some IP_POOL_FIRST_HOST" "parse_ipv4 (n_ip mesh_b) = Some (IP_POOL_FIRST_HOST + 1)"
    by (simp_all add: mesh_a_def mesh_b_def demo_node_def parse_ipv4_show)
  obtain cA cB where c: "up_peers plain_libs (kp_public (keypair_from_bytes plain (replicate 32 6))) None 0 [peer_entry_of plain_libs mesh_b] = Ok [cB]"
    "up_peers plain_libs (kp_public (keypair_from_bytes plain (replicate 32 5))) None 0 [peer_entry_of plain_libs mesh_a] = Ok [cA]"
    using mesh_taken by blast
  obtain dA DA wA' where A:
    "cmd_up (demo_ctx demo_request) demo_up_env demo_dir demo_options (PassBytes [7]) (demo_world dA mesh_coord) = (Ok DA, wA')"
    "fst (state_load plain_codecs no_faults demo_dir dA) = Ok (mesh_state ''tok'' mesh_a)"
    "local_keypair (mcfg (dm_manager DA)) = keypair_from_bytes plain (replicate 32 6)"
    "distinct (map (\<lambda>p. peer_endpoint (config p)) (peers (dm_manager DA)))"
    by (rule mesh_up [OF mesh_lookup(1) ips(1) lists(1) keys(1) c(1)])
  obtain dB DB wB' where B:
    "cmd_up (demo_ctx demo_request) demo_up_env demo_dir demo_options (PassBytes [7]) (demo_world dB mesh_coord) = (Ok DB, wB')"
    "fst (state_load plain_codecs no_faults demo_dir dB) = Ok (mesh_state ''tob'' mesh_b)"
    "local_keypair (mcfg (dm_manager DB)) = keypair_from_bytes plain (replicate 32 5)"
    "distinct (map (\<lambda>p. peer_endpoint (config p)) (peers (dm_manager DB)))"
    by (rule mesh_up [OF mesh_lookup(2) ips(2) lists(2) keys(2) c(2)])
  show ?thesis by (rule that [OF A B])
qed

theorem two_ups_connect_witness:
  "\<exists>dA DA wA' dB DB wB' i j ipA ipB init response A1 A2 B1 A' B'.
    cmd_up (demo_ctx demo_request) demo_up_env demo_dir demo_options (PassBytes [7]) (demo_world dA mesh_coord) = (Ok DA, wA') \<and>
    cmd_up (demo_ctx demo_request) demo_up_env demo_dir demo_options (PassBytes [7]) (demo_world dB mesh_coord) = (Ok DB, wB') \<and>
    parse_ipv4 (n_ip mesh_a) = Some ipA \<and> parse_ipv4 (n_ip mesh_b) = Some ipB \<and>
    init_tick plain demo_env i (dm_manager DA) = (Ok (), A1) \<and> sent A1 = [(SocketV4 16909060 6, init)] \<and>
    handle_incoming plain demo_env (SocketV4 16909060 5) init (dm_manager DB) = (Ok (), B1) \<and>
    handle_incoming plain demo_env (SocketV4 16909060 6) response A1 = (Ok (), A2) \<and>
    is_ready_state (state (peers A2 ! i)) \<and> is_ready_state (state (peers B1 ! j)) \<and>
    fold (exchange plain demo_env demo_env (SocketV4 16909060 5) (SocketV4 16909060 6))
      [Forth (mesh_packet ipB), Back (mesh_packet ipA)] (A2, B1) = (A', B') \<and>
    written B' = [mesh_packet ipB] \<and> written A' = [mesh_packet ipA]"
proof -
  let ?skA = "replicate 32 (6 :: u8)" and ?skB = "replicate 32 (5 :: u8)"
  have keys: "length ?skA = 32" "length ?skB = 32" by simp_all
  obtain dA DA wA' dB DB wB' where A:
    "cmd_up (demo_ctx demo_request) demo_up_env demo_dir demo_options (PassBytes [7]) (demo_world dA mesh_coord) = (Ok DA, wA')"
    "fst (state_load plain_codecs no_faults demo_dir dA) = Ok (mesh_state ''tok'' mesh_a)"
    "local_keypair (mcfg (dm_manager DA)) = keypair_from_bytes plain ?skA"
    "distinct (map (\<lambda>p. peer_endpoint (config p)) (peers (dm_manager DA)))"
    and B:
    "cmd_up (demo_ctx demo_request) demo_up_env demo_dir demo_options (PassBytes [7]) (demo_world dB mesh_coord) = (Ok DB, wB')"
    "fst (state_load plain_codecs no_faults demo_dir dB) = Ok (mesh_state ''tob'' mesh_b)"
    "local_keypair (mcfg (dm_manager DB)) = keypair_from_bytes plain ?skB"
    "distinct (map (\<lambda>p. peer_endpoint (config p)) (peers (dm_manager DB)))"
    by (rule mesh_started)
  have srv: "coord_ok (w_server (demo_world d mesh_coord))" "mesh_a \<in> set (db_nodes (cdb (w_server (demo_world d mesh_coord))))"
    "mesh_b \<in> set (db_nodes (cdb (w_server (demo_world d mesh_coord))))"
    "get_node_by_token (cdb (w_server (demo_world d mesh_coord))) (st_auth_token (mesh_state ''tok'' mesh_a)) (clock demo_request) = Some mesh_a"
    "get_node_by_token (cdb (w_server (demo_world d mesh_coord))) (st_auth_token (mesh_state ''tob'' mesh_b)) (clock demo_request) = Some mesh_b" for d
    using mesh_coord_ok mesh_lookup by (simp_all add: mesh_state_def mesh_coord_def)
  have st: "fst (state_load (x_codecs (demo_ctx demo_request)) (x_faults (demo_ctx demo_request)) demo_dir (w_disk (demo_world dA mesh_coord))) =
      Ok (mesh_state ''tok'' mesh_a)"
    "fst (state_load (x_codecs (demo_ctx demo_request)) (x_faults (demo_ctx demo_request)) demo_dir (w_disk (demo_world dB mesh_coord))) =
      Ok (mesh_state ''tob'' mesh_b)"
    using A(2) B(2) by simp_all
  have env: "u_manager demo_up_env = demo_env" "o_relay demo_options = None"
    by (simp_all add: demo_up_env_def demo_options_def)
  have fresh: "\<not> outside_replay_window (tai demo_env) (tai (u_manager demo_up_env))" "now (u_manager demo_up_env) \<le> now demo_env"
    by (simp_all add: env demo_env_def inside_window_diff)
  from two_ups_connect [OF plain_handshake_fresh plain_sequential_transport plain_digest_sizes plain_libs_work keys
      A(1) demo_ctx_simps(1,2,5) env(2) st(1) srv(1,4,3) mesh_reachable(2) A(3) mesh_keys(1,2) A(4)
      B(1) demo_ctx_simps(1,2,5) env(2) st(2) srv(1,5,2) mesh_reachable(1) B(3) mesh_keys(2,1) B(4) mesh_keys(3) fresh
      demo_env_simps(1) demo_env_simps(1) demo_env_simps(2) demo_env_simps(2)]
  obtain i j ipA ipB init response A1 A2 B1 where r:
    "parse_ipv4 (n_ip mesh_a) = Some ipA" "parse_ipv4 (n_ip mesh_b) = Some ipB"
    "init_tick plain demo_env i (dm_manager DA) = (Ok (), A1)" "sent A1 = [(SocketV4 16909060 6, init)]"
    "handle_incoming plain demo_env (SocketV4 16909060 5) init (dm_manager DB) = (Ok (), B1)"
    "handle_incoming plain demo_env (SocketV4 16909060 6) response A1 = (Ok (), A2)"
    "is_ready_state (state (peers A2 ! i))" "is_ready_state (state (peers B1 ! j))"
    and t: "(\<forall>p \<in> set (forth fs). addressed ipB p \<and> length p \<le> 1500) \<Longrightarrow>
       (\<forall>p \<in> set (backs fs). addressed ipA p \<and> length p \<le> 1500) \<Longrightarrow>
       length (forth fs) < 2 ^ 64 \<Longrightarrow> length (backs fs) < 2 ^ 64 \<Longrightarrow>
       \<exists>A' B'. fold (exchange plain demo_env demo_env (SocketV4 16909060 5) (SocketV4 16909060 6)) fs (A2, B1) = (A', B') \<and>
          written B' = forth fs \<and> written A' = backs fs" for fs
    by blast
  let ?fs = "[Forth (mesh_packet ipB), Back (mesh_packet ipA)]"
  obtain A' B' where f: "fold (exchange plain demo_env demo_env (SocketV4 16909060 5) (SocketV4 16909060 6)) ?fs (A2, B1) = (A', B')"
    "written B' = forth ?fs" "written A' = backs ?fs"
    using t [of ?fs] mesh_packet_addressed by auto
  from f(2,3) have w: "written B' = [mesh_packet ipB]" "written A' = [mesh_packet ipA]" by simp_all
  show ?thesis
    by (intro exI conjI, rule A(1), rule B(1), rule r(1), rule r(2), rule r(3), rule r(4), rule r(5), rule r(6), rule r(7),
        rule r(8), rule f(1), rule w(1), rule w(2))
qed

end
