(* ===== verification/Manager_Relayed.thy ===== *)
theory Manager_Relayed
  imports Manager_Rekey
begin

text \<open>
  A handshake through a relay: three managers, of which the relay forwards the INIT and the
  RESPONSE without a session of its own with either end.
\<close>

section \<open>The two ends\<close>

lemma relayed_init_answered:
  assumes ok: "maps_ok m" and pub: "length pub = 32" "pubkey_to_peer m pub = Some j"
    and st: "state (peers m ! j) = HandshakingAsResponder r"
    and acc: "consume_init C init (set_current_time (tai E) r) = (Ok resp, r')" "into_transport C r' = Ok t"
    and io: "\<And>a b. send_error E a b = None"
  shows "handle_incoming C E source (relay_wrap pub (local_ip (mcfg m)) init) m =
    (Ok (), upd_peer j (\<lambda>p. p\<lparr>state := Ready t (u32_from_le (seg init 4 8)) None,
         last_handshake_at := Some (now E), last_rx_at := Some (now E)\<rparr>)
       ((relay_noted E source pub j m)\<lparr>sent := sent m @
         [(source, relay_wrap (local_pub m) (peer_ip (config (peers m ! j))) resp)]\<rparr>))"
proof -
  let ?n = "relay_noted E source pub j m" and ?pkt = "relay_wrap pub (local_ip (mcfg m)) init"
  note f = relay_fields [OF pub(1), of "local_ip (mcfg m)" init]
  have j: "j < length (peers m)" by (rule maps_okD(3) [OF ok pub(2)])
  have len: "RELAY_HEADER_SIZE \<le> length ?pkt" using length_relay_wrap [OF pub(1)] by simp
  have init: "148 \<le> length init" "init ! 0 = MESSAGE_TYPE_INIT" "init \<noteq> []"
    using consume_init_OkD(1,2) [OF acc(1)] by auto
  have "handle_incoming C E source ?pkt m = handle_relay C E source ?pkt ?n"
    using handle_incoming_relay [OF ok len f(4), of j] pub(2) f(1) by simp
  also have "\<dots> = handle_init_via_relay C E j pub source init ?n"
    using f len init pub(2) j by (auto simp: handle_relay_def message_types)
  also have "\<dots> = initial_respond C E j r init
      (\<lambda>resp. send_to E source (relay_wrap (local_pub m) (peer_ip (config (peers m ! j))) resp)) ?n"
    using st j init(1) by (simp add: handle_init_via_relay_def INIT_SIZE_def local_pub_def)
  finally show ?thesis
    using acc io j by (simp add: initial_respond_def andthen_def send_to_def responder_ready_def Let_def)
      (simp add: upd_peer_def)
qed

lemma relayed_response_accepted:
  assumes ok: "maps_ok m" and pub: "length pub = 32" "pubkey_to_peer m pub = Some i"
    and st: "state (peers m ! i) = HandshakingAsInitiator ini"
    and acc: "consume_response C ini resp = Ok t" "length resp = 92" "resp ! 0 = MESSAGE_TYPE_RESPONSE"
  shows "handle_incoming C E source (relay_wrap pub (local_ip (mcfg m)) resp) m =
    (Ok (), upd_peer i (\<lambda>p. p\<lparr>state := Ready t (u32_from_le (seg resp 4 8)) None,
       last_handshake_at := Some (now E)\<rparr>) (relay_noted E source pub i m))"
proof -
  let ?n = "relay_noted E source pub i m" and ?pkt = "relay_wrap pub (local_ip (mcfg m)) resp"
  note f = relay_fields [OF pub(1), of "local_ip (mcfg m)" resp]
  have i: "i < length (peers m)" by (rule maps_okD(3) [OF ok pub(2)])
  have len: "RELAY_HEADER_SIZE \<le> length ?pkt" using length_relay_wrap [OF pub(1)] by simp
  have resp: "resp \<noteq> []" using acc(2) by auto
  have "handle_incoming C E source ?pkt m = handle_relay C E source ?pkt ?n"
    using handle_incoming_relay [OF ok len f(4), of i] pub(2) f(1) by simp
  also have "\<dots> = handle_response C E i resp ?n"
    using f len resp acc(3) pub(2) i by (auto simp: handle_relay_def message_types)
  finally show ?thesis
    using st acc i by (simp add: handle_response_def RESPONSE_SIZE_def Let_def)
qed

section \<open>The relay\<close>

definition relay_route :: "('hs, 'ts) manager \<Rightarrow> nat \<Rightarrow> socket_addr" where
  "relay_route m i =
     (case learned_endpoints m (peer_pub (config (peers m ! i))) of
        Some a \<Rightarrow> a | None \<Rightarrow> peer_endpoint (config (peers m ! i)))"

lemma maps_ok_sent: "maps_ok (m\<lparr>sent := s\<rparr>) = maps_ok m"
  by (simp add: maps_ok_def)

lemma relay_route_sent: "relay_route (m\<lparr>sent := s\<rparr>) i = relay_route m i"
  by (cases "learned_endpoints m (peer_pub (config (peers m ! i)))") (simp_all add: relay_route_def)

lemma relay_noted_maps: "maps_ok m \<Longrightarrow> maps_ok (relay_noted E source pub i m)"
  by (auto simp: maps_ok_def relay_noted_def)

lemma relay_noted_find:
  "find_index 0 (\<lambda>p. peer_ip (config p) = v) (peers (relay_noted E source pub i m)) =
   find_index 0 (\<lambda>p. peer_ip (config p) = v) (peers m)"
  by (rule find_index_map_cong) simp_all

lemma relay_noted_route:
  "j < length (peers m) \<Longrightarrow> peer_pub (config (peers m ! j)) \<noteq> pub \<Longrightarrow>
   relay_route (relay_noted E source pub i m) j = relay_route m j"
  "i < length (peers m) \<Longrightarrow> peer_pub (config (peers m ! i)) = pub \<Longrightarrow>
   endpoint_to_peer m source = None \<or> relay_route m i = source \<Longrightarrow>
   relay_route (relay_noted E source pub i m) i = source"
  by (auto simp: relay_route_def relay_noted_def split: option.splits)

text \<open>The relay's share in one datagram from a key it knows to an address it knows.\<close>

lemma relay_passes_on:
  assumes "maps_ok R" and "length pub = 32" and "pubkey_to_peer R pub = Some k" and "dest \<noteq> local_ip (mcfg R)"
    and "find_index 0 (\<lambda>p. peer_ip (config p) = dest) (peers R) = Some l" and "peer_pub (config (peers R ! l)) \<noteq> pub"
    and "\<And>a b. send_error E a b = None"
  shows "handle_incoming C E source (relay_wrap pub dest body) R =
    (Ok (), (relay_noted E source pub k R)\<lparr>sent := sent R @ [(relay_route R l, relay_wrap pub dest body)]\<rparr>)"
  using assms relay_header_roundtrip [OF assms(2)] relay_fields(4) [OF assms(2)] length_relay_wrap [OF assms(2)]
  by (intro handle_incoming_forward) (simp_all add: relay_route_def)

section \<open>The handshake\<close>

text \<open>C7: Two nodes establish a session through a relay.  The initiator reaches the other only through a
  relay that knows both keys and both addresses and has no session with either; the other holds a
  waiting responder.  The initiator's due tick sends the wrapped INIT to the relay, which passes
  the same datagram on; the responder answers to the relay, addressed to the initiator, and is
  Ready; the relay passes the RESPONSE to the address it has just heard the initiator from, even
  one it did not know before; the initiator accepts it and is Ready.  The two sessions are the two
  ends of one Noise session.\<close>

theorem session_through_relay:
  assumes works: "noise_handshake_works C PROTOCOL_NAME paired" and sizes: "digest_sizes C"
    and keys: "length skA = 32" "length skB = 32" "length ps = 32"
    and ini: "initiator_new C (keypair_from_bytes C skA) (kp_public (keypair_from_bytes C skB)) ps sidA ts ra = Ok i0"
    and rsp: "responder_new C (keypair_from_bytes C skB) ps sidB built rb = Ok r0"
    and fresh: "\<not> outside_replay_window (tai EB) ts"
    and A: "maps_ok A" "pubkey_to_peer A (kp_public (keypair_from_bytes C skB)) = Some i"
      "state (peers A ! i) = HandshakingAsInitiator i0" "init_due EA (peers A ! i)"
      "cached_init (peers A ! i) = None" "received_cookie (peers A ! i) = None"
      "via_relay (config (peers A ! i)) = Some addrR" "peer_ip (config (peers A ! i)) = ipB"
      "local_keypair (mcfg A) = keypair_from_bytes C skA" "local_ip (mcfg A) = ipA"
    and R: "maps_ok R" "pubkey_to_peer R (kp_public (keypair_from_bytes C skA)) = Some k"
      "pubkey_to_peer R (kp_public (keypair_from_bytes C skB)) = Some l"
      "find_index 0 (\<lambda>p. peer_ip (config p) = ipA) (peers R) = Some k" "ipA \<noteq> local_ip (mcfg R)"
      "find_index 0 (\<lambda>p. peer_ip (config p) = ipB) (peers R) = Some l" "ipB \<noteq> local_ip (mcfg R)"
      "relay_route R l = addrB" "endpoint_to_peer R addrA = None \<or> relay_route R k = addrA"
    and B: "maps_ok B" "pubkey_to_peer B (kp_public (keypair_from_bytes C skA)) = Some j"
      "state (peers B ! j) = HandshakingAsResponder r0" "peer_ip (config (peers B ! j)) = ipA"
      "local_keypair (mcfg B) = keypair_from_bytes C skB" "local_ip (mcfg B) = ipB"
    and diff: "kp_public (keypair_from_bytes C skA) \<noteq> kp_public (keypair_from_bytes C skB)"
    and io: "\<And>a b. send_error EA a b = None" "\<And>a b. send_error ER a b = None"
      "\<And>a b. send_error EB a b = None" "\<And>a b. send_error ER' a b = None"
  shows "\<exists>init response A1 R1 B1 R2 A2 tA tB.
    init_tick C EA i A = (Ok (), A1) \<and> sent A1 = sent A @ [(addrR, init)] \<and>
    handle_incoming C ER addrA init R = (Ok (), R1) \<and> sent R1 = sent R @ [(addrB, init)] \<and>
    handle_incoming C EB addrR init B = (Ok (), B1) \<and> sent B1 = sent B @ [(addrR, response)] \<and>
    handle_incoming C ER' addrB response R1 = (Ok (), R2) \<and> sent R2 = sent R1 @ [(addrA, response)] \<and>
    handle_incoming C EA' addrR response A1 = (Ok (), A2) \<and>
    state (peers A2 ! i) = Ready tA sidB None \<and> state (peers B1 ! j) = Ready tB sidA None \<and>
    paired (inner tA) (inner tB)"
proof -
  let ?pA = "kp_public (keypair_from_bytes C skA)" and ?pB = "kp_public (keypair_from_bytes C skB)"
  have len: "length ?pA = 32" "length ?pB = 32"
    using handshake_key_length [OF works keys(1)] handshake_key_length [OF works keys(2)]
    by (simp_all add: keypair_from_bytes_def)
  from works sizes keys ini rsp fresh obtain i1 m1 ti r1 m2 tr where
    msgs: "write_init C i0 = (Ok m1, i1)" "length m1 = 148" "seg m1 4 8 = u32_to_le sidA"
      "m1 ! 0 = MESSAGE_TYPE_INIT" "consume_init C m1 (set_current_time (tai EB) r0) = (Ok m2, r1)" "length m2 = 92"
      "m2 ! 0 = MESSAGE_TYPE_RESPONSE" "seg m2 4 8 = u32_to_le sidB"
      "consume_response C i1 m2 = Ok (transport_new ti sidA)"
      "into_transport C r1 = Ok (transport_new tr sidB)" "paired ti tr"
    by (rule handshake_of_pair)
  have i: "i < length (peers A)" by (rule maps_okD(3) [OF A(1,2)])
  have j: "j < length (peers B)" by (rule maps_okD(3) [OF B(1,2)])
  have kl: "k < length (peers R)" "l < length (peers R)"
    using maps_okD(3) [OF R(1,2)] maps_okD(3) [OF R(1,3)] .
  have pubs: "peer_pub (config (peers R ! k)) = ?pA" "peer_pub (config (peers R ! l)) = ?pB"
    using maps_okD(4) [OF R(1,2)] maps_okD(4) [OF R(1,3)] .
  let ?d1 = "relay_wrap ?pA ipB m1" and ?d2 = "relay_wrap ?pB ipA m2"
  let ?A1 = "upd_peer i (\<lambda>p. p\<lparr>state := HandshakingAsInitiator i1, cached_init := Some m1,
      next_init_at := Some (now EA + INIT_RETRY_INTERVAL)\<rparr>) (A\<lparr>sent := sent A @ [(addrR, ?d1)]\<rparr>)"
  have 1: "init_tick C EA i A = (Ok (), ?A1)"
    using init_tick_first [OF i A(3-6) msgs(1) io(1)] A(7-9)
    by (simp add: init_destination_def init_datagram_def local_pub_def)
  let ?R1 = "(relay_noted ER addrA ?pA k R)\<lparr>sent := sent R @ [(addrB, ?d1)]\<rparr>"
  have 2: "handle_incoming C ER addrA ?d1 R = (Ok (), ?R1)"
    using relay_passes_on [OF R(1) len(1) R(2,7,6) _ io(2), of C addrA m1] pubs(2) diff R(8) by simp
  obtain B1 where 3: "handle_incoming C EB addrR ?d1 B = (Ok (), B1)" "sent B1 = sent B @ [(addrR, ?d2)]"
    "state (peers B1 ! j) = Ready (transport_new tr sidB) sidA None"
    using relayed_init_answered [OF B(1) len(1) B(2,3) msgs(5,10) io(3), of addrR] B(4-6) msgs(3) j
    by (simp add: local_pub_def)
  have R1: "maps_ok ?R1" "pubkey_to_peer ?R1 ?pB = Some l" "ipA \<noteq> local_ip (mcfg ?R1)"
    "find_index 0 (\<lambda>p. peer_ip (config p) = ipA) (peers ?R1) = Some k" "peer_pub (config (peers ?R1 ! k)) \<noteq> ?pB"
    using relay_noted_maps [OF R(1)] R(3-5) kl(1) pubs(1) diff by (simp_all add: maps_ok_sent relay_noted_find)
  have route: "relay_route ?R1 k = addrA"
    using relay_noted_route(2) [OF kl(1) pubs(1) R(9), of ER] by (simp add: relay_route_sent)
  have 4: "handle_incoming C ER' addrB ?d2 ?R1 =
      (Ok (), (relay_noted ER' addrB ?pB l ?R1)\<lparr>sent := sent ?R1 @ [(addrA, ?d2)]\<rparr>)"
    using relay_passes_on [OF R1(1) len(2) R1(2-5) io(4), of C addrB m2] route by simp
  have A1: "maps_ok ?A1" "pubkey_to_peer ?A1 ?pB = Some i" "state (peers ?A1 ! i) = HandshakingAsInitiator i1"
    using A(1,2) i by (auto simp: maps_ok_def)
  obtain A2 where 5: "handle_incoming C EA' addrR ?d2 ?A1 = (Ok (), A2)"
    "state (peers A2 ! i) = Ready (transport_new ti sidA) sidB None"
    using relayed_response_accepted [OF A1(1) len(2) A1(2,3) msgs(9,6,7), of EA' addrR] A(10) msgs(8) i by simp
  show ?thesis
    by (intro exI conjI, rule 1, simp, rule 2, simp, rule 3(1), rule 3(2), rule 4, simp, rule 5(1), rule 5(2), rule 3(3))
      (simp add: transport_new_def msgs(11))
qed

section \<open>Witness\<close>

text \<open>The initiator at 200 with key 6, the responder at 100 with key 5, and a relay that has never heard of
  the initiator's address.\<close>

definition relayed_A :: "plain_hs initiator \<Rightarrow> (plain_hs, plain_ts) manager" where
  "relayed_A ini = (demo_waiting ini)
     \<lparr>peers := [(demo_session (HandshakingAsInitiator ini))
        \<lparr>config := demo_peer_config\<lparr>via_relay := Some demo_stranger\<rparr>, next_init_at := Some 0\<rparr>]\<rparr>"

definition relayed_R :: "(plain_hs, plain_ts) manager" where
  "relayed_R = (demo_manager Init)
     \<lparr>mcfg := demo_config\<lparr>local_ip := 77\<rparr>,
      peers := [(demo_session Init)\<lparr>config := demo_peer_config\<lparr>peer_pub := replicate 32 6, peer_ip := 200\<rparr>\<rparr>,
               (demo_session Init)\<lparr>config := demo_peer_config\<lparr>peer_pub := replicate 32 5, peer_endpoint := demo_stranger\<rparr>\<rparr>],
      endpoint_to_peer := [demo_addr \<mapsto> 0, demo_stranger \<mapsto> 1],
      pubkey_to_peer := [replicate 32 6 \<mapsto> 0, replicate 32 5 \<mapsto> 1]\<rparr>"

definition relayed_B :: "plain_hs responder \<Rightarrow> (plain_hs, plain_ts) manager" where
  "relayed_B rsp = (demo_manager Init)
     \<lparr>mcfg := demo_config\<lparr>local_keypair := demo_peer_keys, local_ip := 100\<rparr>,
      peers := [(demo_session (HandshakingAsResponder rsp))
        \<lparr>config := demo_peer_config\<lparr>peer_pub := replicate 32 6, peer_ip := 200\<rparr>\<rparr>],
      pubkey_to_peer := [replicate 32 6 \<mapsto> 0]\<rparr>"

lemma relayed_maps: "maps_ok (relayed_A ini)" "maps_ok relayed_R" "maps_ok (relayed_B rsp)"
proof -
  have neq: "(replicate 32 (6 :: u8)) \<noteq> replicate 32 5" by (simp add: replicate_eq_replicate)
  show "maps_ok (relayed_A ini)"
    by (simp add: maps_ok_def relayed_A_def demo_waiting_def) (simp add: demo_peer_config_def)
  show "maps_ok relayed_R" using neq by (auto simp: maps_ok_def relayed_R_def less_Suc_eq split: if_splits)
  show "maps_ok (relayed_B rsp)" by (simp add: maps_ok_def relayed_B_def)
qed

theorem session_through_relay_witness:
  "\<exists>i0 r0 init response A1 R1 B1 R2 A2 tA tB.
    init_tick plain demo_env 0 (relayed_A i0) = (Ok (), A1) \<and> sent A1 = [(demo_stranger, init)] \<and>
    handle_incoming plain demo_env (SocketV4 5 5) init relayed_R = (Ok (), R1) \<and>
    handle_incoming plain demo_env demo_stranger init (relayed_B r0) = (Ok (), B1) \<and>
    handle_incoming plain demo_env demo_stranger response R1 = (Ok (), R2) \<and>
    sent R2 = [(demo_stranger, init), (SocketV4 5 5, response)] \<and>
    handle_incoming plain demo_env demo_stranger response A1 = (Ok (), A2) \<and>
    state (peers A2 ! 0) = Ready tA 2 None \<and> state (peers B1 ! 0) = Ready tB 1 None \<and>
    matched pt_skey pt_snum pt_rkey pt_rnum (inner tA) (inner tB)"
proof -
  have lens: "length (replicate 32 (6 :: u8)) = 32" "length (replicate 32 (5 :: u8)) = 32"
    "length (zeros 32) = 32" by simp_all
  obtain i0 where i0: "initiator_new plain (keypair_from_bytes plain (replicate 32 6))
      (kp_public (keypair_from_bytes plain (replicate 32 5))) (zeros 32) 1 (Tai64N 1000 0) 11 = Ok i0"
    by (simp add: initiator_new_def plain_def)
  obtain r0 where r0: "responder_new plain (keypair_from_bytes plain (replicate 32 5)) (zeros 32) 2
      (Tai64N 1000 0) 12 = Ok r0"
    by (simp add: responder_new_def plain_def)
  have fresh: "\<not> outside_replay_window (tai demo_env) (Tai64N 1000 0)"
    by (simp add: demo_env_def inside_window_diff)
  have pubs: "kp_public (keypair_from_bytes plain (replicate 32 6)) = replicate 32 6"
    "kp_public (keypair_from_bytes plain (replicate 32 5)) = replicate 32 5"
    by (simp_all flip: demo_keys_def demo_peer_keys_def)
  have neq: "(replicate 32 (6 :: u8)) \<noteq> replicate 32 5" "(replicate 32 (5 :: u8)) \<noteq> replicate 32 6"
    by (simp_all add: replicate_eq_replicate)
  have c: "demo_peer_config = \<lparr>peer_pub = replicate 32 5, psk = zeros 32, local_sender_id = 2, is_initiator = False,
      peer_endpoint = demo_addr, peer_ip = 100, via_relay = None\<rparr>" by (simp add: demo_peer_config_def)
  let ?A = "relayed_A i0" and ?B = "relayed_B r0"
  have A: "pubkey_to_peer ?A (kp_public (keypair_from_bytes plain (replicate 32 5))) = Some 0"
    "state (peers ?A ! 0) = HandshakingAsInitiator i0" "init_due demo_env (peers ?A ! 0)"
    "cached_init (peers ?A ! 0) = None" "received_cookie (peers ?A ! 0) = None"
    "via_relay (config (peers ?A ! 0)) = Some demo_stranger" "peer_ip (config (peers ?A ! 0)) = 100"
    "local_keypair (mcfg ?A) = keypair_from_bytes plain (replicate 32 6)" "local_ip (mcfg ?A) = 200" "sent ?A = []"
    by (simp_all add: relayed_A_def demo_waiting_def init_due_def demo_session_def pubs c)
      (simp_all add: demo_config_def demo_keys_def)
  have R: "pubkey_to_peer relayed_R (kp_public (keypair_from_bytes plain (replicate 32 6))) = Some 0"
    "pubkey_to_peer relayed_R (kp_public (keypair_from_bytes plain (replicate 32 5))) = Some 1"
    "find_index 0 (\<lambda>p. peer_ip (config p) = 200) (peers relayed_R) = Some 0" "200 \<noteq> local_ip (mcfg relayed_R)"
    "find_index 0 (\<lambda>p. peer_ip (config p) = 100) (peers relayed_R) = Some 1" "100 \<noteq> local_ip (mcfg relayed_R)"
    "relay_route relayed_R 1 = demo_stranger"
    "endpoint_to_peer relayed_R (SocketV4 5 5) = None \<or> relay_route relayed_R 0 = SocketV4 5 5" "sent relayed_R = []"
    using neq by (simp_all add: relayed_R_def relay_route_def pubs c) (simp add: demo_addr_def demo_stranger_def)
  have B: "pubkey_to_peer ?B (kp_public (keypair_from_bytes plain (replicate 32 6))) = Some 0"
    "state (peers ?B ! 0) = HandshakingAsResponder r0" "peer_ip (config (peers ?B ! 0)) = 200"
    "local_keypair (mcfg ?B) = keypair_from_bytes plain (replicate 32 5)" "local_ip (mcfg ?B) = 100"
    by (simp_all add: relayed_B_def demo_session_def pubs c) (simp add: demo_peer_keys_def)
  have diff: "kp_public (keypair_from_bytes plain (replicate 32 6)) \<noteq> kp_public (keypair_from_bytes plain (replicate 32 5))"
    using neq by (simp add: pubs)
  from session_through_relay [OF plain_works plain_digest_sizes lens i0 r0 fresh relayed_maps(1) A(1-9)
      relayed_maps(2) R(1-8) relayed_maps(3) B(1-5) diff demo_env_simps(1) demo_env_simps(1) demo_env_simps(1)
      demo_env_simps(1), of demo_env]
  obtain init response A1 R1 B1 R2 A2 tA tB where r:
    "init_tick plain demo_env 0 ?A = (Ok (), A1)" "sent A1 = sent ?A @ [(demo_stranger, init)]"
    "handle_incoming plain demo_env (SocketV4 5 5) init relayed_R = (Ok (), R1)"
    "sent R1 = sent relayed_R @ [(demo_stranger, init)]"
    "handle_incoming plain demo_env demo_stranger init ?B = (Ok (), B1)"
    "handle_incoming plain demo_env demo_stranger response R1 = (Ok (), R2)"
    "sent R2 = sent R1 @ [(SocketV4 5 5, response)]"
    "handle_incoming plain demo_env demo_stranger response A1 = (Ok (), A2)"
    "state (peers A2 ! 0) = Ready tA 2 None" "state (peers B1 ! 0) = Ready tB 1 None"
    "matched pt_skey pt_snum pt_rkey pt_rnum (inner tA) (inner tB)"
    by blast
  have s: "sent A1 = [(demo_stranger, init)]" "sent R2 = [(demo_stranger, init), (SocketV4 5 5, response)]"
    using r(2,4,7) A(10) R(9) by simp_all
  show ?thesis
    by (intro exI conjI, rule r(1), rule s(1), rule r(3), rule r(5), rule r(6), rule s(2), rule r(8-11))
      (rule r(9-11))+
qed

end
