(* ===== verification/Manager_Authentic.thy ===== *)
theory Manager_Authentic
  imports Manager_Stream
begin

text \<open>
  What an attacker on the network can make of an established session: whatever datagrams of the
  tunnel it delivers, replayed, reordered, dropped, altered or made up, the device is written a
  contiguous part of what the peer encrypted, in its order and without repetition.
\<close>

definition authentic :: "('k \<Rightarrow> nat \<Rightarrow> bytes \<Rightarrow> bytes) \<Rightarrow> 'k \<Rightarrow> bytes list \<Rightarrow> bytes \<Rightarrow> bool" where
  "authentic seal k ps d \<longleftrightarrow>
     (\<forall>n p. n < 2 ^ 64 \<longrightarrow> drop TRANSPORT_HEADER_SIZE d = seal k n p \<longrightarrow> n < length ps \<and> p = ps ! n)"

definition receive_all ::
  "('hs, 'ts) crypto \<Rightarrow> socket_addr \<Rightarrow> (env \<times> bytes) list \<Rightarrow> ('hs, 'ts) manager \<Rightarrow> ('hs, 'ts) manager" where
  "receive_all C source es m = fold (\<lambda>(E, d) m. snd (handle_incoming C E source d m)) es m"

definition attack_ok ::
  "('k \<Rightarrow> nat \<Rightarrow> bytes \<Rightarrow> bytes) \<Rightarrow> 'k \<Rightarrow> bytes list \<Rightarrow> env \<times> bytes \<Rightarrow> bool" where
  "attack_ok seal k ps Ed \<longleftrightarrow>
     snd Ed \<noteq> [] \<and> snd Ed ! 0 = MESSAGE_TYPE_TRANSPORT \<and> authentic seal k ps (snd Ed) \<and>
     (\<forall>b. device_error (fst Ed) b = None)"

text \<open>One datagram: it is refused and the transport stays, or it is the next packet.\<close>

lemma transport_datagram:
  assumes seq: "sequential_transport C seal skey snum rkey rnum" and side: "direct_session addr i t m"
    and d: "d \<noteq> []" "d ! 0 = MESSAGE_TYPE_TRANSPORT" and io: "\<And>b. device_error E b = None"
    and fits: "\<And>p. drop TRANSPORT_HEADER_SIZE d = seal (rkey (inner t)) (rnum (inner t)) p \<Longrightarrow>
      length p \<le> 1500 \<and> rnum (inner t) < 2 ^ 64 - 1"
  obtains "direct_session addr i t (snd (handle_incoming C E addr d m))"
      "written (snd (handle_incoming C E addr d m)) = written m"
  | p t' where "drop TRANSPORT_HEADER_SIZE d = seal (rkey (inner t)) (rnum (inner t)) p"
      "direct_session addr i t' (snd (handle_incoming C E addr d m))" "rkey (inner t') = rkey (inner t)"
      "rnum (inner t') = Suc (rnum (inner t))"
      "written (snd (handle_incoming C E addr d m)) = written m @ filter (\<lambda>p. p \<noteq> []) [p]"
proof -
  obtain sid rh where m: "maps_ok m" "endpoint_to_peer m addr = Some i" "via_relay (config (peers m ! i)) = None"
    "\<not> stale (peers m ! i)" "state (peers m ! i) = Ready t sid rh"
    using side by (auto simp: direct_session_def)
  have i: "i < length (peers m)" by (rule maps_okD(1) [OF m(1,2)])
  let ?n = "upd_peer i (\<lambda>p. p\<lparr>last_rx_at := Some (now E)\<rparr>) m"
  have in_eq: "handle_incoming C E addr d m = handle_transport C E i d ?n"
    using d m(2) i refresh_known_source [OF m(1,2), of E]
    by (simp add: handle_incoming_def handle_message_def message_types)
  have keeps: "direct_session addr i t ?n" "written ?n = written m"
    using direct_session_upd(2) [OF m(1-3), where f = "\<lambda>p. p\<lparr>last_rx_at := Some (now E)\<rparr>" and s = "sent m"] m(4,5)
    by simp_all
  let ?w = "\<lambda>t' w. (upd_peer i (\<lambda>p. p\<lparr>last_rx_at := Some (now E), state := Ready t' sid rh\<rparr>) m)\<lparr>written := w\<rparr>"
  have out: "direct_session addr i t' (?w t' w)" for t' w
    using direct_session_upd(1) [OF m(1-3), where s = "sent m" and w = w
        and f = "\<lambda>p. p\<lparr>last_rx_at := Some (now E), state := Ready t' sid rh\<rparr>"] m(4)
    by (simp add: upd_peer_def)
  show ?thesis
  proof (cases "length d < TRANSPORT_HEADER_SIZE + 16")
    case True
    then have "snd (handle_incoming C E addr d m) = ?n" by (simp add: in_eq handle_transport_def)
    then show ?thesis using that(1) keeps by simp
  next
    case False
    show ?thesis
    proof (cases "\<exists>p. drop TRANSPORT_HEADER_SIZE d = seal (rkey (inner t)) (rnum (inner t)) p")
      case True
      then obtain p where p: "drop TRANSPORT_HEADER_SIZE d = seal (rkey (inner t)) (rnum (inner t)) p" by blast
      obtain ts where ts: "ts_read C (inner t) (drop TRANSPORT_HEADER_SIZE d) 1500 = (Inr p, ts)"
        "rkey ts = rkey (inner t)" "rnum ts = Suc (rnum (inner t))"
        using seq_read [OF seq] fits [OF p] p by metis
      have "decrypt C d 1500 t = (Ok p, t\<lparr>inner := ts\<rparr>)" using False d(2) ts(1) by (simp add: decrypt_def)
      then have "snd (handle_incoming C E addr d m) = ?w (t\<lparr>inner := ts\<rparr>) (written m @ filter (\<lambda>p. p \<noteq> []) [p])"
        using False m(4,5) i io
        by (simp add: in_eq handle_transport_def device_write_def Let_def)
      then show ?thesis using that(2) [of p "t\<lparr>inner := ts\<rparr>"] p out ts(2,3) by simp
    next
      case False': False
      then obtain e where "ts_read C (inner t) (drop TRANSPORT_HEADER_SIZE d) 1500 = (Inl e, inner t)"
        using seq unfolding sequential_transport_def by metis
      then have "decrypt C d 1500 t = (Err (Noise e), t)" using False d(2) by (simp add: decrypt_def)
      then have "snd (handle_incoming C E addr d m) = ?w t (written m)"
        using False m(4,5) i by (simp add: in_eq handle_transport_def Let_def)
      then show ?thesis using that(1) out by simp
    qed
  qed
qed

lemma drop_Suc_take:
  "r < length ps \<Longrightarrow> Suc r \<le> k \<Longrightarrow> k \<le> length ps \<Longrightarrow>
   drop r (take k ps) = ps ! r # drop (Suc r) (take k ps)"
  by (simp add: Cons_nth_drop_Suc [symmetric])

lemma received_in_order:
  assumes seq: "sequential_transport C seal skey snum rkey rnum" and k: "length ps < 2 ^ 64"
    and fits: "\<And>p. p \<in> set ps \<Longrightarrow> length p \<le> 1500"
  shows "direct_session addr i t m \<Longrightarrow> rkey (inner t) = key \<Longrightarrow> rnum (inner t) = r \<Longrightarrow> r \<le> length ps \<Longrightarrow>
    list_all (attack_ok seal key ps) es \<Longrightarrow>
    \<exists>k. r \<le> k \<and> k \<le> length ps \<and>
      written (receive_all C addr es m) = written m @ filter (\<lambda>p. p \<noteq> []) (drop r (take k ps))"
proof (induction es arbitrary: t m r)
  case Nil
  then show ?case by (auto simp: receive_all_def intro!: exI [of _ r])
next
  case (Cons e es)
  obtain E d where e: "e = (E, d)" by (cases e)
  let ?m = "snd (handle_incoming C E addr d m)"
  have d: "d \<noteq> []" "d ! 0 = MESSAGE_TYPE_TRANSPORT" "authentic seal key ps d" "\<And>b. device_error E b = None"
    and rest: "list_all (attack_ok seal key ps) es"
    using Cons.prems(5) by (simp_all add: e attack_ok_def [of _ _ _ "(E, d)"])
  have r: "r < 2 ^ 64" using Cons.prems(4) k by linarith
  have is_next: "r < length ps \<and> p = ps ! r"
    if "drop TRANSPORT_HEADER_SIZE d = seal (rkey (inner t)) (rnum (inner t)) p" for p
    using d(3) that Cons.prems(2,3) r unfolding authentic_def by blast
  have small: "length p \<le> 1500 \<and> rnum (inner t) < 2 ^ 64 - 1"
    if "drop TRANSPORT_HEADER_SIZE d = seal (rkey (inner t)) (rnum (inner t)) p" for p
    using is_next [OF that] fits [of p] Cons.prems(3) k by auto
  have all: "receive_all C addr (e # es) m = receive_all C addr es ?m" by (simp add: receive_all_def e)
  show ?case
  proof (rule transport_datagram [OF seq Cons.prems(1) d(1,2,4) small])
    assume s: "direct_session addr i t ?m" "written ?m = written m"
    show ?case using Cons.IH [OF s(1) Cons.prems(2-4) rest] unfolding all s(2) .
  next
    fix p t'
    assume p: "drop TRANSPORT_HEADER_SIZE d = seal (rkey (inner t)) (rnum (inner t)) p"
      and s: "direct_session addr i t' ?m" "rkey (inner t') = rkey (inner t)" "rnum (inner t') = Suc (rnum (inner t))"
        "written ?m = written m @ filter (\<lambda>p. p \<noteq> []) [p]"
    have "rkey (inner t') = key" "rnum (inner t') = Suc r" "Suc r \<le> length ps"
      using s(2,3) Cons.prems(2,3) is_next [OF p] by simp_all
    from Cons.IH [OF s(1) this rest] obtain k where k: "Suc r \<le> k" "k \<le> length ps"
      "written (receive_all C addr es ?m) = written ?m @ filter (\<lambda>p. p \<noteq> []) (drop (Suc r) (take k ps))" by blast
    have "drop r (take k ps) = [p] @ drop (Suc r) (take k ps)"
      using is_next [OF p] drop_Suc_take [OF _ k(1,2)] by simp
    then have "written (receive_all C addr (e # es) m) = written m @ filter (\<lambda>p. p \<noteq> []) (drop r (take k ps))"
      unfolding all using k(3) s(4) by (simp only: filter_append append_assoc)
    with k show ?case by (intro exI [of _ k]) simp
  qed
qed

text \<open>C5: The device is written nothing the peer did not send.  Let a manager hold a direct session and let
  \<open>ps\<close> be the packets the peer has encrypted in it, of which the first r were received.  The network
  delivers any datagrams of type TRANSPORT from the peer's address: genuine ones lost, repeated or out of
  order, altered ones, and made up ones, as long as no one but the peer can make a ciphertext of the
  session.  What is then written to the device is a contiguous part of \<open>ps\<close> from r on, each packet
  once and in order, without the empty keepalives.\<close>

theorem only_authentic_packets_written:
  assumes "sequential_transport C seal skey snum rkey rnum" and "direct_session addr i t m"
    and "r = rnum (inner t)" and "r \<le> length ps" and "length ps < 2 ^ 64"
    and "\<And>p. p \<in> set ps \<Longrightarrow> length p \<le> 1500"
    and "list_all (attack_ok seal (rkey (inner t)) ps) es"
  shows "\<exists>k. r \<le> k \<and> k \<le> length ps \<and>
    written (receive_all C addr es m) = written m @ filter (\<lambda>p. p \<noteq> []) (drop r (take k ps))"
  by (rule received_in_order [OF assms(1,5,6,2)]) (use assms(3,4,7) in simp_all)

text \<open>The peer's packet, the same datagram again, and a made up one.\<close>

theorem only_authentic_packets_written_witness:
  "\<exists>k \<le> 1. written (receive_all plain demo_addr
      (map (Pair demo_env) [frame_header 7 0 @ plain_seal (pt_rkey (inner demo_receiver)) 0 demo_packet,
         frame_header 7 0 @ plain_seal (pt_rkey (inner demo_receiver)) 0 demo_packet, MESSAGE_TYPE_TRANSPORT # zeros 20])
      (demo_manager (Ready demo_receiver 7 None))) = filter (\<lambda>p. p \<noteq> []) (drop 0 (take k [demo_packet]))"
proof -
  let ?k = "pt_rkey (inner demo_receiver)" and ?m = "demo_manager (Ready demo_receiver 7 None)"
  let ?d = "frame_header 7 0 @ plain_seal ?k 0 demo_packet"
  let ?es = "map (Pair demo_env) [?d, ?d, MESSAGE_TYPE_TRANSPORT # zeros 20]"
  have "via_relay demo_peer_config = None" by (simp add: demo_peer_config_def)
  then have side: "direct_session demo_addr 0 demo_receiver ?m" "written ?m = []"
    using demo_manager_maps by (auto simp: direct_session_def)
  have start: "0 = pt_rnum (inner demo_receiver)" "0 \<le> length [demo_packet]" "length [demo_packet] < 2 ^ 64"
    by (simp_all add: demo_receiver_def transport_new_def)
  have size: "length p \<le> 1500" if "p \<in> set [demo_packet]" for p using that demo_packet_ip(2) by simp
  have genuine: "attack_ok plain_seal ?k [demo_packet] (demo_env, ?d)"
  proof -
    have "n < length [demo_packet] \<and> p = [demo_packet] ! n"
      if "n < 2 ^ 64" "plain_seal ?k 0 demo_packet = plain_seal ?k n p" for n p
      using seq_inject [OF plain_sequential_transport _ that(1,2)] by simp
    moreover have "drop TRANSPORT_HEADER_SIZE ?d = plain_seal ?k 0 demo_packet" by (simp add: TRANSPORT_HEADER_SIZE_def)
    ultimately have "authentic plain_seal ?k [demo_packet] ?d" unfolding authentic_def by metis
    moreover have "?d \<noteq> []" "?d ! 0 = MESSAGE_TYPE_TRANSPORT" by (auto simp: plain_seal_def demo_packet_def)
    ultimately show ?thesis unfolding attack_ok_def by simp
  qed
  have made_up: "attack_ok plain_seal ?k [demo_packet] (demo_env, MESSAGE_TYPE_TRANSPORT # zeros 20)"
  proof -
    have "drop TRANSPORT_HEADER_SIZE (MESSAGE_TYPE_TRANSPORT # zeros 20) \<noteq> plain_seal ?k n p" for n p
    proof
      assume "drop TRANSPORT_HEADER_SIZE (MESSAGE_TYPE_TRANSPORT # zeros 20) = plain_seal ?k n p"
      then have "length (drop TRANSPORT_HEADER_SIZE (MESSAGE_TYPE_TRANSPORT # zeros 20)) = length (plain_seal ?k n p)" by simp
      then show False by (simp add: TRANSPORT_HEADER_SIZE_def plain_seal_def)
    qed
    then show ?thesis by (simp add: attack_ok_def authentic_def)
  qed
  have "list_all (attack_ok plain_seal ?k [demo_packet]) ?es" using genuine made_up by simp
  from only_authentic_packets_written [OF plain_sequential_transport side(1) start size this] side(2)
  show ?thesis by auto
qed

end
