(* ===== verification/Manager_Wire.thy ===== *)
theory Manager_Wire
  imports Manager_Relay
begin

text \<open>
  The types of the datagrams on the wire, and that the tunnel manager sends only well-typed ones.
  A datagram is one of the four messages, with the exact length of its type, or a relay packet
  around one; a relay packet of somebody else is passed on as it came.  The invariant includes
  the INITs that a session keeps for retransmission.
\<close>

section \<open>Well-typed datagrams\<close>

definition message_ok :: "bytes \<Rightarrow> bool" where
  "message_ok pkt \<longleftrightarrow>
     (case pkt of
        [] \<Rightarrow> False
      | b # _ \<Rightarrow>
          if b = MESSAGE_TYPE_INIT then length pkt = INIT_SIZE \<or> length pkt = INIT_WITH_COOKIE_SIZE
          else if b = MESSAGE_TYPE_RESPONSE then length pkt = RESPONSE_SIZE
          else if b = MESSAGE_TYPE_COOKIE then length pkt = COOKIE_SIZE
          else if b = MESSAGE_TYPE_TRANSPORT then
            TRANSPORT_HEADER_SIZE + 16 \<le> length pkt \<and> length pkt \<le> TRANSPORT_HEADER_SIZE + 1500 + 16
          else False)"

definition init_ok :: "bytes \<Rightarrow> bool" where
  "init_ok pkt \<longleftrightarrow> message_ok pkt \<and> pkt ! 0 = MESSAGE_TYPE_INIT"

text \<open>\<open>known\<close>: the keys of the peers, on whose behalf a relay packet may be passed on.\<close>

definition datagram_ok :: "(bytes \<Rightarrow> nat option) \<Rightarrow> bytes \<Rightarrow> bool" where
  "datagram_ok known pkt \<longleftrightarrow>
     message_ok pkt \<or>
     (pkt ! 0 = MESSAGE_TYPE_RELAY \<and> RELAY_HEADER_SIZE \<le> length pkt \<and> length pkt \<le> 2048 \<and>
      (message_ok (drop RELAY_HEADER_SIZE pkt) \<or> known (seg pkt 1 33) \<noteq> None))"

lemma message_okI:
  "pkt \<noteq> [] \<Longrightarrow> pkt ! 0 = MESSAGE_TYPE_INIT \<Longrightarrow> length pkt = 148 \<or> length pkt = 164 \<Longrightarrow> message_ok pkt"
  "pkt \<noteq> [] \<Longrightarrow> pkt ! 0 = MESSAGE_TYPE_RESPONSE \<Longrightarrow> length pkt = 92 \<Longrightarrow> message_ok pkt"
  "pkt \<noteq> [] \<Longrightarrow> pkt ! 0 = MESSAGE_TYPE_TRANSPORT \<Longrightarrow> 32 \<le> length pkt \<Longrightarrow> length pkt \<le> 1532 \<Longrightarrow> message_ok pkt"
  by (cases pkt; simp add: message_ok_def message_types message_sizes TRANSPORT_HEADER_SIZE_def
      MESSAGE_TYPE_TRANSPORT_def)+

lemma message_ok_length: "message_ok pkt \<Longrightarrow> length pkt \<le> 1532"
  by (cases pkt) (auto simp: message_ok_def message_types message_sizes TRANSPORT_HEADER_SIZE_def split: if_splits)

lemma message_ok_type: "message_ok pkt \<Longrightarrow> pkt ! 0 \<noteq> MESSAGE_TYPE_RELAY"
  by (cases pkt) (auto simp: message_ok_def message_types MESSAGE_TYPE_TRANSPORT_def split: if_splits)

lemma wrapped_ok:
  assumes "message_ok body" and "length pub = 32"
  shows "datagram_ok known (relay_wrap pub ip body)"
  using relay_fields [OF assms(2), of ip body] length_relay_wrap [OF assms(2), of ip body]
    message_ok_length [OF assms(1)] assms(1)
  by (simp add: datagram_ok_def RELAY_HEADER_SIZE_def)

section \<open>The messages the library builds\<close>

text \<open>AEAD: the ciphertext is the plaintext and a tag of 16 bytes.\<close>

definition tag_sizes :: "('hs, 'ts) crypto \<Rightarrow> bool" where
  "tag_sizes C \<longleftrightarrow> (\<forall>t p cap ct t'. ts_write C t p cap = (Inr ct, t') \<longrightarrow> length ct = length p + 16)"

lemma plain_tag_sizes: "tag_sizes plain"
  by (auto simp: tag_sizes_def plain_def plain_ts_write_def plain_seal_def split: if_splits)

lemma written_init_ok:
  assumes "digest_sizes C" and "write_init C i = (Ok msg, i')"
  shows "init_ok msg" "length msg = 148"
proof -
  obtain m where m: "length m = 108" "msg = init_body (i_sender_id i) m @
      compute_mac1 C (mac1_key C (i_responder_pub i)) (init_body (i_sender_id i) m)"
    using assms by (auto simp: write_init_eq split: prod.splits sum.splits if_splits)
  have mac: "length (compute_mac1 C (mac1_key C (i_responder_pub i)) (init_body (i_sender_id i) m)) = 16"
    using assms(1) by (simp add: compute_mac1_def)
  from init_fields(1,2) [OF m(1) mac, of "i_sender_id i"] show "length msg = 148" "init_ok msg"
    unfolding m(2) init_ok_def by (auto intro!: message_okI(1))
qed

lemma with_cookie_ok:
  assumes "digest_sizes C" and "init_ok msg" and "length msg = 148"
  shows "init_ok (init_with_cookie C cookie msg)"
proof (cases cookie)
  case (Some c)
  let ?x = "put 0 msg (zeros 164)"
  let ?mac = "compute_mac2 C c (take MAC2_OFFSET_INIT ?x)"
  have len: "length ?mac = 16" "length ?x = 164"
    using assms by (simp_all add: compute_mac2_def zeros_def)
  have "init_with_cookie C cookie msg = put 148 ?mac ?x"
    by (simp add: init_with_cookie_def Some Let_def message_sizes MAC2_OFFSET_INIT_def)
  moreover have "put 148 ?mac ?x ! 0 = msg ! 0" "length (put 148 ?mac ?x) = 164"
    using len assms(3) by (simp_all add: nth_put zeros_def)
  ultimately show ?thesis using assms(2) by (auto simp: init_ok_def intro!: message_okI(1))
qed (use assms(2) in \<open>simp add: init_with_cookie_def\<close>)

lemma response_ok:
  assumes "digest_sizes C" and "consume_init C pkt r = (Ok resp, r')"
  shows "message_ok resp"
proof -
  from assms(2) obtain r1 where "148 \<le> length pkt" and rt: "respond_to C pkt r1 = (Ok resp, r')"
    by (auto simp: consume_init_def message_sizes Let_def split: if_splits prod.splits sum.splits)
  then have len: "8 \<le> length pkt" by simp
  obtain st nm where n: "length nm = 48" "resp = response_body (r_sender_id r1) (seg pkt 4 8) nm @
       compute_mac1 C (mac1_key C st) (response_body (r_sender_id r1) (seg pkt 4 8) nm)"
    by (rule respond_to_OkD [OF assms(1) len rt]) blast
  have "length resp = 92" "resp ! 0 = MESSAGE_TYPE_RESPONSE"
    using n len assms(1) by (simp_all add: compute_mac1_def) (simp add: response_body_def)
  then show ?thesis by (auto intro!: message_okI(2))
qed

lemma encrypted_ok:
  assumes "tag_sizes C" and "encrypt C p rid cap t = (Ok ct, t')" and "length p \<le> 1500"
  shows "message_ok ct"
proof -
  obtain c ts' where "ts_write C (inner t) p (cap - 16) = (Inr c, ts')" "ct = frame_header rid (send_counter t) @ c"
    using assms(2) by (auto simp: encrypt_eq split: if_splits prod.splits sum.splits)
  moreover from this(1) assms(1) have "length c = length p + 16"
    unfolding tag_sizes_def by blast
  ultimately show ?thesis
    using assms(3) by (intro message_okI(3)) (simp_all add: frame_header_def)
qed

section \<open>The invariant\<close>

fun state_wire :: "('hs, 'ts) peer_state \<Rightarrow> bool" where
  "state_wire (Ready t sid rh) = (case rh of None \<Rightarrow> True | Some rs \<Rightarrow> init_ok (rh_init_msg rs))"
| "state_wire _ = True"

definition session_wire :: "('hs, 'ts) peer_session \<Rightarrow> bool" where
  "session_wire p \<longleftrightarrow> (\<forall>msg. cached_init p = Some msg \<longrightarrow> init_ok msg) \<and> state_wire (state p)"

definition wire_ok :: "('hs, 'ts) manager \<Rightarrow> bool" where
  "wire_ok m \<longleftrightarrow>
     (\<forall>d \<in> set (sent m). datagram_ok (pubkey_to_peer m) (snd d)) \<and>
     (\<forall>p \<in> set (peers m). session_wire p) \<and> length (local_pub m) = 32"

lemma local_pub_simps [simp]:
  "local_pub (upd_peer i f m) = local_pub m" "local_pub (m\<lparr>sent := l\<rparr>) = local_pub m"
  "local_pub (m\<lparr>written := w\<rparr>) = local_pub m"
  by (simp_all add: local_pub_def)

lemma wire_logs [simp]:
  "wire_ok (m\<lparr>written := w\<rparr>) = wire_ok m" "wire_ok (m\<lparr>learned_endpoints := e\<rparr>) = wire_ok m"
  "wire_ok (m\<lparr>endpoint_to_peer := e'\<rparr>) = wire_ok m"
  "wire_ok (m\<lparr>last_maintenance_at := t\<rparr>) = wire_ok m"
  by (simp_all add: wire_ok_def local_pub_def)

lemma wire_upd:
  assumes "wire_ok m" and "session_wire (peers m ! i) \<Longrightarrow> session_wire (f (peers m ! i))"
  shows "wire_ok (upd_peer i f m)"
proof (cases "i < length (peers m)")
  case True
  with assms have "session_wire (f (peers m ! i))" by (simp add: wire_ok_def)
  moreover have "set (peers (upd_peer i f m)) \<subseteq> insert (f (peers m ! i)) (set (peers m))"
    by (simp add: upd_peer_def set_update_subset_insert)
  ultimately show ?thesis using assms(1) by (auto simp: wire_ok_def)
qed (use assms(1) in \<open>simp add: wire_ok_def upd_peer_def local_pub_def list_update_beyond\<close>)

lemma wire_session: "wire_ok m \<Longrightarrow> i < length (peers m) \<Longrightarrow> session_wire (peers m ! i)"
  by (simp add: wire_ok_def)

lemma wire_send:
  "wire_ok m \<Longrightarrow> datagram_ok (pubkey_to_peer m) b \<Longrightarrow> wire_ok (snd (send_to E a b m))"
  by (auto simp: send_to_def wire_ok_def local_pub_def split: option.splits)

lemma wire_after_send:
  assumes "wire_ok m" and "message_ok b" and "pub = local_pub m"
    and "\<And>l. wire_ok (m\<lparr>sent := l\<rparr>) \<Longrightarrow> wire_ok (snd (k () (m\<lparr>sent := l\<rparr>)))"
  shows "wire_ok (snd (andthen (send_maybe_relay E ep r ip pub b) k m))"
proof -
  have "datagram_ok (pubkey_to_peer m) b" "datagram_ok (pubkey_to_peer m) (relay_wrap pub ip b)"
    using assms(1-3) wrapped_ok [of b "local_pub m"] by (auto simp: datagram_ok_def wire_ok_def)
  then have "wire_ok (snd (send_maybe_relay E ep r ip pub b m))"
    using wire_send [OF assms(1)] by (cases r) (simp_all add: send_maybe_relay_def)
  then show ?thesis
    using assms(4) by (cases rule: send_maybe_relay_cases
      [where E = E and ep = ep and r = r and ip = ip and pub = pub and b = b and m = m]) (simp_all add: act_simps)
qed

section \<open>Every operation keeps it\<close>

lemma count_init_cached [simp]: "cached_init (count_init E p) = cached_init p"
  by (simp add: count_init_def Let_def)

lemma check_init_cookie_wire:
  fixes C :: "('hs, 'ts) crypto"
  shows "keeps wire_ok (check_init_cookie C E i source pkt)"
proof (rule keepsI)
  fix m :: "('hs, 'ts) manager"
  assume ok: "wire_ok m"
  obtain msg where "generate_cookie C (upd_peer i (count_init E) m) source = Panic msg"
    using generate_cookie_panics by blast
  then show "wire_ok (snd (check_init_cookie C E i source pkt m))"
    using ok
    by (auto simp: check_init_cookie_def Let_def session_wire_def split: option.splits intro!: wire_upd)
qed

lemma handle_cookie_wire: "keeps wire_ok (handle_cookie E i pkt)"
  by (auto simp: keeps_def handle_cookie_def session_wire_def intro!: wire_upd)

lemma responder_ready_wire: "keeps wire_ok (responder_ready C E i sid)"
  by (auto simp: keeps_def responder_ready_def Let_def session_wire_def
      split: peer_state.splits outcome.splits intro!: wire_upd)

lemma initial_respond_wire:
  assumes "digest_sizes C" and "wire_ok m"
    and "\<And>resp. message_ok resp \<Longrightarrow> keeps wire_ok (answer resp)"
  shows "wire_ok (snd (initial_respond C E i responder pkt answer m))"
proof -
  obtain r r' where ci: "consume_init C pkt (set_current_time (tai E) responder) = (r, r')"
    by (cases "consume_init C pkt (set_current_time (tai E) responder)")
  have upd: "wire_ok (upd_peer i (\<lambda>p. p\<lparr>state := HandshakingAsResponder x\<rparr>) m)" for x
    using assms(2) by (rule wire_upd) (simp add: session_wire_def)
  show ?thesis
  proof (cases r)
    case (Ok resp)
    have "keeps wire_ok (andthen (answer resp) (\<lambda>_. responder_ready C E i sid))" for sid
      by (intro keeps_andthen assms(3) response_ok [OF assms(1) ci [unfolded Ok]] responder_ready_wire)
    from keepsD [OF this upd] ci Ok show ?thesis by (simp add: initial_respond_def)
  qed (use ci upd assms(2) in \<open>auto simp: initial_respond_def split: outcome.splits\<close>)
qed

lemma plain_send_wire: "message_ok b \<Longrightarrow> keeps wire_ok (send_to E a b)"
  by (auto simp: keeps_def datagram_ok_def intro: wire_send)

lemma wire_after_plain_send:
  assumes "wire_ok m" and "message_ok b" and "\<And>l. wire_ok (m\<lparr>sent := l\<rparr>) \<Longrightarrow> wire_ok (snd (k () (m\<lparr>sent := l\<rparr>)))"
  shows "wire_ok (snd (andthen (send_to E a b) k m))"
proof -
  have "wire_ok (snd (andthen (send_maybe_relay E a None 0 (local_pub m) b) k m))"
    by (rule wire_after_send [OF assms(1,2) refl]) (rule assms(3))
  then show ?thesis by (simp add: send_maybe_relay_def andthen_def)
qed

lemma handle_init_wire:
  fixes C :: "('hs, 'ts) crypto"
  assumes "digest_sizes C"
  shows "keeps wire_ok (handle_init C E i source pkt)"
proof (rule keepsI)
  fix m :: "('hs, 'ts) manager"
  assume ok: "wire_ok m"
  show "wire_ok (snd (handle_init C E i source pkt m))"
  proof (cases "state (peers m ! i)")
    case (HandshakingAsResponder r)
    then show ?thesis
      by (auto simp: handle_init_def Let_def ok intro!: initial_respond_wire [OF assms ok] plain_send_wire)
  next
    case (Ready t sid rh)
    then show ?thesis
      by (auto simp: handle_init_def Let_def ok session_wire_def
          split: outcome.splits prod.splits intro!: wire_after_plain_send wire_upd dest: response_ok [OF assms])
  qed (simp_all add: handle_init_def Let_def ok)
qed

lemma relayed_send_wire:
  assumes "length pub = 32" and "message_ok b"
  shows "keeps wire_ok (send_to E a (relay_wrap pub ip b))"
  by (auto simp: keeps_def intro: wire_send wrapped_ok [OF assms(2,1)])

lemma handle_init_via_relay_wire:
  fixes C :: "('hs, 'ts) crypto"
  assumes "digest_sizes C"
  shows "keeps wire_ok (handle_init_via_relay C E i pub source pkt)"
proof (rule keepsI)
  fix m :: "('hs, 'ts) manager"
  assume ok: "wire_ok m"
  then have "length (local_pub m) = 32" by (simp add: wire_ok_def)
  then show "wire_ok (snd (handle_init_via_relay C E i pub source pkt m))"
    by (cases "state (peers m ! i)")
      (auto simp: handle_init_via_relay_def Let_def ok intro!: initial_respond_wire [OF assms ok] relayed_send_wire)
qed

lemma handle_response_wire: "keeps wire_ok (handle_response C E i pkt)"
  by (auto simp: keeps_def handle_response_def Let_def session_wire_def
      split: peer_state.splits option.splits outcome.splits intro!: wire_upd)

lemma handle_transport_wire: "keeps wire_ok (handle_transport C E i pkt)"
  by (auto simp: keeps_def handle_transport_def device_write_def Let_def session_wire_def
      split: peer_state.splits option.splits outcome.splits prod.splits intro!: wire_upd)

lemma relayed_transport_wire: "keeps wire_ok (relayed_transport C E i pkt)"
  by (auto simp: keeps_def relayed_transport_def device_write_def Let_def session_wire_def
      split: peer_state.splits option.splits outcome.splits prod.splits intro!: wire_upd)

lemma handle_relay_wire:
  assumes "digest_sizes C" and "wire_ok m"
    and "pkt ! 0 = MESSAGE_TYPE_RELAY" "length pkt \<le> 2048" "pubkey_to_peer m (seg pkt 1 33) \<noteq> None"
  shows "wire_ok (snd (handle_relay C E source pkt m))"
proof -
  have "datagram_ok (pubkey_to_peer m) pkt" if "RELAY_HEADER_SIZE \<le> length pkt"
    using that assms(3-5) by (simp add: datagram_ok_def)
  with assms(2) show ?thesis
    by (auto simp: handle_relay_def Let_def not_less split: option.splits
        intro!: keepsD [OF relayed_transport_wire] keepsD [OF handle_init_via_relay_wire [OF assms(1)]]
          keepsD [OF handle_response_wire] wire_send)
qed

lemma guarded_init_wire: "digest_sizes C \<Longrightarrow> keeps wire_ok (guarded_init C E i source pkt)"
  unfolding guarded_init_def
  by (rule keeps_andthen [OF check_init_cookie_wire]) (simp add: handle_init_wire keeps_ret)

lemma handle_message_wire: "digest_sizes C \<Longrightarrow> keeps wire_ok (handle_message C E i source pkt)"
  by (simp add: handle_message_def guarded_init_wire handle_response_wire handle_transport_wire
      handle_cookie_wire keeps_ret)

lemma refresh_endpoint_wire: "wire_ok m \<Longrightarrow> wire_ok (refresh_endpoint E i source m)"
  by (auto simp: refresh_endpoint_def Let_def session_wire_def intro!: wire_upd)

lemma handle_incoming_wire:
  fixes C :: "('hs, 'ts) crypto"
  assumes "digest_sizes C" and "length pkt \<le> 2048"
  shows "keeps wire_ok (handle_incoming C E source pkt)"
proof (rule keepsI)
  fix m :: "('hs, 'ts) manager"
  assume ok: "wire_ok m"
  have message: "wire_ok (snd (handle_message C E i source pkt (refresh_endpoint E i source m)))"
    "wire_ok (snd (guarded_init C E i source pkt (refresh_endpoint E i source m)))" for i
    by (intro keepsD [OF handle_message_wire [OF assms(1)]] keepsD [OF guarded_init_wire [OF assms(1)]]
        refresh_endpoint_wire ok)+
  have noted: "wire_ok (upd_peer i (\<lambda>p. p\<lparr>last_rx_at := x\<rparr>) n)" if "wire_ok n" for i x n
    using that by (rule wire_upd) (simp add: session_wire_def)
  show "wire_ok (snd (handle_incoming C E source pkt m))"
    unfolding handle_incoming_def Let_def
    by (auto simp: ok message intro!: handle_relay_wire [OF assms(1)] noted assms(2) split: option.split)
qed

lemma drain_wire: "digest_sizes C \<Longrightarrow> keeps wire_ok (drain C as)"
proof (induction as)
  case (Cons a as)
  obtain E r where "a = (E, r)" by (cases a)
  with Cons show ?case
    by (cases r) (auto simp: keeps_def [of _ "\<lambda>m. (Err _, m)"] intro!: keeps_andthen handle_incoming_wire)
qed (simp add: keeps_ret)

lemma send_cached_init_wire:
  assumes "wire_ok m" and "init_ok msg"
  shows "wire_ok (snd (send_cached_init E i msg m))"
  using assms
  by (auto simp: send_cached_init_def Let_def session_wire_def init_ok_def intro!: wire_after_send wire_upd)

lemma init_tick_wire:
  assumes "digest_sizes C" and "wire_ok m" and "i < length (peers m)"
  shows "wire_ok (snd (init_tick C E i m))"
proof -
  note p = wire_session [OF assms(2,3)]
  show ?thesis
    using p assms(2) written_init_ok [OF assms(1)] with_cookie_ok [OF assms(1)]
    by (auto simp: init_tick_def Let_def session_wire_def
        split: peer_state.splits option.splits prod.splits outcome.splits
        intro!: send_cached_init_wire wire_upd)
qed

text \<open>A loop over the sessions, whose number no operation of the body changes.\<close>

definition wire_of :: "nat \<Rightarrow> ('hs, 'ts) manager \<Rightarrow> bool" where
  "wire_of k m \<longleftrightarrow> wire_ok m \<and> length (peers m) = k"

lemma wire_loop:
  fixes m :: "('hs, 'ts) manager"
  assumes "\<And>x. x \<in> set xs \<Longrightarrow> stays handler_frame (f x)"
    and "\<And>x n. x \<in> set xs \<Longrightarrow> wire_ok n \<Longrightarrow> length (peers n) = length (peers m) \<Longrightarrow> wire_ok (snd (f x n))"
    and "wire_ok m"
  shows "wire_ok (snd (for_each f xs m))"
proof -
  have "keeps (wire_of (length (peers m))) (for_each f xs)"
  proof (rule for_each_keeps, rule keepsI)
    fix x and n :: "('hs, 'ts) manager"
    assume x: "x \<in> set xs" and "wire_of (length (peers m)) n"
    then show "wire_of (length (peers m)) (snd (f x n))"
      using assms(2) [OF x, of n] staysD [OF assms(1) [OF x], of n] by (simp add: wire_of_def handler_frame_def)
  qed
  from keepsD [OF this, of m] assms(3) show ?thesis by (simp add: wire_of_def)
qed

lemma init_ticks_wire:
  assumes "digest_sizes C"
  shows "keeps wire_ok (init_ticks C E)"
  by (rule keepsI)
    (auto simp: init_ticks_def intro!: wire_loop init_tick_frame init_tick_wire [OF assms])

text \<open>Sending what a session encrypted.\<close>

lemma encrypted_send_wire:
  assumes "wire_ok m" and "state (peers m ! i) = Ready t sid rh" and "message_ok ct" and "pub = local_pub m"
  shows "wire_ok (snd (andthen (send_maybe_relay E ep r ip pub ct)
    (\<lambda>_ m1. (Ok (), upd_peer i (\<lambda>p. p\<lparr>last_tx_at := x\<rparr>) m1)) (upd_peer i (\<lambda>p. p\<lparr>state := Ready t' sid rh\<rparr>) m)))"
proof (rule wire_after_send)
  show "wire_ok (upd_peer i (\<lambda>p. p\<lparr>state := Ready t' sid rh\<rparr>) m)"
    using assms(1,2) by (auto simp: session_wire_def intro!: wire_upd)
qed (use assms in \<open>auto simp: session_wire_def intro!: wire_upd\<close>)

lemma dispatch_wire:
  fixes C :: "('hs, 'ts) crypto"
  assumes "tag_sizes C" and "length pkt \<le> 1500"
  shows "keeps wire_ok (dispatch_tun_packet C E pkt)"
proof (rule keepsI)
  fix m :: "('hs, 'ts) manager"
  assume ok: "wire_ok m"
  have upd: "wire_ok (upd_peer i (\<lambda>p. p\<lparr>state := Ready t' sid rh\<rparr>) m)"
    if "state (peers m ! i) = Ready t sid rh" for i t t' sid rh
    using ok that by (auto simp: session_wire_def intro!: wire_upd)
  show "wire_ok (snd (dispatch_tun_packet C E pkt m))"
    by (auto simp: dispatch_tun_packet_def Let_def ok upd encrypted_ok [OF assms(1) _ assms(2)]
        split: option.splits peer_state.splits prod.splits outcome.splits intro!: encrypted_send_wire)
qed

lemma read_device_wire: "tag_sizes C \<Longrightarrow> keeps wire_ok (read_device C E)"
  by (auto simp: keeps_def read_device_def split: sum.splits option.splits intro!: keepsD [OF dispatch_wire])

fun action_ok :: "'hs action \<Rightarrow> bool" where
  "action_ok (StartRekey ini msg) = init_ok msg"
| "action_ok _ = True"

lemma cookie_init_ok:
  "digest_sizes C \<Longrightarrow> write_init C i = (Ok msg, i') \<Longrightarrow> init_ok (init_with_cookie C c msg)"
  using with_cookie_ok written_init_ok by blast

lemma planned_ok:
  assumes sizes: "digest_sizes C" and "(i, a) \<in> set (plan C E m)"
  shows "action_ok a" "i < length (peers m)"
proof -
  have a: "a \<in> set (plan_peer C E (mcfg m) i (peers m ! i))" "i < length (peers m)"
    using assms(2) by (auto simp: plan_def)
  then show "action_ok a"
    by (auto simp: plan_peer_def build_rekey_def split: if_splits peer_state.splits option.splits outcome.splits prod.splits
        intro: cookie_init_ok [OF sizes sym])
  show "i < length (peers m)" by (rule a(2))
qed

lemma perform_wire:
  fixes m :: "('hs, 'ts) manager"
  assumes "tag_sizes C" and "action_ok a" and "wire_ok m" and "i < length (peers m)"
  shows "wire_ok (snd (perform C E (i, a) m))"
proof -
  note ok = assms(3)
  have session: "session_wire (peers m ! i)" by (rule wire_session [OF assms(3,4)])
  show ?thesis
  proof (cases a)
    case MarkStale
    with ok show ?thesis by (auto simp: session_wire_def intro!: wire_upd)
  next
    case SendKeepalive
    have upd: "wire_ok (upd_peer i (\<lambda>p. p\<lparr>state := Ready t' sid rh\<rparr>) m)"
      if "state (peers m ! i) = Ready t sid rh" for t t' sid rh
      using ok that by (auto simp: session_wire_def intro!: wire_upd)
    show ?thesis
      using SendKeepalive encrypted_ok [OF assms(1)]
      by (auto simp: send_keepalive_def Let_def ok upd
          split: peer_state.splits prod.splits outcome.splits intro!: encrypted_send_wire)
  next
    case (StartRekey ini msg)
    have "state_wire (set_rehandshake rs st)" if "init_ok (rh_init_msg rs)" for rs and st :: "('hs, 'ts) peer_state"
      using that by (cases st) simp_all
    with StartRekey assms(2) ok show ?thesis
      by (auto simp: start_rekey_def Let_def session_wire_def init_ok_def intro!: wire_after_send wire_upd)
  next
    case RetryRekey
    with session ok show ?thesis
      by (auto simp: retry_rekey_def Let_def session_wire_def init_ok_def
          split: peer_state.split option.split intro!: wire_after_send wire_upd)
  qed
qed

lemma maintenance_wire:
  fixes C :: "('hs, 'ts) crypto"
  assumes "digest_sizes C" and "tag_sizes C"
  shows "keeps wire_ok (maintenance C E)"
proof (rule keepsI)
  fix m :: "('hs, 'ts) manager"
  assume ok: "wire_ok m"
  define m1 where "m1 = rotate_cookie_secret E (m\<lparr>last_maintenance_at := now E\<rparr>)"
  have m1: "wire_ok m1"
    using ok by (simp add: m1_def rotate_cookie_secret_def wire_ok_def local_pub_def)
  have "wire_ok (snd (for_each (perform C E) (plan C E m1) m1))"
  proof (rule wire_loop)
    fix x :: "nat \<times> 'hs action" and n :: "('hs, 'ts) manager"
    assume x: "x \<in> set (plan C E m1)"
    show "stays handler_frame (perform C E x)" by (cases x) (simp add: perform_frame)
    assume n: "wire_ok n" "length (peers n) = length (peers m1)"
    obtain i a where xi: "x = (i, a)" by (cases x)
    show "wire_ok (snd (perform C E x n))"
      unfolding xi using planned_ok [OF assms(1) x [unfolded xi]] n
      by (intro perform_wire [OF assms(2)]) simp_all
  qed (rule m1)
  with ok show "wire_ok (snd (maintenance C E m))" by (simp add: maintenance_def Let_def m1_def)
qed

lemma step_wire: "digest_sizes C \<Longrightarrow> tag_sizes C \<Longrightarrow> keeps wire_ok (step C input)"
  unfolding step_def
  by (intro keeps_andthen drain_wire init_ticks_wire read_device_wire maintenance_wire)

lemma new_session_wire:
  assumes "session_new C E kp i cfg = Ok s"
  shows "session_wire s"
  using assms by (auto simp: session_new_def try_ok_Ok_iff session_wire_def split: if_splits outcome.splits)

lemma datagram_more_known:
  "datagram_ok known pkt \<Longrightarrow> datagram_ok (known(k \<mapsto> i)) pkt"
  by (auto simp: datagram_ok_def)

lemma push_session_wire:
  "wire_ok m \<Longrightarrow> session_wire s \<Longrightarrow> wire_ok (push_session cfg s m)"
  by (auto simp: wire_ok_def push_session_def local_pub_def intro: datagram_more_known)

lemma apply_op_wire:
  assumes "digest_sizes C" and "tag_sizes C" and "wire_ok m"
  shows "wire_ok (apply_op C op m)"
proof (cases op)
  case (Step input)
  then show ?thesis using keepsD [OF step_wire [OF assms(1,2)] assms(3)] by simp
next
  case (AddPeer E cfg)
  then show ?thesis
    using assms(3)
    by (cases rule: add_peer_cases [of m cfg C E]) (auto intro: push_session_wire new_session_wire)
qed

section \<open>Well-typed traffic\<close>

lemma new_sessions_wire:
  "new_sessions C E i cfgs m = Ok m' \<Longrightarrow> wire_ok m \<Longrightarrow> i = length (peers m) \<Longrightarrow> wire_ok m'"
proof (induction cfgs arbitrary: m i)
  case (Cons cfg cfgs)
  from Cons.prems obtain s where s: "session_new C E (local_keypair (mcfg m)) i cfg = Ok s"
    and rest: "new_sessions C E (Suc i) cfgs (push_session cfg s m) = Ok m'"
    by (auto simp: try_ok_Ok_iff push_session_def)
  have "wire_ok (push_session cfg s m)" by (rule push_session_wire [OF Cons.prems(2) new_session_wire [OF s]])
  with Cons.IH [OF rest] Cons.prems(3) show ?case by (simp add: push_session_def)
qed simp

lemma manager_new_wire:
  assumes "manager_new C E cfg pcs = Ok m" and "length (kp_public (local_keypair cfg)) = 32"
  shows "wire_ok m"
  by (rule new_sessions_wire [OF assms(1) [unfolded manager_new_def]])
    (use assms(2) in \<open>simp_all add: wire_ok_def local_pub_def\<close>)

lemma run_wire:
  assumes "digest_sizes C" and "tag_sizes C"
  shows "wire_ok m \<Longrightarrow> wire_ok (fold (apply_op C) ops m)"
  by (induction ops arbitrary: m) (simp_all add: apply_op_wire [OF assms])


lemma demo_written_init:
  obtains ini msg ini' where "initiator_new plain demo_keys (replicate 32 5) (zeros 32) 2 (Tai64N 1000 0) 11 = Ok ini"
    "write_init plain ini = (Ok msg, ini')"
proof -
  obtain ini where i: "initiator_new plain demo_keys (replicate 32 5) (zeros 32) 2 (Tai64N 1000 0) 11 = Ok ini"
    "i_state ini = plain_hs0 0 (replicate 32 6) (zeros 32) (replicate 32 5) 11" "i_timestamp ini = Tai64N 1000 0"
    by (simp add: initiator_new_def) (simp add: plain_def)
  obtain m hs where w: "hs_write plain (i_state ini) (tai_to_bytes (i_timestamp ini)) 108 = (Inr m, hs)" "length m = 108"
    by (simp add: i plain_def plain_hs_write_def plain_hs0_def)
  then obtain msg ini' where "write_init plain ini = (Ok msg, ini')"
    by (simp add: write_init_eq [OF plain_digest_sizes])
  with i(1) show ?thesis by (rule that)
qed


end
