(* ===== verification/Coord_Directory.thy ===== *)
theory Coord_Directory
  imports Coord_Props
begin

text \<open>
  What the coordination server promises, without its tables: a directory of members and of the
  credentials that speak for them.  The handlers of \<open>Coord_Routes\<close> refine it, request by request,
  and what holds of every history of the directory holds of the server.
\<close>

section \<open>The abstract directory\<close>

record directory =
  members :: "string \<Rightarrow> node_record option"
  credentials :: "string \<Rightarrow> (string \<times> i64) option"

definition empty_directory :: directory where
  "empty_directory = \<lparr>members = Map.empty, credentials = Map.empty\<rparr>"

text \<open>The member a credential speaks for, before its expiry.\<close>

definition holder :: "directory \<Rightarrow> string \<Rightarrow> i64 \<Rightarrow> node_record option" where
  "holder D tok now =
     (case credentials D tok of
        None \<Rightarrow> None
      | Some (i, expiry) \<Rightarrow> if sint now < sint expiry then members D i else None)"

definition owner :: "coord_env \<Rightarrow> directory \<Rightarrow> string option \<Rightarrow> node_record option" where
  "owner E D headers =
     (case extract_bearer headers of Ok tok \<Rightarrow> holder D tok (clock E) | _ \<Rightarrow> None)"

definition without :: "string \<Rightarrow> (string \<Rightarrow> (string \<times> i64) option) \<Rightarrow> string \<Rightarrow> (string \<times> i64) option" where
  "without i m = (\<lambda>t. case m t of Some (j, x) \<Rightarrow> if j = i then None else Some (j, x) | None \<Rightarrow> None)"

definition join_directory :: "node_record \<Rightarrow> string \<Rightarrow> i64 \<Rightarrow> directory \<Rightarrow> directory" where
  "join_directory n tok expiry D =
     D\<lparr>members := (members D)(n_node_id n \<mapsto> n), credentials := (credentials D)(tok \<mapsto> (n_node_id n, expiry))\<rparr>"

definition announce_at :: "string \<Rightarrow> string \<Rightarrow> string option \<Rightarrow> i64 \<Rightarrow> directory \<Rightarrow> directory" where
  "announce_at i endpoint relay now D =
     D\<lparr>members := (members D)(i := map_option
         (\<lambda>n. n\<lparr>n_last_endpoint := Some endpoint, n_via_relay := coalesce relay (n_via_relay n),
                n_last_seen := Some now\<rparr>) (members D i))\<rparr>"

definition rotate :: "string \<Rightarrow> string \<Rightarrow> i64 \<Rightarrow> directory \<Rightarrow> directory" where
  "rotate i tok expiry D = D\<lparr>credentials := (without i (credentials D))(tok \<mapsto> (i, expiry))\<rparr>"

definition leave :: "string \<Rightarrow> directory \<Rightarrow> directory" where
  "leave i D = D\<lparr>members := (members D)(i := None), credentials := without i (credentials D)\<rparr>"

text \<open>The new member that an answered registration describes.\<close>

definition enrolled :: "coord_libs \<Rightarrow> coord_env \<Rightarrow> register_request \<Rightarrow> register_response \<Rightarrow> node_record" where
  "enrolled X E req rs =
     (let key = (\<lambda>t. case decode_pubkey X t of Ok k \<Rightarrow> k | _ \<Rightarrow> []) in
      \<lparr>n_node_id = rs_node_id rs, n_identity = key (rq_identity_pubkey req), n_wg = key (rq_wg_pubkey req),
       n_ip = rs_ip rs, n_last_endpoint = None, n_via_relay = None, n_last_seen = None, n_created_at = clock E\<rparr>)"

fun directory_step :: "coord_libs \<Rightarrow> coord_env \<times> http_request \<Rightarrow> http_response \<Rightarrow> directory \<Rightarrow> directory" where
  "directory_step X (E, PostRegister req) (RegisteredResponse rs) D =
     join_directory (enrolled X E req rs) (rs_auth_token rs) (rs_auth_token_expires_at rs) D"
| "directory_step X (E, PostHeartbeat h hb) (StatusResponse c) D =
     (case owner E D h of
        Some n \<Rightarrow> announce_at (n_node_id n) (hb_endpoint hb) (hb_via_relay hb) (clock E) D | None \<Rightarrow> D)"
| "directory_step X (E, PostTokenRefresh h sg) (RefreshedResponse rf) D =
     (case owner E D h of
        Some n \<Rightarrow> rotate (n_node_id n) (rf_auth_token rf) (rf_auth_token_expires_at rf) D | None \<Rightarrow> D)"
| "directory_step X (E, DeleteNode h sg) (StatusResponse c) D =
     (case owner E D h of Some n \<Rightarrow> leave (n_node_id n) D | None \<Rightarrow> D)"
| "directory_step X r resp D = D"

text \<open>The answers the directory permits.  No request makes the server panic.\<close>

definition newcomer :: "directory \<Rightarrow> node_record \<Rightarrow> bool" where
  "newcomer D n \<longleftrightarrow>
     (\<forall>i m. members D i = Some m \<longrightarrow>
        i \<noteq> n_node_id n \<and> n_identity m \<noteq> n_identity n \<and> n_wg m \<noteq> n_wg n \<and> n_ip m \<noteq> n_ip n)"

fun permits :: "coord_libs \<Rightarrow> coord_env \<times> http_request \<Rightarrow> http_response \<Rightarrow> directory \<Rightarrow> bool" where
  "permits X (E, PostRegister req) (RegisteredResponse rs) D \<longleftrightarrow>
     newcomer D (enrolled X E req rs) \<and> credentials D (rs_auth_token rs) = None"
| "permits X (E, GetPeers h) (PeersResponse ps) D \<longleftrightarrow>
     (\<exists>n. owner E D h = Some n \<and> set ps = peer_entry_of X ` (ran (members D) - {n}))"
| "permits X (E, PostHeartbeat h hb) (StatusResponse c) D \<longleftrightarrow> c = 200 \<and> owner E D h \<noteq> None"
| "permits X (E, PostTokenRefresh h sg) (RefreshedResponse rf) D \<longleftrightarrow>
     owner E D h \<noteq> None \<and> credentials D (rf_auth_token rf) = None"
| "permits X (E, DeleteNode h sg) (StatusResponse c) D \<longleftrightarrow> c = 204 \<and> owner E D h \<noteq> None"
| "permits X (E, GetHealth) (HealthResponse t) D \<longleftrightarrow> t = ''ok''"
| "permits X r (ErrorResponse st retry) D \<longleftrightarrow> True"
| "permits X r resp D \<longleftrightarrow> False"

section \<open>The directory in the tables\<close>

definition directory_of :: "db \<Rightarrow> directory" where
  "directory_of d =
     \<lparr>members = (\<lambda>i. first_row (filter (\<lambda>n. n_node_id n = i) (db_nodes d))),
      credentials = (\<lambda>tok. map_option (\<lambda>t. (t_node_id t, t_expires_at t))
        (first_row (filter (\<lambda>t. t_token t = tok \<and> \<not> t_revoked t) (db_tokens d))))\<rparr>"

lemma first_row_unique:
  assumes "\<And>x y. x \<in> set xs \<Longrightarrow> y \<in> set xs \<Longrightarrow> P x \<Longrightarrow> P y \<Longrightarrow> x = y"
  shows "first_row (filter P xs) = Some x \<longleftrightarrow> x \<in> set xs \<and> P x"
proof
  assume r: "x \<in> set xs \<and> P x"
  then obtain y where y: "first_row (filter P xs) = Some y"
    by (cases "filter P xs") (auto simp: filter_empty_conv)
  then have "y \<in> set xs \<and> P y" using first_row_Some [OF y] by simp
  with assms r have "y = x" by blast
  with y show "first_row (filter P xs) = Some x" by simp
qed (use first_row_Some in force)

lemma members_iff:
  "db_ok d \<Longrightarrow> members (directory_of d) i = Some n \<longleftrightarrow> n \<in> set (db_nodes d) \<and> n_node_id n = i"
  unfolding directory_of_def directory.select_convs
  by (rule first_row_unique) (metis db_ok_def distinct_key)

lemma credentials_iff:
  assumes "db_ok d"
  shows "credentials (directory_of d) tok = Some c \<longleftrightarrow>
    (\<exists>t \<in> set (db_tokens d). t_token t = tok \<and> \<not> t_revoked t \<and> c = (t_node_id t, t_expires_at t))"
proof -
  have "first_row (filter (\<lambda>t. t_token t = tok \<and> \<not> t_revoked t) (db_tokens d)) = Some t \<longleftrightarrow>
      t \<in> set (db_tokens d) \<and> t_token t = tok \<and> \<not> t_revoked t" for t
    by (rule first_row_unique) (metis assms db_ok_def distinct_key)
  then show ?thesis by (auto simp: directory_of_def)
qed

lemma option_eqI: "(\<And>v. x = Some v \<longleftrightarrow> y = Some v) \<Longrightarrow> x = y"
  by (cases x; cases y) auto

lemma map_eqI: "(\<And>k v. m k = Some v \<longleftrightarrow> m' k = Some v) \<Longrightarrow> m = m'"
  by (rule ext, rule option_eqI)

lemma without_iff: "without i m t = Some c \<longleftrightarrow> m t = Some c \<and> fst c \<noteq> i"
  by (cases c) (auto simp: without_def split: option.splits prod.splits)

lemma holder_iff:
  "holder D tok now = Some n \<longleftrightarrow>
     (\<exists>i x. credentials D tok = Some (i, x) \<and> sint now < sint x \<and> members D i = Some n)"
  by (auto simp: holder_def split: option.splits)

lemma lookup_is_holder:
  assumes "db_ok d"
  shows "get_node_by_token d tok now = holder (directory_of d) tok now"
proof (rule option_eqI)
  fix n
  show "get_node_by_token d tok now = Some n \<longleftrightarrow> holder (directory_of d) tok now = Some n"
  proof
    assume "get_node_by_token d tok now = Some n"
    then obtain t where t: "n \<in> set (db_nodes d)" "t \<in> set (db_tokens d)" "t_token t = tok"
      "t_node_id t = n_node_id n" "token_live now t" by (rule get_node_by_token_SomeD)
    then have "credentials (directory_of d) tok = Some (n_node_id n, t_expires_at t)"
      unfolding credentials_iff [OF assms] by (intro bexI [of _ t]) (simp_all add: token_live_def)
    moreover have "members (directory_of d) (n_node_id n) = Some n" using t(1) by (simp add: members_iff [OF assms])
    ultimately show "holder (directory_of d) tok now = Some n"
      using t(5) by (simp add: holder_def token_live_def)
  next
    assume "holder (directory_of d) tok now = Some n"
    then obtain i x where h: "credentials (directory_of d) tok = Some (i, x)" "sint now < sint x"
      "members (directory_of d) i = Some n" unfolding holder_iff by blast
    from h(1) obtain t where t: "t \<in> set (db_tokens d)" "t_token t = tok" "\<not> t_revoked t" "i = t_node_id t"
      "x = t_expires_at t" unfolding credentials_iff [OF assms] by blast
    with h(2,3) show "get_node_by_token d tok now = Some n"
      unfolding get_node_by_token_iff [OF assms] members_iff [OF assms]
      by (intro conjI bexI [of _ t]) (simp_all add: token_live_def)
  qed
qed

lemma ran_members: "db_ok d \<Longrightarrow> ran (members (directory_of d)) = set (db_nodes d)"
  by (auto simp: ran_def members_iff)

lemma directory_eqI:
  fixes D D' :: directory
  assumes "\<And>i n. members D i = Some n \<longleftrightarrow> members D' i = Some n"
    and "\<And>t c. credentials D t = Some c \<longleftrightarrow> credentials D' t = Some c"
  shows "D = D'"
proof -
  have "members D = members D'" by (rule map_eqI) (rule assms(1))
  moreover have "credentials D = credentials D'" by (rule map_eqI) (rule assms(2))
  ultimately show ?thesis by simp
qed

section \<open>Each table operation is the directory's\<close>

lemma insert_node_joins:
  assumes "db_ok d" and "insert_node fk n tok ttl d = (Ok (), d')"
    and n: "n_last_endpoint n = None" "n_last_seen n = None"
  shows "directory_of d' = join_directory n tok (n_created_at n + ttl) (directory_of d)"
    and "newcomer (directory_of d) n"
proof -
  note I = insert_node_Ok [OF assms(2)]
  have d': "db_ok d'" using insert_node_ok [OF assms(1), of fk n tok ttl] assms(2) by simp
  have n': "n\<lparr>n_last_endpoint := None, n_last_seen := None\<rparr> = n" using n by (cases n) simp
  show "newcomer (directory_of d) n"
    using I(3) by (auto simp: newcomer_def members_iff [OF assms(1)])
  have fresh: "t_token t \<noteq> tok" if "t \<in> set (db_tokens d)" for t
    using d' that unfolding db_ok_def I(2) by auto
  have ids: "n_node_id r \<noteq> n_node_id n" if "r \<in> set (db_nodes d)" for r using I(3) that by blast
  show "directory_of d' = join_directory n tok (n_created_at n + ttl) (directory_of d)"
  proof (rule directory_eqI)
    fix i m
    have "members (directory_of d') i = Some m \<longleftrightarrow> (m = n \<or> m \<in> set (db_nodes d)) \<and> n_node_id m = i"
      unfolding members_iff [OF d'] I(1) n' by auto
    also have "\<dots> \<longleftrightarrow> members (join_directory n tok (n_created_at n + ttl) (directory_of d)) i = Some m"
      using ids by (auto simp: join_directory_def members_iff [OF assms(1)])
    finally show "members (directory_of d') i = Some m \<longleftrightarrow>
        members (join_directory n tok (n_created_at n + ttl) (directory_of d)) i = Some m" .
  next
    fix t c
    show "credentials (directory_of d') t = Some c \<longleftrightarrow>
        credentials (join_directory n tok (n_created_at n + ttl) (directory_of d)) t = Some c"
    proof (cases "t = tok")
      case True
      then show ?thesis using fresh by (auto simp: join_directory_def credentials_iff [OF d'] I(2))
    qed (simp add: join_directory_def credentials_iff [OF d'] credentials_iff [OF assms(1)] I(2))
  qed
qed

lemma update_announces:
  assumes "db_ok d"
  shows "directory_of (update_heartbeat i e r now d) = announce_at i e r now (directory_of d)"
proof -
  have d': "db_ok (update_heartbeat i e r now d)"
    unfolding update_heartbeat_def by (rule update_nodes_ok [OF assms]) simp
  have tokens: "db_tokens (update_heartbeat i e r now d) = db_tokens d"
    by (simp add: update_heartbeat_def update_nodes_def)
  show ?thesis
  proof (rule directory_eqI)
    fix j n
    show "members (directory_of (update_heartbeat i e r now d)) j = Some n \<longleftrightarrow>
        members (announce_at i e r now (directory_of d)) j = Some n"
      unfolding members_iff [OF d']
      by (auto simp: update_heartbeat_def update_nodes_def announce_at_def members_iff [OF assms])
  qed (simp add: announce_at_def credentials_iff [OF d'] credentials_iff [OF assms] tokens)
qed

lemma refresh_rotates:
  assumes "db_ok d" and "n \<in> set (db_nodes d)"
    and "create_token fk (n_node_id n) tok now ttl (snd (revoke_all_tokens_for_node (n_node_id n) d)) = (Ok (), d')"
  shows "directory_of d' = rotate (n_node_id n) tok (now + ttl) (directory_of d)"
proof -
  let ?r = "snd (revoke_all_tokens_for_node (n_node_id n) d)"
  have r: "db_ok ?r" "db_nodes ?r = db_nodes d"
    using revoke_ok [OF assms(1)] by (simp_all add: revoke_all_tokens_for_node_def Let_def)
  have fresh: "\<forall>t \<in> set (db_tokens ?r). t_token t \<noteq> tok"
    and d': "db_nodes d' = db_nodes d"
      "db_tokens d' = db_tokens ?r @ [\<lparr>t_token = tok, t_node_id = n_node_id n, t_created_at = now,
         t_expires_at = now + ttl, t_revoked = False\<rparr>]"
    using assms(3) r(2) by (auto simp: create_token_def insert_token_row_def list_ex_iff split: if_splits)
  have ok: "db_ok d'"
    using assms(2,3) insert_token_row_ok [OF _ r(1)] r(2)
    by (metis create_token_def imageI snd_conv token_record.select_convs(2))
  have unrevoked: "t \<in> set (db_tokens ?r) \<and> \<not> t_revoked t \<longleftrightarrow>
      t \<in> set (db_tokens d) \<and> \<not> t_revoked t \<and> t_node_id t \<noteq> n_node_id n" for t
    by (auto simp: revoke_all_tokens_for_node_def Let_def split: if_splits)
  have "credentials (directory_of d') t = Some c \<longleftrightarrow>
      credentials (rotate (n_node_id n) tok (now + ttl) (directory_of d)) t = Some c" for t c
  proof (cases "t = tok")
    case True
    then show ?thesis using fresh by (auto simp: rotate_def credentials_iff [OF ok] d'(2))
  next
    case False
    have "credentials (directory_of d') t = Some c \<longleftrightarrow>
        (\<exists>u. (u \<in> set (db_tokens ?r) \<and> \<not> t_revoked u) \<and> t_token u = t \<and> c = (t_node_id u, t_expires_at u))"
      unfolding credentials_iff [OF ok] d'(2) using False by auto
    also have "\<dots> \<longleftrightarrow> credentials (directory_of d) t = Some c \<and> fst c \<noteq> n_node_id n"
      unfolding unrevoked credentials_iff [OF assms(1)] by auto
    finally show ?thesis using False by (simp add: rotate_def without_iff)
  qed
  then show ?thesis
    by (intro directory_eqI) (simp_all add: rotate_def members_iff [OF ok] members_iff [OF assms(1)] d')
qed

lemma delete_leaves:
  assumes "db_ok d"
  shows "directory_of (snd (db_delete_node i d)) = leave i (directory_of d)"
proof -
  have d': "db_ok (snd (db_delete_node i d))" by (rule db_delete_node_ok [OF assms])
  have rows: "db_nodes (snd (db_delete_node i d)) = filter (\<lambda>n. n_node_id n \<noteq> i) (db_nodes d)"
    "db_tokens (snd (db_delete_node i d)) = filter (\<lambda>t. t_node_id t \<noteq> i) (db_tokens d)"
    by (simp_all add: db_delete_node_def Let_def)
  show ?thesis
    unfolding leave_def
    by (intro directory_eqI)
      (auto simp: without_iff members_iff [OF d'] members_iff [OF assms] credentials_iff [OF d']
        credentials_iff [OF assms] rows)
qed

section \<open>Requests that fail change nothing, and none panics\<close>

lemma andthen_Panic_iff:
  "andthen f g s = (Panic p, t) \<longleftrightarrow>
     f s = (Panic p, t) \<or> (\<exists>x u. f s = (Ok x, u) \<and> g x u = (Panic p, t))"
  by (auto simp: andthen_def split: prod.splits outcome.splits)

lemma no_panic_steps [simp]:
  "check_rate_limit E b s \<noteq> (Panic p, t)" "caller_of E tok s \<noteq> (Panic p, t)"
  "pure_act q s = (Panic p, t) \<longleftrightarrow> q = Panic p \<and> t = s"
  "decode_pubkey X x \<noteq> Panic p" "decode_signature X x \<noteq> Panic p" "extract_bearer h \<noteq> Panic p"
  "validate_timestamp now ts \<noteq> Panic p" "verify_register_signature C i w ts sig \<noteq> Panic p"
  "verify_heartbeat_signature C i e r ts sig \<noteq> Panic p" "valid_relay r \<noteq> Panic p"
  "key_array bs = Panic p \<longleftrightarrow>
     length bs \<noteq> 32 \<and> p = ''copy_from_slice: source slice length does not match destination slice length''"
  by (auto simp: check_rate_limit_def check_def Let_def caller_of_def pure_act_def decode_pubkey_def
      decode_signature_def extract_bearer_def validate_timestamp_def verify_register_signature_def
      verify_heartbeat_signature_def valid_relay_def key_array_def split: option.splits sum.splits if_splits)

lemma caller_key_length:
  assumes "coord_ok s" and "same_data s u" and "get_node_by_token (cdb u) tok now = Some n"
  shows "length (n_identity n) = 32"
  using assms caller_in_nodes [of s tok now n] by (auto simp: same_data_def coord_ok_def node_ok_def)

lemma checks_no_panic:
  assumes "coord_ok s"
  shows "register_checks C X E rq s \<noteq> (Panic p, t)"
    "signed_caller C X E h sg msg s \<noteq> (Panic p, t)"
    "heartbeat_checks C X E h hb s \<noteq> (Panic p, t)"
    "peers_route X E h s \<noteq> (Panic p, t)"
  using assms
  by (auto simp: register_checks_def signed_caller_def heartbeat_checks_def peers_route_def andthen_Panic_iff
      ret_def dest!: check_rate_limit_OkD intro: caller_key_length split: if_splits)

lemma get_token_None: "get_token d tok = None \<longleftrightarrow> (\<forall>t \<in> set (db_tokens d). t_token t \<noteq> tok)"
  by (auto simp: get_token_def first_row_None filter_empty_conv)

lemma insert_node_fails:
  assumes "insert_node fk n tok ttl d = (r, d')" and "get_token d tok = None" and "\<not> is_ok r"
  shows "d' = d \<and> \<not> is_panic r"
  using assms
  by (auto simp: insert_node_def andthen_def insert_node_row_def insert_token_row_def get_token_None list_ex_iff
      split: if_splits)

lemma register_fails:
  assumes ok: "coord_ok s" and fresh: "get_token (cdb s) (generate_token X E) = None"
    and r: "register C X E req s = (r, s')" "\<not> is_ok r"
  shows "cdb s' = cdb s \<and> \<not> is_panic r"
proof -
  obtain c u where c: "register_checks C X E req s = (c, u)" by (cases "register_checks C X E req s")
  have same: "cdb u = cdb s" using stays_result [OF register_checks_same c] by (simp add: same_data_def)
  show ?thesis
  proof (cases c)
    case (Ok k)
    with r(1) c have commit: "register_commit X E k u = (r, s')" by (simp add: register_eq andthen_def)
    obtain a used where al: "allocate (ip_alloc u) = (a, used)" by (cases "allocate (ip_alloc u)")
    show ?thesis
    proof (cases a)
      case (Ok ip)
      obtain q d where ins: "insert_node (fk_enforced X) (new_node E (fst k) (snd k) ip) (generate_token X E)
          (token_ttl_secs u) (cdb u) = (q, d)" by fastforce
      from commit al Ok ins have "s' = u\<lparr>ip_alloc := used, cdb := d\<rparr>" "is_ok r = is_ok q" "is_panic r = is_panic q"
        by (cases q; auto simp: register_commit_def with_ips_def with_db_def andthen_def ret_def)+
      with insert_node_fails [OF ins] fresh same r(2) show ?thesis by simp
    next
      case (Err e)
      with commit al same show ?thesis by (auto simp: register_commit_def with_ips_def andthen_def)
    next
      case (Panic p)
      with al show ?thesis by (simp add: allocate_def split: option.splits)
    qed
  next
    case (Err e)
    with r c same show ?thesis by (auto simp: register_eq andthen_def)
  next
    case (Panic p)
    with c checks_no_panic(1) [OF ok] show ?thesis by blast
  qed
qed

text \<open>A route whose commit cannot fail.\<close>

lemma checked_fails:
  assumes "stays same_data checks" and "\<And>p t. checks s \<noteq> (Panic p, t)"
    and "andthen checks commit s = (r, s')" and "\<not> is_ok r"
    and "\<And>x u. checks s = (Ok x, u) \<Longrightarrow> is_ok (fst (commit x u))"
  shows "cdb s' = cdb s \<and> \<not> is_panic r"
proof -
  obtain c u where c: "checks s = (c, u)" by (cases "checks s")
  have same: "cdb u = cdb s" using stays_result [OF assms(1) c] by (simp add: same_data_def)
  show ?thesis
  proof (cases c)
    case (Ok x)
    with assms(3,4) assms(5) [of x u] c show ?thesis by (simp add: andthen_def)
  qed (use assms(2-4) c same in \<open>auto simp: andthen_def\<close>)
qed

lemma refresh_fails:
  assumes ok: "coord_ok s" and fresh: "get_token (cdb s) (generate_token X E) = None"
    and r: "refresh_token C X E h sg s = (r, s')" "\<not> is_ok r"
  shows "cdb s' = cdb s \<and> \<not> is_panic r"
proof (rule checked_fails [OF signed_caller_same checks_no_panic(2) [OF ok] r(1) [unfolded refresh_token_def] r(2)])
  fix n u assume c: "signed_caller C X E h sg build_refresh_message s = (Ok n, u)"
  then obtain tok where t: "get_node_by_token (cdb s) tok (clock E) = Some n" and same: "same_data s u"
    by (rule signed_caller_OkD)
  have n: "n \<in> set (db_nodes (cdb u))" using caller_in_nodes [OF ok t] same by (simp add: same_data_def)
  have "get_token (snd (revoke_all_tokens_for_node (n_node_id n) (cdb u))) (generate_token X E) = None"
    using fresh same
    by (auto simp: get_token_None revoke_all_tokens_for_node_def Let_def same_data_def split: if_splits)
  moreover have "db_nodes (snd (revoke_all_tokens_for_node (n_node_id n) (cdb u))) = db_nodes (cdb u)"
    by (simp add: revoke_all_tokens_for_node_def Let_def)
  ultimately show "is_ok (fst ((let s1 = u\<lparr>cdb := snd (revoke_all_tokens_for_node (n_node_id n) (cdb u))\<rparr>;
           new_token = generate_token X E; ttl = token_ttl_secs u
       in andthen (with_db (create_token (fk_enforced X) (n_node_id n) new_token (clock E) ttl))
            (\<lambda>_. ret \<lparr>rf_auth_token = new_token, rf_auth_token_expires_at = clock E + ttl,
                      rf_old_token_expires_at = clock E + ttl\<rparr>) s1)))"
    using n
    by (auto simp: Let_def andthen_def with_db_def create_token_def insert_token_row_def get_token_None list_ex_iff
        ret_def split: prod.splits)
qed

lemma heartbeat_fails:
  assumes "coord_ok s" and "heartbeat C X E h hb s = (r, s')" and "\<not> is_ok r"
  shows "cdb s' = cdb s \<and> \<not> is_panic r"
  by (rule checked_fails [OF heartbeat_checks_same checks_no_panic(3) [OF assms(1)] assms(2) [unfolded heartbeat_eq] assms(3)])
    (simp add: heartbeat_commit_def)

lemma delete_fails:
  assumes "coord_ok s" and "delete_node C X E h sg s = (r, s')" and "\<not> is_ok r"
  shows "cdb s' = cdb s \<and> \<not> is_panic r"
  by (rule checked_fails [OF signed_caller_same checks_no_panic(2) [OF assms(1)] assms(2) [unfolded delete_node_def] assms(3)])
    (simp add: case_prod_beta Let_def)

section \<open>One request\<close>

abbreviation serve :: "('hs, 'ts) crypto \<Rightarrow> coord_libs \<Rightarrow> coord_env \<times> http_request \<Rightarrow> coord \<Rightarrow> http_response \<times> coord" where
  "serve C X r \<equiv> handle_request C X (fst r) (snd r)"

text \<open>The random token of the request is not in the table.\<close>

definition fresh_token :: "coord_libs \<Rightarrow> coord_env \<times> http_request \<Rightarrow> coord \<Rightarrow> bool" where
  "fresh_token X r s \<longleftrightarrow> get_token (cdb s) (generate_token X (fst r)) = None"

definition follows ::
  "coord_libs \<Rightarrow> coord_env \<times> http_request \<Rightarrow> coord \<Rightarrow> http_response \<times> coord \<Rightarrow> bool" where
  "follows X r s out \<longleftrightarrow>
     permits X r (fst out) (directory_of (cdb s)) \<and>
     directory_of (cdb (snd out)) = directory_step X r (fst out) (directory_of (cdb s))"

lemma owner_is_caller:
  assumes "db_ok d" and "extract_bearer h = Ok tok" and "get_node_by_token d tok (clock E) = Some n"
  shows "owner E (directory_of d) h = Some n"
  using assms(2,3) by (simp add: owner_def lookup_is_holder [OF assms(1)])

lemma failed_request_follows:
  assumes "cdb s' = cdb s \<and> \<not> is_panic q" and "\<not> is_ok q"
  shows "follows X r s (respond f (q, s'))"
  using assms by (cases q; cases r; cases "snd r") (auto simp: follows_def respond_def)

lemma fresh_no_credential:
  assumes "db_ok d" and "get_token d tok = None"
  shows "credentials (directory_of d) tok = None"
  using assms credentials_iff [OF assms(1), of tok]
  by (cases "credentials (directory_of d) tok") (auto simp: get_token_None)

lemma register_follows:
  assumes ok: "coord_ok s" and fresh: "get_token (cdb s) (generate_token X E) = None"
  shows "follows X (E, PostRegister req) s (respond RegisteredResponse (register C X E req s))"
proof -
  obtain q s' where r: "register C X E req s = (q, s')" by (cases "register C X E req s")
  have db: "db_ok (cdb s)" using ok by (simp add: coord_ok_def)
  show ?thesis
  proof (cases "is_ok q")
    case True
    then obtain resp where q: "q = Ok resp" unfolding is_ok_iff by blast
    obtain i w s1 ip used d where c: "register_checks C X E req s = (Ok (i, w), s1)"
      and ins: "insert_node (fk_enforced X) (new_node E i w ip) (generate_token X E) (token_ttl_secs s) (cdb s) = (Ok (), d)"
      and resp: "resp = \<lparr>rs_node_id = uuid E, rs_ip = show_ipv4 ip, rs_auth_token = generate_token X E,
             rs_auth_token_expires_at = clock E + token_ttl_secs s, rs_derp_url = ''''\<rparr>"
      and s': "cdb s' = d" by (rule register_OkD [OF r [unfolded q]])
    let ?n = "new_node E i w ip"
    have n: "enrolled X E req resp = ?n"
      using register_checks_OkD(6,7) [OF c] by (simp add: enrolled_def new_node_def resp Let_def)
    have "directory_of d = join_directory ?n (generate_token X E) (clock E + token_ttl_secs s) (directory_of (cdb s))"
      "newcomer (directory_of (cdb s)) ?n"
      using insert_node_joins [OF db ins] by (simp_all add: new_node_def)
    moreover have "credentials (directory_of (cdb s)) (generate_token X E) = None"
      by (rule fresh_no_credential [OF db fresh])
    ultimately show ?thesis
      by (simp add: r q respond_def follows_def n s') (simp add: resp)
  next
    case False
    from failed_request_follows [OF register_fails [OF ok fresh r False] False] r show ?thesis by simp
  qed
qed

lemma peers_follows:
  assumes ok: "coord_ok s"
  shows "follows X (E, GetPeers h) s (respond PeersResponse (peers_route X E h s))"
proof -
  obtain q s' where r: "peers_route X E h s = (q, s')" by (cases "peers_route X E h s")
  have db: "db_ok (cdb s)" using ok by (simp add: coord_ok_def)
  have same: "cdb s' = cdb s" using stays_result [OF peers_route_same r] by (simp add: same_data_def)
  show ?thesis
  proof (cases "is_ok q")
    case True
    then obtain ps where q: "q = Ok ps" unfolding is_ok_iff by blast
    obtain n tok where n: "extract_bearer h = Ok tok" "get_node_by_token (cdb s) tok (clock E) = Some n"
      "ps = map (peer_entry_of X) (filter (\<lambda>m. m \<noteq> n) (db_nodes (cdb s)))"
      using peers_effect [OF ok r [unfolded q]] by blast
    have "set ps = peer_entry_of X ` (ran (members (directory_of (cdb s))) - {n})"
      by (auto simp: n(3) ran_members [OF db])
    with owner_is_caller [OF db n(1,2)] show ?thesis
      by (simp add: r q respond_def follows_def same)
  next
    case False
    then have "cdb s' = cdb s \<and> \<not> is_panic q"
      using same r checks_no_panic(4) [OF ok, of X E h] by (cases q) auto
    from failed_request_follows [OF this False] r show ?thesis by simp
  qed
qed

lemma heartbeat_follows:
  assumes ok: "coord_ok s"
  shows "follows X (E, PostHeartbeat h hb) s (respond StatusResponse (heartbeat C X E h hb s))"
proof -
  obtain q s' where r: "heartbeat C X E h hb s = (q, s')" by (cases "heartbeat C X E h hb s")
  have db: "db_ok (cdb s)" using ok by (simp add: coord_ok_def)
  show ?thesis
  proof (cases "is_ok q")
    case True
    then obtain c where q: "q = Ok c" unfolding is_ok_iff by blast
    obtain n u where ch: "heartbeat_checks C X E h hb s = (Ok n, u)"
      and co: "heartbeat_commit E hb n u = (Ok c, s')"
      using r unfolding q heartbeat_eq andthen_Ok_iff by blast
    obtain tok where t: "same_data s u" "extract_bearer h = Ok tok" "get_node_by_token (cdb s) tok (clock E) = Some n"
      by (rule heartbeat_checks_OkD [OF ch])
    from co t(1) have "cdb s' = update_heartbeat (n_node_id n) (hb_endpoint hb) (hb_via_relay hb) (clock E) (cdb s)" "c = 200"
      by (auto simp: heartbeat_commit_def same_data_def)
    with owner_is_caller [OF db t(2,3)] show ?thesis
      by (simp add: r q respond_def follows_def update_announces [OF db])
  next
    case False
    from failed_request_follows [OF heartbeat_fails [OF ok r False] False] r show ?thesis by simp
  qed
qed

lemma refresh_follows:
  assumes ok: "coord_ok s" and fresh: "get_token (cdb s) (generate_token X E) = None"
  shows "follows X (E, PostTokenRefresh h sg) s (respond RefreshedResponse (refresh_token C X E h sg s))"
proof -
  obtain q s' where r: "refresh_token C X E h sg s = (q, s')" by (cases "refresh_token C X E h sg s")
  have db: "db_ok (cdb s)" using ok by (simp add: coord_ok_def)
  show ?thesis
  proof (cases "is_ok q")
    case True
    then obtain resp where q: "q = Ok resp" unfolding is_ok_iff by blast
    obtain n tok sig d where t: "extract_bearer h = Ok tok" "get_node_by_token (cdb s) tok (clock E) = Some n"
      and ins: "create_token (fk_enforced X) (n_node_id n) (generate_token X E) (clock E) (token_ttl_secs s)
         (snd (revoke_all_tokens_for_node (n_node_id n) (cdb s))) = (Ok (), d)"
      and resp: "resp = \<lparr>rf_auth_token = generate_token X E, rf_auth_token_expires_at = clock E + token_ttl_secs s,
             rf_old_token_expires_at = clock E + token_ttl_secs s\<rparr>" and s': "cdb s' = d"
      by (rule refresh_OkD [OF r [unfolded q]])
    from refresh_rotates [OF db caller_in_nodes [OF ok t(2)] ins] owner_is_caller [OF db t]
      fresh_no_credential [OF db fresh]
    show ?thesis by (simp add: r q respond_def follows_def s' resp)
  next
    case False
    from failed_request_follows [OF refresh_fails [OF ok fresh r False] False] r show ?thesis by simp
  qed
qed

lemma delete_follows:
  assumes ok: "coord_ok s"
  shows "follows X (E, DeleteNode h sg) s (respond StatusResponse (delete_node C X E h sg s))"
proof -
  obtain q s' where r: "delete_node C X E h sg s = (q, s')" by (cases "delete_node C X E h sg s")
  have db: "db_ok (cdb s)" using ok by (simp add: coord_ok_def)
  show ?thesis
  proof (cases "is_ok q")
    case True
    then obtain c where q: "q = Ok c" unfolding is_ok_iff by blast
    obtain n tok s1 where t: "extract_bearer h = Ok tok" "get_node_by_token (cdb s) tok (clock E) = Some n"
      and same: "same_data s s1"
      and s': "s' = (let (ip, d) = db_delete_node (n_node_id n) (cdb s1); s2 = s1\<lparr>cdb := d\<rparr> in
       (case Option.bind ip parse_ipv4 of
          Some addr \<Rightarrow> s2\<lparr>ip_alloc := release (v4_octets addr) (ip_alloc s2)\<rparr> | None \<Rightarrow> s2))" and c: "c = 204"
      by (rule delete_OkD [OF r [unfolded q]])
    have "cdb s' = snd (db_delete_node (n_node_id n) (cdb s))"
      using same by (simp add: s' same_data_def case_prod_beta Let_def split: option.split)
    with owner_is_caller [OF db t] c show ?thesis
      by (simp add: r q respond_def follows_def delete_leaves [OF db])
  next
    case False
    from failed_request_follows [OF delete_fails [OF ok r False] False] r show ?thesis by simp
  qed
qed

lemma request_follows:
  assumes "coord_ok s" and "fresh_token X r s"
  shows "follows X r s (serve C X r s)"
proof -
  obtain E q where r: "r = (E, q)" by (cases r)
  from assms show ?thesis
    by (cases q) (simp_all add: r fresh_token_def register_follows peers_follows heartbeat_follows refresh_follows
        delete_follows, simp add: follows_def health_def ret_def respond_def)
qed

interpretation dir: simulation "serve C X" coord_ok "directory_step X" "permits X" "\<lambda>s. directory_of (cdb s)" "fresh_token X" for C X
proof unfold_locales
  show "coord_ok s \<Longrightarrow> coord_ok (snd (serve C X r s))" for s r
    using serve_request_ok [of s C X r] by (simp add: serve_request_def)
  fix s r
  assume "coord_ok s" and "fresh_token X r s"
  note step = request_follows [OF this, of C, unfolded follows_def]
  show "permits X r (fst (serve C X r s)) (directory_of (cdb s))"
    and "directory_of (cdb (snd (serve C X r s))) =
      directory_step X r (fst (serve C X r s)) (directory_of (cdb s))"
    using step by blast+
qed

section \<open>Histories\<close>

text \<open>The tokens of the table are the ones generated so far.\<close>

definition tokens_within :: "string set \<Rightarrow> coord \<Rightarrow> bool" where
  "tokens_within T s \<longleftrightarrow> t_token ` set (db_tokens (cdb s)) \<subseteq> T"

lemma tokens_within_same: "stays same_data f \<Longrightarrow> keeps (tokens_within T) f"
  by (auto simp: keeps_def tokens_within_def same_data_def stays_def)

lemma register_tokens:
  assumes "generate_token X E \<in> T"
  shows "keeps (tokens_within T) (register C X E req)"
proof -
  have insert: "keeps (tokens_within T) (\<lambda>s. andthen (with_db (insert_node fk (new_node E i w ip) (generate_token X E) (token_ttl_secs s)))
      (\<lambda>_. ret (g s)) s)" for fk i w ip and g :: "coord \<Rightarrow> register_response"
    using assms
    by (auto simp: keeps_def tokens_within_def with_db_def andthen_def insert_node_def insert_node_row_def
        insert_token_row_def new_node_def ret_def)
  have ips: "keeps (tokens_within T) (with_ips f)" for f :: "(used_ips, coord_error, bytes) act"
    by (auto simp: keeps_def tokens_within_def with_ips_def split: prod.splits)
  show ?thesis
    unfolding register_eq register_commit_def
    by (intro keeps_andthen ips tokens_within_same [OF register_checks_same] insert)
qed

lemma refresh_tokens:
  assumes "generate_token X E \<in> T"
  shows "keeps (tokens_within T) (refresh_token C X E h sg)"
  unfolding refresh_token_def
  by (intro keeps_andthen tokens_within_same [OF signed_caller_same])
    (use assms in \<open>auto simp: keeps_def tokens_within_def Let_def with_db_def andthen_def create_token_def
        insert_token_row_def revoke_all_tokens_for_node_def ret_def split: prod.splits if_splits\<close>)

lemma other_tokens:
  "keeps (tokens_within T) (heartbeat C X E h hb)" "keeps (tokens_within T) (delete_node C X E h sg)"
proof -
  show "keeps (tokens_within T) (heartbeat C X E h hb)"
    unfolding heartbeat_eq
    by (intro keeps_andthen tokens_within_same [OF heartbeat_checks_same])
      (auto simp: keeps_def tokens_within_def heartbeat_commit_def update_heartbeat_def update_nodes_def)
  show "keeps (tokens_within T) (delete_node C X E h sg)"
    unfolding delete_node_def
    by (intro keeps_andthen tokens_within_same [OF signed_caller_same])
      (auto simp: keeps_def tokens_within_def case_prod_beta Let_def db_delete_node_def split: option.splits)
qed

lemma serve_tokens:
  assumes "tokens_within T s" and "generate_token X (fst r) \<in> T"
  shows "tokens_within T (snd (serve C X r s))"
proof -
  obtain E q where r: "r = (E, q)" by (cases r)
  have E: "generate_token X E \<in> T" using assms(2) by (simp add: r)
  from assms(1) show ?thesis
    using keepsD [OF register_tokens [OF E]] keepsD [OF refresh_tokens [OF E]] keepsD [OF other_tokens(1)]
      keepsD [OF other_tokens(2)] keepsD [OF tokens_within_same [OF peers_route_same]]
    by (cases q) (simp_all add: r health_def ret_def)
qed

lemma distinct_tokens_legal:
  "tokens_within T s \<Longrightarrow> distinct (map (\<lambda>r. generate_token X (fst r)) rs) \<Longrightarrow>
   T \<inter> set (map (\<lambda>r. generate_token X (fst r)) rs) = {} \<Longrightarrow> legal_run (fresh_token X) (serve C X) rs s"
proof (induction rs arbitrary: s T)
  case (Cons r rs)
  let ?g = "generate_token X (fst r)"
  have "fresh_token X r s"
    using Cons.prems by (auto simp: fresh_token_def get_token_None tokens_within_def)
  moreover have "legal_run (fresh_token X) (serve C X) rs (snd (serve C X r s))"
  proof (rule Cons.IH)
    show "tokens_within (insert ?g T) (snd (serve C X r s))"
      by (rule serve_tokens) (use Cons.prems(1) in \<open>auto simp: tokens_within_def\<close>)
  qed (use Cons.prems in auto)
  ultimately show ?case by simp
qed simp

lemma new_server_directory: "directory_of (cdb (app_state_in_memory ttl)) = empty_directory"
  by (simp add: directory_of_def app_state_in_memory_def open_in_memory_def empty_directory_def)

lemma history_accepted:
  assumes "distinct (map (\<lambda>r. generate_token X (fst r)) rs)"
  shows "accepts (permits X) (directory_step X) (fst (trace (serve C X) rs (app_state_in_memory ttl))) empty_directory
    (directory_of (cdb (fold (serve_request C X) rs (app_state_in_memory ttl))))"
proof -
  have "tokens_within {} (app_state_in_memory ttl)"
    by (simp add: tokens_within_def app_state_in_memory_def open_in_memory_def)
  from distinct_tokens_legal [OF this assms]
  have "legal_run (fresh_token X) (serve C X) rs (app_state_in_memory ttl)" by simp
  from dir.trace_accepted [OF coord_ok_in_memory this] show ?thesis
    by (simp add: new_server_directory trace_state serve_request_def [abs_def])
qed

text \<open>C4: The server is a directory.  Serve any sequence of requests, hostile ones included, on a new
  server, each with a random token of its own.  Then the answers and the final tables are a
  history of the abstract directory that starts empty: a registration that is answered adds a
  member whose id, keys and address nobody had; a heartbeat, refresh or removal that is answered
  was sent with an unexpired credential of the member it changes and changes only that member
  and its credentials; a listing shows exactly the other members; every other request is
  answered with an error and changes neither members nor credentials; and no request makes a
  handler panic.\<close>

theorem server_refines_directory:
  assumes "distinct (map (\<lambda>r. generate_token X (fst r)) rs)"
    and "trace (serve C X) rs (app_state_in_memory ttl) = (history, s)"
  shows "s = fold (serve_request C X) rs (app_state_in_memory ttl) \<and> map fst history = rs \<and>
    accepts (permits X) (directory_step X) history empty_directory (directory_of (cdb s))"
proof -
  have "s = fold (serve_request C X) rs (app_state_in_memory ttl)"
    using trace_state [of "serve C X" rs "app_state_in_memory ttl"] assms(2)
    by (simp add: serve_request_def [abs_def])
  moreover have "map fst history = rs"
    using trace_inputs [of "serve C X" rs "app_state_in_memory ttl"] assms(2) by simp
  ultimately show ?thesis using history_accepted [OF assms(1), of C ttl] assms(2) by simp
qed

theorem server_refines_directory_witness:
  "\<exists>resp s. trace (serve plain plain_libs) [(demo_request, PostRegister (demo_register (replicate 32 2))), (demo_request\<lparr>token_random := []\<rparr>, GetHealth)]
       demo_empty = ([((demo_request, PostRegister (demo_register (replicate 32 2))), RegisteredResponse resp),
         ((demo_request\<lparr>token_random := []\<rparr>, GetHealth), HealthResponse ''ok'')], s) \<and>
     directory_of (cdb s) = join_directory (enrolled plain_libs demo_request (demo_register (replicate 32 2)) resp)
       (rs_auth_token resp) (rs_auth_token_expires_at resp) empty_directory"
proof -
  let ?r1 = "(demo_request, PostRegister (demo_register (replicate 32 2)))"
  let ?r2 = "(demo_request\<lparr>token_random := []\<rparr>, GetHealth)"
  obtain resp s where r: "register plain plain_libs demo_request (demo_register (replicate 32 2)) demo_empty = (Ok resp, s)"
    by (rule demo_registration)
  have t: "trace (serve plain plain_libs) [?r1, ?r2] (app_state_in_memory 1000) =
      ([(?r1, RegisteredResponse resp), (?r2, HealthResponse ''ok'')], s)"
    using r by (simp add: demo_empty_def respond_def health_def ret_def)
  have "distinct (map (\<lambda>r. generate_token plain_libs (fst r)) [?r1, ?r2])"
    by (simp add: generate_token_def plain_libs_def demo_request_def)
  from server_refines_directory [OF this t] t show ?thesis by (auto simp: demo_empty_def)
qed

section \<open>One usable token per node\<close>

definition spokesmen :: "directory \<Rightarrow> string \<Rightarrow> string set" where
  "spokesmen D i = {t. \<exists>x. credentials D t = Some (i, x)}"

definition credentialed :: "directory \<Rightarrow> bool" where
  "credentialed D \<longleftrightarrow>
     (\<forall>i. case members D i of
            None \<Rightarrow> spokesmen D i = {}
          | Some n \<Rightarrow> n_node_id n = i \<and> (\<exists>t. spokesmen D i = {t}))"

lemma spokesmen_steps:
  "credentials D tok = None \<Longrightarrow> spokesmen (join_directory n tok x D) j =
     (if j = n_node_id n then insert tok (spokesmen D j) else spokesmen D j)"
  "credentials D tok = None \<Longrightarrow> spokesmen (rotate i tok x D) j = (if j = i then {tok} else spokesmen D j)"
  "spokesmen (leave i D) j = (if j = i then {} else spokesmen D j)"
  "spokesmen (announce_at i e r now D) = spokesmen D"
  by (auto simp: spokesmen_def join_directory_def rotate_def leave_def announce_at_def without_iff)

lemma credentialed_at:
  "credentialed D \<Longrightarrow> (case members D i of
      None \<Rightarrow> spokesmen D i = {} | Some n \<Rightarrow> n_node_id n = i \<and> (\<exists>t. spokesmen D i = {t}))"
  unfolding credentialed_def by blast

lemma credentialedD:
  "credentialed D \<Longrightarrow> members D i = None \<Longrightarrow> spokesmen D i = {}"
  "credentialed D \<Longrightarrow> members D i = Some n \<Longrightarrow> n_node_id n = i \<and> (\<exists>t. spokesmen D i = {t})"
  using credentialed_at [of D i] by simp_all

lemma owner_member:
  assumes "credentialed D" and "owner E D h = Some n"
  shows "members D (n_node_id n) = Some n"
proof -
  from assms(2) obtain i where i: "members D i = Some n"
    by (auto simp: owner_def holder_iff split: outcome.splits)
  with credentialedD(2) [OF assms(1) i] show ?thesis by simp
qed

lemma members_steps:
  "members (join_directory n tok x D) = (members D)(n_node_id n \<mapsto> n)"
  "members (rotate i tok x D) = members D"
  "members (leave i D) = (members D)(i := None)"
  by (simp_all add: join_directory_def rotate_def leave_def)

lemma members_announce:
  "members (announce_at i e r now D) j =
     (case members D j of
        None \<Rightarrow> None
      | Some n \<Rightarrow> Some (if j = i then n\<lparr>n_last_endpoint := Some e, n_via_relay := coalesce r (n_via_relay n),
                                       n_last_seen := Some now\<rparr> else n))"
  by (simp add: announce_at_def split: option.split)

lemma credentialedI:
  assumes "\<And>i. members D i = None \<Longrightarrow> spokesmen D i = {}"
    and "\<And>i n. members D i = Some n \<Longrightarrow> n_node_id n = i \<and> (\<exists>t. spokesmen D i = {t})"
  shows "credentialed D"
  unfolding credentialed_def using assms by (simp split: option.split)

lemma join_credentialed:
  assumes "credentialed D" and "newcomer D n" and "credentials D tok = None"
  shows "credentialed (join_directory n tok x D)"
proof -
  have "members D (n_node_id n) = None"
    using assms(2) by (cases "members D (n_node_id n)") (auto simp: newcomer_def)
  then have new: "spokesmen D (n_node_id n) = {}" by (rule credentialedD(1) [OF assms(1)])
  show ?thesis
  proof (rule credentialedI)
    fix i assume "members (join_directory n tok x D) i = None"
    then show "spokesmen (join_directory n tok x D) i = {}"
      using credentialedD(1) [OF assms(1), of i]
      by (simp add: spokesmen_steps(1) [OF assms(3)] members_steps split: if_splits)
  next
    fix i m assume "members (join_directory n tok x D) i = Some m"
    then show "n_node_id m = i \<and> (\<exists>t. spokesmen (join_directory n tok x D) i = {t})"
      using credentialedD(2) [OF assms(1), of i] new
      by (simp add: spokesmen_steps(1) [OF assms(3)] members_steps split: if_splits)
  qed
qed

lemma announce_credentialed: "credentialed D \<Longrightarrow> credentialed (announce_at i e q now D)"
  by (rule credentialedI)
    (auto simp: spokesmen_steps(4) members_announce dest: credentialedD split: option.splits if_splits)

lemma leave_credentialed: "credentialed D \<Longrightarrow> credentialed (leave i D)"
  by (rule credentialedI) (auto simp: spokesmen_steps(3) members_steps dest: credentialedD split: if_splits)

lemma rotate_credentialed:
  assumes "credentialed D" and "credentials D tok = None" and "owner E D h = Some n"
  shows "credentialed (rotate (n_node_id n) tok x D)"
proof (rule credentialedI)
  note own = owner_member [OF assms(1,3)]
  fix i
  show "spokesmen (rotate (n_node_id n) tok x D) i = {}" if "members (rotate (n_node_id n) tok x D) i = None"
    using that own credentialedD(1) [OF assms(1), of i]
    by (cases "i = n_node_id n") (simp_all add: spokesmen_steps(2) [OF assms(2)] members_steps)
  show "n_node_id m = i \<and> (\<exists>t. spokesmen (rotate (n_node_id n) tok x D) i = {t})"
    if "members (rotate (n_node_id n) tok x D) i = Some m" for m
    using that own credentialedD(2) [OF assms(1), of i m]
    by (cases "i = n_node_id n") (simp_all add: spokesmen_steps(2) [OF assms(2)] members_steps)
qed

lemma request_credentialed:
  assumes "credentialed D" and "permits X r y D"
  shows "credentialed (directory_step X r y D)"
  using assms
  by (cases "(X, r, y, D)" rule: directory_step.cases)
    (simp_all add: announce_credentialed leave_credentialed rotate_credentialed join_credentialed
      del: permits.simps(7-) split: option.splits)

text \<open>C18: Every node has exactly one usable token.  After any sequence of requests to a new server, served
  one after another and each with a random token of its own, every stored node has exactly one token in the table that is
  not revoked, and every token that is not revoked belongs to a stored node: a refresh never
  leaves the old token alive, a removal leaves none behind, and no failed request adds or takes
  one away.\<close>

theorem one_token_per_node:
  assumes "distinct (map (\<lambda>r. generate_token X (fst r)) rs)"
    and "s = fold (serve_request C X) rs (app_state_in_memory ttl)"
  shows "(\<forall>n \<in> set (db_nodes (cdb s)).
      \<exists>!t. t \<in> set (db_tokens (cdb s)) \<and> \<not> t_revoked t \<and> t_node_id t = n_node_id n) \<and>
    (\<forall>t \<in> set (db_tokens (cdb s)). \<exists>n \<in> set (db_nodes (cdb s)). t_node_id t = n_node_id n)"
proof -
  let ?d = "cdb s"
  have db: "db_ok ?d"
    using coord.run_keeps [OF coord_ok_in_memory, of C X rs] assms(2) by (simp add: coord_ok_def)
  have "credentialed empty_directory"
    by (simp add: credentialed_def empty_directory_def spokesmen_def)
  with accepts_keeps [where I = credentialed, OF request_credentialed history_accepted [OF assms(1), of C ttl]]
  have cred: "credentialed (directory_of ?d)" by (simp add: assms(2))
  have "\<exists>!t. t \<in> set (db_tokens ?d) \<and> \<not> t_revoked t \<and> t_node_id t = n_node_id n" if n: "n \<in> set (db_nodes ?d)" for n
  proof -
    have "members (directory_of ?d) (n_node_id n) = Some n" using n by (simp add: members_iff [OF db])
    then obtain tok where tok: "spokesmen (directory_of ?d) (n_node_id n) = {tok}"
      using credentialedD(2) [OF cred] by blast
    have rows: "t_token t = tok" if "t \<in> set (db_tokens ?d)" "\<not> t_revoked t" "t_node_id t = n_node_id n" for t
    proof -
      have "credentials (directory_of ?d) (t_token t) = Some (n_node_id n, t_expires_at t)"
        unfolding credentials_iff [OF db] by (rule bexI [of _ t]) (use that in simp_all)
      then have "t_token t \<in> spokesmen (directory_of ?d) (n_node_id n)" by (auto simp: spokesmen_def)
      with tok show ?thesis by simp
    qed
    from tok obtain x where "credentials (directory_of ?d) tok = Some (n_node_id n, x)"
      by (auto simp: spokesmen_def)
    then obtain t where t: "t \<in> set (db_tokens ?d)" "\<not> t_revoked t" "t_node_id t = n_node_id n"
      by (auto simp: credentials_iff [OF db])
    have "u = t" if "u \<in> set (db_tokens ?d)" "\<not> t_revoked u" "t_node_id u = n_node_id n" for u
      by (rule distinct_key [of t_token "db_tokens ?d"])
        (use db that t rows in \<open>simp_all add: db_ok_def\<close>)
    with t show ?thesis by blast
  qed
  moreover have "\<exists>n \<in> set (db_nodes ?d). t_node_id t = n_node_id n" if "t \<in> set (db_tokens ?d)" for t
    using db that by (auto simp: db_ok_def)
  ultimately show ?thesis by blast
qed

theorem one_token_per_node_witness:
  "\<exists>n. db_nodes (cdb (serve_request plain plain_libs (demo_request, PostRegister (demo_register (replicate 32 2))) demo_empty)) = [n] \<and>
     (\<exists>!t. t \<in> set (db_tokens (cdb (serve_request plain plain_libs (demo_request, PostRegister (demo_register (replicate 32 2))) demo_empty))) \<and>
        \<not> t_revoked t \<and> t_node_id t = n_node_id n)"
proof -
  let ?r = "(demo_request, PostRegister (demo_register (replicate 32 2)))"
  obtain resp s where r: "register plain plain_libs demo_request (demo_register (replicate 32 2)) demo_empty = (Ok resp, s)"
    by (rule demo_registration)
  then have s: "s = serve_request plain plain_libs ?r demo_empty" by (simp add: serve_request_def)
  have "db_nodes (cdb demo_empty) = []" by (simp add: demo_empty_def app_state_in_memory_def open_in_memory_def)
  then obtain n where n: "db_nodes (cdb s) = [n]"
    using register_effect [OF _ r] coord_ok_in_memory by (auto simp: demo_empty_def)
  have "s = fold (serve_request plain plain_libs) [?r] (app_state_in_memory 1000)" by (simp add: s demo_empty_def)
  from one_token_per_node [OF _ this] n show ?thesis unfolding s by simp
qed

end
