(* ===== verification/Coord_Restart.thy ===== *)
theory Coord_Restart
  imports Coord_Directory
begin

text \<open>
  A restart of the coordination server: \<open>coord_start\<close> on the database file a running server left.
  The tables are the durable state; the allocator is rebuilt from them, so an address no node has
  is free again, and the rate limiter starts empty.
\<close>

lemma card_pool: "card pool = 65534"
proof -
  have "inj_on (\<lambda>k. IP_POOL_FIRST_HOST + of_nat k) {..<65534}"
  proof (rule inj_onI)
    fix j k :: nat
    assume "j \<in> {..<65534}" "k \<in> {..<65534}"
      and eq: "IP_POOL_FIRST_HOST + of_nat j = IP_POOL_FIRST_HOST + of_nat k"
    then have "\<not> j < k" "\<not> k < j"
      using pool_less [of j k] pool_less [of k j] by simp_all
    then show "j = k" by simp
  qed
  moreover have "pool = (\<lambda>k. IP_POOL_FIRST_HOST + of_nat k) ` {..<65534}"
    by (auto simp: pool_iff)
  ultimately show ?thesis using card_image [of _ "{..<65534}"] by (metis card_lessThan)
qed

lemma init_schema_dated:
  assumes "\<forall>t \<in> set (db_tokens d). t_expires_at t \<noteq> 0"
  shows "init_schema d = d"
proof -
  have "map (\<lambda>t. if t_expires_at t = 0 then t\<lparr>t_expires_at := t_created_at t + DEFAULT_TOKEN_TTL_SECS\<rparr> else t)
      (db_tokens d) = db_tokens d"
    using assms by (intro map_idI) simp
  then show ?thesis by (simp add: init_schema_def)
qed

text \<open>On a database that satisfies the invariant, the rebuilt set has just the nodes' addresses.\<close>

lemma ip_allocator_new_exact:
  assumes "\<forall>n \<in> set (db_nodes d). node_ok used n"
  shows "ip_allocator_new d = {a. \<exists>n \<in> set (db_nodes d). n_ip n = show_ipv4 (u32_to_be a)}"
    and "ip_allocator_new d \<subseteq> used"
  using assms
  by (force simp: ip_allocator_new_def list_peers_def node_ok_def ipv4_str_to_u32_show show_ipv4_inj)+

lemma restarted_coord_ok:
  assumes ok: "coord_ok s" and dated: "\<forall>t \<in> set (db_tokens (cdb s)). t_expires_at t \<noteq> 0"
  shows "coord_ok (app_state_open (cdb s) ttl)"
proof -
  have nodes: "\<forall>n \<in> set (db_nodes (cdb s)). node_ok (ip_alloc s) n"
    using ok by (simp add: coord_ok_def)
  have "node_ok (ip_allocator_new (cdb s)) n" if n: "n \<in> set (db_nodes (cdb s))" for n
  proof -
    obtain a where "a \<in> pool" "n_ip n = show_ipv4 (u32_to_be a)" "length (n_identity n) = 32"
      using nodes n by (auto simp: node_ok_def)
    with n show ?thesis
      unfolding ip_allocator_new_exact(1) [OF nodes] node_ok_def by blast
  qed
  then show ?thesis
    using ok by (simp add: coord_ok_def app_state_open_def init_schema_dated [OF dated] Let_def)
qed

lemma allocates_below_capacity:
  assumes "finite used" and "card used < 65534"
  shows "is_ok (fst (allocate used))"
proof -
  have "\<not> pool \<subseteq> used"
    using assms card_mono [of used pool] card_pool by auto
  then show ?thesis using allocate_fails_iff by blast
qed

lemma coord_start_iff:
  "coord_start stored db_var addr_var ttl_var = Ok (s, bind) \<longleftrightarrow>
     s = app_state_open (stored (case db_var of Some p \<Rightarrow> p | None \<Rightarrow> ''naboscale-coord.sqlite''))
           (token_ttl_from_env ttl_var) \<and>
     parse_socket_addr (case addr_var of Some a \<Rightarrow> a | None \<Rightarrow> ''0.0.0.0:8080'') = Some bind"
  by (auto simp: coord_start_def Let_def split: option.split)

lemma be_bytes_zero: "be_bytes k 0 = replicate k 0"
  by (induction k) simp_all

lemma default_address: "parse_socket_addr ''0.0.0.0:8080'' = Some (SocketV4 0 8080)"
proof -
  have zeros: "v4_octets 0 = [0, 0, 0, 0]"
    by (simp add: v4_octets_def u32_to_be_def be_bytes_zero numeral_eq_Suc)
  have d: "digit_char 0 = CHR ''0''" "digit_char 8 = CHR ''8''" by code_simp+
  have "dec 8080 = dec 808 @ ''0''" by (subst dec.simps) (simp add: d)
  also have "dec 808 = dec 80 @ ''8''" by (subst dec.simps) (simp add: d)
  also have "dec 80 = dec 8 @ ''0''" by (subst dec.simps) (simp add: d)
  also have "dec 8 = ''8''" by (subst dec.simps) (simp add: d)
  finally have digits: "dec 8080 = ''8080''" "dec 0 = ''0''" by (simp_all add: dec.simps [of 0] d)
  have "show_socket_v4 0 8080 = ''0.0.0.0:8080''"
    by (simp add: show_socket_v4_def show_ipv4_def zeros digits)
  with parse_show_socket_v4 [of 0 8080] show ?thesis by simp
qed

text \<open>C33: A restart recovers the server.  When a server that satisfies its invariant is stopped and
  started again on its database file (whose tokens all carry an expiry date), the tables are as
  they were, so every token and every node is; the invariant holds; no address is in use but the
  nodes' own, so whatever failed registrations leaked is free again; and a registration gets an
  address as long as fewer than 65534 nodes are stored.\<close>

theorem restart_recovers:
  assumes "coord_ok s" and "\<forall>t \<in> set (db_tokens (cdb s)). t_expires_at t \<noteq> 0"
    and "stored (case db_var of Some p \<Rightarrow> p | None \<Rightarrow> ''naboscale-coord.sqlite'') = cdb s"
    and "coord_start stored db_var addr_var ttl_var = Ok (s', bind)"
  shows "coord_ok s' \<and> cdb s' = cdb s \<and>
    ip_alloc s' = {a. \<exists>n \<in> set (db_nodes (cdb s)). n_ip n = show_ipv4 (u32_to_be a)} \<and>
    ip_alloc s' \<subseteq> ip_alloc s \<and>
    (length (db_nodes (cdb s)) < 65534 \<longrightarrow> is_ok (fst (allocate (ip_alloc s'))))"
proof -
  have s': "s' = app_state_open (cdb s) (token_ttl_from_env ttl_var)"
    using assms(3,4) by (simp add: coord_start_iff)
  have nodes: "\<forall>n \<in> set (db_nodes (cdb s)). node_ok (ip_alloc s) n"
    using assms(1) by (simp add: coord_ok_def)
  have same: "cdb s' = cdb s" "ip_alloc s' = ip_allocator_new (cdb s)"
    by (simp_all add: s' app_state_open_def init_schema_dated [OF assms(2)] Let_def)
  have "card (ip_allocator_new (cdb s)) \<le> length (db_nodes (cdb s))"
    unfolding ip_allocator_new_def list_peers_def by (rule order_trans [OF card_length]) simp
  moreover have "finite (ip_allocator_new (cdb s))" by (simp add: ip_allocator_new_def)
  ultimately have "is_ok (fst (allocate (ip_allocator_new (cdb s))))"
    if "length (db_nodes (cdb s)) < 65534"
    using that by (intro allocates_below_capacity) simp_all
  moreover have "coord_ok s'" unfolding s' by (rule restarted_coord_ok [OF assms(1,2)])
  ultimately show ?thesis
    unfolding same using ip_allocator_new_exact [OF nodes] by blast
qed

text \<open>The demo server after a registration that leaked the second address.\<close>

theorem restart_recovers_witness:
  "\<exists>s'. coord_start (\<lambda>p. cdb demo_coord) None None None = Ok (s', SocketV4 0 8080) \<and>
     ip_alloc s' \<subseteq> {IP_POOL_FIRST_HOST} \<and> coord_ok s' \<and> is_ok (fst (allocate (ip_alloc s')))"
proof -
  obtain s' where started: "coord_start (\<lambda>p. cdb demo_coord) None None None = Ok (s', SocketV4 0 8080)"
    using default_address by (simp add: coord_start_iff)
  have "\<forall>t \<in> set (db_tokens (cdb demo_coord)). t_expires_at t \<noteq> 0"
    by (simp add: demo_coord_def demo_token_def)
  from restart_recovers [OF demo_coord_ok this _ started] started show ?thesis
    by (auto simp: demo_coord_def)
qed

end
