(* ===== verification/Coord_Tasks.thy ===== *)
theory Coord_Tasks
  imports Coord_Props
begin

text \<open>
  The handlers of \<open>naboscale-coord/src/routes.rs\<close> as the runtime interleaves them.  A handler has no
  await point, but handlers run on several threads, and the limiter, the allocator and the
  database each have a mutex that is held for one call only.  A \<open>task\<close> is a request between two
  such calls, with the local variables it has computed; \<open>task_step\<close> runs it up to and through its
  next call.  \<open>serve_event\<close> is one turn of a scheduler that is free to choose the task.

  A task that runs alone does what the handler of \<open>Coord_Routes\<close> does (\<open>task_alone\<close>).
\<close>

datatype task =
    Arrived coord_env http_request
  | Admitted coord_env http_request
  | Authenticated coord_env http_request node_record
  | Allocated coord_env "bytes \<times> bytes" bytes
  | Revoked coord_env node_record
  | Deleted "string option"
  | Finished http_response

definition finish :: "('a \<Rightarrow> http_response) \<Rightarrow> (coord_error, 'a) outcome \<Rightarrow> http_response" where
  "finish f r =
     (case r of
        Ok x \<Rightarrow> f x
      | Err e \<Rightarrow> ErrorResponse (error_status e) (retry_after_header e)
      | Panic msg \<Rightarrow> HandlerPanic msg)"

text \<open>The \<open>?\<close> operator ends the request.\<close>

definition proceed :: "('a \<Rightarrow> task) \<Rightarrow> (coord_error, 'a) outcome \<times> coord \<Rightarrow> task \<times> coord" where
  "proceed f r =
     ((case fst r of
         Ok x \<Rightarrow> f x
       | Err e \<Rightarrow> Finished (ErrorResponse (error_status e) (retry_after_header e))
       | Panic msg \<Rightarrow> Finished (HandlerPanic msg)), snd r)"

section \<open>The code between the calls\<close>

fun bucket_of :: "http_request \<Rightarrow> bucket" where
  "bucket_of (PostRegister req) = Register"
| "bucket_of (GetPeers h) = Default"
| "bucket_of (PostHeartbeat h hb) = Heartbeat"
| "bucket_of (PostTokenRefresh h sg) = Token"
| "bucket_of (DeleteNode h sg) = Token"
| "bucket_of GetHealth = Default"

fun bearer_of :: "http_request \<Rightarrow> (coord_error, string) outcome" where
  "bearer_of (GetPeers h) = extract_bearer h"
| "bearer_of (PostHeartbeat h hb) = extract_bearer h"
| "bearer_of (PostTokenRefresh h sg) = extract_bearer h"
| "bearer_of (DeleteNode h sg) = extract_bearer h"
| "bearer_of _ = Err InvalidAuthToken"

definition registration_keys ::
  "('hs, 'ts) crypto \<Rightarrow> coord_libs \<Rightarrow> coord_env \<Rightarrow> register_request \<Rightarrow>
   (coord_error, bytes \<times> bytes) outcome" where
  "registration_keys C X E req =
     try_ok (decode_pubkey X (rq_identity_pubkey req)) (\<lambda>identity_pubkey.
     try_ok (decode_pubkey X (rq_wg_pubkey req)) (\<lambda>wg_pubkey.
     try_ok (decode_signature X (rq_signature req)) (\<lambda>signature.
     try_ok (validate_timestamp (rq_timestamp req) (clock E)) (\<lambda>_.
     try_ok (verify_register_signature C identity_pubkey wg_pubkey (rq_timestamp req) signature) (\<lambda>_.
       Ok (identity_pubkey, wg_pubkey))))))"

definition heartbeat_verified ::
  "('hs, 'ts) crypto \<Rightarrow> coord_libs \<Rightarrow> coord_env \<Rightarrow> heartbeat_request \<Rightarrow> node_record \<Rightarrow>
   (coord_error, unit) outcome" where
  "heartbeat_verified C X E req caller =
     try_ok (decode_signature X (hb_signature req)) (\<lambda>signature.
     try_ok (validate_timestamp (hb_timestamp req) (clock E)) (\<lambda>_.
     try_ok (key_array (n_identity caller)) (\<lambda>identity_pubkey.
     try_ok (verify_heartbeat_signature C identity_pubkey (hb_endpoint req) (hb_via_relay req)
               (hb_timestamp req) signature) (\<lambda>_.
       valid_relay (hb_via_relay req)))))"

definition signature_verified ::
  "('hs, 'ts) crypto \<Rightarrow> coord_libs \<Rightarrow> coord_env \<Rightarrow> signed_request \<Rightarrow> (i64 \<Rightarrow> bytes) \<Rightarrow> node_record \<Rightarrow>
   (coord_error, unit) outcome" where
  "signature_verified C X E req msg caller =
     try_ok (decode_signature X (sg_signature req)) (\<lambda>signature.
     try_ok (validate_timestamp (sg_timestamp req) (clock E)) (\<lambda>_.
     try_ok (key_array (n_identity caller)) (\<lambda>identity_pubkey.
       if \<not> identity_verify C identity_pubkey (msg (sg_timestamp req)) signature
       then Err InvalidSignature else Ok ())))"

section \<open>One call of a task\<close>

fun authenticated_step ::
  "('hs, 'ts) crypto \<Rightarrow> coord_libs \<Rightarrow> coord_env \<Rightarrow> http_request \<Rightarrow> node_record \<Rightarrow> coord \<Rightarrow> task \<times> coord" where
  "authenticated_step C X E (GetPeers h) n s =
     (Finished (PeersResponse (map (peer_entry_of X) (list_peers (cdb s) (Some (n_node_id n))))), s)"
| "authenticated_step C X E (PostHeartbeat h hb) n s =
     (case heartbeat_verified C X E hb n of
        Ok _ \<Rightarrow>
          (Finished (StatusResponse 200),
           s\<lparr>cdb := update_heartbeat (n_node_id n) (hb_endpoint hb) (hb_via_relay hb) (clock E) (cdb s)\<rparr>)
      | r \<Rightarrow> (Finished (finish (\<lambda>_. StatusResponse 200) r), s))"
| "authenticated_step C X E (PostTokenRefresh h sg) n s =
     (case signature_verified C X E sg build_refresh_message n of
        Ok _ \<Rightarrow> (Revoked E n, s\<lparr>cdb := snd (revoke_all_tokens_for_node (n_node_id n) (cdb s))\<rparr>)
      | r \<Rightarrow> (Finished (finish (\<lambda>_. StatusResponse 200) r), s))"
| "authenticated_step C X E (DeleteNode h sg) n s =
     (case signature_verified C X E sg build_delete_node_message n of
        Ok _ \<Rightarrow> (case db_delete_node (n_node_id n) (cdb s) of (ip, d) \<Rightarrow> (Deleted ip, s\<lparr>cdb := d\<rparr>))
      | r \<Rightarrow> (Finished (finish (\<lambda>_. StatusResponse 200) r), s))"
| "authenticated_step C X E r n s = (Finished (HandlerPanic ''unreachable''), s)"

fun admitted_step ::
  "('hs, 'ts) crypto \<Rightarrow> coord_libs \<Rightarrow> coord_env \<Rightarrow> http_request \<Rightarrow> coord \<Rightarrow> task \<times> coord" where
  "admitted_step C X E (PostRegister req) s =
     (case registration_keys C X E req of
        Ok keys \<Rightarrow> proceed (Allocated E keys) (with_ips allocate s)
      | r \<Rightarrow> (Finished (finish (\<lambda>_. StatusResponse 200) r), s))"
| "admitted_step C X E r s =
     proceed (Authenticated E r) (andthen (pure_act (bearer_of r)) (caller_of E) s)"

fun task_step ::
  "('hs, 'ts) crypto \<Rightarrow> coord_libs \<Rightarrow> task \<Rightarrow> coord \<Rightarrow> task \<times> coord" where
  "task_step C X (Arrived E r) s =
     (if r = GetHealth then (Finished (HealthResponse ''ok''), s)
      else proceed (\<lambda>_. Admitted E r) (check_rate_limit E (bucket_of r) s))"
| "task_step C X (Admitted E r) s = admitted_step C X E r s"
| "task_step C X (Authenticated E r n) s = authenticated_step C X E r n s"
| "task_step C X (Allocated E keys ip) s =
     proceed (\<lambda>_. Finished (RegisteredResponse
         \<lparr>rs_node_id = uuid E, rs_ip = show_ipv4 ip, rs_auth_token = generate_token X E,
          rs_auth_token_expires_at = clock E + token_ttl_secs s, rs_derp_url = ''''\<rparr>))
       (with_db (insert_node (fk_enforced X) (new_node E (fst keys) (snd keys) ip)
          (generate_token X E) (token_ttl_secs s)) s)"
| "task_step C X (Revoked E n) s =
     proceed (\<lambda>_. Finished (RefreshedResponse
         \<lparr>rf_auth_token = generate_token X E, rf_auth_token_expires_at = clock E + token_ttl_secs s,
          rf_old_token_expires_at = clock E + token_ttl_secs s\<rparr>))
       (with_db (create_token (fk_enforced X) (n_node_id n) (generate_token X E) (clock E)
          (token_ttl_secs s)) s)"
| "task_step C X (Deleted ip) s =
     (Finished (StatusResponse 204),
      (case Option.bind ip parse_ipv4 of
         Some addr \<Rightarrow> s\<lparr>ip_alloc := release (v4_octets addr) (ip_alloc s)\<rparr>
       | None \<Rightarrow> s))"
| "task_step C X (Finished resp) s = (Finished resp, s)"

fun run_task :: "('hs, 'ts) crypto \<Rightarrow> coord_libs \<Rightarrow> nat \<Rightarrow> task \<Rightarrow> coord \<Rightarrow> task \<times> coord" where
  "run_task C X 0 t s = (t, s)"
| "run_task C X (Suc k) t s = (case task_step C X t s of (t', s') \<Rightarrow> run_task C X k t' s')"

section \<open>The scheduler\<close>

datatype event = Arrive coord_env http_request | Run nat

fun serve_event ::
  "('hs, 'ts) crypto \<Rightarrow> coord_libs \<Rightarrow> event \<Rightarrow> coord \<times> task list \<Rightarrow> coord \<times> task list" where
  "serve_event C X (Arrive E r) (s, ts) = (s, ts @ [Arrived E r])"
| "serve_event C X (Run i) (s, ts) =
     (if i < length ts
      then (case task_step C X (ts ! i) s of (t', s') \<Rightarrow> (s', ts[i := t']))
      else (s, ts))"

section \<open>A task that runs alone\<close>

lemma run_finished [simp]: "run_task C X k (Finished resp) s = (Finished resp, s)"
  by (induction k) simp_all

lemma andthen_pure_try:
  "andthen (pure_act (try_ok r f)) g = andthen (pure_act r) (\<lambda>x. andthen (pure_act (f x)) g)"
  by (cases r) (simp_all add: andthen_def pure_act_def fun_eq_iff)

lemma pure_Ok: "pure_act (Ok x) = ret x"
  by (simp add: pure_act_def ret_def fun_eq_iff)

lemma pure_if: "pure_act (if b then r else q) = (if b then pure_act r else pure_act q)"
  by simp

lemma andthen_if: "andthen (if b then m else n) f = (if b then andthen m f else andthen n f)"
  by simp

lemma andthen_pure_Err: "andthen (pure_act (Err e)) f = pure_act (Err e)"
  by (simp add: andthen_def pure_act_def fun_eq_iff)

lemma register_split:
  "register C X E req =
     andthen (check_rate_limit E Register) (\<lambda>_.
       andthen (pure_act (registration_keys C X E req)) (\<lambda>keys.
         andthen (with_ips allocate) (\<lambda>ip s.
           andthen (with_db (insert_node (fk_enforced X) (new_node E (fst keys) (snd keys) ip)
                      (generate_token X E) (token_ttl_secs s)))
             (\<lambda>_. ret \<lparr>rs_node_id = uuid E, rs_ip = show_ipv4 ip, rs_auth_token = generate_token X E,
                       rs_auth_token_expires_at = clock E + token_ttl_secs s, rs_derp_url = ''''\<rparr>) s)))"
  by (simp add: register_eq register_checks_def registration_keys_def andthen_pure_try pure_Ok
      andthen_assoc andthen_ret register_commit_def [abs_def])

lemma heartbeat_split:
  "heartbeat C X E h hb =
     andthen (check_rate_limit E Heartbeat) (\<lambda>_.
       andthen (andthen (pure_act (extract_bearer h)) (caller_of E)) (\<lambda>n.
         andthen (pure_act (heartbeat_verified C X E hb n)) (\<lambda>_. heartbeat_commit E hb n)))"
  by (simp add: heartbeat_eq heartbeat_checks_def heartbeat_verified_def andthen_pure_try
      andthen_assoc andthen_ret)

lemma signed_caller_split:
  "signed_caller C X E h sg msg =
     andthen (check_rate_limit E Token) (\<lambda>_.
       andthen (andthen (pure_act (extract_bearer h)) (caller_of E)) (\<lambda>n.
         andthen (pure_act (signature_verified C X E sg msg n)) (\<lambda>_. ret n)))"
  by (simp add: signed_caller_def signature_verified_def andthen_pure_try andthen_assoc pure_if pure_Ok
      andthen_ret andthen_if andthen_pure_Err cong: if_cong)

text \<open>In at most \<open>k\<close> calls the task ends with this response and state.\<close>

definition does ::
  "('hs, 'ts) crypto \<Rightarrow> coord_libs \<Rightarrow> nat \<Rightarrow> task \<times> coord \<Rightarrow> http_response \<times> coord \<Rightarrow> bool" where
  "does C X k c res \<longleftrightarrow> run_task C X k (fst c) (snd c) = (Finished (fst res), snd res)"

lemma does_Finished [simp]: "does C X k (Finished resp, s) (resp, s)"
  by (simp add: does_def)

lemma does_Suc: "does C X (Suc k) (t, s) res = does C X k (task_step C X t s) res"
  by (simp add: does_def case_prod_beta)

lemma does_proceed:
  assumes "\<And>x s'. m s = (Ok x, s') \<Longrightarrow> does C X k (T x, s') (respond R (f x s'))"
  shows "does C X k (proceed T (m s)) (respond R (andthen m f s))"
  using assms
  by (cases "m s"; cases "fst (m s)") (auto simp: proceed_def respond_def andthen_def does_def)

lemma does_pure:
  assumes "\<And>x. r = Ok x \<Longrightarrow> does C X k (g x) (respond R (f x s))"
  shows "does C X k (case r of Ok x \<Rightarrow> g x | Err e \<Rightarrow> (Finished (finish F (Err e)), s)
      | Panic p \<Rightarrow> (Finished (finish F (Panic p)), s))
    (respond R (andthen (pure_act r) f s))"
  using assms by (cases r) (auto simp: respond_def andthen_def pure_act_def finish_def does_def)

lemma arrived_does:
  assumes "r \<noteq> GetHealth" and "\<And>s'. does C X k (Admitted E r, s') (respond R (f s'))"
  shows "does C X (Suc k) (Arrived E r, s) (respond R (andthen (check_rate_limit E (bucket_of r)) (\<lambda>_. f) s))"
  using assms by (simp add: does_Suc does_proceed)

lemma admitted_does:
  assumes "\<And>n s'. does C X k (Authenticated E r n, s') (respond R (f n s'))"
    and "\<And>req. r \<noteq> PostRegister req"
  shows "does C X (Suc k) (Admitted E r, s)
    (respond R (andthen (andthen (pure_act (bearer_of r)) (caller_of E)) f s))"
proof -
  have "admitted_step C X E r s = proceed (Authenticated E r) (andthen (pure_act (bearer_of r)) (caller_of E) s)"
    using assms(2) by (cases r) auto
  then show ?thesis using assms(1) by (simp add: does_Suc does_proceed)
qed

lemma four: "4 = Suc (Suc (Suc (Suc 0)))"
  by simp

lemma register_alone:
  "does C X 4 (Arrived E (PostRegister req), s) (respond RegisteredResponse (register C X E req s))"
  unfolding register_split four
  apply (rule arrived_does [where r = "PostRegister req", unfolded bucket_of.simps], simp)
  apply (simp only: does_Suc task_step.simps admitted_step.simps)
  apply (rule does_pure, rule does_proceed)
  apply (simp only: does_Suc task_step.simps)
  apply (rule does_proceed)
  apply (simp add: respond_def ret_def)
  done

lemma heartbeat_alone:
  "does C X 4 (Arrived E (PostHeartbeat h hb), s) (respond StatusResponse (heartbeat C X E h hb s))"
  unfolding heartbeat_split four
  apply (rule arrived_does [where r = "PostHeartbeat h hb", unfolded bucket_of.simps], simp)
  apply (rule admitted_does [where r = "PostHeartbeat h hb", unfolded bearer_of.simps])
   apply (simp only: does_Suc task_step.simps authenticated_step.simps)
   apply (rule does_pure)
   apply (simp_all add: respond_def heartbeat_commit_def)
  done

lemma peers_split:
  "peers_route X E h =
     andthen (check_rate_limit E Default) (\<lambda>_.
       andthen (andthen (pure_act (extract_bearer h)) (caller_of E)) (\<lambda>n s.
         (Ok (map (peer_entry_of X) (list_peers (cdb s) (Some (n_node_id n)))), s)))"
  by (simp add: peers_route_def andthen_assoc)

lemma peers_alone:
  "does C X 4 (Arrived E (GetPeers h), s) (respond PeersResponse (peers_route X E h s))"
  unfolding peers_split four
  apply (rule arrived_does [where r = "GetPeers h", unfolded bucket_of.simps], simp)
  apply (rule admitted_does [where r = "GetPeers h", unfolded bearer_of.simps])
   apply (simp_all add: does_Suc respond_def)
  done

lemma signed_split:
  "andthen (signed_caller C X E h sg msg) f =
     andthen (check_rate_limit E Token) (\<lambda>_.
       andthen (andthen (pure_act (extract_bearer h)) (caller_of E)) (\<lambda>n.
         andthen (pure_act (signature_verified C X E sg msg n)) (\<lambda>_. f n)))"
  by (simp add: signed_caller_split andthen_assoc andthen_ret)

lemma refresh_alone:
  "does C X 4 (Arrived E (PostTokenRefresh h sg), s) (respond RefreshedResponse (refresh_token C X E h sg s))"
  unfolding refresh_token_def signed_split four
  apply (rule arrived_does [where r = "PostTokenRefresh h sg", unfolded bucket_of.simps], simp)
  apply (rule admitted_does [where r = "PostTokenRefresh h sg", unfolded bearer_of.simps])
   apply (simp only: does_Suc task_step.simps authenticated_step.simps)
   apply (rule does_pure)
   apply (simp add: does_Suc Let_def)
   apply (rule does_proceed)
   apply (simp_all add: respond_def ret_def)
  done

lemma delete_alone:
  "does C X 4 (Arrived E (DeleteNode h sg), s) (respond StatusResponse (delete_node C X E h sg s))"
  unfolding delete_node_def signed_split four
  apply (rule arrived_does [where r = "DeleteNode h sg", unfolded bucket_of.simps], simp)
  apply (rule admitted_does [where r = "DeleteNode h sg", unfolded bearer_of.simps])
   apply (simp only: does_Suc task_step.simps authenticated_step.simps)
   apply (rule does_pure)
   apply (simp_all add: does_Suc respond_def Let_def split: prod.split)
  done


end
