(* ===== verification/Coord_Interleave.thy ===== *)
theory Coord_Interleave
  imports Coord_Tasks
begin

text \<open>
  What the interleaving of requests can and cannot break.  An address on its way (allocated but
  not stored yet, or deleted but not released yet) is held by a task; addresses are stored with
  at most one node or held by at most one task, under every schedule.  A token refresh is two
  calls, and two refreshes that overlap leave a node with two live tokens.
\<close>

section \<open>Who has an address\<close>

fun held :: "task \<Rightarrow> u32 list" where
  "held (Allocated E keys ip) = [u32_from_be ip]"
| "held (Deleted ip) = (case Option.bind ip parse_ipv4 of Some a \<Rightarrow> [a] | None \<Rightarrow> [])"
| "held _ = []"

fun task_ok :: "task \<Rightarrow> bool" where
  "task_ok (Allocated E keys ip) \<longleftrightarrow> length (fst keys) = 32 \<and> ip = u32_to_be (u32_from_be ip)"
| "task_ok _ = True"

definition owned :: "coord \<Rightarrow> u32 list \<Rightarrow> bool" where
  "owned s hs \<longleftrightarrow>
     coord_ok s \<and> distinct hs \<and>
     (\<forall>a \<in> set hs. a \<in> pool \<inter> ip_alloc s \<and>
        (\<forall>n \<in> set (db_nodes (cdb s)). n_ip n \<noteq> show_ipv4 (u32_to_be a)))"

definition server_ok :: "coord \<times> task list \<Rightarrow> bool" where
  "server_ok c \<longleftrightarrow> owned (fst c) (concat (map held (snd c))) \<and> list_all task_ok (snd c)"

lemma owned_same: "same_data s t \<Longrightarrow> owned s hs \<Longrightarrow> owned t hs"
  using coord_ok_same by (auto simp: owned_def same_data_def)

lemma owned_drop: "owned s (hs @ rest) \<Longrightarrow> owned s rest"
  by (auto simp: owned_def)

lemma owned_nodes:
  assumes "owned s hs" and "coord_ok t" and "ip_alloc t = ip_alloc s"
    and "n_ip ` set (db_nodes (cdb t)) \<subseteq> n_ip ` set (db_nodes (cdb s))"
  shows "owned t hs"
  using assms by (auto simp: owned_def)

lemma owned_frees: "owned s hs \<Longrightarrow> a \<in> set hs \<Longrightarrow> owned s [a]"
  by (auto simp: owned_def)

section \<open>One call keeps the ownership\<close>

text \<open>\<open>rest\<close> are the addresses the other tasks hold.\<close>

definition safe :: "u32 list \<Rightarrow> task \<times> coord \<Rightarrow> bool" where
  "safe rest r \<longleftrightarrow> owned (snd r) (held (fst r) @ rest) \<and> task_ok (fst r)"

lemma safe_idle: "held t = [] \<Longrightarrow> task_ok t \<Longrightarrow> owned s rest \<Longrightarrow> safe rest (t, s)"
  by (simp add: safe_def)

lemma safe_proceed:
  assumes "c = (r, s')" and "owned s' rest" and "\<And>x. r = Ok x \<Longrightarrow> safe rest (T x, s')"
  shows "safe rest (proceed T c)"
  using assms by (cases r) (simp_all add: proceed_def safe_def)

lemma safe_proceed_finished: "owned s rest \<Longrightarrow> safe rest (proceed (\<lambda>x. Finished (g x)) (r, s))"
  by (cases r) (simp_all add: proceed_def safe_def)

lemma allocate_owned:
  assumes "owned s rest" and "allocate (ip_alloc s) = (Ok ip, used')"
  shows "owned (s\<lparr>ip_alloc := used'\<rparr>) (u32_from_be ip # rest)" and "ip = u32_to_be (u32_from_be ip)"
proof -
  obtain a where a: "ip = u32_to_be a" "a \<in> pool" "a \<notin> ip_alloc s" "used' = insert a (ip_alloc s)"
    by (rule allocate_Ok [OF assms(2)])
  have word: "u32_from_be ip = a" by (simp add: a(1))
  show "ip = u32_to_be (u32_from_be ip)" by (simp add: word a(1))
  have "n_ip n \<noteq> show_ipv4 (u32_to_be a)" if "n \<in> set (db_nodes (cdb s))" for n
    using assms(1) that a(3) by (auto simp: owned_def coord_ok_def node_ok_def show_ipv4_inj)
  then show "owned (s\<lparr>ip_alloc := used'\<rparr>) (u32_from_be ip # rest)"
    using assms(1) a unfolding word by (auto simp: owned_def coord_ok_def node_ok_def)
qed

lemma insert_owned:
  assumes ok: "owned s (u32_from_be ip # rest)" and "ip = u32_to_be (u32_from_be ip)" and "length i = 32"
    and ins: "insert_node fk (new_node E i w ip) tok ttl (cdb s) = (r, d)"
  shows "owned (s\<lparr>cdb := d\<rparr>) rest"
proof -
  let ?a = "u32_from_be ip" and ?n = "(new_node E i w ip)\<lparr>n_last_endpoint := None, n_last_seen := None\<rparr>"
  have nodes: "set (db_nodes d) \<subseteq> insert ?n (set (db_nodes (cdb s)))"
    using insert_node_nodes [of fk "new_node E i w ip" tok ttl "cdb s"] ins by simp
  have "db_ok d" using insert_node_ok [of "cdb s" fk "new_node E i w ip" tok ttl] ok ins
    by (simp add: owned_def coord_ok_def)
  moreover have ip: "n_ip ?n = show_ipv4 (u32_to_be ?a)" using assms(2) by (simp add: new_node_def)
  moreover have "node_ok (ip_alloc s) ?n"
    using ok assms(3) ip by (auto simp: node_ok_def owned_def new_node_def)
  ultimately have "coord_ok (s\<lparr>cdb := d\<rparr>)"
    using ok nodes by (auto simp: coord_ok_def owned_def)
  moreover have "n_ip m \<noteq> show_ipv4 (u32_to_be b)" if "b \<in> set rest" "m \<in> set (db_nodes d)" for b m
    using that nodes ok ip by (auto simp: owned_def show_ipv4_inj)
  ultimately show ?thesis using ok by (auto simp: owned_def)
qed

lemma delete_owned:
  assumes ok: "owned s rest" and del: "db_delete_node i (cdb s) = (ip, d)"
  shows "owned (s\<lparr>cdb := d\<rparr>) (held (Deleted ip) @ rest)"
proof -
  have d: "db_nodes d = filter (\<lambda>m. n_node_id m \<noteq> i) (db_nodes (cdb s))" and
    ip: "ip = map_option n_ip (first_row (filter (\<lambda>m. n_node_id m = i) (db_nodes (cdb s))))"
    using del by (auto simp: db_delete_node_def Let_def)
  have "db_ok (cdb s)" using ok by (simp add: owned_def coord_ok_def)
  then have "db_ok d" and ips: "distinct (map n_ip (db_nodes (cdb s)))"
    using db_delete_node_ok [of "cdb s" i] del by (simp_all add: db_ok_def)
  then have dok: "owned (s\<lparr>cdb := d\<rparr>) rest"
    using ok d by (intro owned_nodes [OF ok]) (auto simp: coord_ok_def owned_def)
  show ?thesis
  proof (cases "first_row (filter (\<lambda>m. n_node_id m = i) (db_nodes (cdb s)))")
    case None
    then show ?thesis using dok ip by simp
  next
    case (Some n)
    then have n: "n \<in> set (db_nodes (cdb s))" "n_node_id n = i"
      using first_row_Some by fastforce+
    obtain a where a: "a \<in> pool" "a \<in> ip_alloc s" "n_ip n = show_ipv4 (u32_to_be a)" "parse_ipv4 (n_ip n) = Some a"
      using node_ip_parses [OF _ n(1)] ok by (auto simp: owned_def)
    have "n_ip m \<noteq> n_ip n" if "m \<in> set (db_nodes d)" for m
      using that d n distinct_key [OF ips _ n(1)] by auto
    moreover have "a \<notin> set rest" using ok n(1) a(3) by (auto simp: owned_def)
    ultimately show ?thesis using dok a ip Some by (auto simp: owned_def)
  qed
qed

lemma release_owned:
  assumes "owned s (a # rest)"
  shows "owned (s\<lparr>ip_alloc := release (v4_octets a) (ip_alloc s)\<rparr>) rest"
proof -
  have "node_ok (ip_alloc s - {a}) n" if n: "n \<in> set (db_nodes (cdb s))" for n
  proof -
    have "node_ok (ip_alloc s) n" "n_ip n \<noteq> show_ipv4 (u32_to_be a)"
      using assms n by (simp_all add: owned_def coord_ok_def)
    then show ?thesis by (auto simp: node_ok_def)
  qed
  then show ?thesis
    using assms by (auto simp: owned_def coord_ok_def release_def v4_octets_def)
qed

lemma registration_keys_length:
  "registration_keys C X E req = Ok keys \<Longrightarrow> length (fst keys) = 32"
  by (auto simp: registration_keys_def try_ok_Ok_iff decode_lengths)

lemma admitted_safe:
  assumes ok: "owned s rest"
  shows "safe rest (admitted_step C X E r s)"
proof -
  have caller: "safe rest (proceed (Authenticated E r) (andthen (pure_act (bearer_of r)) (caller_of E) s))"
  proof -
    obtain q s' where m: "andthen (pure_act (bearer_of r)) (caller_of E) s = (q, s')"
      by (cases "andthen (pure_act (bearer_of r)) (caller_of E) s")
    have "stays same_data (andthen (pure_act (bearer_of r)) (caller_of E))"
      by (intro sd.stays_andthen checks_same_data)
    from owned_same [OF stays_result [OF this m] ok] show ?thesis
      by (intro safe_proceed [OF m]) (simp_all add: safe_def)
  qed
  show ?thesis
  proof (cases r)
    case (PostRegister req)
    show ?thesis
    proof (cases "registration_keys C X E req")
      case (Ok keys)
      obtain q used' where al: "allocate (ip_alloc s) = (q, used')" by (cases "allocate (ip_alloc s)")
      then have m: "with_ips allocate s = (q, s\<lparr>ip_alloc := used'\<rparr>)" by (simp add: with_ips_def)
      have "safe rest (proceed (Allocated E keys) (with_ips allocate s))"
      proof (cases q)
        case (Ok ip)
        note a = allocate_owned [OF ok al [unfolded Ok]]
        show ?thesis
          using a registration_keys_length [OF \<open>registration_keys C X E req = Ok keys\<close>]
          by (simp add: m Ok proceed_def safe_def)
      next
        case (Err e)
        then have "used' = ip_alloc s" using allocate_unchanged [of "ip_alloc s"] al by simp
        then show ?thesis using ok by (simp add: m Err proceed_def safe_def)
      next
        case (Panic e)
        then have "used' = ip_alloc s" using allocate_unchanged [of "ip_alloc s"] al by simp
        then show ?thesis using ok by (simp add: m Panic proceed_def safe_def)
      qed
      then show ?thesis by (simp add: PostRegister Ok)
    qed (use ok in \<open>simp_all add: PostRegister safe_def\<close>)
  qed (use caller in simp_all)
qed

lemma authenticated_safe:
  assumes ok: "owned s rest"
  shows "safe rest (authenticated_step C X E r n s)"
proof (cases r)
  case (PostHeartbeat h hb)
  have "owned (s\<lparr>cdb := update_nodes i f (cdb s)\<rparr>) rest"
    if f: "\<And>r. n_node_id (f r) = n_node_id r \<and> n_identity (f r) = n_identity r \<and> n_wg (f r) = n_wg r \<and> n_ip (f r) = n_ip r"
    for i f
    using ok by (intro owned_nodes [OF ok] update_nodes_coord_ok f)
      (auto simp: owned_def update_nodes_def f)
  then show ?thesis
    using ok by (simp add: PostHeartbeat safe_def update_heartbeat_def split: outcome.split)
next
  case (PostTokenRefresh h sg)
  have "owned (s\<lparr>cdb := snd (revoke_all_tokens_for_node i (cdb s))\<rparr>) rest" for i
    using ok revoke_ok [of "cdb s" i]
    by (intro owned_nodes [OF ok] token_write_coord_ok) (auto simp: owned_def coord_ok_def revoke_all_tokens_for_node_def Let_def)
  then show ?thesis using ok by (simp add: PostTokenRefresh safe_def split: outcome.split)
next
  case (DeleteNode h sg)
  then show ?thesis
    using ok delete_owned [OF ok] by (auto simp: safe_def split: outcome.split prod.split)
qed (use ok in \<open>simp_all add: safe_def\<close>)

lemma create_token_owned:
  assumes ok: "owned s rest" and ins: "create_token True i tok created ttl (cdb s) = (r, d)"
  shows "owned (s\<lparr>cdb := d\<rparr>) rest"
proof -
  have "db_ok (cdb s)" using ok by (simp add: owned_def coord_ok_def)
  then have "db_ok d \<and> db_nodes d = db_nodes (cdb s)"
    using ins by (auto simp: create_token_def insert_token_row_def db_ok_def list_ex_iff split: if_splits)
  then show ?thesis
    using ok by (intro owned_nodes [OF ok] token_write_coord_ok) (auto simp: owned_def)
qed

lemma task_step_safe:
  assumes fk: "fk_enforced X" and ok: "owned s (held t @ rest)" and t: "task_ok t"
  shows "safe rest (task_step C X t s)"
proof (cases t)
  case (Arrived E r)
  obtain q s' where m: "check_rate_limit E (bucket_of r) s = (q, s')"
    by (cases "check_rate_limit E (bucket_of r) s")
  have "owned s' rest" using owned_same [OF stays_result [OF checks_same_data(1) m]] ok Arrived by simp
  then have "safe rest (proceed (\<lambda>_. Admitted E r) (check_rate_limit E (bucket_of r) s))"
    by (intro safe_proceed [OF m]) (simp_all add: safe_def)
  then show ?thesis using ok Arrived by (simp add: safe_idle)
next
  case (Admitted E r)
  then show ?thesis using ok by (simp add: admitted_safe)
next
  case (Authenticated E r n)
  then show ?thesis using ok by (simp add: authenticated_safe)
next
  case (Allocated E keys ip)
  let ?ins = "insert_node (fk_enforced X) (new_node E (fst keys) (snd keys) ip) (generate_token X E) (token_ttl_secs s)"
  obtain q d where ins: "?ins (cdb s) = (q, d)" by (cases "?ins (cdb s)")
  have m: "with_db ?ins s = (q, s\<lparr>cdb := d\<rparr>)" by (simp add: with_db_def ins)
  have "owned (s\<lparr>cdb := d\<rparr>) rest"
    using insert_owned [OF _ _ _ ins] ok t Allocated by simp
  then show ?thesis by (simp add: Allocated m safe_proceed_finished)
next
  case (Revoked E n)
  let ?ins = "create_token (fk_enforced X) (n_node_id n) (generate_token X E) (clock E) (token_ttl_secs s)"
  obtain q d where ins: "?ins (cdb s) = (q, d)" by (cases "?ins (cdb s)")
  have m: "with_db ?ins s = (q, s\<lparr>cdb := d\<rparr>)" by (simp add: with_db_def ins)
  have "owned (s\<lparr>cdb := d\<rparr>) rest"
    using create_token_owned ok Revoked ins fk by simp
  then show ?thesis by (simp add: Revoked m safe_proceed_finished)
next
  case (Deleted ip)
  then show ?thesis using ok
    by (auto simp: safe_def release_owned split: option.splits)
next
  case (Finished resp)
  then show ?thesis using ok by (simp add: safe_def)
qed

section \<open>Every schedule\<close>

lemma owned_front: "owned s (xs @ hs @ ys) \<longleftrightarrow> owned s (hs @ xs @ ys)"
  by (auto simp: owned_def)

lemma run_event_ok:
  assumes fk: "fk_enforced X" and ok: "server_ok (s, ts)" and i: "i < length ts"
    and step: "task_step C X (ts ! i) s = (t', s')"
  shows "server_ok (s', ts[i := t'])"
proof -
  let ?rest = "concat (map held (take i ts)) @ concat (map held (drop (Suc i) ts))"
  have split: "ts = take i ts @ ts ! i # drop (Suc i) ts"
    using i by (rule id_take_nth_drop)
  have "concat (map held ts) = concat (map held (take i ts)) @ held (ts ! i) @ concat (map held (drop (Suc i) ts))"
    by (subst split) simp
  then have "owned s (held (ts ! i) @ ?rest)"
    using ok owned_front by (simp add: server_ok_def)
  moreover have "task_ok (ts ! i)" using ok i by (simp add: server_ok_def list_all_length)
  ultimately have "safe ?rest (t', s')" using task_step_safe [OF fk] step by metis
  then have new: "owned s' (held t' @ ?rest)" "task_ok t'" by (simp_all add: safe_def)
  have upd: "ts[i := t'] = take i ts @ t' # drop (Suc i) ts" using i by (rule upd_conv_take_nth_drop)
  have "owned s' (concat (map held (ts[i := t'])))"
    using new(1) owned_front by (simp add: upd)
  moreover have "list_all task_ok (ts[i := t'])"
    using ok new(2) i by (simp add: server_ok_def list_all_length nth_list_update)
  ultimately show ?thesis by (simp add: server_ok_def)
qed

lemma serve_event_ok: "fk_enforced X \<Longrightarrow> server_ok c \<Longrightarrow> server_ok (serve_event C X e c)"
proof (cases e; cases c)
  fix E r s ts assume "server_ok c" "e = Arrive E r" "c = (s, ts)"
  then show ?thesis by (simp add: server_ok_def)
next
  fix i s ts assume "fk_enforced X" "server_ok c" "e = Run i" "c = (s, ts)"
  then show ?thesis using run_event_ok by (auto split: prod.split)
qed

interpretation sched: step_invariant "serve_event C (X\<lparr>fk_enforced := True\<rparr>)" server_ok for C X
  by unfold_locales (rule serve_event_ok, simp_all)

lemma server_ok_start: "server_ok (app_state_in_memory ttl, [])"
  by (simp add: server_ok_def owned_def coord_ok_in_memory)

text \<open>C10: The server's data stay consistent however its requests interleave.  Let requests arrive at
  any time and let a scheduler run their handlers in any order, switching between any two calls
  of the limiter, the allocator and the database; then, with the foreign keys of SQLite enforced,
  the data satisfy the invariant of the sequential server, and every address that a running
  registration or deletion holds is in use, belongs to no stored node and to no other request.\<close>

theorem interleaved_invariant:
  assumes "fk_enforced X" and "fold (serve_event C X) es (app_state_in_memory ttl, []) = (s, ts)"
  shows "coord_ok s \<and> distinct (concat (map held ts)) \<and>
    (\<forall>a \<in> set (concat (map held ts)). a \<in> pool \<and> a \<in> ip_alloc s \<and>
       (\<forall>n \<in> set (db_nodes (cdb s)). n_ip n \<noteq> show_ipv4 (u32_to_be a)))"
proof -
  have X: "X\<lparr>fk_enforced := True\<rparr> = X" using assms(1) by simp
  have "server_ok (fold (serve_event C X) es (app_state_in_memory ttl, []))"
    using sched.run_keeps [OF server_ok_start, where X = X] unfolding X .
  then show ?thesis using assms(2) by (simp add: server_ok_def owned_def)
qed

text \<open>A registration in the middle of its work holds the first address.\<close>

theorem interleaved_invariant_witness:
  "\<exists>s ts. fold (serve_event plain plain_libs)
      [Arrive demo_request (PostRegister (demo_register (replicate 32 2))), Run 0, Run 0] (app_state_in_memory 1000, []) = (s, ts) \<and>
     concat (map held ts) = [IP_POOL_FIRST_HOST] \<and> IP_POOL_FIRST_HOST \<in> ip_alloc s \<and> coord_ok s"
proof -
  let ?req = "demo_register (replicate 32 2)"
  have "registration_keys plain plain_libs demo_request ?req = Ok (demo_key, replicate 32 2)"
  proof -
    have "length demo_key = 32" by (simp add: demo_key_def)
    then show ?thesis
      by (simp add: registration_keys_def demo_register_def verify_register_signature_def)
  qed
  moreover have "check_rate_limit demo_request Register demo_empty = (Ok (), demo_registered)"
    by (rule demo_first_check [folded demo_registered_def])
  ultimately have "fold (serve_event plain plain_libs) [Arrive demo_request (PostRegister ?req), Run 0, Run 0] (demo_empty, []) =
      (demo_registered\<lparr>ip_alloc := {IP_POOL_FIRST_HOST}\<rparr>,
       [Allocated demo_request (demo_key, replicate 32 2) (u32_to_be IP_POOL_FIRST_HOST)])"
    by (simp add: proceed_def with_ips_def demo_first_allocation)
  then have run: "fold (serve_event plain plain_libs) [Arrive demo_request (PostRegister ?req), Run 0, Run 0] (app_state_in_memory 1000, []) =
      (demo_registered\<lparr>ip_alloc := {IP_POOL_FIRST_HOST}\<rparr>,
       [Allocated demo_request (demo_key, replicate 32 2) (u32_to_be IP_POOL_FIRST_HOST)])"
    by (simp only: demo_empty_def)
  have "fk_enforced plain_libs" by (simp add: plain_libs_def)
  from interleaved_invariant [OF this run] show ?thesis unfolding run by simp
qed

section \<open>Two refreshes that overlap\<close>

lemma revoked_tokens: "map t_token (db_tokens (snd (revoke_all_tokens_for_node i d))) = map t_token (db_tokens d)"
  by (simp add: revoke_all_tokens_for_node_def Let_def comp_def if_distrib [of t_token] cong: if_cong)

lemma refreshed_twice:
  assumes ok: "db_ok d" and n: "n \<in> set (db_nodes d)"
    and fresh: "get_token d tok1 = None" "get_token d tok2 = None" "tok1 \<noteq> tok2"
  shows "\<exists>d3 d4. create_token fk (n_node_id n) tok1 c1 ttl
        (snd (revoke_all_tokens_for_node i (snd (revoke_all_tokens_for_node i d)))) = (Ok (), d3) \<and>
      create_token fk (n_node_id n) tok2 c2 ttl d3 = (Ok (), d4) \<and>
      (\<forall>t. sint t < sint (c1 + ttl) \<longrightarrow> get_node_by_token d4 tok1 t = Some n) \<and>
      (\<forall>t. sint t < sint (c2 + ttl) \<longrightarrow> get_node_by_token d4 tok2 t = Some n)"
proof -
  let ?d2 = "snd (revoke_all_tokens_for_node i (snd (revoke_all_tokens_for_node i d)))"
  have d2: "db_ok ?d2" by (rule revoke_ok [OF revoke_ok [OF ok]])
  have nodes: "db_nodes ?d2 = db_nodes d" by (simp add: revoke_all_tokens_for_node_def Let_def)
  have "map t_token (db_tokens ?d2) = map t_token (db_tokens d)" by (simp add: revoked_tokens)
  then have toks: "t_token ` set (db_tokens ?d2) = t_token ` set (db_tokens d)" by (metis list.set_map)
  have new: "tok1 \<notin> t_token ` set (db_tokens ?d2)" "tok2 \<notin> t_token ` set (db_tokens ?d2)"
    using fresh(1,2) unfolding toks by (auto simp: get_token_def first_row_None filter_empty_conv)
  let ?t1 = "\<lparr>t_token = tok1, t_node_id = n_node_id n, t_created_at = c1, t_expires_at = c1 + ttl, t_revoked = False\<rparr>"
  let ?t2 = "\<lparr>t_token = tok2, t_node_id = n_node_id n, t_created_at = c2, t_expires_at = c2 + ttl, t_revoked = False\<rparr>"
  let ?d3 = "?d2\<lparr>db_tokens := db_tokens ?d2 @ [?t1]\<rparr>"
  let ?d4 = "?d3\<lparr>db_tokens := db_tokens ?d3 @ [?t2]\<rparr>"
  have exists: "list_ex (\<lambda>m. n_node_id m = n_node_id n) (db_nodes ?d2)"
    using n unfolding nodes by (auto simp: list_ex_iff)
  have c: "create_token fk (n_node_id n) tok1 c1 ttl ?d2 = (Ok (), ?d3)"
    "create_token fk (n_node_id n) tok2 c2 ttl ?d3 = (Ok (), ?d4)"
    using new fresh(3) exists by (auto simp: create_token_def insert_token_row_def list_ex_iff)
  have "db_ok ?d4" using d2 new fresh(3) n nodes by (auto simp: db_ok_def)
  then have "get_node_by_token ?d4 tok1 t = Some n" if "sint t < sint (c1 + ttl)" for t
    using that n nodes by (auto simp: get_node_by_token_iff token_live_def)
  moreover have "get_node_by_token ?d4 tok2 t = Some n" if "sint t < sint (c2 + ttl)" for t
    using that n nodes \<open>db_ok ?d4\<close> by (auto simp: get_node_by_token_iff token_live_def)
  ultimately show ?thesis using c by blast
qed

lemma admitted_refresh:
  assumes "extract_bearer h = Ok tok" and "get_node_by_token (cdb s) tok (clock E) = Some n"
  shows "task_step C X (Admitted E (PostTokenRefresh h g)) s = (Authenticated E (PostTokenRefresh h g) n, s)"
  using assms by (simp add: proceed_def andthen_def pure_act_def caller_of_def)

lemma authenticated_refresh:
  assumes "signature_verified C X E g build_refresh_message n = Ok ()"
  shows "task_step C X (Authenticated E (PostTokenRefresh h g) n) s =
    (Revoked E n, s\<lparr>cdb := snd (revoke_all_tokens_for_node (n_node_id n) (cdb s))\<rparr>)"
  using assms by simp

text \<open>C20: Overlapping refreshes leave two live tokens.  A refresh revokes the tokens of its node and
  creates a new one in two separate calls.  When two refreshes of one node with valid tokens and
  signatures overlap so that both have revoked before either creates, both succeed and both new
  tokens speak for the node until they expire, although one request after the other would leave
  one: the token of the first answer is never revoked by the second request.\<close>

theorem overlapping_refreshes:
  assumes "coord_ok s"
    and "check_rate_limit E1 Token s = (Ok (), s1)" and "check_rate_limit E2 Token s1 = (Ok (), s2)"
    and "extract_bearer h1 = Ok tok1" and "get_node_by_token (cdb s) tok1 (clock E1) = Some n"
    and "extract_bearer h2 = Ok tok2" and "get_node_by_token (cdb s) tok2 (clock E2) = Some n"
    and "signature_verified C X E1 g1 build_refresh_message n = Ok ()"
    and "signature_verified C X E2 g2 build_refresh_message n = Ok ()"
    and "get_token (cdb s) (generate_token X E1) = None"
    and "get_token (cdb s) (generate_token X E2) = None"
    and "generate_token X E1 \<noteq> generate_token X E2"
  shows "\<exists>s' r1 r2. fold (serve_event C X)
      [Arrive E1 (PostTokenRefresh h1 g1), Arrive E2 (PostTokenRefresh h2 g2),
       Run 0, Run 1, Run 0, Run 1, Run 0, Run 1, Run 0, Run 1] (s, []) =
        (s', [Finished (RefreshedResponse r1), Finished (RefreshedResponse r2)]) \<and>
      rf_auth_token r1 \<noteq> rf_auth_token r2 \<and>
      (\<forall>t. sint t < sint (rf_auth_token_expires_at r1) \<longrightarrow>
         get_node_by_token (cdb s') (rf_auth_token r1) t = Some n) \<and>
      (\<forall>t. sint t < sint (rf_auth_token_expires_at r2) \<longrightarrow>
         get_node_by_token (cdb s') (rf_auth_token r2) t = Some n)"
proof -
  have data: "cdb s1 = cdb s" "cdb s2 = cdb s" "token_ttl_secs s2 = token_ttl_secs s"
    using check_rate_limit_OkD [OF assms(2)] check_rate_limit_OkD [OF assms(3)] by (simp_all add: same_data_def)
  have ok: "db_ok (cdb s)" using assms(1) by (simp add: coord_ok_def)
  have n: "n \<in> set (db_nodes (cdb s))" by (rule caller_in_nodes [OF assms(1,5)])
  let ?rev = "\<lambda>d. snd (revoke_all_tokens_for_node (n_node_id n) d)"
  obtain d3 d4 where d:
    "create_token (fk_enforced X) (n_node_id n) (generate_token X E1) (clock E1) (token_ttl_secs s) (?rev (?rev (cdb s))) = (Ok (), d3)"
    "create_token (fk_enforced X) (n_node_id n) (generate_token X E2) (clock E2) (token_ttl_secs s) d3 = (Ok (), d4)"
    "\<forall>t. sint t < sint (clock E1 + token_ttl_secs s) \<longrightarrow> get_node_by_token d4 (generate_token X E1) t = Some n"
    "\<forall>t. sint t < sint (clock E2 + token_ttl_secs s) \<longrightarrow> get_node_by_token d4 (generate_token X E2) t = Some n"
    using refreshed_twice [OF ok n assms(10-12)] by blast
  let ?r = "\<lambda>E. \<lparr>rf_auth_token = generate_token X E, rf_auth_token_expires_at = clock E + token_ttl_secs s,
      rf_old_token_expires_at = clock E + token_ttl_secs s\<rparr>"
  have arrive: "task_step C X (Arrived E1 (PostTokenRefresh h1 g1)) s = (Admitted E1 (PostTokenRefresh h1 g1), s1)"
    "task_step C X (Arrived E2 (PostTokenRefresh h2 g2)) s1 = (Admitted E2 (PostTokenRefresh h2 g2), s2)"
    using assms(2,3) by (simp_all add: proceed_def)
  note admitted = admitted_refresh [where s = s2, unfolded data, OF assms(4,5)]
    admitted_refresh [where s = s2, unfolded data, OF assms(6,7)]
  note revoked = authenticated_refresh [OF assms(8)] authenticated_refresh [OF assms(9)]
  have create: "task_step C X (Revoked E1 n) (s2\<lparr>cdb := ?rev (?rev (cdb s))\<rparr>) =
      (Finished (RefreshedResponse (?r E1)), s2\<lparr>cdb := d3\<rparr>)"
    "task_step C X (Revoked E2 n) (s2\<lparr>cdb := d3\<rparr>) = (Finished (RefreshedResponse (?r E2)), s2\<lparr>cdb := d4\<rparr>)"
    using d(1,2) by (simp_all add: proceed_def with_db_def data)
  have "fold (serve_event C X)
      [Arrive E1 (PostTokenRefresh h1 g1), Arrive E2 (PostTokenRefresh h2 g2),
       Run 0, Run 1, Run 0, Run 1, Run 0, Run 1, Run 0, Run 1] (s, []) =
        (s2\<lparr>cdb := d4\<rparr>, [Finished (RefreshedResponse (?r E1)), Finished (RefreshedResponse (?r E2))])"
    using create by (simp add: arrive admitted revoked data del: task_step.simps)
  with d(3,4) assms(12) show ?thesis by auto
qed

theorem overlapping_refreshes_witness:
  "\<exists>s' r1 r2. fold (serve_event plain plain_libs)
      [Arrive demo_request (PostTokenRefresh demo_bearer (demo_signed build_refresh_message)),
       Arrive (demo_request\<lparr>token_random := replicate 32 8\<rparr>) (PostTokenRefresh demo_bearer (demo_signed build_refresh_message)),
       Run 0, Run 1, Run 0, Run 1, Run 0, Run 1, Run 0, Run 1] (demo_coord, []) =
        (s', [Finished (RefreshedResponse r1), Finished (RefreshedResponse r2)]) \<and>
      rf_auth_token r1 \<noteq> rf_auth_token r2"
proof -
  let ?E2 = "demo_request\<lparr>token_random := replicate 32 8\<rparr>"
  let ?g = "demo_signed build_refresh_message"
  have second: "check_rate_limit ?E2 Token (demo_admitted Token) =
      (Ok (), demo_coord\<lparr>rate_limiter := limiter_new((V4 7, bucket_name Token) \<mapsto> [0, 0])\<rparr>)"
    by (simp add: check_rate_limit_def demo_request_def demo_coord_def demo_admitted_def check_def Let_def
        timestamps_def duration_since_def from_secs_def)
  have caller: "get_node_by_token (cdb demo_coord) ''tok'' (clock E) = Some demo_node"
    if "clock E = 500" for E :: coord_env using that by simp
  have signed: "signature_verified plain plain_libs E ?g build_refresh_message demo_node = Ok ()"
    if "clock E = 500" for E :: coord_env
    using that by (simp add: signature_verified_def demo_signed_def)
  have fresh: "get_token (cdb demo_coord) (generate_token plain_libs E) = None"
    if "length (token_random E) = 32" for E :: coord_env
  proof -
    have "length (generate_token plain_libs E) = 32"
      using that by (simp add: generate_token_def plain_libs_def)
    then have "generate_token plain_libs E \<noteq> ''tok''" by auto
    then show ?thesis by (simp add: get_token_def demo_coord_def demo_token_def)
  qed
  have differ: "generate_token plain_libs demo_request \<noteq> generate_token plain_libs ?E2"
  proof
    assume "generate_token plain_libs demo_request = generate_token plain_libs ?E2"
    then have "b64_decode plain_libs (b64_encode plain_libs (token_random demo_request)) =
        b64_decode plain_libs (b64_encode plain_libs (token_random ?E2))"
      by (simp only: generate_token_def)
    then show False by (simp add: demo_request_def)
  qed
  have clocks: "clock demo_request = 500" "clock ?E2 = 500" "length (token_random demo_request) = 32"
    "length (token_random ?E2) = 32"
    by (simp_all add: demo_request_def)
  show ?thesis
    using overlapping_refreshes [OF demo_coord_ok demo_check second demo_bearer_token caller demo_bearer_token caller
        signed signed fresh fresh differ] clocks by blast
qed

section \<open>Every request is answered\<close>

fun turns_left :: "task \<Rightarrow> nat" where
  "turns_left (Arrived E r) = 4"
| "turns_left (Admitted E r) = 3"
| "turns_left (Authenticated E r n) = 2"
| "turns_left (Finished resp) = 0"
| "turns_left _ = 1"

lemma turns_left_0: "turns_left t = 0 \<longleftrightarrow> (\<exists>resp. t = Finished resp)"
  by (cases t) simp_all

lemma proceed_turns: "(\<And>x. turns_left (f x) \<le> k) \<Longrightarrow> turns_left (fst (proceed f c)) \<le> k"
  by (cases "fst c") (simp_all add: proceed_def)

lemma proceed_Finished_turns [simp]: "turns_left (fst (proceed (\<lambda>x. Finished (g x)) c)) = 0"
  by (cases "fst c") (simp_all add: proceed_def)

lemma admitted_turns: "turns_left (fst (admitted_step C X E r s)) \<le> 2"
  by (cases r) (auto intro!: proceed_turns split: outcome.split)

lemma authenticated_turns: "turns_left (fst (authenticated_step C X E r n s)) \<le> 1"
  by (cases r) (simp_all split: outcome.split prod.split)

lemma task_step_turns: "turns_left (fst (task_step C X t s)) \<le> turns_left t - 1"
proof (cases t)
  case (Admitted E r)
  then show ?thesis using admitted_turns [of C X E r s] by simp
next
  case (Authenticated E r n)
  then show ?thesis using authenticated_turns [of C X E r n s] by simp
qed (auto intro!: proceed_turns)

definition turns_of :: "nat \<Rightarrow> event list \<Rightarrow> nat" where
  "turns_of i es = length (filter (\<lambda>e. e = Run i) es)"

lemma schedule_turns:
  "i < length ts \<Longrightarrow>
   i < length (snd (fold (serve_event C X) es (s, ts))) \<and>
   turns_left (snd (fold (serve_event C X) es (s, ts)) ! i) \<le> turns_left (ts ! i) - turns_of i es"
proof (induction es arbitrary: s ts)
  case Nil
  then show ?case by (simp add: turns_of_def)
next
  case (Cons e es)
  obtain s1 ts1 where e: "serve_event C X e (s, ts) = (s1, ts1)" by (cases "serve_event C X e (s, ts)")
  have "i < length ts1 \<and> turns_left (ts1 ! i) \<le> turns_left (ts ! i) - (if e = Run i then 1 else 0)"
    using e Cons.prems task_step_turns [of C X "ts ! i" s]
    by (cases e) (auto simp: nth_append nth_list_update split: if_splits prod.splits)
  with Cons.IH [of ts1 s1] e show ?case by (auto simp: turns_of_def)
qed



end
