(* ===== verification/Loopback.thy ===== *)
theory Loopback
  imports Manager
begin

text \<open>
  The in-memory device of \<open>naboscale-tunnel/src/device.rs\<close>: two ends joined by two channels of
  packets (\<open>std::sync::mpsc\<close>), the kernel's and the user's.  A send fails once the other end is
  dropped; a receive from an empty channel returns nothing, whether or not the sender still exists.
\<close>

datatype side = KernelEnd | UserEnd

fun other_end :: "side \<Rightarrow> side" where
  "other_end KernelEnd = UserEnd"
| "other_end UserEnd = KernelEnd"

record loopback =
  device_name :: string
  incoming :: "side \<Rightarrow> bytes list"
  dropped :: "side \<Rightarrow> bool"

type_synonym 'a lact = "(loopback, tunnel_error, 'a) act"

definition loopback_new :: "string \<Rightarrow> loopback" where
  "loopback_new name = \<lparr>device_name = name, incoming = (\<lambda>e. []), dropped = (\<lambda>e. False)\<rparr>"

definition loopback_name :: "side \<Rightarrow> loopback \<Rightarrow> string" where
  "loopback_name e l = (case e of KernelEnd \<Rightarrow> device_name l | UserEnd \<Rightarrow> device_name l @ ''-user'')"

definition channel_send :: "side \<Rightarrow> bytes \<Rightarrow> unit lact" where
  "channel_send e pkt l =
     (let d = other_end e in
      if dropped l d then (Err NotReady, l)
      else (Ok (), l\<lparr>incoming := (incoming l)(d := incoming l d @ [pkt])\<rparr>))"

definition try_recv_raw :: "side \<Rightarrow> bytes option lact" where
  "try_recv_raw e l =
     (case incoming l e of
        [] \<Rightarrow> (Ok None, l)
      | pkt # rest \<Rightarrow> (Ok (Some pkt), l\<lparr>incoming := (incoming l)(e := rest)\<rparr>))"

definition send_raw :: "side \<Rightarrow> bytes \<Rightarrow> unit lact" where
  "send_raw e pkt = channel_send e pkt"

text \<open>The buffer is an argument, and returned with the packet in front.\<close>

definition loopback_try_read :: "side \<Rightarrow> bytes \<Rightarrow> (bytes \<times> nat) option lact" where
  "loopback_try_read e buf =
     andthen (try_recv_raw e) (\<lambda>r l.
       case r of
         None \<Rightarrow> (Ok None, l)
       | Some pkt \<Rightarrow>
           if length buf < length pkt then (Err (BufferTooSmallT (length pkt) (length buf)), l)
           else (Ok (Some (put 0 pkt buf, length pkt)), l))"

definition loopback_write :: "side \<Rightarrow> bytes \<Rightarrow> nat lact" where
  "loopback_write e buf = andthen (channel_send e buf) (\<lambda>_. ret (length buf))"

section \<open>First in, first out\<close>

text \<open>A queue seen through its content.\<close>

locale fifo =
  fixes content :: "'q \<Rightarrow> 'x list"
    and push :: "'x \<Rightarrow> 'q \<Rightarrow> 'q"
    and pop :: "'q \<Rightarrow> 'x option \<times> 'q"
  assumes push_content: "content (push x q) = content q @ [x]"
    and pop_empty: "content q = [] \<Longrightarrow> pop q = (None, q)"
    and pop_content: "content q = x # xs \<Longrightarrow> \<exists>q'. pop q = (Some x, q') \<and> content q' = xs"
begin

fun pops :: "nat \<Rightarrow> 'q \<Rightarrow> 'x list \<times> 'q" where
  "pops 0 q = ([], q)"
| "pops (Suc n) q =
     (case pop q of
        (None, q') \<Rightarrow> ([], q')
      | (Some x, q') \<Rightarrow> (case pops n q' of (xs, q'') \<Rightarrow> (x # xs, q'')))"

lemma pushes_content: "content (fold push xs q) = content q @ xs"
  by (induction xs arbitrary: q) (simp_all add: push_content)

lemma pops_content: "fst (pops n q) = take n (content q) \<and> content (snd (pops n q)) = drop n (content q)"
proof (induction n arbitrary: q)
  case (Suc n)
  show ?case
  proof (cases "content q")
    case (Cons x xs)
    then obtain q' where "pop q = (Some x, q')" "content q' = xs" using pop_content by blast
    with Suc [of q'] Cons show ?thesis by (cases "pops n q'") simp
  qed (simp add: pop_empty)
qed simp

lemma pops_after_pushes:
  "content q = [] \<Longrightarrow> fst (pops (length xs + n) (fold push xs q)) = xs"
  using pops_content [of "length xs + n" "fold push xs q"] by (simp add: pushes_content)

end

text \<open>The channel into one end, as the two devices use it.\<close>

definition channel_push :: "side \<Rightarrow> bytes \<Rightarrow> loopback \<Rightarrow> loopback" where
  "channel_push e pkt l = l\<lparr>incoming := (incoming l)(e := incoming l e @ [pkt])\<rparr>"

definition channel_pop :: "side \<Rightarrow> loopback \<Rightarrow> bytes option \<times> loopback" where
  "channel_pop e l = (case try_recv_raw e l of (Ok r, l') \<Rightarrow> (r, l') | (_, l') \<Rightarrow> (None, l'))"

interpretation ch: fifo "\<lambda>l. incoming l e" "channel_push e" "channel_pop e" for e
  by unfold_locales (auto simp: channel_push_def channel_pop_def try_recv_raw_def)

lemma other_end_twice [simp]: "other_end (other_end e) = e" "other_end e \<noteq> e" "e \<noteq> other_end e"
  by (cases e; simp)+

lemma sends_push:
  "\<not> dropped l (other_end e) \<Longrightarrow>
   for_each (send_raw e) pkts l = (Ok (), fold (channel_push (other_end e)) pkts l)"
proof (induction pkts arbitrary: l)
  case (Cons p ps)
  let ?l = "channel_push (other_end e) p l"
  have "\<not> dropped ?l (other_end e)" using Cons.prems by (simp add: channel_push_def)
  then have rest: "for_each (send_raw e) ps ?l = (Ok (), fold (channel_push (other_end e)) ps ?l)"
    by (rule Cons.IH)
  have "send_raw e p l = (Ok (), ?l)"
    using Cons.prems by (simp add: send_raw_def channel_send_def channel_push_def Let_def)
  with rest show ?case by (simp add: andthen_def)
qed (simp add: ret_def)

text \<open>The loopback device is two queues.  Packets sent at one end of a fresh device are received at the
  other end, all of them, in order and unchanged, and nothing after them; the sender's own end
  receives nothing.\<close>

lemma loopback_delivers:
  "\<exists>l. for_each (send_raw e) pkts (loopback_new name) = (Ok (), l) \<and>
     fst (ch.pops (other_end e) (length pkts + n) l) = pkts \<and> try_recv_raw e l = (Ok None, l)"
proof -
  let ?l = "fold (channel_push (other_end e)) pkts (loopback_new name)"
  have "incoming ?l e = incoming (loopback_new name) e"
    by (induction pkts rule: rev_induct) (simp_all add: channel_push_def)
  then have "try_recv_raw e ?l = (Ok None, ?l)" by (simp add: try_recv_raw_def loopback_new_def)
  moreover have "fst (ch.pops (other_end e) (length pkts + n) ?l) = pkts"
    by (rule ch.pops_after_pushes) (simp add: loopback_new_def)
  moreover have "for_each (send_raw e) pkts (loopback_new name) = (Ok (), ?l)"
    by (rule sends_push) (simp add: loopback_new_def)
  ultimately show ?thesis by blast
qed

text \<open>A packet that does not fit is taken from the channel and lost.\<close>

lemma oversized_packet_lost:
  assumes "incoming l e = pkt # rest" and "length buf < length pkt"
  shows "loopback_try_read e buf l =
    (Err (BufferTooSmallT (length pkt) (length buf)), l\<lparr>incoming := (incoming l)(e := rest)\<rparr>)"
  using assms by (simp add: loopback_try_read_def andthen_def try_recv_raw_def)

end
