(* ===== verification/Sockets.thy ===== *)
theory Sockets
  imports Loopback
begin

text \<open>
  The wrappers of the tunnel crate around the operating system: \<open>TunDevice\<close> of
  \<open>naboscale-tunnel/src/device.rs\<close> and \<open>UdpTransport\<close> of \<open>transport.rs\<close>.  The calls into the
  operating system are arguments: a step of a construction returns its error as \<open>?\<close> converts it
  (\<open>tun::Error\<close> to \<open>Tun\<close>, \<open>std::io::Error\<close> to \<open>Io\<close>), a receive returns the bytes that were waiting.

  The trait \<open>Device\<close> is the locale \<open>packet_device\<close>: a read never claims more bytes than the buffer
  holds, so that the manager's \<open>&dev_buf[..n]\<close> is the packet and never panics.  Both devices of
  the crate are instances.
\<close>

section \<open>Results of the operating system\<close>

datatype io_kind = WouldBlock | OtherKind

record io_error =
  io_kind :: io_kind
  io_text :: string

text \<open>\<open>Ok(v) => Ok(Some(v))\<close>, \<open>WouldBlock => Ok(None)\<close>, any other error is returned.\<close>

definition nonblocking :: "io_error + 'a \<Rightarrow> (tunnel_error, 'a option) outcome" where
  "nonblocking r =
     (case r of
        Inr v \<Rightarrow> Ok (Some v)
      | Inl e \<Rightarrow> (if io_kind e = WouldBlock then Ok None else Err (Io (io_text e))))"

text \<open>\<open>recv\<close> copies as much of the packet as the buffer holds and returns how much it copied.\<close>

definition os_recv :: "bytes \<Rightarrow> bytes \<Rightarrow> bytes \<times> nat" where
  "os_recv buf pkt = (let p = take (length buf) pkt in (put 0 p buf, length p))"

lemma take_length_min [simp]: "take (min (length xs) n) xs = take n xs"
  by (simp add: min_def)

section \<open>The TUN device\<close>

record 'd tun_os =
  os_create :: "string \<Rightarrow> tunnel_error + 'd"
  os_set_nonblock :: "'d \<Rightarrow> tunnel_error option"
  os_tun_name :: "'d \<Rightarrow> tunnel_error + string"

record 'd tun_device =
  tun_inner :: 'd
  tun_name :: string

definition tun_device_create ::
  "'d tun_os \<Rightarrow> string \<Rightarrow> (tunnel_error, 'd tun_device) outcome" where
  "tun_device_create os name =
     (case os_create os name of
        Inl e \<Rightarrow> Err e
      | Inr dev \<Rightarrow>
          (case os_set_nonblock os dev of
             Some e \<Rightarrow> Err e
           | None \<Rightarrow>
               (case os_tun_name os dev of
                  Inl e \<Rightarrow> Err e
                | Inr actual_name \<Rightarrow> Ok \<lparr>tun_inner = dev, tun_name = actual_name\<rparr>)))"

definition tun_device_name :: "'d tun_device \<Rightarrow> string" where
  "tun_device_name d = tun_name d"

definition tun_try_read :: "io_error + bytes \<Rightarrow> bytes \<Rightarrow> (tunnel_error, (bytes \<times> nat) option) outcome" where
  "tun_try_read arrived buf = nonblocking (map_sum (\<lambda>e. e) (os_recv buf) arrived)"

section \<open>The UDP socket\<close>

record 's udp_os =
  os_bind :: "socket_addr \<Rightarrow> io_error + 's"
  os_set_nonblocking :: "'s \<Rightarrow> io_error option"
  os_local_addr :: "'s \<Rightarrow> io_error + socket_addr"

definition udp_bind :: "'s udp_os \<Rightarrow> socket_addr \<Rightarrow> (tunnel_error, 's) outcome" where
  "udp_bind os bind_addr =
     (case os_bind os bind_addr of
        Inl e \<Rightarrow> Err (Io (io_text e))
      | Inr socket \<Rightarrow>
          (case os_set_nonblocking os socket of
             Some e \<Rightarrow> Err (Io (io_text e))
           | None \<Rightarrow> Ok socket))"

definition udp_local_addr :: "'s udp_os \<Rightarrow> 's \<Rightarrow> (tunnel_error, socket_addr) outcome" where
  "udp_local_addr os socket =
     (case os_local_addr os socket of
        Inl e \<Rightarrow> Err (Io (io_text e))
      | Inr a \<Rightarrow> Ok a)"

definition udp_try_recv_from ::
  "io_error + (bytes \<times> socket_addr) \<Rightarrow> bytes \<Rightarrow>
   (tunnel_error, (bytes \<times> nat \<times> socket_addr) option) outcome" where
  "udp_try_recv_from arrived buf =
     nonblocking (map_sum (\<lambda>e. e) (\<lambda>(pkt, src). case os_recv buf pkt of (b, n) \<Rightarrow> (b, n, src)) arrived)"

section \<open>The interface the manager uses\<close>

text \<open>A successful read fills the front of the buffer and keeps its length.\<close>

locale packet_device =
  fixes try_read :: "'s \<Rightarrow> bytes \<Rightarrow> (tunnel_error, (bytes \<times> nat) option) outcome"
    and waiting :: "'s \<Rightarrow> bytes option"
  assumes nothing: "try_read s buf = Ok None \<Longrightarrow> waiting s = None"
    and fills: "try_read s buf = Ok (Some (buf', n)) \<Longrightarrow>
      \<exists>pkt. waiting s = Some pkt \<and> n \<le> length pkt \<and> n \<le> length buf \<and> buf' = put 0 (take n pkt) buf"
begin

lemma slice_in_range:
  assumes "try_read s buf = Ok (Some (buf', n))"
  shows "n \<le> length buf'"
  using fills [OF assms] by (auto simp: length_put)

lemma slice_is_packet:
  assumes "try_read s buf = Ok (Some (buf', n))"
  obtains pkt where "waiting s = Some pkt" "take n buf' = take n pkt" "n \<le> length pkt"
proof -
  obtain pkt where pkt: "waiting s = Some pkt" "n \<le> length pkt" "n \<le> length buf"
    "buf' = put 0 (take n pkt) buf"
    using fills [OF assms] by blast
  then have "take n buf' = take n pkt"
    by (simp add: put_def)
  with pkt that show ?thesis by blast
qed

end

interpretation tun: packet_device tun_try_read "\<lambda>r. case r of Inr pkt \<Rightarrow> Some pkt | Inl e \<Rightarrow> None"
  by unfold_locales
    (auto simp: tun_try_read_def nonblocking_def os_recv_def Let_def split: sum.splits if_splits)

interpretation loop: packet_device "\<lambda>l buf. fst (loopback_try_read e buf l)"
    "\<lambda>l. case incoming l e of pkt # rest \<Rightarrow> Some pkt | [] \<Rightarrow> None" for e
  by unfold_locales
    (auto simp: loopback_try_read_def try_recv_raw_def andthen_def split: list.splits if_splits)

text \<open>What \<open>step\<close> hands on: \<open>&dev_buf[..n]\<close> after a read into a zeroed buffer of 1500 bytes.\<close>

definition packet_of_read ::
  "(bytes \<Rightarrow> (tunnel_error, (bytes \<times> nat) option) outcome) \<Rightarrow> (tunnel_error, bytes option) outcome" where
  "packet_of_read try_read =
     (case try_read (zeros 1500) of
        Ok (Some (buf, n)) \<Rightarrow> (if n \<le> length buf then Ok (Some (take n buf)) else Panic ''range end index'')
      | Ok None \<Rightarrow> Ok None
      | Err e \<Rightarrow> Err e
      | Panic msg \<Rightarrow> Panic msg)"

lemma tun_packet_truncated:
  "packet_of_read (tun_try_read (Inr pkt)) = Ok (Some (take 1500 pkt))"
  by (simp add: packet_of_read_def tun_try_read_def nonblocking_def os_recv_def Let_def put_def)

lemma loopback_packet_not_truncated:
  "packet_of_read (\<lambda>buf. fst (loopback_try_read e buf l)) =
     (case incoming l e of
        [] \<Rightarrow> Ok None
      | pkt # rest \<Rightarrow>
          if length pkt \<le> 1500 then Ok (Some pkt) else Err (BufferTooSmallT (length pkt) 1500))"
  by (simp add: packet_of_read_def loopback_try_read_def try_recv_raw_def andthen_def put_def
      split: list.split)

lemma read_never_panics:
  "packet_of_read (tun_try_read arrived) \<noteq> Panic msg"
proof (cases arrived)
  case (Inl e)
  then show ?thesis
    by (simp add: packet_of_read_def tun_try_read_def nonblocking_def)
next
  case (Inr pkt)
  then show ?thesis
    by (simp add: tun_packet_truncated)
qed

text \<open>A socket or device is handed out only after it was made non-blocking.\<close>

lemma tun_device_create_iff:
  "tun_device_create os name = Ok d \<longleftrightarrow>
     os_create os name = Inr (tun_inner d) \<and> os_set_nonblock os (tun_inner d) = None \<and>
     os_tun_name os (tun_inner d) = Inr (tun_device_name d)"
  by (cases d)
    (auto simp: tun_device_create_def tun_device_name_def split: sum.splits option.splits)

lemma udp_bind_iff:
  "udp_bind os a = Ok s \<longleftrightarrow> os_bind os a = Inr s \<and> os_set_nonblocking os s = None"
  by (auto simp: udp_bind_def split: sum.splits option.splits)

lemma udp_receive_in_range:
  assumes "udp_try_recv_from arrived buf = Ok (Some (buf', n, src))"
  shows "length buf' = length buf \<and> n \<le> length buf'"
  using assms
  by (cases arrived; auto simp: udp_try_recv_from_def nonblocking_def os_recv_def Let_def split: sum.splits if_splits)

end
