(* ===== verification/Spec2Isabelle.thy ===== *)
theory Spec2Isabelle
  imports Mesh Manager_Relayed Manager_Authentic Manager_Wire Coord_Restart Coord_Interleave Cli_Daemon_Run Sockets
begin

text \<open>
  A verification of naboscale, a small mesh VPN in Rust: a coordination server that knows the
  nodes, a tunnel engine that carries packets between them over authenticated and encrypted UDP,
  and a command line client that enrols a node and runs the tunnel.

  \<^bold>\<open>The parts and how they interact.\<close>  A node keeps two keys in encrypted files
  (\<open>naboscale-cli/src/keystore.rs\<close>).  \<open>naboscale register\<close> signs its keys and sends them to the server
  (\<open>client.rs\<close>, \<open>naboscale-coord/src/routes.rs\<close>), which checks the signature (\<open>auth.rs\<close>), takes an
  address from a pool (\<open>ip_alloc.rs\<close>), stores the node and a bearer token (\<open>db.rs\<close>) and answers both.
  \<open>naboscale up\<close> (\<open>cli.rs\<close>) fetches the list of the other nodes, turns each into the configuration of
  a tunnel peer and starts a \<open>TunnelManager\<close> (\<open>naboscale-tunnel/src/manager.rs\<close>).  The manager runs
  the Noise handshake of \<open>naboscale-crypto\<close> with every peer, directly or through a relaying peer,
  and then moves packets between the TUN device and the peers.  While it runs, the daemon sends
  heartbeats, refreshes its token and looks for new nodes.

  \<^bold>\<open>How the code is modelled.\<close>  An operation of the code is an \<open>act\<close>: a function from a state to an
  \<open>outcome\<close> (\<open>Ok\<close>, the error value of the crate, or \<open>Panic\<close>) and a new state; \<open>andthen\<close> is the \<open>?\<close>
  operator, so a state change before an early return stays.  Structs are records, enums are
  datatypes, \<open>u8\<close>, \<open>u32\<close>, \<open>u64\<close> and \<open>i64\<close> are words, and additions wrap as they do in a release build.
  Slices and array copies are \<open>seg\<close> and \<open>put\<close>, with the panic of an out-of-range index written out
  where the code does not rule it out.  What lies outside is an argument: the clock, random
  numbers, the network, the disk's faults, and the libraries (\<open>crypto\<close>, \<open>coord_libs\<close>, \<open>key_libs\<close>,
  \<open>codecs\<close>); what a theorem needs of a library is a named hypothesis (for example
  \<open>noise_handshake_works\<close>, \<open>sequential_transport\<close>, \<open>base64_works\<close>), and the concrete instances \<open>plain\<close>,
  \<open>plain_libs\<close>, \<open>plain_keys\<close> and \<open>plain_codecs\<close> satisfy all of them and carry the witnesses.

  \<^bold>\<open>Which theory models what.\<close>

  \<^item> \<open>Nab_Prelude\<close>, \<open>Nab_Bytes\<close>, \<open>Nab_Net\<close>, \<open>Std_Net\<close>: outcomes and actions, invariants of actions
    (\<open>keeps\<close>, \<open>stays\<close>) and the locales \<open>frame\<close>, \<open>step_invariant\<close> and \<open>simulation\<close>; byte encodings;
    instants, durations and socket addresses; the number and address texts of Rust's standard
    library, parsed and printed.
  \<^item> \<open>Crypto_Params\<close>, \<open>Timestamp\<close>, \<open>Mac\<close>, \<open>Keys_Identity\<close>, \<open>Crypto_Transport\<close>, \<open>Handshake\<close>:
    \<open>naboscale-crypto\<close> file by file over the parameter \<open>crypto\<close>; that a handshake between matching
    peers completes, what an accepted INIT proves, and that an ordered stream is received.
  \<^item> \<open>Manager\<close>, \<open>Manager_Handlers\<close>, \<open>Manager_Step\<close>: state and construction, the message handlers, and
    the loop of \<open>manager.rs\<close>.  \<open>Manager_Frame\<close> says what no operation changes and gives the moves of
    a session as an inductive relation; \<open>Manager_Safety\<close> the invariant and exactly when a datagram
    makes the manager panic; \<open>Manager_Props\<close>, \<open>Manager_Relay\<close> and \<open>Manager_Timers\<close> the behaviour of
    handlers, relaying and maintenance (compared with a plan computed from the state); \<open>Manager_Wire\<close>
    that only well-typed datagrams are sent; \<open>Manager_EndToEnd\<close> that two managers establish a
    session and deliver packets, also through a third.  \<open>Manager_Stream\<close> adds a network that loses
    nothing and follows any traffic in both directions, \<open>Manager_Authentic\<close> one that an attacker
    controls; \<open>Manager_Rekey\<close> replaces a session while it is in use, and \<open>Manager_Relayed\<close> builds one
    through a relay that has no session with either end.
  \<^item> \<open>Loopback\<close>, \<open>Sockets\<close>: the in-memory device of \<open>device.rs\<close> as two queues, the wrappers around the
    TUN device and the UDP socket, and the trait \<open>Device\<close> as a locale both devices interpret.
  \<^item> \<open>Rate_Limit\<close>, \<open>Ip_Alloc\<close>, \<open>Coord_Auth\<close>, \<open>Coord_Db\<close>, \<open>Coord_Routes\<close>: the coordination server.
    \<open>Coord_Invariant\<close> splits each handler into checks and a commit and proves the invariant of its
    data; \<open>Coord_Props\<close> says what each route does; \<open>Coord_Directory\<close> is the abstract specification:
    a directory of members and credentials, which every history of the server refines; \<open>Coord_Restart\<close>
    that a restart on the database file recovers the server and frees leaked addresses.
    \<open>Coord_Tasks\<close> splits each handler at its calls of the limiter, the allocator and the database
    and adds a scheduler; alone, a task does what the handler does, and \<open>Coord_Interleave\<close> says
    what holds when requests overlap.
  \<^item> \<open>Cli_Disk\<close>, \<open>Keystore\<close>, \<open>Cli_Client\<close>, \<open>Cli_Platform\<close>, \<open>Cli_Commands\<close>, \<open>Cli_Up\<close>: the client: the file
    system as it sees it, key files, HTTP client, system commands, the one-shot commands, and the
    daemon.  The network parameter is instantiated by the server's own model (\<open>direct\<close>), so the
    theorems of \<open>Cli_Client_Props\<close>, \<open>Cli_Commands_Props\<close>, \<open>Cli_Daemon_Props\<close> and \<open>Cli_Up_Run\<close> speak of
    client and server together; \<open>Cli_Daemon_Run\<close> follows the daemon over a whole run;
    \<open>Keystore_Props\<close> and \<open>Cli_Up_Props\<close> speak of the key files and of the choice of peers alone.  \<open>Cli_World\<close> and \<open>Cli_Files\<close> hold the frame lemmas these share, \<open>Coord_Demo\<close>
    and \<open>Cli_Demo\<close> the concrete server and node of the witnesses.
  \<^item> \<open>Mesh\<close>: servers, disks, two runs of \<open>up\<close> and their managers composed, from the two enrolled
    machines to the packets that cross the tunnel.

  \<^bold>\<open>What the theorems show.\<close>  Two nodes the server lists to each other come to a session, directly or through a
  relay, and renew it; packets arrive once, unchanged and in order, and an attacker adds none; traffic is
  well typed; addresses, keys and tokens stay unique, only the owner changes a node, and every
  node has exactly one usable token while requests do not overlap; overlapping requests keep the
  data consistent, and a restart recovers them; keys survive on disk whatever fails; a node that registers
  ends up with a state that works, and a daemon whose token is live keeps it.  Several theorems
  state where the code falls short of this: the cookie reply that always panics, the
  session a forged or replayed packet ends, the lost packet after which a stream stays dead, the
  node whose expired token locks it out, the second
  live token that overlapping refreshes leave, the daemon that a token refresh elsewhere cuts off, and
  the pairs of relayed nodes that never start a handshake.

  \<^bold>\<open>Bounds and fuel.\<close>  Loops over lists are structural.  \<open>dec\<close> and \<open>hex\<close> recurse on a number that is
  divided in each step; \<open>read_groups\<close> has a measure on the groups still to read (at most 8);
  \<open>strip\<close> has the length of the text as fuel, and each turn removes a character; \<open>find_free\<close> counts the
  65534 addresses of the pool.  The loops that run until an event (\<open>run_until_ready\<close>, \<open>run\<close>, the loop
  of the daemon) are driven by the list of what they observe, one element per turn, and the
  theorems hold for every such list.

  \<^bold>\<open>Not modelled.\<close>  System calls (sockets, TUN device, SQLite's file) apart from their results; the text
  that is printed or logged, except where computing it can panic, and the exact wording of error
  texts that quote a path or an inner error; axum's routing and body limit, reqwest, clap, serde
  (requests, responses and files are typed values; a codec is a parameter); of the \<open>main\<close>
  functions, logging, argument parsing and the serve loop (\<open>coord_start\<close> has the server's state and
  address, \<open>cli_main\<close> the client's exit status).
  The heartbeat task, the discovery timer and the manager step of the daemon are atomic events of
  one sequence, in any order; interleavings inside an event are not considered.  The
  theorems on the server's routes and on client and server together treat a request as one atomic
  operation; overlapping requests are the subject of \<open>Coord_Interleave\<close> alone.
  Side channels, zeroisation beyond the overwritten fields and floating-point ages are left out.
\<close>

end
